(* ===== verification/Gsdb_Prelude.thy ===== *)
theory Gsdb_Prelude
  imports Main "HOL-Library.Word"
begin

text \<open>
  Shared vocabulary of the development: the machine types, the error values and the
  result type of every fallible operation, little-endian byte sequences
  (the object representation the debugger copies with \<open>std::memcpy\<close>), and the generic
  lemmas on results, words and lists that the component theories use.
\<close>

unbundle bit_operations_syntax

section \<open>Machine types\<close>

type_synonym byte = "8 word"
type_synonym u16 = "16 word"
type_synonym u32 = "32 word"
type_synonym u64 = "64 word"

section \<open>Errors as values\<close>

text \<open>
  \<open>gsdb::error::send\<close> and \<open>gsdb::error::send_errno\<close> throw; the other constructors stand for
  the exceptions of the standard library, for \<open>std::terminate\<close> and for behaviour the language
  leaves undefined (a read outside the object, a shift by the width or more, a division by
  zero), which the model never continues from. \<open>No_return\<close> marks a call that does not come back:
  a loop that repeats its state, or one cut off where the model bounds a search by fuel.
\<close>

datatype gsdb_error =
    Send string
  | Send_errno string
  | Std_exception string
  | Terminate string
  | Undefined string
  | No_return string

type_synonym 'a result = "gsdb_error + 'a"

text \<open>What a catch clause sees: exceptions, not undefined behaviour or calls that do not return.\<close>

fun is_exception :: "gsdb_error \<Rightarrow> bool" where
  "is_exception (Send _) = True"
| "is_exception (Send_errno _) = True"
| "is_exception (Std_exception _) = True"
| "is_exception _ = False"

fun bindE :: "'a result \<Rightarrow> ('a \<Rightarrow> 'b result) \<Rightarrow> 'b result" where
  "bindE (Inl e) f = Inl e"
| "bindE (Inr x) f = f x"

fun the_opt :: "gsdb_error \<Rightarrow> 'a option \<Rightarrow> 'a result" where
  "the_opt e None = Inl e"
| "the_opt e (Some x) = Inr x"

fun is_ok :: "'a result \<Rightarrow> bool" where
  "is_ok (Inl e) = False"
| "is_ok (Inr x) = True"

named_theorems result_simps \<open>inversion of successful and failing results\<close>

lemma bindE_Inr_iff [result_simps]: "bindE m f = Inr y \<longleftrightarrow> (\<exists>x. m = Inr x \<and> f x = Inr y)"
  by (cases m) auto

lemma bindE_Inl_iff [result_simps]:
  "bindE m f = Inl e \<longleftrightarrow> m = Inl e \<or> (\<exists>x. m = Inr x \<and> f x = Inl e)"
  by (cases m) auto

lemma bindE_assoc: "bindE (bindE m f) g = bindE m (\<lambda>x. bindE (f x) g)"
  by (cases m) auto

lemma the_opt_Inr_iff [result_simps]: "the_opt e m = Inr y \<longleftrightarrow> m = Some y"
  by (cases m) auto

lemma bindE_cong [fundef_cong]:
  "m = m' \<Longrightarrow> (\<And>x. m' = Inr x \<Longrightarrow> f x = f' x) \<Longrightarrow> bindE m f = bindE m' f'"
  by (cases m') auto

lemma is_ok_iff: "is_ok m \<longleftrightarrow> (\<exists>x. m = Inr x)"
  by (cases m) auto

text \<open>A loop over a list whose body may fail, as a range-\<open>for\<close> with exceptions.\<close>

fun foldE :: "('a \<Rightarrow> 's \<Rightarrow> 's result) \<Rightarrow> 'a list \<Rightarrow> 's \<Rightarrow> 's result" where
  "foldE f [] s = Inr s"
| "foldE f (x # xs) s = bindE (f x s) (\<lambda>s'. foldE f xs s')"

lemma foldE_append: "foldE f (xs @ ys) s = bindE (foldE f xs s) (\<lambda>s'. foldE f ys s')"
  by (induction xs arbitrary: s) (auto simp: bindE_assoc intro: bindE_cong)

lemma foldE_invariant:
  assumes "foldE f xs s = Inr t" "P s" "\<And>x s s'. x \<in> set xs \<Longrightarrow> P s \<Longrightarrow> f x s = Inr s' \<Longrightarrow> P s'"
  shows "P t"
  using assms by (induction xs arbitrary: s) (auto simp: result_simps)

lemma foldE_cong [fundef_cong]:
  "xs = ys \<Longrightarrow> s = t \<Longrightarrow> (\<And>x s. x \<in> set ys \<Longrightarrow> f x s = g x s) \<Longrightarrow> foldE f xs s = foldE g ys t"
proof (induction xs arbitrary: s t ys)
  case (Cons x xs)
  then have "f x s = g x s" and "foldE f xs = foldE g xs"
    by (auto intro!: ext)
  then show ?case
    using Cons.prems by (auto intro!: bindE_cong simp del: foldE.simps(1))
qed simp

text \<open>
  Operations on mutable state. An exception leaves the changes made before it in place, so a
  program returns its result, value or error, together with the state it left.
\<close>

type_synonym ('s, 'a) prog = "'s \<Rightarrow> 'a result \<times> 's"

definition retS :: "'a \<Rightarrow> ('s, 'a) prog" where
  "retS x s = (Inr x, s)"

definition throwS :: "gsdb_error \<Rightarrow> ('s, 'a) prog" where
  "throwS e s = (Inl e, s)"

definition bindS :: "('s, 'a) prog \<Rightarrow> ('a \<Rightarrow> ('s, 'b) prog) \<Rightarrow> ('s, 'b) prog" where
  "bindS m f s = (case m s of (Inl e, s') \<Rightarrow> (Inl e, s') | (Inr x, s') \<Rightarrow> f x s')"

definition thenS :: "('s, 'a) prog \<Rightarrow> ('s, 'b) prog \<Rightarrow> ('s, 'b) prog" where
  "thenS m k = bindS m (\<lambda>_. k)"

definition getS :: "('s \<Rightarrow> 'a) \<Rightarrow> ('s, 'a) prog" where
  "getS f s = (Inr (f s), s)"

definition modifyS :: "('s \<Rightarrow> 's) \<Rightarrow> ('s, unit) prog" where
  "modifyS f s = (Inr (), f s)"

definition liftS :: "'a result \<Rightarrow> ('s, 'a) prog" where
  "liftS r s = (r, s)"

definition catchS :: "('s, 'a) prog \<Rightarrow> (gsdb_error \<Rightarrow> ('s, 'a) prog) \<Rightarrow> ('s, 'a) prog" where
  "catchS m h s = (case m s of (Inl e, s') \<Rightarrow> h e s' | (Inr x, s') \<Rightarrow> (Inr x, s'))"

fun forS :: "('a \<Rightarrow> ('s, unit) prog) \<Rightarrow> 'a list \<Rightarrow> ('s, unit) prog" where
  "forS f [] = retS ()"
| "forS f (x # xs) = thenS (f x) (forS f xs)"

text \<open>A program on a part of the state.\<close>

definition zoomS :: "('t \<Rightarrow> 's) \<Rightarrow> ('s \<Rightarrow> 't \<Rightarrow> 't) \<Rightarrow> ('s, 'a) prog \<Rightarrow> ('t, 'a) prog" where
  "zoomS view put m t = (case m (view t) of (r, s) \<Rightarrow> (r, put s t))"

lemma prog_simps [simp]:
  "bindS (retS x) f = f x"
  "bindS (throwS e) f = throwS e"
  "bindS (liftS (Inr x)) f = f x"
  "bindS (liftS (Inl e)) f = throwS e"
  "thenS (modifyS g) m s = m (g s)"
  "bindS (getS h) f s = f (h s) s"
  "retS x s = (Inr x, s)"
  "throwS e s = (Inl e, s)"
  "liftS r s = (r, s)"
  "getS h s = (Inr (h s), s)"
  "modifyS g s = (Inr (), g s)"
  by (auto simp: fun_eq_iff bindS_def thenS_def retS_def throwS_def liftS_def getS_def modifyS_def)

lemma bindS_Inr_iff [result_simps]:
  "bindS m f s = (Inr y, s'') \<longleftrightarrow> (\<exists>x s'. m s = (Inr x, s') \<and> f x s' = (Inr y, s''))"
  by (auto simp: bindS_def split: prod.splits sum.splits)

lemma thenS_Inr_iff [result_simps]:
  "thenS m k s = (Inr y, s'') \<longleftrightarrow> (\<exists>x s'. m s = (Inr x, s') \<and> k s' = (Inr y, s''))"
  by (auto simp: thenS_def result_simps)

lemma bindS_run: "m s = (Inr x, s') \<Longrightarrow> bindS m f s = f x s'"
  by (simp add: bindS_def)

lemma thenS_run: "m s = (Inr x, s') \<Longrightarrow> thenS m k s = k s'"
  by (simp add: thenS_def bindS_def)

lemma bindS_fail: "m s = (Inl e, s') \<Longrightarrow> bindS m f s = (Inl e, s')"
  by (simp add: bindS_def)

lemma thenS_fail: "m s = (Inl e, s') \<Longrightarrow> thenS m k s = (Inl e, s')"
  by (simp add: thenS_def bindS_def)

lemma forS_append: "forS f (xs @ ys) = thenS (forS f xs) (forS f ys)"
  by (induction xs) (auto simp: thenS_def bindS_def fun_eq_iff split: prod.splits sum.splits)

text \<open>\<open>std::find_if\<close>: the first element that satisfies a predicate.\<close>

lemma find_split:
  assumes "List.find P xs = Some x"
  obtains ys zs where "xs = ys @ x # zs" "P x" "\<forall>y \<in> set ys. \<not> P y"
proof -
  from assms obtain i where i: "i < length xs" "P (xs ! i)" "x = xs ! i" "\<forall>j<i. \<not> P (xs ! j)"
    by (auto simp: find_Some_iff)
  then have "xs = take i xs @ x # drop (Suc i) xs"
    by (simp add: id_take_nth_drop)
  moreover have "\<forall>y \<in> set (take i xs). \<not> P y"
    using i by (auto simp: in_set_conv_nth)
  ultimately show ?thesis using i that by metis
qed

lemma find_append_skip:
  "\<forall>y \<in> set ys. \<not> P y \<Longrightarrow> List.find P (ys @ zs) = List.find P zs"
  by (induction ys) auto

lemma find_distinct_key:
  assumes "distinct (map key (filter Q xs))" "x \<in> set xs" "Q x" "\<And>y. key y = key x \<Longrightarrow> Q y"
  shows "List.find (\<lambda>y. key y = key x) xs = Some x"
  using assms
proof (induction xs)
  case (Cons a xs)
  show ?case
  proof (cases "key a = key x")
    case True
    then have "Q a" using Cons.prems by blast
    then have "a = x"
      using True Cons.prems by (fastforce simp: image_iff)
    then show ?thesis by simp
  next
    case False
    then show ?thesis using Cons by (auto split: if_splits)
  qed
qed simp

text \<open>
  Hash maps as association lists; \<open>emplace\<close> and \<open>insert\<close> keep the entry a key already has, and
  \<open>at\<close> throws for a missing key.
\<close>

definition emplace :: "'k \<Rightarrow> 'v \<Rightarrow> ('k \<times> 'v) list \<Rightarrow> ('k \<times> 'v) list" where
  "emplace k v m = (if map_of m k = None then m @ [(k, v)] else m)"

definition map_at :: "('k \<times> 'v) list \<Rightarrow> 'k \<Rightarrow> 'v result" where
  "map_at m k = the_opt (Std_exception ''out_of_range'') (map_of m k)"

lemma map_of_snoc: "map_of (m @ [(k, v)]) x = (case map_of m x of None \<Rightarrow> if x = k then Some v else None | Some y \<Rightarrow> Some y)"
  by (induction m) auto

lemma emplace_lookup:
  "map_of (emplace k v m) x = (if x = k \<and> map_of m k = None then Some v else map_of m x)"
  by (simp add: emplace_def map_of_snoc del: map_of_append split: option.splits)

section \<open>Little-endian byte sequences\<close>

fun le_nat :: "byte list \<Rightarrow> nat" where
  "le_nat [] = 0"
| "le_nat (b # bs) = unat b + 256 * le_nat bs"

fun le_bytes :: "nat \<Rightarrow> nat \<Rightarrow> byte list" where
  "le_bytes 0 v = []"
| "le_bytes (Suc n) v = word_of_nat (v mod 256) # le_bytes n (v div 256)"

lemma length_le_bytes [simp]: "length (le_bytes n v) = n"
  by (induction n arbitrary: v) auto

lemma unat_byte_lt [simp]: "unat (b :: byte) < 256"
  using unsigned_less [of b] by simp

lemma le_nat_zeros: "le_nat (replicate n 0) = 0"
  by (induction n) simp_all

lemma le_nat_less: "le_nat bs < 256 ^ length bs"
proof (induction bs)
  case (Cons b bs)
  have "unat b + 256 * le_nat bs < 256 + 256 * le_nat bs" by simp
  also have "\<dots> = 256 * Suc (le_nat bs)" by simp
  also have "\<dots> \<le> 256 * 256 ^ length bs"
    using Cons.IH by (metis Suc_leI mult_le_mono2)
  finally show ?case by simp
qed simp

lemma le_nat_le_bytes: "le_nat (le_bytes n v) = v mod 256 ^ n"
proof (induction n arbitrary: v)
  case (Suc n)
  have "unat (word_of_nat (v mod 256) :: byte) = v mod 256"
    by (simp add: unat_of_nat)
  then show ?case
    by (simp add: Suc.IH mod_mult2_eq)
qed simp

lemma le_bytes_le_nat: "le_bytes (length bs) (le_nat bs) = bs"
proof (induction bs)
  case (Cons b bs)
  have "word_of_nat ((unat b + 256 * le_nat bs) mod 256) = b"
    by simp
  moreover have "(unat b + 256 * le_nat bs) div 256 = le_nat bs"
    by simp
  ultimately show ?case using Cons.IH by simp
qed simp

lemma le_nat_inject:
  assumes "length xs = length ys" "le_nat xs = le_nat ys"
  shows "xs = ys"
  using assms by (metis le_bytes_le_nat)

lemma le_nat_append: "le_nat (xs @ ys) = le_nat xs + 256 ^ length xs * le_nat ys"
  by (induction xs) (auto simp: algebra_simps)

lemma le_nat_replicate_0 [simp]: "le_nat (replicate n 0) = 0"
  by (induction n) auto

section \<open>Words\<close>

text \<open>Two words without a common set bit: \<open>OR\<close> is addition.\<close>

lemma or_disjoint_eq_add:
  fixes x y :: "'a::len word"
  assumes "unat x < 2 ^ n"
  shows "x OR push_bit n y = x + push_bit n y"
proof -
  have "\<not> bit x k \<or> \<not> bit (push_bit n y) k" for k
  proof (cases "k < n")
    case True
    then show ?thesis by (simp add: bit_simps)
  next
    case False
    have "\<not> bit (unat x) k"
    proof
      assume "bit (unat x) k"
      then have "2 ^ k \<le> unat x"
        by (metis bit_iff_odd div_less even_zero not_le)
      moreover have "(2::nat) ^ n \<le> 2 ^ k" using False by simp
      ultimately show False using assms by linarith
    qed
    then show ?thesis by (simp add: bit_unsigned_iff)
  qed
  then show ?thesis by (simp add: disjunctive_add [symmetric])
qed

lemma unat_push_bit_mod: "unat (push_bit n (x :: 'a::len word)) = (unat x * 2 ^ n) mod 2 ^ LENGTH('a)"
proof -
  have "unat (push_bit n x) = take_bit LENGTH('a) (push_bit n (unat x))"
    by (rule unsigned_push_bit_eq)
  then show ?thesis by (simp only: take_bit_eq_mod push_bit_eq_mult)
qed

lemma unat_add_mod: "unat (x + y :: 'a::len word) = (unat x + unat y) mod 2 ^ LENGTH('a)"
  by (simp add: unat_word_ariths)

lemma power_256: "(256 :: nat) ^ n = 2 ^ (8 * n)"
  by (simp add: power_mult)

lemma unat_pred: "(n :: 'a::len word) \<noteq> 0 \<Longrightarrow> unat (n - 1) = unat n - 1"
  by (simp add: unat_minus_one)

section \<open>Lists\<close>

lemma take_drop_append [simp]:
  "length xs = n \<Longrightarrow> take m (drop n (xs @ ys)) = take m ys"
  by simp

lemma list_update_frame: "i \<noteq> j \<Longrightarrow> xs[i := v] ! j = xs ! j"
  by simp

end
