(* ===== verification/Addresses.thy ===== *)
theory Addresses
  imports Gsdb_Prelude
begin

text \<open>
  The address types of \<open>include/libgsdb/types.hpp\<close>. A virtual address is its 64-bit value;
  adding a signed offset wraps. A file address carries the ELF object it belongs to, which the
  code keeps as a pointer and compares by identity: here the number of the object, with
  \<open>None\<close> for the null pointer of a default-constructed address. Ordering two file addresses
  of different objects fails an assertion.
\<close>

section \<open>Virtual addresses\<close>

type_synonym virt_addr = u64

definition virt_addr_plus :: "virt_addr \<Rightarrow> u64 \<Rightarrow> virt_addr" where
  "virt_addr_plus a offset = a + offset"

definition virt_addr_minus :: "virt_addr \<Rightarrow> u64 \<Rightarrow> virt_addr" where
  "virt_addr_minus a offset = a - offset"

definition virt_addr_less :: "virt_addr \<Rightarrow> virt_addr \<Rightarrow> bool" where
  "virt_addr_less a b \<longleftrightarrow> a < b"

definition virt_addr_geq :: "virt_addr \<Rightarrow> virt_addr \<Rightarrow> bool" where
  "virt_addr_geq a b \<longleftrightarrow> a \<ge> b"

datatype stoppoint_mode = mode_write | mode_read_write | mode_execute

section \<open>File addresses\<close>

type_synonym elf_id = nat

record file_addr =
  fa_elf :: "elf_id option"
  fa_addr :: u64

definition null_file_addr :: file_addr where
  "null_file_addr = \<lparr>fa_elf = None, fa_addr = 0\<rparr>"

definition mk_file_addr :: "elf_id \<Rightarrow> u64 \<Rightarrow> file_addr" where
  "mk_file_addr obj addr = \<lparr>fa_elf = Some obj, fa_addr = addr\<rparr>"

text \<open>
  \<open>operator+\<close> and \<open>operator-\<close> rebuild the address from \<open>*elf_\<close>, so they need an object;
  \<open>operator+=\<close> and \<open>operator-=\<close> change the value only.
\<close>

definition file_addr_plus :: "file_addr \<Rightarrow> u64 \<Rightarrow> file_addr result" where
  "file_addr_plus a offset =
    (case fa_elf a of None \<Rightarrow> Inl (Undefined ''null elf dereferenced'')
     | Some e \<Rightarrow> Inr (mk_file_addr e (fa_addr a + offset)))"

definition file_addr_minus :: "file_addr \<Rightarrow> u64 \<Rightarrow> file_addr result" where
  "file_addr_minus a offset =
    (case fa_elf a of None \<Rightarrow> Inl (Undefined ''null elf dereferenced'')
     | Some e \<Rightarrow> Inr (mk_file_addr e (fa_addr a - offset)))"

definition file_addr_add :: "file_addr \<Rightarrow> u64 \<Rightarrow> file_addr" where
  "file_addr_add a offset = a\<lparr>fa_addr := fa_addr a + offset\<rparr>"

definition file_addr_sub :: "file_addr \<Rightarrow> u64 \<Rightarrow> file_addr" where
  "file_addr_sub a offset = a\<lparr>fa_addr := fa_addr a - offset\<rparr>"

definition file_addr_eq :: "file_addr \<Rightarrow> file_addr \<Rightarrow> bool" where
  "file_addr_eq a b \<longleftrightarrow> fa_addr a = fa_addr b \<and> fa_elf a = fa_elf b"

definition file_addr_compare :: "(u64 \<Rightarrow> u64 \<Rightarrow> bool) \<Rightarrow> file_addr \<Rightarrow> file_addr \<Rightarrow> bool result" where
  "file_addr_compare rel a b =
    (if fa_elf a = fa_elf b then Inr (rel (fa_addr a) (fa_addr b))
     else Inl (Terminate ''assertion failed: elf_ == other.elf_''))"

definition file_addr_less :: "file_addr \<Rightarrow> file_addr \<Rightarrow> bool result" where
  "file_addr_less = file_addr_compare (<)"

definition file_addr_leq :: "file_addr \<Rightarrow> file_addr \<Rightarrow> bool result" where
  "file_addr_leq = file_addr_compare (\<le>)"

definition file_addr_greater :: "file_addr \<Rightarrow> file_addr \<Rightarrow> bool result" where
  "file_addr_greater = file_addr_compare (>)"

definition file_addr_geq :: "file_addr \<Rightarrow> file_addr \<Rightarrow> bool result" where
  "file_addr_geq = file_addr_compare (\<ge>)"

lemma file_addr_eq_iff [simp]: "file_addr_eq a b \<longleftrightarrow> a = b"
  by (cases a; cases b) (auto simp: file_addr_eq_def)

lemma file_addr_compare_same [simp]:
  "file_addr_less (mk_file_addr e a) (mk_file_addr e b) = Inr (a < b)"
  "file_addr_leq (mk_file_addr e a) (mk_file_addr e b) = Inr (a \<le> b)"
  "file_addr_greater (mk_file_addr e a) (mk_file_addr e b) = Inr (a > b)"
  "file_addr_geq (mk_file_addr e a) (mk_file_addr e b) = Inr (a \<ge> b)"
  by (simp_all add: file_addr_less_def file_addr_leq_def file_addr_greater_def file_addr_geq_def
      file_addr_compare_def mk_file_addr_def)

lemma mk_file_addr_sel [simp]:
  "fa_elf (mk_file_addr e a) = Some e" "fa_addr (mk_file_addr e a) = a"
  "fa_elf null_file_addr = None" "fa_addr null_file_addr = 0"
  by (simp_all add: mk_file_addr_def null_file_addr_def)

lemma mk_file_addr_inject [simp]: "mk_file_addr e a = mk_file_addr e' a' \<longleftrightarrow> e = e' \<and> a = a'"
  by (auto simp: mk_file_addr_def)

lemma file_addr_cases:
  obtains "fa_elf a = None" | e v where "a = mk_file_addr e v"
proof (cases "fa_elf a")
  case None
  then show ?thesis by (rule that(1))
next
  case (Some e)
  then have "a = mk_file_addr e (fa_addr a)" by (cases a) (simp add: mk_file_addr_def)
  then show ?thesis by (rule that(2))
qed

text \<open>Address arithmetic never fails on an address of an object, and undoes itself.\<close>

lemma file_addr_plus_minus:
  "file_addr_plus (mk_file_addr e a) n = Inr (mk_file_addr e (a + n))"
  "bindE (file_addr_plus (mk_file_addr e a) n) (\<lambda>b. file_addr_minus b n) = Inr (mk_file_addr e a)"
  by (simp_all add: file_addr_plus_def file_addr_minus_def)

section \<open>File offsets\<close>

record file_offset =
  fo_elf :: "elf_id option"
  fo_off :: u64

end
