(* ===== verification/Bits.thy ===== *)
theory Bits
  imports Gsdb_Prelude
begin

text \<open>
  \<open>include/libgsdb/bit.hpp\<close>: object representations (\<open>from_bytes\<close>, \<open>as_bytes\<close>,
  \<open>to_byte64\<close>, \<open>to_byte128\<close>, \<open>to_byte_vec\<close>, \<open>to_byte_span\<close>,
  \<open>to_string_view\<close>) and the bit-granular copy \<open>memcpy_bits\<close> that reads bit fields and
  composite variable locations. The target is little-endian.
\<close>

section \<open>Object representations\<close>

definition to_string_view :: "byte list \<Rightarrow> string" where
  "to_string_view data = map (\<lambda>b. char_of (unat b)) data"

definition from_bytes :: "byte list \<Rightarrow> 'a::len word" where
  "from_bytes bytes = word_of_nat (le_nat (take (LENGTH('a) div 8) bytes))"

definition as_bytes :: "'a::len word \<Rightarrow> byte list" where
  "as_bytes from = le_bytes (LENGTH('a) div 8) (unat from)"

definition to_byte128 :: "'a::len word \<Rightarrow> byte list" where
  "to_byte128 src = as_bytes src @ replicate (16 - LENGTH('a) div 8) 0"

definition to_byte64 :: "'a::len word \<Rightarrow> byte list" where
  "to_byte64 src = as_bytes src @ replicate (8 - LENGTH('a) div 8) 0"

definition to_byte_span :: "'a::len word \<Rightarrow> byte list" where
  "to_byte_span from = as_bytes from"

definition to_byte_vec :: "'a::len word \<Rightarrow> byte list" where
  "to_byte_vec from = as_bytes from"

lemma length_as_bytes [simp]: "length (as_bytes (w :: 'a::len word)) = LENGTH('a) div 8"
  by (simp add: as_bytes_def)

lemma length_to_byte128 [simp]:
  "LENGTH('a) div 8 \<le> 16 \<Longrightarrow> length (to_byte128 (w :: 'a::len word)) = 16"
  by (simp add: to_byte128_def)

text \<open>Evaluation goes through binary integers rather than unary natural numbers.\<close>

fun le_int :: "byte list \<Rightarrow> int" where
  "le_int [] = 0"
| "le_int (b # bs) = uint b + 256 * le_int bs"

fun le_bytes_int :: "nat \<Rightarrow> int \<Rightarrow> byte list" where
  "le_bytes_int 0 v = []"
| "le_bytes_int (Suc n) v = word_of_int (v mod 256) # le_bytes_int n (v div 256)"

lemma le_int_eq: "le_int bs = int (le_nat bs)"
  by (induction bs) auto

lemma le_bytes_int_eq: "le_bytes_int n (int v) = le_bytes n v"
proof (induction n arbitrary: v)
  case (Suc n)
  have "word_of_int (int v mod 256) = (word_of_nat (v mod 256) :: byte)"
    by (metis of_int_of_nat_eq of_nat_numeral zmod_int)
  then show ?case using Suc.IH [of "v div 256"] by (simp add: zdiv_int)
qed simp

lemma from_bytes_code [code]:
  "(from_bytes bytes :: 'a::len word) = word_of_int (le_int (take (LENGTH('a) div 8) bytes))"
  by (simp add: from_bytes_def le_int_eq)

lemma as_bytes_code [code]:
  "as_bytes (from :: 'a::len word) = le_bytes_int (LENGTH('a) div 8) (uint from)"
  by (simp add: as_bytes_def le_bytes_int_eq [symmetric])

text \<open>
  The contract every fixed-width integer type of the debugger meets: its object representation
  has the size of the type and decodes to the value, whatever bytes follow it.
\<close>

locale object_representation =
  fixes size_of :: nat
    and encode :: "'v \<Rightarrow> byte list"
    and decode :: "byte list \<Rightarrow> 'v"
  assumes encode_size: "length (encode v) = size_of"
    and decode_encode: "decode (encode v @ rest) = v"
    and encode_decode: "length bs = size_of \<Longrightarrow> encode (decode bs) = bs"
begin

lemma encode_inject: "encode v = encode w \<longleftrightarrow> v = w"
  by (metis append_Nil2 decode_encode)

lemma decode_exact: "decode (encode v) = v"
  using decode_encode [of v "[]"] by simp

lemma decode_at: "length pre = n \<Longrightarrow> decode (drop n (pre @ encode v @ rest)) = v"
  by (simp add: decode_encode)

lemma decode_of_le_bytes_inject:
  "length bs = size_of \<Longrightarrow> length cs = size_of \<Longrightarrow> decode bs = decode cs \<longleftrightarrow> bs = cs"
  by (metis encode_decode)

end

lemma from_as_bytes:
  assumes "LENGTH('a) = 8 * (LENGTH('a) div 8)"
  shows "from_bytes (as_bytes (w :: 'a::len word) @ rest) = w"
proof -
  have "(256::nat) ^ (LENGTH('a) div 8) = 2 ^ LENGTH('a)"
    using assms by (simp add: power_256)
  then have "le_nat (as_bytes w) = unat w"
    by (simp add: as_bytes_def le_nat_le_bytes)
  then show ?thesis
    by (simp add: from_bytes_def)
qed

lemma as_from_bytes:
  assumes "LENGTH('a) = 8 * (LENGTH('a) div 8)" "length bs = LENGTH('a) div 8"
  shows "as_bytes (from_bytes bs :: 'a::len word) = bs"
proof -
  have p: "(256::nat) ^ (LENGTH('a) div 8) = 2 ^ LENGTH('a)"
    using assms(1) by (simp add: power_256)
  have "le_nat bs < 2 ^ LENGTH('a)"
    using le_nat_less [of bs] assms(2) p by simp
  then have "unat (word_of_nat (le_nat bs) :: 'a word) = le_nat bs"
    by (simp add: unat_of_nat)
  then show ?thesis
    using assms(2) le_bytes_le_nat [of bs] by (simp add: as_bytes_def from_bytes_def)
qed

interpretation u8_rep: object_representation 1 "as_bytes :: byte \<Rightarrow> _" from_bytes
  by unfold_locales (simp_all add: from_as_bytes as_from_bytes)

interpretation u16_rep: object_representation 2 "as_bytes :: u16 \<Rightarrow> _" from_bytes
  by unfold_locales (simp_all add: from_as_bytes as_from_bytes)

interpretation u32_rep: object_representation 4 "as_bytes :: u32 \<Rightarrow> _" from_bytes
  by unfold_locales (simp_all add: from_as_bytes as_from_bytes)

interpretation u64_rep: object_representation 8 "as_bytes :: u64 \<Rightarrow> _" from_bytes
  by unfold_locales (simp_all add: from_as_bytes as_from_bytes)

section \<open>Copying bits\<close>

text \<open>
  \<open>memcpy_bits\<close> clears the destination bit, then sets it when the source bit is set, one bit
  at a time. The counters are 32-bit; a byte index outside a buffer is undefined behaviour.
\<close>

function memcpy_bits ::
  "byte list \<Rightarrow> u32 \<Rightarrow> byte list \<Rightarrow> u32 \<Rightarrow> u32 \<Rightarrow> byte list result" where
  "memcpy_bits dest dest_bit src src_bit n_bits =
    (if n_bits = 0 then Inr dest
     else
       let dest_mask = push_bit (unat (dest_bit mod 8)) (1 :: byte);
           di = unat (dest_bit div 8);
           si = unat (src_bit div 8)
       in
       if di \<ge> length dest then Inl (Undefined ''dest out of range'')
       else if si \<ge> length src then Inl (Undefined ''src out of range'')
       else
         let dest1 = dest[di := dest ! di AND NOT dest_mask];
             src_mask = push_bit (unat (src_bit mod 8)) (1 :: u32);
             corresponding_src_bit_set = (ucast (src ! si) AND src_mask) \<noteq> 0;
             dest2 = (if corresponding_src_bit_set then dest1[di := dest1 ! di OR dest_mask]
                      else dest1)
         in memcpy_bits dest2 (dest_bit + 1) src (src_bit + 1) (n_bits - 1))"
  by pat_completeness auto
termination
  by (relation "measure (\<lambda>(_, _, _, _, n). unat n)") (auto simp: unat_pred unat_gt_0)

declare memcpy_bits.simps [simp del]

definition bit_at :: "byte list \<Rightarrow> nat \<Rightarrow> bool" where
  "bit_at bs i = bit (bs ! (i div 8)) (i mod 8)"

lemma mask_test: "k < 8 \<Longrightarrow> (ucast (b :: byte) AND push_bit k (1 :: u32)) \<noteq> 0 \<longleftrightarrow> bit b k"
proof -
  assume k: "k < 8"
  have "(ucast b AND push_bit k (1 :: u32)) \<noteq> 0 \<longleftrightarrow> bit (ucast b :: u32) k"
    by (metis and_exp_eq_0_iff_not_bit push_bit_of_1)
  then show ?thesis using k by (simp add: bit_simps)
qed

text \<open>One iteration, seen bit by bit.\<close>

lemma memcpy_one_bit:
  assumes "k < 8 * length dest" "d = k div 8" "m = push_bit (k mod 8) (1 :: byte)"
    and "d1 = dest[d := dest ! d AND NOT m]" "d2 = (if v then d1[d := d1 ! d OR m] else d1)"
  shows "length d2 = length dest"
    and "i < 8 * length dest \<Longrightarrow> bit_at d2 i = (if i = k then v else bit_at dest i)"
proof -
  have d: "d < length dest" using assms by auto
  show len: "length d2 = length dest" using assms by simp
  assume i: "i < 8 * length dest"
  show "bit_at d2 i = (if i = k then v else bit_at dest i)"
  proof (cases "i div 8 = d")
    case False
    then have "i \<noteq> k" using assms(2) by auto
    then show ?thesis using False assms(4,5) by (auto simp: bit_at_def)
  next
    case True
    have "i = k \<longleftrightarrow> i mod 8 = k mod 8"
      using True assms(2) by (metis div_mult_mod_eq)
    moreover have "d2 ! d = (if v then (dest ! d AND NOT m) OR m else dest ! d AND NOT m)"
      using d assms(4,5) by simp
    moreover have "bit m (i mod 8) \<longleftrightarrow> i mod 8 = k mod 8"
      using assms(3) by (auto simp: bit_simps)
    ultimately show ?thesis
      using True by (auto simp: bit_at_def bit_simps)
  qed
qed

lemma memcpy_bits_step:
  assumes "n_bits \<noteq> 0" "unat dest_bit < 8 * length dest" "unat src_bit < 8 * length src"
  obtains dest2 where
    "memcpy_bits dest dest_bit src src_bit n_bits =
       memcpy_bits dest2 (dest_bit + 1) src (src_bit + 1) (n_bits - 1)"
    "length dest2 = length dest"
    "\<And>i. i < 8 * length dest \<Longrightarrow>
       bit_at dest2 i = (if i = unat dest_bit then bit_at src (unat src_bit) else bit_at dest i)"
proof -
  let ?d = "unat dest_bit div 8" and ?m = "push_bit (unat dest_bit mod 8) (1 :: byte)"
  let ?v = "bit_at src (unat src_bit)"
  define d1 where "d1 = dest[?d := dest ! ?d AND NOT ?m]"
  define d2 where "d2 = (if ?v then d1[?d := d1 ! ?d OR ?m] else d1)"
  have bits: "length d2 = length dest"
    "\<And>i. i < 8 * length dest \<Longrightarrow> bit_at d2 i = (if i = unat dest_bit then ?v else bit_at dest i)"
    using memcpy_one_bit [OF assms(2) refl refl d1_def d2_def] by auto
  have divs: "unat (dest_bit div 8) = ?d" "unat (dest_bit mod 8) = unat dest_bit mod 8"
    "unat (src_bit div 8) = unat src_bit div 8" "unat (src_bit mod 8) = unat src_bit mod 8"
    by (simp_all add: unat_div unat_mod)
  have v: "(ucast (src ! (unat src_bit div 8)) AND push_bit (unat src_bit mod 8) (1 :: u32)) \<noteq> 0 \<longleftrightarrow> ?v"
    by (simp only: mask_test bit_at_def mod_less_divisor zero_less_numeral)
  have "memcpy_bits dest dest_bit src src_bit n_bits =
      memcpy_bits d2 (dest_bit + 1) src (src_bit + 1) (n_bits - 1)"
    using assms by (subst memcpy_bits.simps) (auto simp: Let_def divs v [unfolded push_bit_of_1] d1_def d2_def)
  with bits that show ?thesis by blast
qed

lemma memcpy_bits_correct:
  assumes "unat dest_bit + unat n_bits \<le> 8 * length dest"
    and "unat src_bit + unat n_bits \<le> 8 * length src"
    and "unat dest_bit + unat n_bits < 2 ^ 32" "unat src_bit + unat n_bits < 2 ^ 32"
  shows "\<exists>out. memcpy_bits dest dest_bit src src_bit n_bits = Inr out \<and> length out = length dest \<and>
     (\<forall>i < 8 * length dest. bit_at out i =
        (if unat dest_bit \<le> i \<and> i < unat dest_bit + unat n_bits
         then bit_at src (unat src_bit + (i - unat dest_bit)) else bit_at dest i))"
  using assms
proof (induction "unat n_bits" arbitrary: dest dest_bit src_bit n_bits)
  case 0
  then have "n_bits = 0" by (simp add: unat_eq_0)
  then show ?case by (auto simp: memcpy_bits.simps)
next
  case (Suc n)
  then have nz: "n_bits \<noteq> 0" by auto
  have lt: "unat dest_bit < 8 * length dest" "unat src_bit < 8 * length src"
    using Suc.hyps(2) Suc.prems by linarith+
  obtain d2 where
    step: "memcpy_bits dest dest_bit src src_bit n_bits =
       memcpy_bits d2 (dest_bit + 1) src (src_bit + 1) (n_bits - 1)"
    and len: "length d2 = length dest"
    and b2: "\<And>i. i < 8 * length dest \<Longrightarrow>
       bit_at d2 i = (if i = unat dest_bit then bit_at src (unat src_bit) else bit_at dest i)"
    using memcpy_bits_step [OF nz lt] by blast
  have succ: "unat (dest_bit + 1) = Suc (unat dest_bit)" "unat (src_bit + 1) = Suc (unat src_bit)"
    "unat (n_bits - 1) = n"
    using Suc.hyps(2) Suc.prems nz by (auto simp: unat_add_mod unat_pred)
  obtain out where out: "memcpy_bits d2 (dest_bit + 1) src (src_bit + 1) (n_bits - 1) = Inr out"
    "length out = length d2"
    "\<forall>i < 8 * length d2. bit_at out i =
        (if Suc (unat dest_bit) \<le> i \<and> i < Suc (unat dest_bit) + n
         then bit_at src (Suc (unat src_bit) + (i - Suc (unat dest_bit))) else bit_at d2 i)"
    using Suc.hyps(1) [of "n_bits - 1" "dest_bit + 1" d2 "src_bit + 1"] Suc.hyps(2) Suc.prems
    by (auto simp: succ len)
  have "bit_at out i = (if unat dest_bit \<le> i \<and> i < unat dest_bit + unat n_bits
         then bit_at src (unat src_bit + (i - unat dest_bit)) else bit_at dest i)"
    if i: "i < 8 * length dest" for i
    using out(3) b2 [OF i] i Suc.hyps(2) by (auto simp: len Suc_diff_Suc le_Suc_eq not_less_eq)
  with step out len show ?case by auto
qed

section \<open>Properties\<close>

text \<open>
  C16. Copying bits: for ranges inside both buffers, \<open>memcpy_bits\<close> keeps the size of the
  destination, puts source bit \<open>src_bit + j\<close> at destination bit \<open>dest_bit + j\<close> for every
  \<open>j\<close> below the count, and changes no other bit.
\<close>

theorem memcpy_bits_copies:
  assumes "unat dest_bit + unat n_bits \<le> 8 * length dest"
    and "unat src_bit + unat n_bits \<le> 8 * length src"
    and "unat dest_bit + unat n_bits < 2 ^ 32" "unat src_bit + unat n_bits < 2 ^ 32"
  shows "\<exists>out. memcpy_bits dest dest_bit src src_bit n_bits = Inr out \<and> length out = length dest \<and>
     (\<forall>i < 8 * length dest. bit_at out i =
        (if unat dest_bit \<le> i \<and> i < unat dest_bit + unat n_bits
         then bit_at src (unat src_bit + (i - unat dest_bit)) else bit_at dest i))"
  using assms by (rule memcpy_bits_correct)

theorem memcpy_bits_copies_witness:
  "\<exists>out. memcpy_bits [0, 0xff] 3 [0xa5, 0x3c] 5 7 = Inr out \<and> length out = length [0, 0xff :: byte] \<and>
     (\<forall>i < 8 * length [0, 0xff :: byte]. bit_at out i =
        (if unat (3 :: u32) \<le> i \<and> i < unat (3 :: u32) + unat (7 :: u32)
         then bit_at [0xa5, 0x3c] (unat (5 :: u32) + (i - unat (3 :: u32))) else bit_at [0, 0xff] i))"
  by (rule memcpy_bits_copies) simp_all

end
