(* ===== verification/Kernel.thy ===== *)
theory Kernel
  imports Addresses Bits
begin

text \<open>
  The operating system as the debugger sees it: a record of the requests the code makes
  (\<open>ptrace\<close>, \<open>process_vm_readv\<close>, \<open>waitpid\<close>, \<open>tgkill\<close>), over an abstract kernel state.
  The kernel is not part of the program, so every definition that uses it takes the record as an
  argument; \<open>None\<close> is the failure that sets \<open>errno\<close>. What proofs rely on of it is stated as predicates on the record where they are used.
\<close>

type_synonym pid = int

record 'k kernel =
  k_peekdata :: "pid \<Rightarrow> u64 \<Rightarrow> 'k \<Rightarrow> u64 option"
  k_pokedata :: "pid \<Rightarrow> u64 \<Rightarrow> u64 \<Rightarrow> 'k \<Rightarrow> 'k option"
  k_vm_readv :: "pid \<Rightarrow> nat \<Rightarrow> (u64 \<times> nat) list \<Rightarrow> 'k \<Rightarrow> byte list option"
  k_peekuser :: "pid \<Rightarrow> nat \<Rightarrow> 'k \<Rightarrow> u64 option"
  k_pokeuser :: "pid \<Rightarrow> nat \<Rightarrow> u64 \<Rightarrow> 'k \<Rightarrow> 'k option"
  k_getregs :: "pid \<Rightarrow> 'k \<Rightarrow> byte list option"
  k_setregs :: "pid \<Rightarrow> byte list \<Rightarrow> 'k \<Rightarrow> 'k option"
  k_getfpregs :: "pid \<Rightarrow> 'k \<Rightarrow> byte list option"
  k_setfpregs :: "pid \<Rightarrow> byte list \<Rightarrow> 'k \<Rightarrow> 'k option"
  k_getsiginfo :: "pid \<Rightarrow> 'k \<Rightarrow> int option"
  k_singlestep :: "pid \<Rightarrow> 'k \<Rightarrow> 'k option"
  k_cont :: "pid \<Rightarrow> 'k \<Rightarrow> 'k option"
  k_syscall :: "pid \<Rightarrow> 'k \<Rightarrow> 'k option"
  k_waitpid :: "pid \<Rightarrow> int \<Rightarrow> 'k \<Rightarrow> (pid \<times> u32) option \<times> 'k"
  k_tgkill :: "pid \<Rightarrow> pid \<Rightarrow> nat \<Rightarrow> 'k \<Rightarrow> 'k"

section \<open>The memory of the traced process\<close>

text \<open>
  \<open>mem_range f a n\<close> is the \<open>n\<close> bytes at \<open>a\<close>; addresses wrap at \<open>2^64\<close>.
\<close>

definition mem_range :: "(u64 \<Rightarrow> byte) \<Rightarrow> u64 \<Rightarrow> nat \<Rightarrow> byte list" where
  "mem_range f a n = map (\<lambda>i. f (a + word_of_nat i)) [0..<n]"

fun mem_update :: "(u64 \<Rightarrow> byte) \<Rightarrow> u64 \<Rightarrow> byte list \<Rightarrow> u64 \<Rightarrow> byte" where
  "mem_update f a [] = f"
| "mem_update f a (b # bs) = (mem_update f (a + 1) bs)(a := b)"

lemma length_mem_range [simp]: "length (mem_range f a n) = n"
  by (simp add: mem_range_def)

lemma mem_range_0 [simp]: "mem_range f a 0 = []"
  by (simp add: mem_range_def)

lemma mem_range_nth [simp]: "i < n \<Longrightarrow> mem_range f a n ! i = f (a + word_of_nat i)"
  by (simp add: mem_range_def)

lemma mem_range_add: "mem_range f a (m + n) = mem_range f a m @ mem_range f (a + word_of_nat m) n"
  by (rule nth_equalityI) (auto simp: nth_append add.assoc simp flip: of_nat_add)

lemma mem_update_out:
  assumes "length bs < 2 ^ 64" "\<And>i. i < length bs \<Longrightarrow> x \<noteq> a + word_of_nat i"
  shows "mem_update f a bs x = f x"
  using assms
proof (induction bs arbitrary: a)
  case (Cons b bs)
  have "x \<noteq> a" using Cons.prems(2) [of 0] by simp
  moreover have "mem_update f (a + 1) bs x = f x"
  proof (rule Cons.IH)
    fix i assume "i < length bs"
    then show "x \<noteq> a + 1 + word_of_nat i"
      using Cons.prems(2) [of "Suc i"] by (simp add: add.assoc)
  qed (use Cons.prems in simp)
  ultimately show ?case by simp
qed simp

lemma mem_update_in:
  assumes "length bs \<le> 2 ^ 64" "i < length bs"
  shows "mem_update f a bs (a + word_of_nat i) = bs ! i"
  using assms
proof (induction bs arbitrary: a i)
  case (Cons b bs)
  show ?case
  proof (cases i)
    case 0
    then show ?thesis by simp
  next
    case (Suc j)
    have "unat (word_of_nat i :: u64) = i" using Cons.prems by (simp add: unat_of_nat)
    then have "(word_of_nat i :: u64) \<noteq> 0" using Suc by (metis Zero_not_Suc unat_0)
    moreover have "mem_update f (a + 1) bs (a + 1 + word_of_nat j) = bs ! j"
      using Cons.prems Suc by (intro Cons.IH) auto
    ultimately show ?thesis using Suc by (simp add: add.assoc)
  qed
qed simp

lemma mem_range_update_same:
  "length bs \<le> 2 ^ 64 \<Longrightarrow> mem_range (mem_update f a bs) a (length bs) = bs"
  by (rule nth_equalityI) (simp_all add: mem_update_in)

lemma mem_update_append:
  assumes "length bs + length cs \<le> 2 ^ 64"
  shows "mem_update f a (bs @ cs) = mem_update (mem_update f a bs) (a + word_of_nat (length bs)) cs"
  using assms
proof (induction bs arbitrary: a)
  case (Cons b bs)
  let ?g = "mem_update f (a + 1) bs"
  have "mem_update (?g(a := b)) (a + word_of_nat (Suc (length bs))) cs =
      (mem_update ?g (a + word_of_nat (Suc (length bs))) cs)(a := b)"
  proof (rule ext)
    fix x
    show "mem_update (?g(a := b)) (a + word_of_nat (Suc (length bs))) cs x =
      ((mem_update ?g (a + word_of_nat (Suc (length bs))) cs)(a := b)) x"
    proof (cases "\<exists>i < length cs. x = a + word_of_nat (Suc (length bs)) + word_of_nat i")
      case True
      then obtain i where i: "i < length cs" "x = a + word_of_nat (Suc (length bs)) + word_of_nat i"
        by blast
      have "unat (word_of_nat (Suc (length bs) + i) :: u64) = Suc (length bs) + i"
        using i Cons.prems by (subst unat_of_nat) simp
      then have "(word_of_nat (Suc (length bs)) + word_of_nat i :: u64) \<noteq> 0"
        by (metis Zero_not_Suc add_Suc of_nat_add unat_0)
      then have "x \<noteq> a" using i(2) by (simp add: add.assoc)
      then show ?thesis using i Cons.prems by (simp add: mem_update_in del: of_nat_Suc)
    next
      case False
      then show ?thesis using Cons.prems by (simp add: mem_update_out del: of_nat_Suc)
    qed
  qed
  moreover have "mem_update f (a + 1) (bs @ cs) =
      mem_update ?g (a + word_of_nat (Suc (length bs))) cs"
    using Cons.IH [of "a + 1"] Cons.prems by (simp add: add.assoc)
  ultimately show ?case by (simp add: fun_upd_def)
qed simp

end
