(* ===== verification/Process_Memory.thy ===== *)
theory Process_Memory
  imports Kernel
begin

text \<open>
  \<open>src/process.cpp\<close>, the memory of the traced process: \<open>read_memory\<close> gathers the range in pieces
  that end at page boundaries with one vectored read, \<open>write_memory\<close> pokes it word by word and
  reads the rest of a last partial word first, \<open>read_string\<close> reads blocks of a kibibyte.
\<close>

section \<open>Reading\<close>

definition up_to_next_page :: "virt_addr \<Rightarrow> nat" where
  "up_to_next_page a = 0x1000 - unat (a AND 0xfff)"

lemma page_positive: "0 < up_to_next_page a"
proof -
  have "a AND 0xfff = take_bit 12 a" by (simp add: take_bit_eq_mask mask_eq_exp_minus_1)
  then have "unat (a AND 0xfff) < 4096"
    using take_bit_nat_less_exp [of 12 "unat a"] by (simp add: unsigned_take_bit_eq)
  then show ?thesis by (simp add: up_to_next_page_def)
qed

function remote_descs :: "virt_addr \<Rightarrow> nat \<Rightarrow> (u64 \<times> nat) list" where
  "remote_descs a amount =
    (if amount = 0 then []
     else let chunk_size = min amount (up_to_next_page a)
          in (a, chunk_size) # remote_descs (a + word_of_nat chunk_size) (amount - chunk_size))"
  by pat_completeness auto
termination
  by (relation "measure (\<lambda>(_, n). n)") (auto simp: page_positive)

declare remote_descs.simps [simp del]

text \<open>A short read leaves the rest of the zero-initialised buffer as it is.\<close>

definition read_memory :: "'k kernel \<Rightarrow> pid \<Rightarrow> virt_addr \<Rightarrow> nat \<Rightarrow> 'k \<Rightarrow> byte list result" where
  "read_memory K p a amount k =
    (case k_vm_readv K p amount (remote_descs a amount) k of
       None \<Rightarrow> Inl (Send_errno ''Could not read process memory'')
     | Some bs \<Rightarrow> Inr (take amount bs @ replicate (amount - length bs) 0))"

definition read_memory_as :: "'k kernel \<Rightarrow> pid \<Rightarrow> virt_addr \<Rightarrow> 'k \<Rightarrow> 'a::len word result" where
  "read_memory_as K p a k =
    bindE (read_memory K p a (LENGTH('a) div 8) k) (\<lambda>bs. Inr (from_bytes bs))"

text \<open>
  The loop of \<open>read_string\<close> does not advance the address: a first block without a null byte is
  read again for ever.
\<close>

definition read_string :: "'k kernel \<Rightarrow> pid \<Rightarrow> virt_addr \<Rightarrow> 'k \<Rightarrow> string result" where
  "read_string K p a k =
    bindE (read_memory K p a 1024 k) (\<lambda>data.
      if 0 \<in> set data then Inr (to_string_view (takeWhile (\<lambda>b. b \<noteq> 0) data))
      else Inl (No_return ''the same block is read again''))"

section \<open>Writing\<close>

definition write_word :: "'k kernel \<Rightarrow> pid \<Rightarrow> virt_addr \<Rightarrow> u64 \<Rightarrow> ('k, unit) prog" where
  "write_word K p a w k =
    (case k_pokedata K p a w k of
       None \<Rightarrow> (Inl (Send_errno ''Failed to write memory!''), k)
     | Some k' \<Rightarrow> (Inr (), k'))"

function write_memory :: "'k kernel \<Rightarrow> pid \<Rightarrow> virt_addr \<Rightarrow> byte list \<Rightarrow> ('k, unit) prog" where
  "write_memory K p a data =
    (if data = [] then retS ()
     else if length data \<ge> 8 then
       thenS (write_word K p a (from_bytes data)) (write_memory K p (a + 8) (drop 8 data))
     else
       (\<lambda>k. case read_memory K p a 8 k of
          Inl e \<Rightarrow> (Inl e, k)
        | Inr old \<Rightarrow> write_word K p a (from_bytes (data @ drop (length data) old)) k))"
  by pat_completeness auto
termination
  by (relation "measure (\<lambda>(_, _, _, data). length data)") auto

declare write_memory.simps [simp del]

section \<open>A process with memory\<close>

text \<open>
  What the requests on memory are documented to do, for the bytes the process has mapped
  readable and writable (\<open>ok\<close>): \<open>PTRACE_PEEKDATA\<close> reads the eight bytes at an address, \<open>PTRACE_POKEDATA\<close> replaces
  them and maps or unmaps nothing, and \<open>process_vm_readv\<close> gathers up to \<open>IOV_MAX\<close> remote ranges in order.
  A request on other addresses may fail, but has no other effect when it succeeds.
\<close>

definition all_mapped :: "(u64 \<Rightarrow> bool) \<Rightarrow> u64 \<Rightarrow> nat \<Rightarrow> bool" where
  "all_mapped ok a n \<longleftrightarrow> (\<forall>i<n. ok (a + word_of_nat i))"

definition memory_kernel :: "'k kernel \<Rightarrow> pid \<Rightarrow> ('k \<Rightarrow> u64 \<Rightarrow> byte) \<Rightarrow> (u64 \<Rightarrow> bool) \<Rightarrow> bool" where
  "memory_kernel K p mem ok \<longleftrightarrow>
    (\<forall>k a. all_mapped ok a 8 \<longrightarrow> k_peekdata K p a k \<noteq> None) \<and>
    (\<forall>k a w. k_peekdata K p a k = Some w \<longrightarrow> w = from_bytes (mem_range (mem k) a 8)) \<and>
    (\<forall>k a w. all_mapped ok a 8 \<longrightarrow> k_pokedata K p a w k \<noteq> None) \<and>
    (\<forall>k a w k'. k_pokedata K p a w k = Some k' \<longrightarrow> mem k' = mem_update (mem k) a (as_bytes w)) \<and>
    (\<forall>k n iov. sum_list (map snd iov) = n \<longrightarrow> length iov \<le> 1024 \<longrightarrow>
       (\<forall>(a, m) \<in> set iov. all_mapped ok a m) \<longrightarrow>
       k_vm_readv K p n iov k = Some (concat (map (\<lambda>(a, m). mem_range (mem k) a m) iov)))"

lemma all_mapped_code [code]: "all_mapped ok a n = list_all (\<lambda>i. ok (a + word_of_nat i)) [0..<n]"
  by (auto simp: all_mapped_def list_all_iff)

lemma all_mapped_split:
  "all_mapped ok a (m + n) \<longleftrightarrow> all_mapped ok a m \<and> all_mapped ok (a + word_of_nat m) n"
proof -
  have "(\<forall>i<m + n. P i) \<longleftrightarrow> (\<forall>i<m. P i) \<and> (\<forall>i<n. P (m + i))" for P
    by (metis add_less_cancel_left le_Suc_ex not_less trans_less_add1)
  then show ?thesis by (simp add: all_mapped_def add.assoc)
qed

section \<open>What a read returns\<close>

lemma page_offset: "unat (a AND 0xfff) = unat (a :: u64) mod 4096"
proof -
  have "a AND 0xfff = take_bit 12 a" by (simp add: take_bit_eq_mask mask_eq_exp_minus_1)
  then have "unat (a AND 0xfff) = take_bit 12 (unat a)" by (simp only: unsigned_take_bit_eq)
  then show ?thesis by (simp add: take_bit_eq_mod)
qed

lemma next_page_aligned: "unat (a + word_of_nat (up_to_next_page a)) mod 4096 = 0"
proof -
  let ?o = "unat a mod 4096"
  have o: "?o < 4096" by simp
  have u: "up_to_next_page a = 4096 - ?o" by (simp add: up_to_next_page_def page_offset)
  have "unat (a + word_of_nat (up_to_next_page a)) mod 4096 =
      (unat a + unat (word_of_nat (4096 - ?o) :: u64)) mod 2 ^ 64 mod 4096"
    by (simp only: u unat_add_mod) simp
  also have "\<dots> = (unat a + unat (word_of_nat (4096 - ?o) :: u64)) mod 4096"
    by (rule mod_mod_cancel) simp
  also have "unat (word_of_nat (4096 - ?o) :: u64) = 4096 - ?o" by (subst unat_of_nat) simp
  finally have "unat (a + word_of_nat (up_to_next_page a)) mod 4096 = (unat a + (4096 - ?o)) mod 4096" .
  also have "\<dots> = (?o + (4096 - ?o)) mod 4096" by (metis mod_add_left_eq)
  also have "\<dots> = 0" using o by simp
  finally show ?thesis .
qed

lemma remote_descs_aligned_length:
  "unat a mod 4096 = 0 \<Longrightarrow> length (remote_descs a n) = (n + 4095) div 4096"
proof (induction n arbitrary: a rule: less_induct)
  case (less n)
  have u: "up_to_next_page a = 4096" using less.prems by (simp add: up_to_next_page_def page_offset)
  show ?case
  proof (cases "n \<le> 4096")
    case True
    then show ?thesis
      by (cases "n = 0") (simp_all add: remote_descs.simps u Let_def div_nat_eqI)
  next
    case False
    have "length (remote_descs (a + 4096) (n - 4096)) = (n - 4096 + 4095) div 4096"
      using next_page_aligned [of a] False by (intro less.IH) (simp_all add: u)
    moreover have "Suc ((n - 4096 + 4095) div 4096) = (n + 4095) div 4096" using False by linarith
    ultimately show ?thesis using False by (subst remote_descs.simps) (simp add: u Let_def)
  qed
qed

lemma remote_descs_length: "length (remote_descs a n) \<le> Suc ((n + 4095) div 4096)"
proof (cases "n = 0")
  case False
  let ?c = "min n (up_to_next_page a)"
  have "length (remote_descs (a + word_of_nat ?c) (n - ?c)) \<le> (n + 4095) div 4096"
  proof (cases "n \<le> up_to_next_page a")
    case True
    then show ?thesis by (simp add: remote_descs.simps)
  next
    case False
    then show ?thesis
      using remote_descs_aligned_length [OF next_page_aligned, of a "n - ?c"] div_le_mono [of "n - ?c + 4095" "n + 4095" 4096]
      by simp
  qed
  then show ?thesis using False by (subst remote_descs.simps) (simp add: Let_def)
qed (simp add: remote_descs.simps)

lemma remote_descs_cover:
  "sum_list (map snd (remote_descs a n)) = n \<and>
   concat (map (\<lambda>(b, m). mem_range f b m) (remote_descs a n)) = mem_range f a n \<and>
   (all_mapped ok a n \<longrightarrow> (\<forall>(b, m) \<in> set (remote_descs a n). all_mapped ok b m))"
proof (induction a n rule: remote_descs.induct)
  case (1 a n)
  show ?case
  proof (cases "n = 0")
    case False
    let ?c = "min n (up_to_next_page a)"
    have n: "n = ?c + (n - ?c)" by simp
    show ?thesis
      using 1 [OF False refl] mem_range_add [of f a ?c "n - ?c"] all_mapped_split [of ok a ?c "n - ?c"] False
      by (subst (1 2 3) remote_descs.simps) (simp add: Let_def)
  qed (simp add: remote_descs.simps)
qed

lemma read_memory_mapped:
  assumes "memory_kernel K p mem ok" "all_mapped ok a n" "n \<le> 4096 * 1000"
  shows "read_memory K p a n k = Inr (mem_range (mem k) a n)"
proof -
  note cov = remote_descs_cover [of a n "mem k" ok]
  have "(n + 4095) div 4096 \<le> 1001" using assms(3) by linarith
  then have len: "length (remote_descs a n) \<le> 1024" using remote_descs_length [of a n] by linarith
  have "k_vm_readv K p n (remote_descs a n) k = Some (mem_range (mem k) a n)"
    using conjunct2 [OF conjunct2 [OF conjunct2 [OF conjunct2 [OF assms(1) [unfolded memory_kernel_def]]]],
        rule_format, of "remote_descs a n" n k] cov assms(2) len by auto
  then show ?thesis by (simp add: read_memory_def)
qed

section \<open>What a write does\<close>

lemma mem_range_Suc: "mem_range f a (Suc n) = f a # mem_range f (a + 1) n"
  using mem_range_add [of f a 1 n] by (simp add: mem_range_def)

lemma mem_update_same:
  "(\<And>i. i < n \<Longrightarrow> g (b + word_of_nat i) = f (b + word_of_nat i)) \<Longrightarrow> mem_update g b (mem_range f b n) = g"
proof (induction n arbitrary: b)
  case (Suc n)
  have "mem_update g (b + 1) (mem_range f (b + 1) n) = g"
  proof (rule Suc.IH)
    fix i assume "i < n"
    then show "g (b + 1 + word_of_nat i) = f (b + 1 + word_of_nat i)"
      using Suc.prems [of "Suc i"] by (simp add: add.assoc)
  qed
  moreover have "g b = f b" using Suc.prems [of 0] by simp
  ultimately show ?case by (simp add: mem_range_Suc fun_upd_idem)
qed simp

lemma drop_mem_range: "m \<le> n \<Longrightarrow> drop m (mem_range f a n) = mem_range f (a + word_of_nat m) (n - m)"
  using mem_range_add [of f a m "n - m"] by simp

text \<open>A last partial word is completed with the bytes that follow it, which so keep their values.\<close>

lemma mem_update_pad:
  assumes "length bs \<le> 8"
  shows "mem_update f a (bs @ drop (length bs) (mem_range f a 8)) = mem_update f a bs"
proof -
  let ?n = "length bs"
  have "mem_update f a (bs @ mem_range f (a + word_of_nat ?n) (8 - ?n)) =
      mem_update (mem_update f a bs) (a + word_of_nat ?n) (mem_range f (a + word_of_nat ?n) (8 - ?n))"
    using assms by (simp add: mem_update_append)
  also have "\<dots> = mem_update f a bs"
  proof (rule mem_update_same)
    fix i assume i: "i < 8 - ?n"
    show "mem_update f a bs (a + word_of_nat ?n + word_of_nat i) = f (a + word_of_nat ?n + word_of_nat i)"
    proof (rule mem_update_out)
      fix j assume j: "j < ?n"
      have "unat (word_of_nat (?n + i) :: u64) = ?n + i" "unat (word_of_nat j :: u64) = j"
        using i j assms by (subst unat_of_nat; simp)+
      then have "(word_of_nat (?n + i) :: u64) \<noteq> word_of_nat j" using j by (metis not_add_less1)
      then show "a + word_of_nat ?n + word_of_nat i \<noteq> a + word_of_nat j" by (simp add: add.assoc)
    qed (use assms in simp)
  qed
  finally show ?thesis using assms by (simp add: drop_mem_range)
qed

lemma write_word_mapped:
  assumes "memory_kernel K p mem ok" "all_mapped ok a 8" "length bs = 8"
  shows "\<exists>k'. write_word K p a (from_bytes bs) k = (Inr (), k') \<and> mem k' = mem_update (mem k) a bs"
proof -
  from assms(1,2) obtain k' where "k_pokedata K p a (from_bytes bs) k = Some k'"
    "mem k' = mem_update (mem k) a (as_bytes (from_bytes bs :: u64))" unfolding memory_kernel_def by (metis not_None_eq)
  then show ?thesis using assms(3) by (auto simp: write_word_def as_from_bytes)
qed

lemma write_memory_mapped:
  assumes "memory_kernel K p mem ok" "all_mapped ok a (8 * ((length data + 7) div 8))" "length data < 2 ^ 64"
  shows "\<exists>k'. write_memory K p a data k = (Inr (), k') \<and> mem k' = mem_update (mem k) a data"
  using assms(2,3)
proof (induction data arbitrary: a k rule: measure_induct_rule [where f = length])
  case (less data)
  consider (none) "data = []" | (word) "8 \<le> length data" | (partial) "data \<noteq> []" "length data < 8" by force
  then show ?case
  proof cases
    case none
    then show ?thesis by (simp add: write_memory.simps)
  next
    case word
    obtain l where l: "length data = 8 + l" using word le_Suc_ex by blast
    have n: "8 * ((length data + 7) div 8) = 8 + 8 * ((length (drop 8 data) + 7) div 8)"
      unfolding length_drop l using div_add_self1 [of 8 "l + 7"] by (simp add: add.commute)
    have m: "all_mapped ok a 8" "all_mapped ok (a + 8) (8 * ((length (drop 8 data) + 7) div 8))"
      using less.prems(1) unfolding n all_mapped_split by simp_all
    have f: "from_bytes data = (from_bytes (take 8 data) :: u64)" by (simp add: from_bytes_def)
    from write_word_mapped [OF assms(1) m(1), of "take 8 data" k] word obtain k1 where
      k1: "write_word K p a (from_bytes data) k = (Inr (), k1)" "mem k1 = mem_update (mem k) a (take 8 data)"
      unfolding f by auto
    have shorter: "length (drop 8 data) < length data" "length (drop 8 data) < 2 ^ 64"
      using word less.prems(2) by (auto simp: l)
    from less.IH [OF shorter(1) m(2) shorter(2), of k1] obtain k2 where
      k2: "write_memory K p (a + 8) (drop 8 data) k1 = (Inr (), k2)" "mem k2 = mem_update (mem k1) (a + 8) (drop 8 data)"
      by auto
    have "mem_update (mem k) a data = mem_update (mem_update (mem k) a (take 8 data)) (a + 8) (drop 8 data)"
      using mem_update_append [of "take 8 data" "drop 8 data" "mem k" a] word less.prems(2) by simp
    then show ?thesis using k1 k2 word by (subst write_memory.simps) (auto simp: thenS_run)
  next
    case partial
    have "(length data + 7) div 8 = 1" using partial by (cases data) (auto simp: div_nat_eqI)
    then have m: "all_mapped ok a 8" using less.prems(1) by simp
    have r: "read_memory K p a 8 k = Inr (mem_range (mem k) a 8)"
      using read_memory_mapped [OF assms(1) m] by simp
    let ?w = "data @ drop (length data) (mem_range (mem k) a 8)"
    from write_word_mapped [OF assms(1) m, of ?w k] partial obtain k1 where
      "write_word K p a (from_bytes ?w) k = (Inr (), k1)" "mem k1 = mem_update (mem k) a ?w" by auto
    then show ?thesis
      using partial mem_update_pad [of data "mem k" a] r by (subst write_memory.simps) auto
  qed
qed

section \<open>Properties\<close>

text \<open>
  C10. Memory writes: on mapped memory, writing a block of any length succeeds, reading it back returns
  exactly the block, and every byte outside the block keeps its value, the bytes after a last
  partial word included.
\<close>

theorem memory_write_read:
  assumes "memory_kernel K p mem ok" "all_mapped ok a (8 * ((length data + 7) div 8))"
    and "length data \<le> 4096 * 1000"
  shows "\<exists>k'. write_memory K p a data k = (Inr (), k') \<and> read_memory K p a (length data) k' = Inr data \<and>
    (\<forall>x. (\<forall>i<length data. x \<noteq> a + word_of_nat i) \<longrightarrow> mem k' x = mem k x)"
proof -
  have n: "length data < 2 ^ 64" using assms(3) by simp
  from write_memory_mapped [OF assms(1,2) n, of k] obtain k' where
    k': "write_memory K p a data k = (Inr (), k')" "mem k' = mem_update (mem k) a data" by blast
  have "length data \<le> 8 * ((length data + 7) div 8)" by linarith
  then have "all_mapped ok a (length data)" using assms(2) by (auto simp: all_mapped_def)
  then have "read_memory K p a (length data) k' = Inr (mem_range (mem k') a (length data))"
    using read_memory_mapped [OF assms(1) _ assms(3)] by blast
  then show ?thesis using k' n by (auto simp: mem_range_update_same mem_update_out)
qed

text \<open>A kernel whose state is the memory of one process, mapped from 0x1000 on.\<close>

definition ram_kernel :: "(u64 \<Rightarrow> byte) kernel" where
  "ram_kernel = \<lparr>
     k_peekdata = (\<lambda>p a m. Some (from_bytes (mem_range m a 8))),
     k_pokedata = (\<lambda>p a w m. Some (mem_update m a (as_bytes w))),
     k_vm_readv = (\<lambda>p n iov m. Some (concat (map (\<lambda>(a, l). mem_range m a l) iov))),
     k_peekuser = (\<lambda>p off m. Some 0), k_pokeuser = (\<lambda>p off w m. Some m),
     k_getregs = (\<lambda>p m. None), k_setregs = (\<lambda>p bs m. Some m),
     k_getfpregs = (\<lambda>p m. None), k_setfpregs = (\<lambda>p bs m. Some m),
     k_getsiginfo = (\<lambda>p m. Some 0), k_singlestep = (\<lambda>p m. Some m), k_cont = (\<lambda>p m. Some m),
     k_syscall = (\<lambda>p m. Some m), k_waitpid = (\<lambda>p opts m. (None, m)), k_tgkill = (\<lambda>p t s m. m)\<rparr>"

lemma ram_kernel_memory: "memory_kernel ram_kernel p (\<lambda>m. m) (\<lambda>a. 0x1000 \<le> a)"
  by (simp add: memory_kernel_def ram_kernel_def)

theorem memory_write_read_witness:
  "\<forall>m. \<exists>m'. write_memory ram_kernel 1 0x1ffd [1, 2, 3, 4, 5, 6, 7, 8, 9, 10] m = (Inr (), m') \<and>
     read_memory ram_kernel 1 0x1ffd 10 m' = Inr [1, 2, 3, 4, 5, 6, 7, 8, 9, 10] \<and> m' 0x2007 = m 0x2007"
proof
  fix m :: "u64 \<Rightarrow> byte"
  let ?data = "[1, 2, 3, 4, 5, 6, 7, 8, 9, 10] :: byte list"
  have mapped: "all_mapped (\<lambda>a. (0x1000 :: u64) \<le> a) 0x1ffd (8 * ((length ?data + 7) div 8))"
    by code_simp
  have out: "\<forall>i<length ?data. (0x2007 :: u64) \<noteq> 0x1ffd + word_of_nat i" by code_simp
  have short: "length ?data \<le> 4096 * 1000" by simp
  from memory_write_read [OF ram_kernel_memory mapped short, of 1 m]
  obtain m' where m': "write_memory ram_kernel 1 0x1ffd ?data m = (Inr (), m')"
    "read_memory ram_kernel 1 0x1ffd (length ?data) m' = Inr ?data"
    "\<forall>x. (\<forall>i<length ?data. x \<noteq> 0x1ffd + word_of_nat i) \<longrightarrow> m' x = m x" by blast
  have len: "length ?data = 10" by simp
  have "m' 0x2007 = m 0x2007" using m'(3) out by blast
  then show "\<exists>m'. write_memory ram_kernel 1 0x1ffd ?data m = (Inr (), m') \<and>
     read_memory ram_kernel 1 0x1ffd 10 m' = Inr ?data \<and> m' 0x2007 = m 0x2007"
    using m'(1) m'(2) [unfolded len] by blast
qed

end
