(* ===== verification/Register_Info.thy ===== *)
theory Register_Info
  imports Gsdb_Prelude
begin

text \<open>
  \<open>include/libgsdb/register_info.hpp\<close> and \<open>include/libgsdb/detail/registers.inc\<close>: the
  table of x64 registers. The identifiers of the scoped enumeration \<open>register_id\<close> are the
  positions in the table, which the macros of \<open>registers.inc\<close> expand to; offsets are those of
  \<open>struct user\<close> of \<open><sys/user.h>\<close>.
\<close>

type_synonym register_id = nat

datatype register_type = gpr | sub_gpr | fpr | dr

datatype register_format = fmt_uint | fmt_double_float | fmt_long_double | fmt_vector

record register_info =
  ri_id :: register_id
  ri_name :: string
  ri_dwarf_id :: int
  ri_size :: nat
  ri_offset :: nat
  ri_type :: register_type
  ri_format :: register_format

section \<open>The layout of the user area\<close>

definition user_size :: nat where
  "user_size = 912"

definition user_regs_struct :: "string list" where
  "user_regs_struct =
    [''r15'', ''r14'', ''r13'', ''r12'', ''rbp'', ''rbx'', ''r11'', ''r10'', ''r9'', ''r8'',
     ''rax'', ''rcx'', ''rdx'', ''rsi'', ''rdi'', ''orig_rax'', ''rip'', ''cs'', ''eflags'',
     ''rsp'', ''ss'', ''fs_base'', ''gs_base'', ''ds'', ''es'', ''fs'', ''gs'']"

definition user_fpregs_struct :: "(string \<times> nat \<times> nat) list" where
  "user_fpregs_struct =
    [(''cwd'', 0, 2), (''swd'', 2, 2), (''ftw'', 4, 2), (''fop'', 6, 2), (''rip'', 8, 8),
     (''rdp'', 16, 8), (''mxcsr'', 24, 4), (''mxcr_mask'', 28, 4), (''st_space'', 32, 128),
     (''xmm_space'', 160, 256)]"

definition i387_offset :: nat where
  "i387_offset = 224"

definition i387_size :: nat where
  "i387_size = 512"

definition regs_size :: nat where
  "regs_size = 216"

definition u_debugreg_offset :: nat where
  "u_debugreg_offset = 848"

definition GPR_OFFSET :: "string \<Rightarrow> nat" where
  "GPR_OFFSET reg = 8 * length (takeWhile (\<lambda>r. r \<noteq> reg) user_regs_struct)"

definition FPR_OFFSET :: "string \<Rightarrow> nat" where
  "FPR_OFFSET reg = i387_offset +
    (case map_of user_fpregs_struct reg of Some (off, _) \<Rightarrow> off | None \<Rightarrow> 0)"

definition FPR_SIZE :: "string \<Rightarrow> nat" where
  "FPR_SIZE reg = (case map_of user_fpregs_struct reg of Some (_, sz) \<Rightarrow> sz | None \<Rightarrow> 0)"

definition DR_OFFSET :: "nat \<Rightarrow> nat" where
  "DR_OFFSET number = u_debugreg_offset + number * 8"

section \<open>The macros\<close>

definition DEFINE_REGISTER ::
  "string \<Rightarrow> int \<Rightarrow> nat \<Rightarrow> nat \<Rightarrow> register_type \<Rightarrow> register_format \<Rightarrow> register_id \<Rightarrow> register_info" where
  "DEFINE_REGISTER nm dwarf sz off ty fmt i =
    \<lparr>ri_id = i, ri_name = nm, ri_dwarf_id = dwarf, ri_size = sz, ri_offset = off,
     ri_type = ty, ri_format = fmt\<rparr>"

definition DEFINE_GPR_64 :: "string \<Rightarrow> int \<Rightarrow> register_id \<Rightarrow> register_info" where
  "DEFINE_GPR_64 nm dwarf = DEFINE_REGISTER nm dwarf 8 (GPR_OFFSET nm) gpr fmt_uint"

definition DEFINE_GPR_32 :: "string \<Rightarrow> string \<Rightarrow> register_id \<Rightarrow> register_info" where
  "DEFINE_GPR_32 nm super = DEFINE_REGISTER nm (- 1) 4 (GPR_OFFSET super) sub_gpr fmt_uint"

definition DEFINE_GPR_16 :: "string \<Rightarrow> string \<Rightarrow> register_id \<Rightarrow> register_info" where
  "DEFINE_GPR_16 nm super = DEFINE_REGISTER nm (- 1) 2 (GPR_OFFSET super) sub_gpr fmt_uint"

definition DEFINE_GPR_8H :: "string \<Rightarrow> string \<Rightarrow> register_id \<Rightarrow> register_info" where
  "DEFINE_GPR_8H nm super = DEFINE_REGISTER nm (- 1) 1 (GPR_OFFSET super + 1) sub_gpr fmt_uint"

definition DEFINE_GPR_8L :: "string \<Rightarrow> string \<Rightarrow> register_id \<Rightarrow> register_info" where
  "DEFINE_GPR_8L nm super = DEFINE_REGISTER nm (- 1) 1 (GPR_OFFSET super) sub_gpr fmt_uint"

definition DEFINE_FPR :: "string \<Rightarrow> int \<Rightarrow> string \<Rightarrow> register_id \<Rightarrow> register_info" where
  "DEFINE_FPR nm dwarf user_name =
    DEFINE_REGISTER nm dwarf (FPR_SIZE user_name) (FPR_OFFSET user_name) fpr fmt_uint"

definition digits :: "nat \<Rightarrow> string" where
  "digits n = (if n < 10 then [char_of (48 + n)] else [char_of (48 + n div 10), char_of (48 + n mod 10)])"

definition DEFINE_FP_ST :: "nat \<Rightarrow> register_id \<Rightarrow> register_info" where
  "DEFINE_FP_ST number = DEFINE_REGISTER (''st'' @ digits number) (33 + int number) 16
     (FPR_OFFSET ''st_space'' + number * 16) fpr fmt_long_double"

definition DEFINE_FP_MM :: "nat \<Rightarrow> register_id \<Rightarrow> register_info" where
  "DEFINE_FP_MM number = DEFINE_REGISTER (''mm'' @ digits number) (41 + int number) 8
     (FPR_OFFSET ''st_space'' + number * 16) fpr fmt_vector"

definition DEFINE_FP_XMM :: "nat \<Rightarrow> register_id \<Rightarrow> register_info" where
  "DEFINE_FP_XMM number = DEFINE_REGISTER (''xmm'' @ digits number) (17 + int number) 16
     (FPR_OFFSET ''xmm_space'' + number * 16) fpr fmt_vector"

definition DEFINE_DR :: "nat \<Rightarrow> register_id \<Rightarrow> register_info" where
  "DEFINE_DR number = DEFINE_REGISTER (''dr'' @ digits number) (- 1) 8 (DR_OFFSET number) dr fmt_uint"

section \<open>The table\<close>

definition register_definitions :: "(register_id \<Rightarrow> register_info) list" where
  "register_definitions =
    [DEFINE_GPR_64 ''rax'' 0, DEFINE_GPR_64 ''rdx'' 1, DEFINE_GPR_64 ''rcx'' 2,
     DEFINE_GPR_64 ''rbx'' 3, DEFINE_GPR_64 ''rsi'' 4, DEFINE_GPR_64 ''rdi'' 5,
     DEFINE_GPR_64 ''rbp'' 6, DEFINE_GPR_64 ''rsp'' 7, DEFINE_GPR_64 ''r8'' 8,
     DEFINE_GPR_64 ''r9'' 9, DEFINE_GPR_64 ''r10'' 10, DEFINE_GPR_64 ''r11'' 11,
     DEFINE_GPR_64 ''r12'' 12, DEFINE_GPR_64 ''r13'' 13, DEFINE_GPR_64 ''r14'' 14,
     DEFINE_GPR_64 ''r15'' 15, DEFINE_GPR_64 ''rip'' 16, DEFINE_GPR_64 ''eflags'' 49,
     DEFINE_GPR_64 ''cs'' 51, DEFINE_GPR_64 ''fs'' 54, DEFINE_GPR_64 ''gs'' 55,
     DEFINE_GPR_64 ''ss'' 52, DEFINE_GPR_64 ''ds'' 53, DEFINE_GPR_64 ''es'' 50,
     DEFINE_GPR_64 ''orig_rax'' (- 1),
     DEFINE_GPR_32 ''eax'' ''rax'', DEFINE_GPR_32 ''edx'' ''rdx'', DEFINE_GPR_32 ''ecx'' ''rcx'',
     DEFINE_GPR_32 ''ebx'' ''rbx'', DEFINE_GPR_32 ''esi'' ''rsi'', DEFINE_GPR_32 ''edi'' ''rdi'',
     DEFINE_GPR_32 ''ebp'' ''rbp'', DEFINE_GPR_32 ''esp'' ''rsp'', DEFINE_GPR_32 ''r8d'' ''r8'',
     DEFINE_GPR_32 ''r9d'' ''r9'', DEFINE_GPR_32 ''r10d'' ''r10'', DEFINE_GPR_32 ''r11d'' ''r11'',
     DEFINE_GPR_32 ''r12d'' ''r12'', DEFINE_GPR_32 ''r13d'' ''r13'',
     DEFINE_GPR_32 ''r14d'' ''r14'', DEFINE_GPR_32 ''r15d'' ''r15'',
     DEFINE_GPR_16 ''ax'' ''rax'', DEFINE_GPR_16 ''dx'' ''rdx'', DEFINE_GPR_16 ''cx'' ''rcx'',
     DEFINE_GPR_16 ''bx'' ''rbx'', DEFINE_GPR_16 ''si'' ''rsi'', DEFINE_GPR_16 ''di'' ''rdi'',
     DEFINE_GPR_16 ''bp'' ''rbp'', DEFINE_GPR_16 ''sp'' ''rsp'', DEFINE_GPR_16 ''r8w'' ''r8'',
     DEFINE_GPR_16 ''r9w'' ''r9'', DEFINE_GPR_16 ''r10w'' ''r10'', DEFINE_GPR_16 ''r11w'' ''r11'',
     DEFINE_GPR_16 ''r12w'' ''r12'', DEFINE_GPR_16 ''r13w'' ''r13'',
     DEFINE_GPR_16 ''r14w'' ''r14'', DEFINE_GPR_16 ''r15w'' ''r15'',
     DEFINE_GPR_8H ''ah'' ''rax'', DEFINE_GPR_8H ''dh'' ''rdx'', DEFINE_GPR_8H ''ch'' ''rcx'',
     DEFINE_GPR_8H ''bh'' ''rbx'',
     DEFINE_GPR_8L ''al'' ''rax'', DEFINE_GPR_8L ''dl'' ''rdx'', DEFINE_GPR_8L ''cl'' ''rcx'',
     DEFINE_GPR_8L ''bl'' ''rbx'', DEFINE_GPR_8L ''sil'' ''rsi'', DEFINE_GPR_8L ''dil'' ''rdi'',
     DEFINE_GPR_8L ''bpl'' ''rbp'', DEFINE_GPR_8L ''spl'' ''rsp'', DEFINE_GPR_8L ''r8b'' ''r8'',
     DEFINE_GPR_8L ''r9b'' ''r9'', DEFINE_GPR_8L ''r10b'' ''r10'', DEFINE_GPR_8L ''r11b'' ''r11'',
     DEFINE_GPR_8L ''r12b'' ''r12'', DEFINE_GPR_8L ''r13b'' ''r13'',
     DEFINE_GPR_8L ''r14b'' ''r14'', DEFINE_GPR_8L ''r15b'' ''r15'',
     DEFINE_FPR ''fcw'' 65 ''cwd'', DEFINE_FPR ''fsw'' 66 ''swd'', DEFINE_FPR ''ftw'' (- 1) ''ftw'',
     DEFINE_FPR ''fop'' (- 1) ''fop'', DEFINE_FPR ''frip'' (- 1) ''rip'',
     DEFINE_FPR ''frdp'' (- 1) ''rdp'', DEFINE_FPR ''mxcsr'' 64 ''mxcsr'',
     DEFINE_FPR ''mxcsrmask'' (- 1) ''mxcr_mask'']
    @ map DEFINE_FP_ST [0..<8] @ map DEFINE_FP_MM [0..<8] @ map DEFINE_FP_XMM [0..<16]
    @ map DEFINE_DR [0..<8]"

definition g_register_infos :: "register_info list" where
  "g_register_infos = map2 (\<lambda>i d. d i) [0..<length register_definitions] register_definitions"

text \<open>The table with its offsets computed, which the evaluation of lookups uses.\<close>

fun register_row :: "nat \<times> string \<times> int \<times> nat \<times> nat \<times> register_type \<times> register_format \<Rightarrow> register_info" where
  "register_row (i, nm, dwarf, sz, off, ty, fmt) = DEFINE_REGISTER nm dwarf sz off ty fmt i"

lemma g_register_infos_rows [code]:
  "g_register_infos = map register_row
     [(0, ''rax'', 0, 8, 80, gpr, fmt_uint), (1, ''rdx'', 1, 8, 96, gpr, fmt_uint),
      (2, ''rcx'', 2, 8, 88, gpr, fmt_uint), (3, ''rbx'', 3, 8, 40, gpr, fmt_uint),
      (4, ''rsi'', 4, 8, 104, gpr, fmt_uint), (5, ''rdi'', 5, 8, 112, gpr, fmt_uint),
      (6, ''rbp'', 6, 8, 32, gpr, fmt_uint), (7, ''rsp'', 7, 8, 152, gpr, fmt_uint),
      (8, ''r8'', 8, 8, 72, gpr, fmt_uint), (9, ''r9'', 9, 8, 64, gpr, fmt_uint),
      (10, ''r10'', 10, 8, 56, gpr, fmt_uint), (11, ''r11'', 11, 8, 48, gpr, fmt_uint),
      (12, ''r12'', 12, 8, 24, gpr, fmt_uint), (13, ''r13'', 13, 8, 16, gpr, fmt_uint),
      (14, ''r14'', 14, 8, 8, gpr, fmt_uint), (15, ''r15'', 15, 8, 0, gpr, fmt_uint),
      (16, ''rip'', 16, 8, 128, gpr, fmt_uint), (17, ''eflags'', 49, 8, 144, gpr, fmt_uint),
      (18, ''cs'', 51, 8, 136, gpr, fmt_uint), (19, ''fs'', 54, 8, 200, gpr, fmt_uint),
      (20, ''gs'', 55, 8, 208, gpr, fmt_uint), (21, ''ss'', 52, 8, 160, gpr, fmt_uint),
      (22, ''ds'', 53, 8, 184, gpr, fmt_uint), (23, ''es'', 50, 8, 192, gpr, fmt_uint),
      (24, ''orig_rax'', - 1, 8, 120, gpr, fmt_uint), (25, ''eax'', - 1, 4, 80, sub_gpr, fmt_uint),
      (26, ''edx'', - 1, 4, 96, sub_gpr, fmt_uint), (27, ''ecx'', - 1, 4, 88, sub_gpr, fmt_uint),
      (28, ''ebx'', - 1, 4, 40, sub_gpr, fmt_uint), (29, ''esi'', - 1, 4, 104, sub_gpr, fmt_uint),
      (30, ''edi'', - 1, 4, 112, sub_gpr, fmt_uint), (31, ''ebp'', - 1, 4, 32, sub_gpr, fmt_uint),
      (32, ''esp'', - 1, 4, 152, sub_gpr, fmt_uint), (33, ''r8d'', - 1, 4, 72, sub_gpr, fmt_uint),
      (34, ''r9d'', - 1, 4, 64, sub_gpr, fmt_uint), (35, ''r10d'', - 1, 4, 56, sub_gpr, fmt_uint),
      (36, ''r11d'', - 1, 4, 48, sub_gpr, fmt_uint), (37, ''r12d'', - 1, 4, 24, sub_gpr, fmt_uint),
      (38, ''r13d'', - 1, 4, 16, sub_gpr, fmt_uint), (39, ''r14d'', - 1, 4, 8, sub_gpr, fmt_uint),
      (40, ''r15d'', - 1, 4, 0, sub_gpr, fmt_uint), (41, ''ax'', - 1, 2, 80, sub_gpr, fmt_uint),
      (42, ''dx'', - 1, 2, 96, sub_gpr, fmt_uint), (43, ''cx'', - 1, 2, 88, sub_gpr, fmt_uint),
      (44, ''bx'', - 1, 2, 40, sub_gpr, fmt_uint), (45, ''si'', - 1, 2, 104, sub_gpr, fmt_uint),
      (46, ''di'', - 1, 2, 112, sub_gpr, fmt_uint), (47, ''bp'', - 1, 2, 32, sub_gpr, fmt_uint),
      (48, ''sp'', - 1, 2, 152, sub_gpr, fmt_uint), (49, ''r8w'', - 1, 2, 72, sub_gpr, fmt_uint),
      (50, ''r9w'', - 1, 2, 64, sub_gpr, fmt_uint), (51, ''r10w'', - 1, 2, 56, sub_gpr, fmt_uint),
      (52, ''r11w'', - 1, 2, 48, sub_gpr, fmt_uint), (53, ''r12w'', - 1, 2, 24, sub_gpr, fmt_uint),
      (54, ''r13w'', - 1, 2, 16, sub_gpr, fmt_uint), (55, ''r14w'', - 1, 2, 8, sub_gpr, fmt_uint),
      (56, ''r15w'', - 1, 2, 0, sub_gpr, fmt_uint), (57, ''ah'', - 1, 1, 81, sub_gpr, fmt_uint),
      (58, ''dh'', - 1, 1, 97, sub_gpr, fmt_uint), (59, ''ch'', - 1, 1, 89, sub_gpr, fmt_uint),
      (60, ''bh'', - 1, 1, 41, sub_gpr, fmt_uint), (61, ''al'', - 1, 1, 80, sub_gpr, fmt_uint),
      (62, ''dl'', - 1, 1, 96, sub_gpr, fmt_uint), (63, ''cl'', - 1, 1, 88, sub_gpr, fmt_uint),
      (64, ''bl'', - 1, 1, 40, sub_gpr, fmt_uint), (65, ''sil'', - 1, 1, 104, sub_gpr, fmt_uint),
      (66, ''dil'', - 1, 1, 112, sub_gpr, fmt_uint), (67, ''bpl'', - 1, 1, 32, sub_gpr, fmt_uint),
      (68, ''spl'', - 1, 1, 152, sub_gpr, fmt_uint), (69, ''r8b'', - 1, 1, 72, sub_gpr, fmt_uint),
      (70, ''r9b'', - 1, 1, 64, sub_gpr, fmt_uint), (71, ''r10b'', - 1, 1, 56, sub_gpr, fmt_uint),
      (72, ''r11b'', - 1, 1, 48, sub_gpr, fmt_uint), (73, ''r12b'', - 1, 1, 24, sub_gpr, fmt_uint),
      (74, ''r13b'', - 1, 1, 16, sub_gpr, fmt_uint), (75, ''r14b'', - 1, 1, 8, sub_gpr, fmt_uint),
      (76, ''r15b'', - 1, 1, 0, sub_gpr, fmt_uint), (77, ''fcw'', 65, 2, 224, fpr, fmt_uint),
      (78, ''fsw'', 66, 2, 226, fpr, fmt_uint), (79, ''ftw'', - 1, 2, 228, fpr, fmt_uint),
      (80, ''fop'', - 1, 2, 230, fpr, fmt_uint), (81, ''frip'', - 1, 8, 232, fpr, fmt_uint),
      (82, ''frdp'', - 1, 8, 240, fpr, fmt_uint), (83, ''mxcsr'', 64, 4, 248, fpr, fmt_uint),
      (84, ''mxcsrmask'', - 1, 4, 252, fpr, fmt_uint), (85, ''st0'', 33, 16, 256, fpr, fmt_long_double),
      (86, ''st1'', 34, 16, 272, fpr, fmt_long_double), (87, ''st2'', 35, 16, 288, fpr, fmt_long_double),
      (88, ''st3'', 36, 16, 304, fpr, fmt_long_double), (89, ''st4'', 37, 16, 320, fpr, fmt_long_double),
      (90, ''st5'', 38, 16, 336, fpr, fmt_long_double), (91, ''st6'', 39, 16, 352, fpr, fmt_long_double),
      (92, ''st7'', 40, 16, 368, fpr, fmt_long_double), (93, ''mm0'', 41, 8, 256, fpr, fmt_vector),
      (94, ''mm1'', 42, 8, 272, fpr, fmt_vector), (95, ''mm2'', 43, 8, 288, fpr, fmt_vector),
      (96, ''mm3'', 44, 8, 304, fpr, fmt_vector), (97, ''mm4'', 45, 8, 320, fpr, fmt_vector),
      (98, ''mm5'', 46, 8, 336, fpr, fmt_vector), (99, ''mm6'', 47, 8, 352, fpr, fmt_vector),
      (100, ''mm7'', 48, 8, 368, fpr, fmt_vector), (101, ''xmm0'', 17, 16, 384, fpr, fmt_vector),
      (102, ''xmm1'', 18, 16, 400, fpr, fmt_vector), (103, ''xmm2'', 19, 16, 416, fpr, fmt_vector),
      (104, ''xmm3'', 20, 16, 432, fpr, fmt_vector), (105, ''xmm4'', 21, 16, 448, fpr, fmt_vector),
      (106, ''xmm5'', 22, 16, 464, fpr, fmt_vector), (107, ''xmm6'', 23, 16, 480, fpr, fmt_vector),
      (108, ''xmm7'', 24, 16, 496, fpr, fmt_vector), (109, ''xmm8'', 25, 16, 512, fpr, fmt_vector),
      (110, ''xmm9'', 26, 16, 528, fpr, fmt_vector), (111, ''xmm10'', 27, 16, 544, fpr, fmt_vector),
      (112, ''xmm11'', 28, 16, 560, fpr, fmt_vector), (113, ''xmm12'', 29, 16, 576, fpr, fmt_vector),
      (114, ''xmm13'', 30, 16, 592, fpr, fmt_vector), (115, ''xmm14'', 31, 16, 608, fpr, fmt_vector),
      (116, ''xmm15'', 32, 16, 624, fpr, fmt_vector), (117, ''dr0'', - 1, 8, 848, dr, fmt_uint),
      (118, ''dr1'', - 1, 8, 856, dr, fmt_uint), (119, ''dr2'', - 1, 8, 864, dr, fmt_uint),
      (120, ''dr3'', - 1, 8, 872, dr, fmt_uint), (121, ''dr4'', - 1, 8, 880, dr, fmt_uint),
      (122, ''dr5'', - 1, 8, 888, dr, fmt_uint), (123, ''dr6'', - 1, 8, 896, dr, fmt_uint),
      (124, ''dr7'', - 1, 8, 904, dr, fmt_uint)]"
  by code_simp

text \<open>The enumerators the debugger names: their positions in the table.\<close>

definition id_rax :: register_id where "id_rax = 0"

definition id_rdx :: register_id where "id_rdx = 1"

definition id_rcx :: register_id where "id_rcx = 2"

definition id_rsi :: register_id where "id_rsi = 4"

definition id_rdi :: register_id where "id_rdi = 5"

definition id_rsp :: register_id where "id_rsp = 7"

definition id_r8 :: register_id where "id_r8 = 8"

definition id_r9 :: register_id where "id_r9 = 9"

definition id_r10 :: register_id where "id_r10 = 10"

definition id_rip :: register_id where "id_rip = 16"

definition id_orig_rax :: register_id where "id_orig_rax = 24"

definition id_xmm0 :: register_id where "id_xmm0 = 101"

definition id_dr0 :: register_id where "id_dr0 = 117"

definition id_dr6 :: register_id where "id_dr6 = 123"

definition id_dr7 :: register_id where "id_dr7 = 124"

lemmas register_id_defs =
  id_rax_def id_rdx_def id_rcx_def id_rsi_def id_rdi_def id_rsp_def id_r8_def id_r9_def
  id_r10_def id_rip_def id_orig_rax_def id_xmm0_def id_dr0_def id_dr6_def id_dr7_def

definition register_info_by :: "(register_info \<Rightarrow> bool) \<Rightarrow> register_info result" where
  "register_info_by f =
    the_opt (Send ''CANNOT find register info'') (List.find f g_register_infos)"

definition register_info_by_id :: "register_id \<Rightarrow> register_info result" where
  "register_info_by_id i = register_info_by (\<lambda>r. ri_id r = i)"

definition register_info_by_name :: "string \<Rightarrow> register_info result" where
  "register_info_by_name nm = register_info_by (\<lambda>r. ri_name r = nm)"

definition register_info_by_dwarf :: "int \<Rightarrow> register_info result" where
  "register_info_by_dwarf d = register_info_by (\<lambda>r. ri_dwarf_id r = d)"

section \<open>Facts of the table\<close>

text \<open>
  What every client relies on: the size of an entry fits its format, its bytes lie in the part of
  the user area its type is written back to, and an unaligned register lies inside one word.
\<close>

definition register_info_ok :: "register_info \<Rightarrow> bool" where
  "register_info_ok r \<longleftrightarrow>
    0 < ri_size r \<and> ri_offset r + ri_size r \<le> user_size \<and>
    (case ri_format r of
       fmt_uint \<Rightarrow> ri_size r \<in> {1, 2, 4, 8}
     | fmt_double_float \<Rightarrow> ri_size r = 8
     | fmt_long_double \<Rightarrow> ri_size r = 16
     | fmt_vector \<Rightarrow> ri_size r \<in> {8, 16}) \<and>
    (case ri_type r of
       fpr \<Rightarrow> i387_offset \<le> ri_offset r \<and> ri_offset r + ri_size r \<le> i387_offset + i387_size
     | dr \<Rightarrow> u_debugreg_offset \<le> ri_offset r \<and> ri_offset r mod 8 = 0 \<and> ri_size r = 8
     | _ \<Rightarrow> ri_offset r + ri_size r \<le> regs_size \<and> ri_offset r mod 8 + ri_size r \<le> 8)"

lemma table_length: "length register_definitions = 125"
  by (simp add: register_definitions_def)

lemma g_length: "length g_register_infos = 125"
  by (simp add: g_register_infos_def table_length)

lemma g_ids: "map ri_id g_register_infos = [0..<125]"
  by code_simp

lemma g_all_ok: "list_all register_info_ok g_register_infos"
  by code_simp

lemma g_distinct_names: "distinct (map ri_name g_register_infos)"
  by code_simp

lemma g_distinct_dwarf: "distinct (filter (\<lambda>d. d \<noteq> - 1) (map ri_dwarf_id g_register_infos))"
  by code_simp

lemma g_named:
  "map (\<lambda>i. ri_name (g_register_infos ! i))
     [id_rax, id_rdx, id_rcx, id_rsi, id_rdi, id_rsp, id_r8, id_r9, id_r10, id_rip, id_orig_rax,
      id_xmm0, id_dr0, id_dr6, id_dr7] =
   [''rax'', ''rdx'', ''rcx'', ''rsi'', ''rdi'', ''rsp'', ''r8'', ''r9'', ''r10'', ''rip'',
    ''orig_rax'', ''xmm0'', ''dr0'', ''dr6'', ''dr7'']"
  by code_simp

lemma g_nth_id: "i < 125 \<Longrightarrow> ri_id (g_register_infos ! i) = i"
  using arg_cong [OF g_ids, of "\<lambda>xs. xs ! i"] by (simp add: g_length)

lemma g_nth_ok: "i < 125 \<Longrightarrow> register_info_ok (g_register_infos ! i)"
  using g_all_ok by (simp add: list_all_length g_length)

lemma register_info_by_id_nth [simp]:
  assumes "i < 125"
  shows "register_info_by_id i = Inr (g_register_infos ! i)"
proof -
  have "List.find (\<lambda>y. ri_id y = ri_id (g_register_infos ! i)) g_register_infos =
      Some (g_register_infos ! i)"
    by (rule find_distinct_key [where Q = "\<lambda>_. True"]) (use assms in \<open>auto simp: g_ids g_length\<close>)
  then show ?thesis
    using assms by (simp add: register_info_by_id_def register_info_by_def g_nth_id)
qed

lemma register_info_by_id_none: "125 \<le> i \<Longrightarrow> register_info_by_id i = Inl (Send ''CANNOT find register info'')"
proof -
  assume i: "125 \<le> i"
  have "ri_id r < 125" if "r \<in> set g_register_infos" for r
    using that g_nth_id by (auto simp: in_set_conv_nth g_length)
  then have "List.find (\<lambda>y. ri_id y = i) g_register_infos = None"
    using i by (fastforce simp: find_None_iff)
  then show ?thesis by (simp add: register_info_by_id_def register_info_by_def)
qed

lemma register_info_by_id_ok: "register_info_by_id i = Inr r \<Longrightarrow> register_info_ok r \<and> r \<in> set g_register_infos"
  using register_info_by_id_none [of i] g_nth_ok [of i] by (cases "i < 125") (auto simp: g_length)

section \<open>Properties\<close>

text \<open>
  The register table: each identifier selects the entry at its position, and for every entry
  the lookups by identifier, by name and (where it has a DWARF number) by DWARF number return that
  entry; its bytes lie in the user area, in the part its type is written back through.
\<close>

lemma register_table_lookup:
  assumes "i < length g_register_infos"
  shows "\<exists>r. register_info_by_id i = Inr r \<and> register_info_by_name (ri_name r) = Inr r \<and>
    (ri_dwarf_id r \<noteq> - 1 \<longrightarrow> register_info_by_dwarf (ri_dwarf_id r) = Inr r) \<and> register_info_ok r"
proof -
  let ?r = "g_register_infos ! i"
  have i: "i < 125" "?r \<in> set g_register_infos" using assms by (simp_all add: g_length)
  have "List.find (\<lambda>y. ri_name y = ri_name ?r) g_register_infos = Some ?r"
    by (rule find_distinct_key [where Q = "\<lambda>_. True"]) (use i g_distinct_names in auto)
  then have "register_info_by_name (ri_name ?r) = Inr ?r"
    by (simp add: register_info_by_name_def register_info_by_def)
  moreover have "register_info_by_dwarf (ri_dwarf_id ?r) = Inr ?r" if d: "ri_dwarf_id ?r \<noteq> - 1"
  proof -
    have "List.find (\<lambda>y. ri_dwarf_id y = ri_dwarf_id ?r) g_register_infos = Some ?r"
      by (rule find_distinct_key [where Q = "\<lambda>r. ri_dwarf_id r \<noteq> - 1"])
        (use i d g_distinct_dwarf in \<open>auto simp: filter_map comp_def\<close>)
    then show ?thesis by (simp add: register_info_by_dwarf_def register_info_by_def)
  qed
  ultimately show ?thesis using i g_nth_ok [of i] by auto
qed

lemma register_table_lookup_witness:
  "\<exists>r. register_info_by_id id_rip = Inr r \<and> register_info_by_name (ri_name r) = Inr r \<and>
    (ri_dwarf_id r \<noteq> - 1 \<longrightarrow> register_info_by_dwarf (ri_dwarf_id r) = Inr r) \<and> register_info_ok r"
  by (rule register_table_lookup) (simp add: g_length id_rip_def)

end
