(* ===== verification/Registers.thy ===== *)
theory Registers
  imports Register_Info Kernel
begin

text \<open>
  \<open>src/registers.cpp\<close>: the cached registers of a thread, as the bytes of \<open>struct user\<close>, with
  typed reads and writes. A committed write goes to the traced thread: floating-point registers
  through \<open>PTRACE_SETFPREGS\<close>, the others through \<open>PTRACE_POKEUSER\<close> at the aligned word. The
  conversions between floating-point types are a parameter; the values of the floating-point
  types are their object representations.
\<close>

section \<open>Values\<close>

type_synonym u128 = "128 word"

datatype reg_value =
    V_u8 byte | V_u16 u16 | V_u32 u32 | V_u64 u64
  | V_i8 byte | V_i16 u16 | V_i32 u32 | V_i64 u64
  | V_float u32 | V_double u64 | V_long_double u128
  | V_byte64 u64 | V_byte128 u128

record float_ops =
  float_to_double :: "u32 \<Rightarrow> u64"
  float_to_long_double :: "u32 \<Rightarrow> u128"
  double_to_long_double :: "u64 \<Rightarrow> u128"
  long_double_to_double :: "u128 \<Rightarrow> u64"

fun value_size :: "reg_value \<Rightarrow> nat" where
  "value_size (V_u8 _) = 1" | "value_size (V_i8 _) = 1"
| "value_size (V_u16 _) = 2" | "value_size (V_i16 _) = 2"
| "value_size (V_u32 _) = 4" | "value_size (V_i32 _) = 4" | "value_size (V_float _) = 4"
| "value_size (V_u64 _) = 8" | "value_size (V_i64 _) = 8" | "value_size (V_double _) = 8"
| "value_size (V_byte64 _) = 8"
| "value_size (V_long_double _) = 16" | "value_size (V_byte128 _) = 16"

definition widen_signed :: "register_info \<Rightarrow> 'a::len word \<Rightarrow> byte list" where
  "widen_signed info t =
    (if ri_format info = fmt_uint then
       (if ri_size info = 2 then to_byte128 (scast t :: u16)
        else if ri_size info = 4 then to_byte128 (scast t :: u32)
        else if ri_size info = 8 then to_byte128 (scast t :: u64)
        else to_byte128 t)
     else to_byte128 t)"

definition widen_float ::
  "register_info \<Rightarrow> u64 \<Rightarrow> u128 \<Rightarrow> 'a::len word \<Rightarrow> byte list" where
  "widen_float info as_double as_long_double t =
    (if ri_format info = fmt_double_float then to_byte128 as_double
     else if ri_format info = fmt_long_double then to_byte128 as_long_double
     else to_byte128 t)"

fun widen :: "float_ops \<Rightarrow> register_info \<Rightarrow> reg_value \<Rightarrow> byte list" where
  "widen fo info (V_float t) =
    widen_float info (float_to_double fo t) (float_to_long_double fo t) t"
| "widen fo info (V_double t) = widen_float info t (double_to_long_double fo t) t"
| "widen fo info (V_long_double t) = widen_float info (long_double_to_double fo t) t t"
| "widen fo info (V_i8 t) = widen_signed info t"
| "widen fo info (V_i16 t) = widen_signed info t"
| "widen fo info (V_i32 t) = widen_signed info t"
| "widen fo info (V_i64 t) = widen_signed info t"
| "widen fo info (V_u8 t) = to_byte128 t"
| "widen fo info (V_u16 t) = to_byte128 t"
| "widen fo info (V_u32 t) = to_byte128 t"
| "widen fo info (V_u64 t) = to_byte128 t"
| "widen fo info (V_byte64 t) = to_byte128 t"
| "widen fo info (V_byte128 t) = to_byte128 t"

section \<open>The register file\<close>

record registers =
  reg_data :: "byte list"
  reg_undefined :: "nat list"
  reg_cfa :: virt_addr
  reg_tid :: pid

definition new_registers :: "pid \<Rightarrow> registers" where
  "new_registers tid =
    \<lparr>reg_data = replicate user_size 0, reg_undefined = [], reg_cfa = 0, reg_tid = tid\<rparr>"

definition undefine :: "register_id \<Rightarrow> registers \<Rightarrow> registers result" where
  "undefine i regs =
    bindE (register_info_by_id i) (\<lambda>info.
      Inr (regs\<lparr>reg_undefined := reg_undefined regs @ [ri_offset info div 2]\<rparr>))"

definition is_undefined :: "registers \<Rightarrow> register_id \<Rightarrow> bool result" where
  "is_undefined regs i =
    bindE (register_info_by_id i) (\<lambda>info. Inr (ri_offset info div 2 \<in> set (reg_undefined regs)))"

definition user_field :: "registers \<Rightarrow> nat \<Rightarrow> 'a::len word result" where
  "user_field regs off =
    (if off + LENGTH('a) div 8 \<le> length (reg_data regs) then Inr (from_bytes (drop off (reg_data regs)))
     else Inl (Undefined ''read outside the user area''))"

definition reg_map :: "('a \<Rightarrow> 'b) \<Rightarrow> 'a result \<Rightarrow> 'b result" where
  "reg_map f r = bindE r (\<lambda>x. Inr (f x))"

definition registers_read :: "registers \<Rightarrow> register_info \<Rightarrow> reg_value result" where
  "registers_read regs info =
    bindE (is_undefined regs (ri_id info)) (\<lambda>undef.
      if undef then Inl (Send ''Register is undefined'')
      else case ri_format info of
        fmt_uint \<Rightarrow>
          (if ri_size info = 1 then reg_map V_u8 (user_field regs (ri_offset info))
           else if ri_size info = 2 then reg_map V_u16 (user_field regs (ri_offset info))
           else if ri_size info = 4 then reg_map V_u32 (user_field regs (ri_offset info))
           else if ri_size info = 8 then reg_map V_u64 (user_field regs (ri_offset info))
           else Inl (Send ''Unexpected register size!''))
      | fmt_double_float \<Rightarrow> reg_map V_double (user_field regs (ri_offset info))
      | fmt_long_double \<Rightarrow> reg_map V_long_double (user_field regs (ri_offset info))
      | fmt_vector \<Rightarrow>
          (if ri_size info = 8 then reg_map V_byte64 (user_field regs (ri_offset info))
           else reg_map V_byte128 (user_field regs (ri_offset info))))"

text \<open>\<open>read_by_id_as<std::uint64_t>\<close>: \<open>std::get\<close> throws where the value has another type.\<close>

definition read_by_id_as_u64 :: "registers \<Rightarrow> register_id \<Rightarrow> u64 result" where
  "read_by_id_as_u64 regs i =
    bindE (register_info_by_id i) (\<lambda>info.
      bindE (registers_read regs info) (\<lambda>v.
        case v of V_u64 w \<Rightarrow> Inr w | _ \<Rightarrow> Inl (Std_exception ''bad_variant_access'')))"

text \<open>The part of \<open>write\<close> before the commit: the bytes of the widened value replace those of the register.\<close>

definition splice :: "nat \<Rightarrow> byte list \<Rightarrow> byte list \<Rightarrow> byte list" where
  "splice off new bs = take off bs @ new @ drop (off + length new) bs"

definition registers_store ::
  "float_ops \<Rightarrow> register_info \<Rightarrow> reg_value \<Rightarrow> registers \<Rightarrow> registers result" where
  "registers_store fo info val regs =
    (if value_size val \<le> ri_size info then
       (if ri_size info \<le> 16 \<and> ri_offset info + ri_size info \<le> length (reg_data regs) then
          Inr (regs\<lparr>reg_data :=
            splice (ri_offset info) (take (ri_size info) (widen fo info val)) (reg_data regs)\<rparr>)
        else Inl (Undefined ''write outside the user area''))
     else Inl (Terminate ''registers::write called with mismatched register and value sizes''))"

definition write_user_area :: "'k kernel \<Rightarrow> pid \<Rightarrow> nat \<Rightarrow> u64 \<Rightarrow> ('k, unit) prog" where
  "write_user_area K tid off data k =
    (case k_pokeuser K tid off data k of
       None \<Rightarrow> (Inl (Send_errno ''Could not write to user area''), k)
     | Some k' \<Rightarrow> (Inr (), k'))"

definition write_fprs :: "'k kernel \<Rightarrow> pid \<Rightarrow> byte list \<Rightarrow> ('k, unit) prog" where
  "write_fprs K tid fprs k =
    (case k_setfpregs K tid fprs k of
       None \<Rightarrow> (Inl (Send_errno ''Could not write floating point registers''), k)
     | Some k' \<Rightarrow> (Inr (), k'))"

definition write_gprs :: "'k kernel \<Rightarrow> pid \<Rightarrow> byte list \<Rightarrow> ('k, unit) prog" where
  "write_gprs K tid gprs k =
    (case k_setregs K tid gprs k of
       None \<Rightarrow> (Inl (Send_errno ''Could not write general purpose registers''), k)
     | Some k' \<Rightarrow> (Inr (), k'))"

definition user_i387 :: "registers \<Rightarrow> byte list" where
  "user_i387 regs = take i387_size (drop i387_offset (reg_data regs))"

definition user_regs :: "registers \<Rightarrow> byte list" where
  "user_regs regs = take regs_size (reg_data regs)"

text \<open>The state of a register write: the cached registers and the kernel.\<close>

definition registers_commit ::
  "'k kernel \<Rightarrow> register_info \<Rightarrow> (registers \<times> 'k, unit) prog" where
  "registers_commit K info =
    bindS (getS fst) (\<lambda>regs.
      if ri_type info = fpr
      then zoomS snd (\<lambda>k (r, _). (r, k)) (write_fprs K (reg_tid regs) (user_i387 regs))
      else
        let aligned_offset = ri_offset info - ri_offset info mod 8
        in bindS (liftS (user_field regs aligned_offset)) (\<lambda>w.
             zoomS snd (\<lambda>k (r, _). (r, k)) (write_user_area K (reg_tid regs) aligned_offset w)))"

definition registers_write ::
  "'k kernel \<Rightarrow> float_ops \<Rightarrow> register_info \<Rightarrow> reg_value \<Rightarrow> bool \<Rightarrow> (registers \<times> 'k, unit) prog" where
  "registers_write K fo info val commit =
    bindS (getS fst) (\<lambda>regs.
    bindS (liftS (registers_store fo info val regs)) (\<lambda>regs'.
    thenS (modifyS (\<lambda>(_, k). (regs', k)))
      (if commit then registers_commit K info else retS ())))"

definition write_by_id ::
  "'k kernel \<Rightarrow> float_ops \<Rightarrow> register_id \<Rightarrow> reg_value \<Rightarrow> bool \<Rightarrow> (registers \<times> 'k, unit) prog" where
  "write_by_id K fo i val commit =
    bindS (liftS (register_info_by_id i)) (\<lambda>info. registers_write K fo info val commit)"

text \<open>A write to the copy kept for a stack frame, \<open>commit\<close> false.\<close>

definition store_by_id :: "float_ops \<Rightarrow> register_id \<Rightarrow> reg_value \<Rightarrow> registers \<Rightarrow> registers result" where
  "store_by_id fo i val regs =
    bindE (register_info_by_id i) (\<lambda>info. registers_store fo info val regs)"

definition registers_flush :: "'k kernel \<Rightarrow> (registers \<times> 'k, unit) prog" where
  "registers_flush K =
    bindS (getS fst) (\<lambda>regs.
    thenS (zoomS snd (\<lambda>k (r, _). (r, k)) (write_fprs K (reg_tid regs) (user_i387 regs)))
    (thenS (zoomS snd (\<lambda>k (r, _). (r, k)) (write_gprs K (reg_tid regs) (user_regs regs)))
    (bindS (liftS (register_info_by_id id_dr0)) (\<lambda>info.
       forS (\<lambda>i. if i = 4 \<or> i = 5 then retS ()
                 else bindS (liftS (user_field regs (u_debugreg_offset + 8 * i))) (\<lambda>w.
                   zoomS snd (\<lambda>k (r, _). (r, k))
                     (write_user_area K (reg_tid regs) (ri_offset info + 8 * i) w)))
            [0..<8]))))"

section \<open>Reading what was written\<close>

lemma length_splice [simp]: "off + length new \<le> length bs \<Longrightarrow> length (splice off new bs) = length bs"
  by (simp add: splice_def)

lemma drop_splice: "off \<le> length bs \<Longrightarrow> drop off (splice off new bs) = new @ drop (off + length new) bs"
  by (simp add: splice_def)

lemma splice_nth_out:
  assumes "off + length new \<le> length bs" "j < off \<or> off + length new \<le> j"
  shows "splice off new bs ! j = bs ! j"
  using assms by (auto simp: splice_def nth_append)

text \<open>A splice inside a window is undone by splicing the window of the result.\<close>

lemma splice_window:
  assumes "w \<le> off" "off + length new \<le> w + n" "w + n \<le> length bs"
  shows "splice w (take n (drop w (splice off new bs))) bs = splice off new bs"
proof (rule nth_equalityI)
  let ?r = "splice off new bs"
  have len: "length ?r = length bs" using assms by simp
  then show "length (splice w (take n (drop w ?r)) bs) = length ?r" using assms by simp
  fix j assume j: "j < length (splice w (take n (drop w ?r)) bs)"
  show "splice w (take n (drop w ?r)) bs ! j = ?r ! j"
  proof (cases "j < w \<or> w + n \<le> j")
    case True
    then show ?thesis using assms len by (auto simp: splice_nth_out)
  next
    case False
    then show ?thesis
      using assms len by (auto simp: splice_def [of w] nth_append)
  qed
qed

lemma register_store_eq:
  assumes "register_info_ok info" "length (reg_data regs) = user_size" "value_size val \<le> ri_size info"
  shows "registers_store fo info val regs =
    Inr (regs\<lparr>reg_data :=
      splice (ri_offset info) (take (ri_size info) (widen fo info val)) (reg_data regs)\<rparr>)"
  using assms by (auto simp: registers_store_def register_info_ok_def split: register_format.splits)

lemma length_widen: "length (widen fo info val) = 16"
  by (cases val) (simp_all add: widen_float_def widen_signed_def)

text \<open>The exact type the register is read as.\<close>

fun value_matches :: "register_info \<Rightarrow> reg_value \<Rightarrow> bool" where
  "value_matches info (V_u8 _) = (ri_format info = fmt_uint \<and> ri_size info = 1)"
| "value_matches info (V_u16 _) = (ri_format info = fmt_uint \<and> ri_size info = 2)"
| "value_matches info (V_u32 _) = (ri_format info = fmt_uint \<and> ri_size info = 4)"
| "value_matches info (V_u64 _) = (ri_format info = fmt_uint \<and> ri_size info = 8)"
| "value_matches info (V_long_double _) = (ri_format info = fmt_long_double)"
| "value_matches info (V_byte64 _) = (ri_format info = fmt_vector \<and> ri_size info = 8)"
| "value_matches info (V_byte128 _) = (ri_format info = fmt_vector \<and> ri_size info = 16)"
| "value_matches info _ = False"

lemma user_field_splice:
  assumes "off + length new \<le> length (reg_data regs)" "length new = LENGTH('a) div 8"
    and "LENGTH('a) = 8 * (LENGTH('a) div 8)"
  shows "user_field (regs\<lparr>reg_data := splice off new (reg_data regs)\<rparr>) off = Inr (from_bytes new :: 'a::len word)"
  using assms by (simp add: user_field_def drop_splice from_bytes_def)

lemma take_to_byte128:
  "LENGTH('a) div 8 \<le> 16 \<Longrightarrow> n = LENGTH('a) div 8 \<Longrightarrow> take n (to_byte128 (w :: 'a::len word)) = as_bytes w"
  by (simp add: to_byte128_def)

lemma from_as_bytes_exact:
  "LENGTH('a) = 8 * (LENGTH('a) div 8) \<Longrightarrow> from_bytes (as_bytes (w :: 'a::len word)) = w"
  using from_as_bytes [of w "[]"] by simp

lemma take_1_to_byte128 [simp]: "take 1 (to_byte128 (w :: byte)) = as_bytes w"
  "take (Suc 0) (to_byte128 (w :: byte)) = as_bytes w"
  by (simp_all add: to_byte128_def)

lemma to_byte128_full [simp]: "to_byte128 (w :: u128) = as_bytes w"
  by (simp add: to_byte128_def)

lemma registers_read_back:
  assumes ok: "register_info_ok info" and len: "length (reg_data regs) = user_size"
    and m: "value_matches info val"
    and def: "is_undefined regs (ri_id info) = Inr False"
  shows "\<exists>regs'. registers_store fo info val regs = Inr regs' \<and> registers_read regs' info = Inr val"
proof -
  have sz: "value_size val \<le> ri_size info" and bnd: "ri_offset info + ri_size info \<le> length (reg_data regs)"
    using ok m len by (cases val; auto simp: register_info_ok_def)+
  have un: "is_undefined (regs\<lparr>reg_data := x\<rparr>) (ri_id info) = Inr False" for x
    using def by (simp add: is_undefined_def)
  note st = register_store_eq [OF ok len sz, of fo]
  have "registers_read (regs\<lparr>reg_data := splice (ri_offset info) (take (ri_size info) (widen fo info val))
      (reg_data regs)\<rparr>) info = Inr val"
    using m ok bnd
    by (cases val)
      (simp_all add: registers_read_def un reg_map_def user_field_splice take_to_byte128
        from_as_bytes_exact register_info_ok_def widen_float_def)
  with st show ?thesis by blast
qed

lemma registers_store_frame:
  assumes "register_info_ok info" "length (reg_data regs) = user_size"
    and "registers_store fo info val regs = Inr regs'"
  shows "length (reg_data regs') = user_size \<and> reg_undefined regs' = reg_undefined regs \<and>
    (\<forall>j. j < ri_offset info \<or> ri_offset info + ri_size info \<le> j \<longrightarrow>
       reg_data regs' ! j = reg_data regs ! j)"
  using assms
  by (auto simp: registers_store_def register_info_ok_def length_widen splice_nth_out split: if_splits)

section \<open>The cache and the thread\<close>

text \<open>
  The documented effect of the register requests on the user area of a thread: where they
  succeed, they replace the bytes they are given.
\<close>

definition user_kernel :: "'k kernel \<Rightarrow> pid \<Rightarrow> ('k \<Rightarrow> byte list) \<Rightarrow> bool" where
  "user_kernel K tid area \<longleftrightarrow>
    (\<forall>k k' off w. k_pokeuser K tid off w k = Some k' \<longrightarrow> off mod 8 = 0 \<longrightarrow> off + 8 \<le> user_size \<longrightarrow>
       area k' = splice off (as_bytes w) (area k)) \<and>
    (\<forall>k k' bs. k_setfpregs K tid bs k = Some k' \<longrightarrow> length bs = i387_size \<longrightarrow>
       area k' = splice i387_offset bs (area k)) \<and>
    (\<forall>k k' bs. k_setregs K tid bs k = Some k' \<longrightarrow> length bs = regs_size \<longrightarrow>
       area k' = splice 0 bs (area k))"

lemma aligned_window:
  assumes "register_info_ok info" "ri_type info \<noteq> fpr"
  shows "ri_offset info - ri_offset info mod 8 \<le> ri_offset info"
    and "ri_offset info + ri_size info \<le> (ri_offset info - ri_offset info mod 8) + 8"
    and "(ri_offset info - ri_offset info mod 8) + 8 \<le> user_size"
    and "(ri_offset info - ri_offset info mod 8) mod 8 = 0"
proof -
  have w: "ri_offset info mod 8 + ri_size info \<le> 8" "ri_offset info + ri_size info \<le> user_size"
    using assms by (auto simp: register_info_ok_def split: register_type.splits)
  have d: "ri_offset info = 8 * (ri_offset info div 8) + ri_offset info mod 8" by simp
  then have a: "ri_offset info - ri_offset info mod 8 = 8 * (ri_offset info div 8)" by linarith
  show "ri_offset info - ri_offset info mod 8 \<le> ri_offset info" by simp
  show "ri_offset info + ri_size info \<le> (ri_offset info - ri_offset info mod 8) + 8"
    using w(1) d a by linarith
  show "(ri_offset info - ri_offset info mod 8) mod 8 = 0" using a by simp
  have "0 < ri_size info" using assms(1) by (simp add: register_info_ok_def)
  then have "8 * (ri_offset info div 8) < user_size" using w(2) d by linarith
  then have "8 * (ri_offset info div 8) < 8 * 114" by (simp add: user_size_def)
  then have "ri_offset info div 8 < 114" by simp
  then show "(ri_offset info - ri_offset info mod 8) + 8 \<le> user_size"
    unfolding a by (simp add: user_size_def)
qed

lemma fpr_window:
  assumes "register_info_ok info" "ri_type info = fpr"
  shows "i387_offset \<le> ri_offset info" "ri_offset info + ri_size info \<le> i387_offset + i387_size"
    "i387_offset + i387_size \<le> user_size"
  using assms by (auto simp: register_info_ok_def i387_offset_def i387_size_def user_size_def)

lemma registers_write_coherent:
  assumes ok: "register_info_ok info" and len: "length (reg_data regs) = user_size"
    and K: "user_kernel K (reg_tid regs) area" and same: "area k = reg_data regs"
    and w: "registers_write K fo info val True (regs, k) = (Inr (), (regs', k'))"
  shows "area k' = reg_data regs' \<and> length (reg_data regs') = user_size"
proof -
  let ?new = "take (ri_size info) (widen fo info val)"
  from w obtain r where r: "registers_store fo info val regs = Inr r"
    by (cases "registers_store fo info val regs") (auto simp: registers_write_def)
  then have sz: "value_size val \<le> ri_size info" "ri_size info \<le> 16"
    by (auto simp: registers_store_def split: if_splits)
  have rr: "reg_data r = splice (ri_offset info) ?new (reg_data regs)" "reg_tid r = reg_tid regs"
    using r register_store_eq [OF ok len sz(1), of fo] by auto
  have ln: "length ?new = ri_size info" using sz by (simp add: length_widen)
  have bnd: "ri_offset info + ri_size info \<le> user_size" using ok by (simp add: register_info_ok_def)
  have lr: "length (reg_data r) = user_size" using rr ln bnd len by simp
  have c: "registers_commit K info (r, k) = (Inr (), (regs', k'))"
    using w r by (simp add: registers_write_def)
  show ?thesis
  proof (cases "ri_type info = fpr")
    case True
    note win = fpr_window [OF ok True]
    from c True have "k_setfpregs K (reg_tid regs) (user_i387 r) k = Some k'" "regs' = r"
      using rr(2) by (auto simp: registers_commit_def zoomS_def write_fprs_def split: option.splits)
    moreover have "length (user_i387 r) = i387_size" using lr win by (simp add: user_i387_def)
    ultimately have "area k' = splice i387_offset (user_i387 r) (area k)"
      using K by (auto simp: user_kernel_def)
    also have "\<dots> = reg_data r"
      unfolding user_i387_def rr(1) same using win ln len
      by (intro splice_window) auto
    finally show ?thesis using \<open>regs' = r\<close> lr by simp
  next
    case False
    note win = aligned_window [OF ok False]
    let ?a = "ri_offset info - ri_offset info mod 8"
    have uf: "user_field r ?a = Inr (from_bytes (drop ?a (reg_data r)) :: u64)"
      using win(3) lr by (simp add: user_field_def)
    from c False uf have
      "k_pokeuser K (reg_tid regs) ?a (from_bytes (drop ?a (reg_data r))) k = Some k'" "regs' = r"
      using rr(2) by (auto simp: registers_commit_def zoomS_def write_user_area_def Let_def split: option.splits)
    then have "area k' = splice ?a (as_bytes (from_bytes (drop ?a (reg_data r)) :: u64)) (area k)"
      using K win by (auto simp: user_kernel_def)
    also have "as_bytes (from_bytes (drop ?a (reg_data r)) :: u64) = take 8 (drop ?a (reg_data r))"
    proof -
      have "(from_bytes (drop ?a (reg_data r)) :: u64) = from_bytes (take 8 (drop ?a (reg_data r)))"
        by (simp add: from_bytes_def)
      then show ?thesis using u64_rep.encode_decode [of "take 8 (drop ?a (reg_data r))"] win(3) lr by simp
    qed
    also have "splice ?a (take 8 (drop ?a (reg_data r))) (area k) = reg_data r"
      unfolding rr(1) same using win ln len by (intro splice_window) auto
    finally show ?thesis using \<open>regs' = r\<close> lr by simp
  qed
qed

section \<open>Properties\<close>



text \<open>
  C26. Committed writes keep the cache and the traced thread equal: where the cached registers were
  the bytes of the thread's user area, a successful committed write of any register of the table,
  the unaligned high-byte ones and the floating-point ones included, leaves them equal again.
\<close>

theorem register_commit_coherent:
  assumes "i < length g_register_infos" "info = g_register_infos ! i"
    and "length (reg_data regs) = user_size"
    and "user_kernel K (reg_tid regs) area" "area k = reg_data regs"
    and "registers_write K fo info val True (regs, k) = (Inr (), (regs', k'))"
  shows "area k' = reg_data regs' \<and> length (reg_data regs') = user_size"
  using registers_write_coherent [OF _ assms(3-6)] assms(1,2) g_nth_ok [of i] by (simp add: g_length)

text \<open>A kernel whose state is the user area of one thread.\<close>

definition area_kernel :: "byte list kernel" where
  "area_kernel =
    \<lparr>k_peekdata = \<lambda>_ _ _. None, k_pokedata = \<lambda>_ _ _ _. None, k_vm_readv = \<lambda>_ _ _ _. None,
     k_peekuser = \<lambda>_ off k. Some (from_bytes (drop off k)),
     k_pokeuser = \<lambda>_ off w k. Some (splice off (as_bytes w) k),
     k_getregs = \<lambda>_ k. Some (take regs_size k),
     k_setregs = \<lambda>_ bs k. Some (splice 0 bs k),
     k_getfpregs = \<lambda>_ k. Some (take i387_size (drop i387_offset k)),
     k_setfpregs = \<lambda>_ bs k. Some (splice i387_offset bs k),
     k_getsiginfo = \<lambda>_ _. None, k_singlestep = \<lambda>_ k. Some k, k_cont = \<lambda>_ k. Some k,
     k_syscall = \<lambda>_ k. Some k, k_waitpid = \<lambda>_ _ k. (None, k), k_tgkill = \<lambda>_ _ _ k. k\<rparr>"

lemma area_kernel_user: "user_kernel area_kernel tid (\<lambda>k. k)"
  by (simp add: user_kernel_def area_kernel_def)

theorem register_commit_coherent_witness:
  "\<forall>fo. \<exists>regs' k'. registers_write area_kernel fo (g_register_infos ! 57) (V_u8 0x7f) True
       (new_registers 7, reg_data (new_registers 7)) = (Inr (), (regs', k')) \<and>
     k' = reg_data regs' \<and> length (reg_data regs') = user_size"
proof
  fix fo
  let ?info = "g_register_infos ! 57" and ?r = "new_registers 7"
  have ok: "register_info_ok ?info" by (simp add: g_nth_ok)
  have v: "value_size (V_u8 0x7f) \<le> ri_size ?info" "ri_type ?info \<noteq> fpr" by code_simp+
  have len: "length (reg_data ?r) = user_size" by (simp add: new_registers_def)
  let ?r' = "?r\<lparr>reg_data := splice (ri_offset ?info) (take (ri_size ?info) (widen fo ?info (V_u8 0x7f))) (reg_data ?r)\<rparr>"
  have st: "registers_store fo ?info (V_u8 0x7f) ?r = Inr ?r'"
    by (rule register_store_eq [OF ok len v(1)])
  have l': "length (reg_data ?r') = user_size"
    using registers_store_frame [OF ok len st] by simp
  have "\<exists>k'. registers_write area_kernel fo ?info (V_u8 0x7f) True (?r, reg_data ?r) = (Inr (), (?r', k'))"
    using aligned_window(3) [OF ok v(2)] l' v(2)
    by (simp add: registers_write_def st registers_commit_def user_field_def zoomS_def
        write_user_area_def area_kernel_def Let_def)
  then obtain k' where w: "registers_write area_kernel fo ?info (V_u8 0x7f) True (?r, reg_data ?r) = (Inr (), (?r', k'))"
    by blast
  have "57 < length g_register_infos" by (simp add: g_length)
  from register_commit_coherent [OF this refl len area_kernel_user refl w] w
  show "\<exists>regs' k'. registers_write area_kernel fo ?info (V_u8 0x7f) True (?r, reg_data ?r) =
      (Inr (), (regs', k')) \<and> k' = reg_data regs' \<and> length (reg_data regs') = user_size"
    by blast
qed

end
