(* ===== verification/Stoppoint_Collection.thy ===== *)
theory Stoppoint_Collection
  imports Addresses
begin

text \<open>
  \<open>include/libgsdb/stoppoint_collection.hpp\<close>: the template that holds breakpoint sites, watchpoints and
  breakpoints. The template parameter is the functions it calls on a stop point: its identifier,
  \<open>at_address\<close>, \<open>is_enabled\<close>, \<open>in_range\<close> and \<open>disable\<close>. The locale states what the
  concept promises of them, and what the collection then guarantees.
\<close>

section \<open>Operations\<close>

definition sc_push :: "'s \<Rightarrow> 's list \<Rightarrow> 's list" where
  "sc_push s xs = xs @ [s]"

definition sc_find_by_id :: "('s \<Rightarrow> int) \<Rightarrow> int \<Rightarrow> 's list \<Rightarrow> 's option" where
  "sc_find_by_id id_of i xs = List.find (\<lambda>s. id_of s = i) xs"

definition sc_find_by_address :: "('s \<Rightarrow> virt_addr \<Rightarrow> bool) \<Rightarrow> virt_addr \<Rightarrow> 's list \<Rightarrow> 's option" where
  "sc_find_by_address at_address a xs = List.find (\<lambda>s. at_address s a) xs"

definition sc_contains_id :: "('s \<Rightarrow> int) \<Rightarrow> int \<Rightarrow> 's list \<Rightarrow> bool" where
  "sc_contains_id id_of i xs \<longleftrightarrow> sc_find_by_id id_of i xs \<noteq> None"

definition sc_contains_address :: "('s \<Rightarrow> virt_addr \<Rightarrow> bool) \<Rightarrow> virt_addr \<Rightarrow> 's list \<Rightarrow> bool" where
  "sc_contains_address at_address a xs \<longleftrightarrow> sc_find_by_address at_address a xs \<noteq> None"

definition sc_get_by_id :: "('s \<Rightarrow> int) \<Rightarrow> int \<Rightarrow> 's list \<Rightarrow> 's result" where
  "sc_get_by_id id_of i xs = the_opt (Send ''Invalid stoppoint ID!'') (sc_find_by_id id_of i xs)"

definition sc_get_by_address :: "('s \<Rightarrow> virt_addr \<Rightarrow> bool) \<Rightarrow> virt_addr \<Rightarrow> 's list \<Rightarrow> 's result" where
  "sc_get_by_address at_address a xs =
    the_opt (Send ''Stoppoint with given address not found!'') (sc_find_by_address at_address a xs)"

definition sc_enabled_stoppoint_at_address ::
  "('s \<Rightarrow> virt_addr \<Rightarrow> bool) \<Rightarrow> ('s \<Rightarrow> bool) \<Rightarrow> virt_addr \<Rightarrow> 's list \<Rightarrow> bool" where
  "sc_enabled_stoppoint_at_address at_address is_enabled a xs \<longleftrightarrow>
    (case sc_find_by_address at_address a xs of None \<Rightarrow> False | Some s \<Rightarrow> is_enabled s)"

definition sc_get_in_region :: "('s \<Rightarrow> virt_addr \<Rightarrow> virt_addr \<Rightarrow> bool) \<Rightarrow> virt_addr \<Rightarrow> virt_addr \<Rightarrow> 's list \<Rightarrow> 's list" where
  "sc_get_in_region in_range low high xs = filter (\<lambda>s. in_range s low high) xs"

text \<open>Erasing the element an iterator points to.\<close>

fun sc_erase :: "('s \<Rightarrow> bool) \<Rightarrow> 's list \<Rightarrow> 's list" where
  "sc_erase P [] = []"
| "sc_erase P (s # xs) = (if P s then xs else s # sc_erase P xs)"

text \<open>Writing a changed element back to its place: the first one that satisfies the predicate.\<close>

fun sc_replace :: "('s \<Rightarrow> bool) \<Rightarrow> 's \<Rightarrow> 's list \<Rightarrow> 's list" where
  "sc_replace P s' [] = []"
| "sc_replace P s' (s # xs) = (if P s then s' # xs else s # sc_replace P s' xs)"

section \<open>The contract of a stop point\<close>

locale stoppoint =
  fixes id_of :: "'s \<Rightarrow> int"
    and address_of :: "'s \<Rightarrow> virt_addr"
    and at_address :: "'s \<Rightarrow> virt_addr \<Rightarrow> bool"
    and in_range :: "'s \<Rightarrow> virt_addr \<Rightarrow> virt_addr \<Rightarrow> bool"
  assumes at_address_iff: "at_address s a \<longleftrightarrow> address_of s = a"
    and in_range_iff: "in_range s low high \<longleftrightarrow> low \<le> address_of s \<and> address_of s < high"
begin

lemma contains_address_iff: "sc_contains_address at_address a xs \<longleftrightarrow> a \<in> address_of ` set xs"
  by (auto simp: sc_contains_address_def sc_find_by_address_def at_address_iff find_None_iff image_iff)

lemma get_by_address_push:
  "\<not> sc_contains_address at_address (address_of s) xs \<Longrightarrow>
     sc_get_by_address at_address (address_of s) (sc_push s xs) = Inr s"
  unfolding sc_get_by_address_def sc_find_by_address_def sc_push_def contains_address_iff
  by (subst find_append_skip) (auto simp: at_address_iff image_iff)

lemma push_keeps_others:
  "address_of s \<noteq> a \<Longrightarrow>
     sc_get_by_address at_address a (sc_push s xs) = sc_get_by_address at_address a xs"
proof -
  assume "address_of s \<noteq> a"
  then have "List.find (\<lambda>s. at_address s a) (xs @ [s]) = List.find (\<lambda>s. at_address s a) xs"
    by (induction xs) (auto simp: at_address_iff)
  then show ?thesis by (simp add: sc_get_by_address_def sc_find_by_address_def sc_push_def)
qed

lemma push_distinct:
  "distinct (map address_of xs) \<Longrightarrow> \<not> sc_contains_address at_address (address_of s) xs \<Longrightarrow>
     distinct (map address_of (sc_push s xs))"
  by (auto simp: sc_push_def contains_address_iff)

lemma erase_at:
  "distinct (map address_of xs) \<Longrightarrow> set (sc_erase (\<lambda>s. at_address s a) xs) = {s \<in> set xs. address_of s \<noteq> a}"
  by (induction xs) (auto simp: at_address_iff image_iff)

lemma erase_distinct:
  "distinct (map address_of xs) \<Longrightarrow> distinct (map address_of (sc_erase P xs))"
proof (induction xs)
  case (Cons s xs)
  have "set (sc_erase P xs) \<subseteq> set xs" by (induction xs) auto
  then show ?case using Cons by auto
qed simp

lemma replace_addresses:
  "(\<And>s. P s \<Longrightarrow> address_of s' = address_of s) \<Longrightarrow> map address_of (sc_replace P s' xs) = map address_of xs"
  by (induction xs) auto

lemma in_region_iff:
  "s \<in> set (sc_get_in_region in_range low high xs) \<longleftrightarrow> s \<in> set xs \<and> low \<le> address_of s \<and> address_of s < high"
  by (auto simp: sc_get_in_region_def in_range_iff)

lemma get_by_address_unique:
  "distinct (map address_of xs) \<Longrightarrow> s \<in> set xs \<Longrightarrow> sc_get_by_address at_address (address_of s) xs = Inr s"
  using find_distinct_key [of address_of "\<lambda>_. True" xs s]
  by (simp add: sc_get_by_address_def sc_find_by_address_def at_address_iff)

lemma get_by_address_Inr:
  "sc_get_by_address at_address a xs = Inr s \<Longrightarrow> s \<in> set xs \<and> address_of s = a"
  by (auto simp: sc_get_by_address_def sc_find_by_address_def at_address_iff result_simps find_Some_iff)

lemma replace_set:
  assumes "distinct (map address_of xs)" "s \<in> set xs" "address_of s' = address_of s"
  shows "set (sc_replace (\<lambda>x. at_address x (address_of s)) s' xs) = insert s' (set xs - {s})"
  using assms by (induction xs) (auto simp: at_address_iff image_iff)

end

end
