(* ===== verification/Process_State.thy ===== *)
theory Process_State
  imports Process_Memory Registers Stoppoint_Collection
begin

text \<open>
  The state of \<open>gsdb::process\<close> (\<open>include/libgsdb/process.hpp\<close>): the traced threads with their
  cached registers, the breakpoint sites and watchpoints, the system call policy, together with
  the state of the kernel. The target behind \<open>target_\<close> is a type parameter, since the process only
  passes it notifications. Hash maps are association lists, traversed in their order.
\<close>

section \<open>Stop reasons\<close>

datatype process_state = stopped | running | exited | terminated

datatype trap_type = single_step | software_break | hardware_break | syscall | clone | unknown

text \<open>The union of the arguments of a system call and its result.\<close>

datatype syscall_data = syscall_args "u64 list" | syscall_ret u64

record syscall_information =
  si_id :: u16
  si_entry :: bool
  si_data :: syscall_data

record stop_reason =
  sr_reason :: process_state
  sr_info :: byte
  sr_trap :: "trap_type option"
  sr_syscall :: "syscall_information option"
  sr_tid :: pid

definition SIGTRAP :: byte where "SIGTRAP = 5"

definition SIGSTOP :: byte where "SIGSTOP = 19"

text \<open>The wait status macros of the system.\<close>

definition WIFEXITED :: "u32 \<Rightarrow> bool" where
  "WIFEXITED status \<longleftrightarrow> status AND 0x7f = 0"

definition WEXITSTATUS :: "u32 \<Rightarrow> byte" where
  "WEXITSTATUS status = ucast (drop_bit 8 (status AND 0xff00))"

definition WIFSIGNALED :: "u32 \<Rightarrow> bool" where
  "WIFSIGNALED status \<longleftrightarrow> status AND 0x7f \<noteq> 0 \<and> status AND 0x7f \<noteq> 0x7f"

definition WTERMSIG :: "u32 \<Rightarrow> byte" where
  "WTERMSIG status = ucast (status AND 0x7f)"

definition WIFSTOPPED :: "u32 \<Rightarrow> bool" where
  "WIFSTOPPED status \<longleftrightarrow> status AND 0xff = 0x7f"

definition empty_stop_reason :: stop_reason where
  "empty_stop_reason = \<lparr>sr_reason = stopped, sr_info = 0, sr_trap = None, sr_syscall = None, sr_tid = 0\<rparr>"

definition stop_reason_of :: "pid \<Rightarrow> u32 \<Rightarrow> stop_reason result" where
  "stop_reason_of tid wait_status =
    (let trap = (if signed_drop_bit 8 wait_status = 5 OR push_bit 8 3 then Some clone else None);
         mk = (\<lambda>reason info. Inr \<lparr>sr_reason = reason, sr_info = info, sr_trap = trap,
                                   sr_syscall = None, sr_tid = tid\<rparr>)
     in if WIFEXITED wait_status then mk exited (WEXITSTATUS wait_status)
        else if WIFSIGNALED wait_status then mk terminated (WTERMSIG wait_status)
        else if WIFSTOPPED wait_status then mk stopped (WEXITSTATUS wait_status)
        else Inl (Undefined ''uninitialised stop reason''))"

definition is_step :: "stop_reason \<Rightarrow> bool" where
  "is_step r \<longleftrightarrow> sr_reason r = stopped \<and> sr_info r = SIGTRAP \<and> sr_trap r = Some single_step"

definition is_breakpoint :: "stop_reason \<Rightarrow> bool" where
  "is_breakpoint r \<longleftrightarrow> sr_reason r = stopped \<and> sr_info r = SIGTRAP \<and>
    (sr_trap r = Some software_break \<or> sr_trap r = Some hardware_break)"

section \<open>Threads, stop points and the process\<close>

record thread_state =
  ts_tid :: pid
  ts_regs :: registers
  ts_reason :: stop_reason
  ts_state :: process_state
  ts_pending_sigstop :: bool

definition new_thread :: "pid \<Rightarrow> thread_state" where
  "new_thread tid = \<lparr>ts_tid = tid, ts_regs = new_registers tid, ts_reason = empty_stop_reason,
     ts_state = stopped, ts_pending_sigstop = False\<rparr>"

record breakpoint_site =
  bs_parent :: "nat option"
  bs_id :: int
  bs_address :: virt_addr
  bs_enabled :: bool
  bs_saved :: byte
  bs_hardware :: bool
  bs_internal :: bool
  bs_hw_index :: int

record watchpoint =
  wp_id :: int
  wp_address :: virt_addr
  wp_enabled :: bool
  wp_mode :: stoppoint_mode
  wp_size :: nat
  wp_hw_index :: int
  wp_data :: u64
  wp_previous :: u64

datatype syscall_catch_policy = catch_none | catch_some "int list" | catch_all

text \<open>The identifier counters are the static locals of the two \<open>get_next_id\<close>.\<close>

record ('k, 't) process =
  p_kernel :: 'k
  p_pid :: pid
  p_terminate_on_end :: bool
  p_state :: process_state
  p_attached :: bool
  p_sites :: "breakpoint_site list"
  p_watchpoints :: "watchpoint list"
  p_catch :: syscall_catch_policy
  p_expecting_exit :: bool
  p_threads :: "(pid \<times> thread_state) list"
  p_current :: pid
  p_site_id :: int
  p_watch_id :: int
  p_target :: "'t option"

definition site_at :: "breakpoint_site \<Rightarrow> virt_addr \<Rightarrow> bool" where
  "site_at s a \<longleftrightarrow> bs_address s = a"

definition site_in_range :: "breakpoint_site \<Rightarrow> virt_addr \<Rightarrow> virt_addr \<Rightarrow> bool" where
  "site_in_range s low high \<longleftrightarrow> bs_address s \<ge> low \<and> high > bs_address s"

definition watchpoint_at :: "watchpoint \<Rightarrow> virt_addr \<Rightarrow> bool" where
  "watchpoint_at w a \<longleftrightarrow> wp_address w = a"

definition watchpoint_in_range :: "watchpoint \<Rightarrow> virt_addr \<Rightarrow> virt_addr \<Rightarrow> bool" where
  "watchpoint_in_range w low high \<longleftrightarrow> wp_address w \<ge> low \<and> high > wp_address w"

interpretation site: stoppoint bs_id bs_address site_at site_in_range
  by unfold_locales (auto simp: site_at_def site_in_range_def)

interpretation watch: stoppoint wp_id wp_address watchpoint_at watchpoint_in_range
  by unfold_locales (auto simp: watchpoint_at_def watchpoint_in_range_def)

section \<open>The registers of a thread\<close>

type_synonym ('k, 't, 'a) process_op = "(('k, 't) process, 'a) prog"

definition no_thread :: gsdb_error where
  "no_thread = Std_exception ''out_of_range''"

definition update_thread :: "pid \<Rightarrow> (thread_state \<Rightarrow> thread_state) \<Rightarrow> ('k, 't) process \<Rightarrow> ('k, 't) process" where
  "update_thread tid f p =
    p\<lparr>p_threads := map (\<lambda>(i, t). if i = tid then (i, f t) else (i, t)) (p_threads p)\<rparr>"

definition get_thread :: "pid \<Rightarrow> ('k, 't, thread_state) process_op" where
  "get_thread tid p = (the_opt no_thread (map_of (p_threads p) tid), p)"

definition get_registers :: "pid option \<Rightarrow> ('k, 't) process \<Rightarrow> registers result" where
  "get_registers otid p =
    (let tid = (case otid of None \<Rightarrow> p_current p | Some t \<Rightarrow> t)
     in bindE (the_opt no_thread (map_of (p_threads p) tid)) (\<lambda>t. Inr (ts_regs t)))"

text \<open>An operation on the registers of a thread, which may reach the kernel.\<close>

definition on_registers :: "pid \<Rightarrow> (registers \<times> 'k, 'a) prog \<Rightarrow> ('k, 't, 'a) process_op" where
  "on_registers tid m p =
    (case map_of (p_threads p) tid of
       None \<Rightarrow> (Inl no_thread, p)
     | Some t \<Rightarrow>
        (case m (ts_regs t, p_kernel p) of
           (r, (regs, k)) \<Rightarrow> (r, (update_thread tid (\<lambda>t. t\<lparr>ts_regs := regs\<rparr>) p)\<lparr>p_kernel := k\<rparr>)))"

definition read_register :: "pid option \<Rightarrow> register_id \<Rightarrow> ('k, 't, u64) process_op" where
  "read_register otid i p = (bindE (get_registers otid p) (\<lambda>regs. read_by_id_as_u64 regs i), p)"

definition get_pc :: "pid option \<Rightarrow> ('k, 't, virt_addr) process_op" where
  "get_pc otid = read_register otid id_rip"

definition set_pc :: "'k kernel \<Rightarrow> float_ops \<Rightarrow> virt_addr \<Rightarrow> pid option \<Rightarrow> ('k, 't, unit) process_op" where
  "set_pc K fo a otid =
    bindS (getS (\<lambda>p. case otid of None \<Rightarrow> p_current p | Some t \<Rightarrow> t)) (\<lambda>tid.
      on_registers tid (write_by_id K fo id_rip (V_u64 a) True))"

text \<open>A request to the kernel whose failure is an exception.\<close>

definition request :: "string \<Rightarrow> ('k \<Rightarrow> 'k option) \<Rightarrow> ('k, 't, unit) process_op" where
  "request msg f p =
    (case f (p_kernel p) of
       None \<Rightarrow> (Inl (Send_errno msg), p)
     | Some k \<Rightarrow> (Inr (), p\<lparr>p_kernel := k\<rparr>))"

definition query :: "('k \<Rightarrow> 'a result) \<Rightarrow> ('k, 't, 'a) process_op" where
  "query f p = (f (p_kernel p), p)"

section \<open>Facts\<close>

lemma update_thread_simps [simp]:
  "p_kernel (update_thread tid f p) = p_kernel p" "p_pid (update_thread tid f p) = p_pid p"
  "p_sites (update_thread tid f p) = p_sites p" "p_current (update_thread tid f p) = p_current p"
  "p_watchpoints (update_thread tid f p) = p_watchpoints p" "p_attached (update_thread tid f p) = p_attached p"
  "p_state (update_thread tid f p) = p_state p" "p_target (update_thread tid f p) = p_target p"
  "p_catch (update_thread tid f p) = p_catch p" "p_expecting_exit (update_thread tid f p) = p_expecting_exit p"
  by (simp_all add: update_thread_def)

lemma update_thread_fst [simp]: "map fst (p_threads (update_thread tid f p)) = map fst (p_threads p)"
  by (auto simp: update_thread_def comp_def split_def)

lemma update_thread_lookup:
  "map_of (p_threads (update_thread tid f p)) x =
     (if x = tid then map_option f (map_of (p_threads p) x) else map_of (p_threads p) x)"
proof -
  have "map_of (map (\<lambda>(i, t). if i = tid then (i, f t) else (i, t)) xs) x =
      (if x = tid then map_option f (map_of xs x) else map_of xs x)" for xs
    by (induction xs) auto
  then show ?thesis by (simp add: update_thread_def)
qed

end
