(* ===== verification/Prog_Logic.thy ===== *)
theory Prog_Logic
  imports Gsdb_Prelude
begin

text \<open>
  Rules for programs on mutable state. \<open>keepsS I m\<close>: the program leaves the invariant true, also
  when it throws; \<open>okS P m Q\<close>: from a state with \<open>P\<close> the program returns, and \<open>Q\<close> holds of the
  result and of the state it leaves; \<open>postS P m Q\<close>: the same when it returns.
\<close>

definition keepsS :: "('s \<Rightarrow> bool) \<Rightarrow> ('s, 'a) prog \<Rightarrow> bool" where
  "keepsS I m \<longleftrightarrow> (\<forall>s. I s \<longrightarrow> I (snd (m s)))"

definition okS :: "('s \<Rightarrow> bool) \<Rightarrow> ('s, 'a) prog \<Rightarrow> ('a \<Rightarrow> 's \<Rightarrow> bool) \<Rightarrow> bool" where
  "okS P m Q \<longleftrightarrow> (\<forall>s. P s \<longrightarrow> (\<exists>x s'. m s = (Inr x, s') \<and> Q x s'))"

definition postS :: "('s \<Rightarrow> bool) \<Rightarrow> ('s, 'a) prog \<Rightarrow> ('a \<Rightarrow> 's \<Rightarrow> bool) \<Rightarrow> bool" where
  "postS P m Q \<longleftrightarrow> (\<forall>s x s'. P s \<longrightarrow> m s = (Inr x, s') \<longrightarrow> Q x s')"

named_theorems keeps_intros \<open>composition rules for invariants of programs\<close>

named_theorems ok_intros \<open>composition rules for programs that return\<close>

lemma keepsS_D: "keepsS I m \<Longrightarrow> m s = (r, s') \<Longrightarrow> I s \<Longrightarrow> I s'"
  by (metis keepsS_def snd_conv)

lemma keepsS_pure [keeps_intros]:
  "keepsS I (retS x)" "keepsS I (throwS e)" "keepsS I (liftS r)" "keepsS I (getS f)"
  by (simp_all add: keepsS_def)

lemma keepsS_bind [keeps_intros]:
  "keepsS I m \<Longrightarrow> (\<And>x. keepsS I (f x)) \<Longrightarrow> keepsS I (bindS m f)"
  unfolding keepsS_def bindS_def by (auto split: prod.splits sum.splits)

lemma keepsS_then [keeps_intros]: "keepsS I m \<Longrightarrow> keepsS I k \<Longrightarrow> keepsS I (thenS m k)"
  by (simp add: thenS_def keepsS_bind)

lemma keepsS_modify: "(\<And>s. I s \<Longrightarrow> I (f s)) \<Longrightarrow> keepsS I (modifyS f)"
  by (simp add: keepsS_def)

lemma keepsS_for [keeps_intros]: "(\<And>x. x \<in> set xs \<Longrightarrow> keepsS I (f x)) \<Longrightarrow> keepsS I (forS f xs)"
  by (induction xs) (auto intro: keepsS_then keepsS_pure)

lemma keepsS_catch [keeps_intros]:
  "keepsS I m \<Longrightarrow> (\<And>e. keepsS I (h e)) \<Longrightarrow> keepsS I (catchS m h)"
  unfolding keepsS_def catchS_def by (auto split: prod.splits sum.splits)

lemma keepsS_if [keeps_intros]: "(b \<Longrightarrow> keepsS I m) \<Longrightarrow> (\<not> b \<Longrightarrow> keepsS I k) \<Longrightarrow> keepsS I (if b then m else k)"
  by simp

lemma keepsS_option [keeps_intros]:
  "keepsS I m \<Longrightarrow> (\<And>x. keepsS I (f x)) \<Longrightarrow> keepsS I (case v of None \<Rightarrow> m | Some x \<Rightarrow> f x)"
  by (cases v) auto

lemma keepsS_let [keeps_intros]: "(\<And>x. keepsS I (f x)) \<Longrightarrow> keepsS I (let x = v in f x)"
  by simp

lemma okS_bind: "okS P m Q \<Longrightarrow> (\<And>x. okS (Q x) (f x) R) \<Longrightarrow> okS P (bindS m f) R"
  unfolding okS_def by (metis bindS_run)

lemma okS_then: "okS P m (\<lambda>_. Q) \<Longrightarrow> okS Q k R \<Longrightarrow> okS P (thenS m k) R"
  unfolding okS_def by (metis thenS_run)

lemma okS_pre: "okS P m Q \<Longrightarrow> (\<And>s. P' s \<Longrightarrow> P s) \<Longrightarrow> okS P' m Q"
  by (auto simp: okS_def)

lemma okS_post: "okS P m Q \<Longrightarrow> (\<And>x s. Q x s \<Longrightarrow> Q' x s) \<Longrightarrow> okS P m Q'"
  unfolding okS_def by blast

lemma okS_for:
  "(\<And>x. x \<in> set xs \<Longrightarrow> okS I (f x) (\<lambda>_. I)) \<Longrightarrow> okS I (forS f xs) (\<lambda>_. I)"
proof (induction xs)
  case (Cons x xs)
  have "okS I (f x) (\<lambda>_. I)" "okS I (forS f xs) (\<lambda>_. I)" using Cons by simp_all
  then show ?case by (simp add: okS_then)
qed (simp add: okS_def)

lemma postS_bind: "postS P m Q \<Longrightarrow> (\<And>x. postS (Q x) (f x) R) \<Longrightarrow> postS P (bindS m f) R"
  unfolding postS_def bindS_Inr_iff by blast

lemma postS_then: "postS P m (\<lambda>_. Q) \<Longrightarrow> postS Q k R \<Longrightarrow> postS P (thenS m k) R"
  by (simp add: thenS_def postS_bind)

lemma postS_keeps: "keepsS I m \<Longrightarrow> postS I m (\<lambda>_. I)"
  unfolding postS_def by (metis keepsS_D)

lemma postS_for:
  "(\<And>x. x \<in> set xs \<Longrightarrow> postS I (f x) (\<lambda>_. I)) \<Longrightarrow> postS I (forS f xs) (\<lambda>_. I)"
proof (induction xs)
  case (Cons x xs)
  have "postS I (f x) (\<lambda>_. I)" "postS I (forS f xs) (\<lambda>_. I)" using Cons by simp_all
  then show ?case by (simp add: postS_then)
qed (simp add: postS_def)

end
