(* ===== verification/Stoppoints.thy ===== *)
theory Stoppoints
  imports Process_State Prog_Logic
begin

text \<open>
  \<open>src/breakpoint_site.cpp\<close>, \<open>src/watchpoint.cpp\<close> and the stop point part of \<open>src/process.cpp\<close>: software
  breakpoints patch the byte 0xcc into the code, hardware breakpoints and watchpoints take one of
  the four debug address registers and its fields in DR7, in every thread. A stop point is a
  value of the collection; an operation on it returns the changed value, which is written back.
\<close>

section \<open>Debug registers\<close>

fun encode_hardware_stoppoint_mode :: "stoppoint_mode \<Rightarrow> u64" where
  "encode_hardware_stoppoint_mode mode_write = 1"
| "encode_hardware_stoppoint_mode mode_read_write = 3"
| "encode_hardware_stoppoint_mode mode_execute = 0"

definition encode_hardware_stoppoint_size :: "nat \<Rightarrow> u64 result" where
  "encode_hardware_stoppoint_size n =
    (if n = 1 then Inr 0 else if n = 2 then Inr 1 else if n = 4 then Inr 3 else if n = 8 then Inr 2
     else Inl (Send ''Invalid stoppoint size!''))"

definition find_free_stoppoint_register :: "u64 \<Rightarrow> nat result" where
  "find_free_stoppoint_register control =
    the_opt (Send ''No remaining hardware debug registers!'')
      (List.find (\<lambda>i. control AND push_bit (i * 2) 3 = 0) [0..<4])"

text \<open>\<open>control & ~clear_mask\<close>, where the mask is an \<open>int\<close>: its complement is sign-extended.\<close>

definition dr7_clear :: "nat \<Rightarrow> u64 \<Rightarrow> u64" where
  "dr7_clear i control =
    control AND scast (NOT (push_bit (i * 2) 3 OR push_bit (i * 4 + 16) 15) :: u32)"

definition dr7_set :: "nat \<Rightarrow> u64 \<Rightarrow> u64 \<Rightarrow> u64 \<Rightarrow> u64" where
  "dr7_set i mode_flag size_flag control =
    dr7_clear i control OR
      (push_bit (i * 2) 1 OR push_bit (i * 4 + 16) mode_flag OR push_bit (i * 4 + 18) size_flag)"

definition write_thread_register ::
  "'k kernel \<Rightarrow> float_ops \<Rightarrow> pid \<Rightarrow> register_id \<Rightarrow> reg_value \<Rightarrow> ('k, 't, unit) process_op" where
  "write_thread_register K fo tid i v = on_registers tid (write_by_id K fo i v True)"

text \<open>The loop that repeats the two writes in the other threads.\<close>

definition write_other_threads ::
  "'k kernel \<Rightarrow> float_ops \<Rightarrow> register_id \<Rightarrow> reg_value \<Rightarrow> u64 \<Rightarrow> ('k, 't, unit) process_op" where
  "write_other_threads K fo i v masked =
    bindS (getS (\<lambda>p. filter (\<lambda>tid. tid \<noteq> p_current p) (map fst (p_threads p)))) (\<lambda>tids.
      forS (\<lambda>tid. thenS (write_thread_register K fo tid i v)
                        (write_thread_register K fo tid id_dr7 (V_u64 masked))) tids)"

definition set_hardware_stoppoint ::
  "'k kernel \<Rightarrow> float_ops \<Rightarrow> virt_addr \<Rightarrow> stoppoint_mode \<Rightarrow> nat \<Rightarrow> ('k, 't, nat) process_op" where
  "set_hardware_stoppoint K fo a mode sz =
    bindS (getS p_current) (\<lambda>cur.
    bindS (read_register None id_dr7) (\<lambda>control.
    bindS (liftS (find_free_stoppoint_register control)) (\<lambda>free_space.
    thenS (write_thread_register K fo cur (id_dr0 + free_space) (V_u64 a))
    (bindS (liftS (encode_hardware_stoppoint_size sz)) (\<lambda>size_flag.
       let masked = dr7_set free_space (encode_hardware_stoppoint_mode mode) size_flag control
       in thenS (write_thread_register K fo cur id_dr7 (V_u64 masked))
          (thenS (write_other_threads K fo (id_dr0 + free_space) (V_u64 a) masked)
          (retS free_space)))))))"

definition clear_hardware_stoppoint :: "'k kernel \<Rightarrow> float_ops \<Rightarrow> int \<Rightarrow> ('k, 't, unit) process_op" where
  "clear_hardware_stoppoint K fo ix =
    (if ix < 0 then throwS (Undefined ''negative shift'')
     else
       bindS (getS p_current) (\<lambda>cur.
       thenS (write_thread_register K fo cur (id_dr0 + nat ix) (V_i32 0))
       (bindS (read_register None id_dr7) (\<lambda>control.
          let masked = dr7_clear (nat ix) control
          in thenS (write_thread_register K fo cur id_dr7 (V_u64 masked))
             (write_other_threads K fo (id_dr0 + nat ix) (V_i32 0) masked)))))"

definition set_hardware_breakpoint :: "'k kernel \<Rightarrow> float_ops \<Rightarrow> int \<Rightarrow> virt_addr \<Rightarrow> ('k, 't, nat) process_op" where
  "set_hardware_breakpoint K fo i a = set_hardware_stoppoint K fo a mode_execute 1"

definition set_watchpoint ::
  "'k kernel \<Rightarrow> float_ops \<Rightarrow> int \<Rightarrow> virt_addr \<Rightarrow> stoppoint_mode \<Rightarrow> nat \<Rightarrow> ('k, 't, nat) process_op" where
  "set_watchpoint K fo i a mode sz = set_hardware_stoppoint K fo a mode sz"

section \<open>Breakpoint sites\<close>

definition peek_word :: "'k kernel \<Rightarrow> string \<Rightarrow> virt_addr \<Rightarrow> ('k, 't, u64) process_op" where
  "peek_word K msg a p = (the_opt (Send_errno msg) (k_peekdata K (p_pid p) a (p_kernel p)), p)"

definition poke_word :: "'k kernel \<Rightarrow> string \<Rightarrow> virt_addr \<Rightarrow> u64 \<Rightarrow> ('k, 't, unit) process_op" where
  "poke_word K msg a w = bindS (getS p_pid) (\<lambda>pid. request msg (k_pokedata K pid a w))"

definition breakpoint_site_enable ::
  "'k kernel \<Rightarrow> float_ops \<Rightarrow> breakpoint_site \<Rightarrow> ('k, 't, breakpoint_site) process_op" where
  "breakpoint_site_enable K fo s =
    (if bs_enabled s then retS s
     else if bs_hardware s then
       bindS (set_hardware_breakpoint K fo (bs_id s) (bs_address s)) (\<lambda>i.
         retS (s\<lparr>bs_hw_index := int i, bs_enabled := True\<rparr>))
     else
       bindS (peek_word K ''Enabling breakpoint site failed!'' (bs_address s)) (\<lambda>data.
       thenS (poke_word K ''Enabling breakpoint site failed!'' (bs_address s) ((data AND NOT 0xff) OR 0xcc))
         (retS (s\<lparr>bs_saved := ucast (data AND 0xff), bs_enabled := True\<rparr>))))"

definition breakpoint_site_disable ::
  "'k kernel \<Rightarrow> float_ops \<Rightarrow> breakpoint_site \<Rightarrow> ('k, 't, breakpoint_site) process_op" where
  "breakpoint_site_disable K fo s =
    (if \<not> bs_enabled s then retS s
     else if bs_hardware s then
       thenS (clear_hardware_stoppoint K fo (bs_hw_index s)) (retS (s\<lparr>bs_hw_index := - 1, bs_enabled := False\<rparr>))
     else
       bindS (peek_word K ''Disabling breakpoint site failed!'' (bs_address s)) (\<lambda>data.
       thenS (poke_word K ''Disabling breakpoint site failed!'' (bs_address s)
                ((data AND NOT 0xff) OR ucast (bs_saved s)))
         (retS (s\<lparr>bs_enabled := False\<rparr>))))"

text \<open>The member call on the site at an address of the collection.\<close>

definition on_site ::
  "virt_addr \<Rightarrow> (breakpoint_site \<Rightarrow> ('k, 't, breakpoint_site) process_op) \<Rightarrow> ('k, 't, unit) process_op" where
  "on_site a f =
    bindS (getS p_sites) (\<lambda>sites.
    bindS (liftS (sc_get_by_address site_at a sites)) (\<lambda>s.
    bindS (f s) (\<lambda>s'. modifyS (\<lambda>p. p\<lparr>p_sites := sc_replace (\<lambda>x. site_at x a) s' (p_sites p)\<rparr>))))"

definition site_enable :: "'k kernel \<Rightarrow> float_ops \<Rightarrow> virt_addr \<Rightarrow> ('k, 't, unit) process_op" where
  "site_enable K fo a = on_site a (breakpoint_site_enable K fo)"

definition site_disable :: "'k kernel \<Rightarrow> float_ops \<Rightarrow> virt_addr \<Rightarrow> ('k, 't, unit) process_op" where
  "site_disable K fo a = on_site a (breakpoint_site_disable K fo)"

definition breakpoint_site_new :: "virt_addr \<Rightarrow> bool \<Rightarrow> bool \<Rightarrow> ('k, 't, breakpoint_site) process_op" where
  "breakpoint_site_new a hardware internal p =
    (let i = (if internal then - 1 else p_site_id p + 1)
     in (Inr \<lparr>bs_parent = None, bs_id = i, bs_address = a, bs_enabled = False, bs_saved = 0,
              bs_hardware = hardware, bs_internal = internal, bs_hw_index = - 1\<rparr>,
         if internal then p else p\<lparr>p_site_id := i\<rparr>))"

definition already_created :: gsdb_error where
  "already_created = Send ''Breakpoint site already created at address''"

definition create_breakpoint_site :: "virt_addr \<Rightarrow> bool \<Rightarrow> bool \<Rightarrow> ('k, 't, breakpoint_site) process_op" where
  "create_breakpoint_site a hardware internal =
    bindS (getS p_sites) (\<lambda>sites.
      if sc_contains_address site_at a sites then throwS already_created
      else bindS (breakpoint_site_new a hardware internal) (\<lambda>s.
             thenS (modifyS (\<lambda>p. p\<lparr>p_sites := sc_push s (p_sites p)\<rparr>)) (retS s)))"

definition create_breakpoint_site_for ::
  "nat \<Rightarrow> int \<Rightarrow> virt_addr \<Rightarrow> bool \<Rightarrow> bool \<Rightarrow> ('k, 't, breakpoint_site) process_op" where
  "create_breakpoint_site_for parent i a hardware internal =
    bindS (getS p_sites) (\<lambda>sites.
      if sc_contains_address site_at a sites then throwS already_created
      else let s = \<lparr>bs_parent = Some parent, bs_id = i, bs_address = a, bs_enabled = False, bs_saved = 0,
                    bs_hardware = hardware, bs_internal = internal, bs_hw_index = - 1\<rparr>
           in thenS (modifyS (\<lambda>p. p\<lparr>p_sites := sc_push s (p_sites p)\<rparr>)) (retS s))"

text \<open>\<open>remove_by_address\<close> on the sites: the site is disabled before it is erased.\<close>

definition remove_site :: "'k kernel \<Rightarrow> float_ops \<Rightarrow> virt_addr \<Rightarrow> ('k, 't, unit) process_op" where
  "remove_site K fo a =
    bindS (getS p_sites) (\<lambda>sites.
      if \<not> sc_contains_address site_at a sites then retS ()
      else thenS (site_disable K fo a)
             (modifyS (\<lambda>p. p\<lparr>p_sites := sc_erase (\<lambda>x. site_at x a) (p_sites p)\<rparr>)))"

definition remove_site_by_id :: "'k kernel \<Rightarrow> float_ops \<Rightarrow> int \<Rightarrow> ('k, 't, unit) process_op" where
  "remove_site_by_id K fo i =
    bindS (getS p_sites) (\<lambda>sites.
      case sc_find_by_id bs_id i sites of
        None \<Rightarrow> retS ()
      | Some s \<Rightarrow>
          bindS (breakpoint_site_disable K fo s) (\<lambda>_.
            modifyS (\<lambda>p. p\<lparr>p_sites := sc_erase (\<lambda>x. bs_id x = i) (p_sites p)\<rparr>)))"

section \<open>Watchpoints\<close>

definition process_memory :: "'k kernel \<Rightarrow> virt_addr \<Rightarrow> nat \<Rightarrow> ('k, 't, byte list) process_op" where
  "process_memory K a n p = (read_memory K (p_pid p) a n (p_kernel p), p)"

definition watchpoint_update_data :: "'k kernel \<Rightarrow> watchpoint \<Rightarrow> ('k, 't, watchpoint) process_op" where
  "watchpoint_update_data K w =
    bindS (process_memory K (wp_address w) (wp_size w)) (\<lambda>bs.
      let n = min (wp_size w) 8
      in retS (w\<lparr>wp_previous := wp_data w, wp_data := from_bytes (take n bs @ replicate (8 - n) 0)\<rparr>))"

definition watchpoint_new ::
  "'k kernel \<Rightarrow> virt_addr \<Rightarrow> stoppoint_mode \<Rightarrow> nat \<Rightarrow> ('k, 't, watchpoint) process_op" where
  "watchpoint_new K a mode sz =
    (if sz \<noteq> 1 \<and> sz \<noteq> 2 \<and> sz \<noteq> 4 \<and> sz \<noteq> 8 then throwS (Send ''Watchponit size must be 1, 2, 4, or 8!'')
     else if mode = mode_execute \<and> sz \<noteq> 1 then throwS (Send ''Execute watchponits must have size 1!'')
     else if a AND word_of_nat (sz - 1) \<noteq> 0 then throwS (Send ''Watchpoint must be aligned to size!'')
     else bindS (getS (\<lambda>p. p_watch_id p + 1)) (\<lambda>i.
          thenS (modifyS (\<lambda>p. p\<lparr>p_watch_id := i\<rparr>))
            (watchpoint_update_data K
               \<lparr>wp_id = i, wp_address = a, wp_enabled = False, wp_mode = mode, wp_size = sz,
                wp_hw_index = - 1, wp_data = 0, wp_previous = 0\<rparr>)))"

definition watchpoint_enable :: "'k kernel \<Rightarrow> float_ops \<Rightarrow> watchpoint \<Rightarrow> ('k, 't, watchpoint) process_op" where
  "watchpoint_enable K fo w =
    (if wp_enabled w then retS w
     else bindS (set_watchpoint K fo (wp_id w) (wp_address w) (wp_mode w) (wp_size w)) (\<lambda>i.
            retS (w\<lparr>wp_hw_index := int i, wp_enabled := True\<rparr>)))"

definition watchpoint_disable :: "'k kernel \<Rightarrow> float_ops \<Rightarrow> watchpoint \<Rightarrow> ('k, 't, watchpoint) process_op" where
  "watchpoint_disable K fo w =
    (if \<not> wp_enabled w then retS w
     else thenS (clear_hardware_stoppoint K fo (wp_hw_index w)) (retS (w\<lparr>wp_enabled := False\<rparr>)))"

definition create_watchpoint ::
  "'k kernel \<Rightarrow> virt_addr \<Rightarrow> stoppoint_mode \<Rightarrow> nat \<Rightarrow> ('k, 't, watchpoint) process_op" where
  "create_watchpoint K a mode sz =
    bindS (getS p_watchpoints) (\<lambda>ws.
      if sc_contains_address watchpoint_at a ws then throwS (Send ''Watchpoint already created at address'')
      else bindS (watchpoint_new K a mode sz) (\<lambda>w.
             thenS (modifyS (\<lambda>p. p\<lparr>p_watchpoints := sc_push w (p_watchpoints p)\<rparr>)) (retS w)))"

definition on_watchpoint ::
  "int \<Rightarrow> (watchpoint \<Rightarrow> ('k, 't, watchpoint) process_op) \<Rightarrow> ('k, 't, unit) process_op" where
  "on_watchpoint i f =
    bindS (getS p_watchpoints) (\<lambda>ws.
    bindS (liftS (sc_get_by_id wp_id i ws)) (\<lambda>w.
    bindS (f w) (\<lambda>w'. modifyS (\<lambda>p. p\<lparr>p_watchpoints := sc_replace (\<lambda>x. wp_id x = i) w' (p_watchpoints p)\<rparr>))))"

definition remove_watchpoint :: "'k kernel \<Rightarrow> float_ops \<Rightarrow> int \<Rightarrow> ('k, 't, unit) process_op" where
  "remove_watchpoint K fo i =
    bindS (getS p_watchpoints) (\<lambda>ws.
      case sc_find_by_id wp_id i ws of
        None \<Rightarrow> retS ()
      | Some w \<Rightarrow>
          bindS (watchpoint_disable K fo w) (\<lambda>_.
            modifyS (\<lambda>p. p\<lparr>p_watchpoints := sc_erase (\<lambda>x. wp_id x = i) (p_watchpoints p)\<rparr>)))"

section \<open>Memory without the traps\<close>

fun hide_traps :: "virt_addr \<Rightarrow> breakpoint_site list \<Rightarrow> byte list \<Rightarrow> byte list" where
  "hide_traps a [] memory = memory"
| "hide_traps a (s # ss) memory =
    (if \<not> bs_enabled s \<or> bs_hardware s then hide_traps a ss memory
     else hide_traps a ss (memory[unat (bs_address s - a) := bs_saved s]))"

definition read_memory_without_traps :: "'k kernel \<Rightarrow> virt_addr \<Rightarrow> nat \<Rightarrow> ('k, 't, byte list) process_op" where
  "read_memory_without_traps K a n =
    bindS (process_memory K a n) (\<lambda>memory.
    bindS (getS p_sites) (\<lambda>sites.
      retS (hide_traps a (sc_get_in_region site_in_range a (a + word_of_nat n) sites) memory)))"

section \<open>The patched byte\<close>

lemma from_bytes_Cons:
  "(from_bytes (b # bs) :: u64) = ucast b OR push_bit 8 (word_of_nat (le_nat (take 7 bs)))"
proof -
  have "unat (ucast b :: u64) < 2 ^ 8" using order.strict_trans1 [OF take_bit_nat_less_eq_self [of 64 "unat b"] unat_byte_lt]
    by (simp add: unsigned_ucast_eq)
  then have "ucast b OR push_bit 8 (word_of_nat (le_nat (take 7 bs)) :: u64) =
      ucast b + push_bit 8 (word_of_nat (le_nat (take 7 bs)))"
    by (rule or_disjoint_eq_add)
  then show ?thesis
    by (simp add: from_bytes_def push_bit_eq_mult mult.commute)
qed

lemma patch_low_byte:
  assumes "length bs = 8"
  shows "as_bytes (((from_bytes bs :: u64) AND NOT 0xff) OR ucast b) = b # tl bs"
proof -
  obtain x r where bs: "bs = x # r" "length r = 7" using assms by (cases bs) auto
  have m: "(0xff :: u64) = mask 8" by (simp add: mask_eq_exp_minus_1)
  have "((from_bytes bs :: u64) AND NOT 0xff) OR ucast b = from_bytes (b # r)"
    unfolding bs(1) from_bytes_Cons m by (rule bit_eqI) (auto simp: bit_simps dest: bit_imp_le_length)
  then show ?thesis using bs by (simp add: as_from_bytes)
qed

lemma low_byte_of:
  assumes "length bs = 8"
  shows "ucast ((from_bytes bs :: u64) AND 0xff) = (hd bs :: byte)"
proof -
  obtain x r where bs: "bs = x # r" using assms by (cases bs) auto
  have m: "(0xff :: u64) = mask 8" by (simp add: mask_eq_exp_minus_1)
  show ?thesis unfolding bs list.sel from_bytes_Cons m by (rule bit_eqI) (auto simp: bit_simps)
qed

lemma mem_update_byte: "mem_update m a (b # tl (mem_range m a 8)) = m(a := b)"
proof -
  have t: "tl (mem_range m a 8) = mem_range m (a + 1) 7"
    using mem_range_Suc [of m a 7] by simp
  have "mem_update m (a + 1) (mem_range m (a + 1) 7) = m" by (rule mem_update_same) simp
  then show ?thesis by (simp add: t)
qed

section \<open>The memory the program sees\<close>

text \<open>
  The abstraction of the patched memory: an enabled software site shows the byte it saved. The
  invariant: addresses are unique and every enabled software site has its trap in memory.
\<close>

definition trap_site :: "breakpoint_site \<Rightarrow> bool" where
  "trap_site s \<longleftrightarrow> bs_enabled s \<and> \<not> bs_hardware s"

definition program_memory :: "breakpoint_site list \<Rightarrow> (u64 \<Rightarrow> byte) \<Rightarrow> u64 \<Rightarrow> byte" where
  "program_memory sites m x =
    (case List.find (\<lambda>s. bs_address s = x \<and> trap_site s) sites of None \<Rightarrow> m x | Some s \<Rightarrow> bs_saved s)"

definition traps_ok :: "breakpoint_site list \<Rightarrow> (u64 \<Rightarrow> byte) \<Rightarrow> bool" where
  "traps_ok sites m \<longleftrightarrow> distinct (map bs_address sites) \<and> (\<forall>s \<in> set sites. trap_site s \<longrightarrow> m (bs_address s) = 0xcc)"

lemma program_memory_trap:
  assumes "distinct (map bs_address sites)" "s \<in> set sites" "trap_site s"
  shows "program_memory sites m (bs_address s) = bs_saved s"
proof -
  obtain t where t: "List.find (\<lambda>u. bs_address u = bs_address s \<and> trap_site u) sites = Some t"
    using assms(2,3) by (metis (mono_tags, lifting) find_None_iff not_None_eq)
  then have "t \<in> set sites" "bs_address t = bs_address s" by (auto simp: find_Some_iff)
  then have "t = s" using assms(1,2) by (simp add: distinct_map inj_on_def)
  then show ?thesis using t by (simp add: program_memory_def)
qed

lemma program_memory_plain:
  "(\<And>s. s \<in> set sites \<Longrightarrow> trap_site s \<Longrightarrow> bs_address s \<noteq> x) \<Longrightarrow> program_memory sites m x = m x"
proof -
  assume "\<And>s. s \<in> set sites \<Longrightarrow> trap_site s \<Longrightarrow> bs_address s \<noteq> x"
  then have "List.find (\<lambda>s. bs_address s = x \<and> trap_site s) sites = None" by (auto simp: find_None_iff)
  then show ?thesis by (simp add: program_memory_def)
qed

text \<open>Replacing one site and one byte leaves the program's memory elsewhere unchanged.\<close>

lemma program_memory_replace:
  assumes d: "distinct (map bs_address sites)" "s \<in> set sites" "bs_address s' = bs_address s"
    and x: "x \<noteq> bs_address s" and m: "m' x = m x"
  shows "program_memory (sc_replace (\<lambda>u. site_at u (bs_address s)) s' sites) m' x = program_memory sites m x"
proof -
  have f: "List.find (\<lambda>u. bs_address u = x \<and> trap_site u) (sc_replace (\<lambda>u. site_at u (bs_address s)) s' sites) =
      List.find (\<lambda>u. bs_address u = x \<and> trap_site u) sites"
    using x d(3) by (induction sites) (auto simp: site_at_def)
  show ?thesis unfolding program_memory_def f using m by (simp split: option.splits)
qed

lemma traps_ok_replace:
  assumes "traps_ok sites m" "s \<in> set sites" "bs_address s' = bs_address s"
    and "trap_site s' \<Longrightarrow> m' (bs_address s) = 0xcc" "\<And>x. x \<noteq> bs_address s \<Longrightarrow> m' x = m x"
  shows "traps_ok (sc_replace (\<lambda>u. site_at u (bs_address s)) s' sites) m'"
proof -
  have d: "distinct (map bs_address sites)" using assms(1) by (simp add: traps_ok_def)
  have a: "map bs_address (sc_replace (\<lambda>u. site_at u (bs_address s)) s' sites) = map bs_address sites"
    by (rule site.replace_addresses) (use assms(3) in \<open>auto simp: site_at_def\<close>)
  have "m' (bs_address t) = 0xcc" if t: "t \<in> set sites - {s}" "trap_site t" for t
  proof -
    have "bs_address t \<noteq> bs_address s" using d assms(2) t by (auto simp: distinct_map inj_on_def)
    then show ?thesis using assms(1,5) t by (simp add: traps_ok_def)
  qed
  then show ?thesis
    unfolding traps_ok_def a using d assms(3,4) site.replace_set [OF d assms(2,3)] by auto
qed

section \<open>Operations on sites and the program's memory\<close>

text \<open>Requests on the registers of a thread do not change the memory of the process.\<close>

definition register_requests_keep_memory :: "'k kernel \<Rightarrow> ('k \<Rightarrow> u64 \<Rightarrow> byte) \<Rightarrow> bool" where
  "register_requests_keep_memory K mem \<longleftrightarrow>
    (\<forall>tid off w k k'. k_pokeuser K tid off w k = Some k' \<longrightarrow> mem k' = mem k) \<and>
    (\<forall>tid bs k k'. k_setregs K tid bs k = Some k' \<longrightarrow> mem k' = mem k) \<and>
    (\<forall>tid bs k k'. k_setfpregs K tid bs k = Some k' \<longrightarrow> mem k' = mem k)"

text \<open>The part of the process a stop point operation on registers leaves alone.\<close>

definition same_program :: "('k \<Rightarrow> u64 \<Rightarrow> byte) \<Rightarrow> ('k, 't) process \<Rightarrow> ('k, 't) process \<Rightarrow> bool" where
  "same_program mem p0 p \<longleftrightarrow> p_sites p = p_sites p0 \<and> p_pid p = p_pid p0 \<and> mem (p_kernel p) = mem (p_kernel p0)"

lemma registers_write_memory:
  assumes "register_requests_keep_memory K mem"
  shows "mem (snd (snd (write_by_id K fo i v c (regs, k)))) = mem k"
proof -
  have fprs: "mem (snd (write_fprs K tid bs k)) = mem k" for tid bs k
    using assms by (auto simp: write_fprs_def register_requests_keep_memory_def split: option.splits)
  have user: "mem (snd (write_user_area K tid off w k)) = mem k" for tid off w k
    using assms by (auto simp: write_user_area_def register_requests_keep_memory_def split: option.splits)
  show ?thesis
    using fprs user
    by (auto simp: write_by_id_def registers_write_def registers_commit_def bindS_def thenS_def zoomS_def
        Let_def split: sum.splits prod.splits) (metis snd_conv)+
qed

lemma keeps_on_registers:
  assumes "register_requests_keep_memory K mem"
  shows "keepsS (same_program mem p0) (write_thread_register K fo tid i v)"
  unfolding keepsS_def
proof (intro allI impI)
  fix p :: "('a, 'b) process" assume "same_program mem p0 p"
  then show "same_program mem p0 (snd (write_thread_register K fo tid i v p))"
    using registers_write_memory [OF assms, of fo i v True]
    by (auto simp: same_program_def write_thread_register_def on_registers_def split: option.splits prod.splits)
      (metis snd_conv)
qed

lemma keeps_read_register [keeps_intros]: "keepsS I (read_register otid i)"
  by (simp add: keepsS_def read_register_def)

lemma keeps_hardware:
  assumes "register_requests_keep_memory K mem"
  shows "keepsS (same_program mem p0) (set_hardware_stoppoint K fo a mode sz)"
    and "keepsS (same_program mem p0) (clear_hardware_stoppoint K fo ix)"
  unfolding set_hardware_stoppoint_def clear_hardware_stoppoint_def write_other_threads_def
  by (intro keeps_intros keeps_on_registers [OF assms])+

lemma set_hardware_same:
  assumes "register_requests_keep_memory K mem" "set_hardware_stoppoint K fo a mode sz p = (r, p')"
  shows "same_program mem p p'"
  using keepsS_D [OF keeps_hardware(1) [OF assms(1)] assms(2), of p] by (simp add: same_program_def)

lemma clear_hardware_same:
  assumes "register_requests_keep_memory K mem" "clear_hardware_stoppoint K fo ix p = (r, p')"
  shows "same_program mem p p'"
  using keepsS_D [OF keeps_hardware(2) [OF assms(1)] assms(2), of p] by (simp add: same_program_def)

text \<open>Enabling and disabling a site, the failing cases included.\<close>

definition site_op_ok :: "('k \<Rightarrow> u64 \<Rightarrow> byte) \<Rightarrow> breakpoint_site \<Rightarrow> ('k, 't) process \<Rightarrow> breakpoint_site result \<times> ('k, 't) process \<Rightarrow> bool" where
  "site_op_ok mem s p = (\<lambda>(r, p'). p_sites p' = p_sites p \<and> p_pid p' = p_pid p \<and>
    (case r of
       Inl e \<Rightarrow> mem (p_kernel p') = mem (p_kernel p)
     | Inr s' \<Rightarrow>
         bs_address s' = bs_address s \<and> bs_hardware s' = bs_hardware s \<and>
         (trap_site s' \<longrightarrow> mem (p_kernel p') (bs_address s) = 0xcc) \<and>
         (\<forall>x. x \<noteq> bs_address s \<longrightarrow> mem (p_kernel p') x = mem (p_kernel p) x) \<and>
         (if trap_site s' then bs_saved s' else mem (p_kernel p') (bs_address s)) =
         (if trap_site s then bs_saved s else mem (p_kernel p) (bs_address s))))"

lemma poke_patch:
  assumes "memory_kernel K (p_pid p) mem ok" "k_peekdata K (p_pid p) a (p_kernel p) = Some w"
    and "k_pokedata K (p_pid p) a ((w AND NOT 0xff) OR ucast b) (p_kernel p) = Some k"
  shows "mem k = (mem (p_kernel p))(a := b)" and "ucast (w AND 0xff) = mem (p_kernel p) a"
proof -
  let ?m = "mem (p_kernel p)"
  have w: "w = from_bytes (mem_range ?m a 8)" using assms(1,2) unfolding memory_kernel_def by blast
  have "mem k = mem_update ?m a (as_bytes ((w AND NOT 0xff) OR ucast b))"
    using assms(1,3) unfolding memory_kernel_def by blast
  then show "mem k = ?m(a := b)" 
    unfolding w patch_low_byte [OF length_mem_range] mem_update_byte .
  show "ucast (w AND 0xff) = ?m a"
    using mem_range_Suc [of ?m a 7] by (simp add: w low_byte_of)
qed

lemma site_enable_ok:
  assumes "memory_kernel K (p_pid p) mem ok" "register_requests_keep_memory K mem"
    and "trap_site s \<longrightarrow> mem (p_kernel p) (bs_address s) = 0xcc"
  shows "site_op_ok mem s p (breakpoint_site_enable K fo s p)"
proof (cases "bs_enabled s \<or> bs_hardware s")
  case True
  show ?thesis
  proof (cases "bs_enabled s")
    case False
    obtain r p1 where run: "set_hardware_stoppoint K fo (bs_address s) mode_execute 1 p = (r, p1)" by fastforce
    show ?thesis using True False run set_hardware_same [OF assms(2) run]
      by (cases r) (simp_all add: breakpoint_site_enable_def set_hardware_breakpoint_def site_op_ok_def bindS_def
          trap_site_def same_program_def)
  qed (use assms(3) in \<open>simp add: breakpoint_site_enable_def site_op_ok_def\<close>)
next
  case False
  show ?thesis
  proof (cases "k_peekdata K (p_pid p) (bs_address s) (p_kernel p)")
    case None
    then show ?thesis using False
      by (simp add: breakpoint_site_enable_def site_op_ok_def bindS_def peek_word_def)
  next
    case (Some w)
    let ?w = "(w AND NOT 0xff) OR 0xcc"
    have cc: "(0xcc :: u64) = ucast (0xcc :: byte)" by simp
    show ?thesis
    proof (cases "k_pokedata K (p_pid p) (bs_address s) ?w (p_kernel p)")
      case None
      then show ?thesis using False Some
        by (simp add: breakpoint_site_enable_def site_op_ok_def bindS_def thenS_def peek_word_def poke_word_def request_def)
    next
      case k: (Some k)
      note patch = poke_patch [OF assms(1) Some, where b = "0xcc", folded cc, OF k]
      show ?thesis using False Some k patch
        by (simp add: breakpoint_site_enable_def site_op_ok_def bindS_def thenS_def peek_word_def poke_word_def
            request_def trap_site_def)
    qed
  qed
qed

lemma site_disable_ok:
  assumes "memory_kernel K (p_pid p) mem ok" "register_requests_keep_memory K mem"
    and "trap_site s \<longrightarrow> mem (p_kernel p) (bs_address s) = 0xcc"
  shows "site_op_ok mem s p (breakpoint_site_disable K fo s p)"
proof (cases "\<not> bs_enabled s \<or> bs_hardware s")
  case True
  show ?thesis
  proof (cases "bs_enabled s")
    case e: True
    obtain r p1 where run: "clear_hardware_stoppoint K fo (bs_hw_index s) p = (r, p1)" by fastforce
    show ?thesis using True e run clear_hardware_same [OF assms(2) run]
      by (cases r) (simp_all add: breakpoint_site_disable_def site_op_ok_def bindS_def thenS_def
          trap_site_def same_program_def)
  qed (use assms(3) in \<open>simp add: breakpoint_site_disable_def site_op_ok_def\<close>)
next
  case False
  show ?thesis
  proof (cases "k_peekdata K (p_pid p) (bs_address s) (p_kernel p)")
    case None
    then show ?thesis using False
      by (simp add: breakpoint_site_disable_def site_op_ok_def bindS_def peek_word_def)
  next
    case (Some w)
    let ?w = "(w AND NOT 0xff) OR ucast (bs_saved s)"
    show ?thesis
    proof (cases "k_pokedata K (p_pid p) (bs_address s) ?w (p_kernel p)")
      case None
      then show ?thesis using False Some
        by (simp add: breakpoint_site_disable_def site_op_ok_def bindS_def thenS_def peek_word_def poke_word_def request_def)
    next
      case k: (Some k)
      note patch = poke_patch [OF assms(1) Some k]
      show ?thesis using False Some k patch
        by (simp add: breakpoint_site_disable_def site_op_ok_def bindS_def thenS_def peek_word_def poke_word_def
            request_def trap_site_def)
    qed
  qed
qed

text \<open>The collection after an operation on one of its sites.\<close>

definition sites_refine :: "('k \<Rightarrow> u64 \<Rightarrow> byte) \<Rightarrow> ('k, 't) process \<Rightarrow> ('k, 't) process \<Rightarrow> bool" where
  "sites_refine mem p p' \<longleftrightarrow> p_pid p' = p_pid p \<and> traps_ok (p_sites p') (mem (p_kernel p')) \<and>
    program_memory (p_sites p') (mem (p_kernel p')) = program_memory (p_sites p) (mem (p_kernel p))"

lemma on_site_refines:
  assumes t: "traps_ok (p_sites p) (mem (p_kernel p))"
    and op: "\<And>s. s \<in> set (p_sites p) \<Longrightarrow> site_op_ok mem s p (f s p)"
    and run: "on_site a f p = (r, p')"
  shows "sites_refine mem p p'"
proof (cases "sc_get_by_address site_at a (p_sites p)")
  case (Inl e)
  then show ?thesis using run t by (simp add: on_site_def bindS_def sites_refine_def)
next
  case (Inr s)
  then have s: "s \<in> set (p_sites p)" "bs_address s = a" using site.get_by_address_Inr by blast+
  have d: "distinct (map bs_address (p_sites p))" using t by (simp add: traps_ok_def)
  obtain r1 p1 where f: "f s p = (r1, p1)" by fastforce
  note o = op [OF s(1), unfolded f site_op_ok_def]
  show ?thesis
  proof (cases r1)
    case (Inl e)
    then show ?thesis using run Inr f o t by (auto simp: on_site_def bindS_def sites_refine_def)
  next
    case r1: (Inr s')
    let ?ss = "sc_replace (\<lambda>x. site_at x (bs_address s)) s' (p_sites p)"
    let ?m = "mem (p_kernel p)" and ?m' = "mem (p_kernel p1)"
    have o': "bs_address s' = bs_address s" "trap_site s' \<Longrightarrow> ?m' (bs_address s) = 0xcc"
      "\<And>x. x \<noteq> bs_address s \<Longrightarrow> ?m' x = ?m x" "p_sites p1 = p_sites p" "p_pid p1 = p_pid p"
      "(if trap_site s' then bs_saved s' else ?m' (bs_address s)) = (if trap_site s then bs_saved s else ?m (bs_address s))"
      using o r1 by auto
    have p': "p' = p1\<lparr>p_sites := ?ss\<rparr>" using run Inr f r1 s(2) o'(4) by (simp add: on_site_def bindS_def)
    have t': "traps_ok ?ss ?m'" using traps_ok_replace [OF t s(1) o'(1,2,3)] by blast
    have addr: "distinct (map bs_address ?ss)" "set ?ss = insert s' (set (p_sites p) - {s})"
      using t' site.replace_set [OF d s(1) o'(1)] by (auto simp: traps_ok_def)
    have at: "program_memory us m (bs_address u) = (if trap_site u then bs_saved u else m (bs_address u))"
      if "distinct (map bs_address us)" "u \<in> set us" for us u and m :: "u64 \<Rightarrow> byte"
    proof (cases "trap_site u")
      case False
      then have "bs_address v \<noteq> bs_address u" if "v \<in> set us" "trap_site v" for v
        using \<open>distinct (map bs_address us)\<close> \<open>u \<in> set us\<close> that by (auto simp: distinct_map inj_on_def)
      then show ?thesis using False program_memory_plain by simp
    qed (use program_memory_trap that in simp)
    have "program_memory ?ss ?m' x = program_memory (p_sites p) ?m x" for x
      using program_memory_replace [OF d s(1) o'(1), of x ?m' ?m] o'(3,6) at [OF d s(1)] at [OF addr(1), of s'] o'(1) addr(2)
      by (cases "x = bs_address s") auto
    then show ?thesis using t' o'(5) by (simp add: p' sites_refine_def fun_eq_iff)
  qed
qed

lemma sites_refine_trans: "sites_refine mem p q \<Longrightarrow> sites_refine mem q r \<Longrightarrow> sites_refine mem p r"
  by (simp add: sites_refine_def)

lemma site_toggle_refines:
  assumes "memory_kernel K (p_pid p) mem ok" "register_requests_keep_memory K mem"
    and t: "traps_ok (p_sites p) (mem (p_kernel p))"
  shows "site_enable K fo a p = (r, p') \<Longrightarrow> sites_refine mem p p'"
    and "site_disable K fo a p = (r, p') \<Longrightarrow> sites_refine mem p p'"
proof -
  have cc: "s \<in> set (p_sites p) \<Longrightarrow> trap_site s \<longrightarrow> mem (p_kernel p) (bs_address s) = 0xcc" for s
    using t by (simp add: traps_ok_def)
  show "site_enable K fo a p = (r, p') \<Longrightarrow> sites_refine mem p p'"
    unfolding site_enable_def by (rule on_site_refines [of p mem, OF t]) (use site_enable_ok [OF assms(1,2)] cc in auto)
  show "site_disable K fo a p = (r, p') \<Longrightarrow> sites_refine mem p p'"
    unfolding site_disable_def by (rule on_site_refines [of p mem, OF t]) (use site_disable_ok [OF assms(1,2)] cc in auto)
qed

lemma push_refines:
  assumes "traps_ok (p_sites p) (mem (p_kernel p))" "\<not> sc_contains_address site_at (bs_address s) (p_sites p)"
    and "\<not> bs_enabled s" "p_sites p' = sc_push s (p_sites p)" "p_kernel p' = p_kernel p" "p_pid p' = p_pid p"
  shows "sites_refine mem p p'"
proof -
  have "List.find (\<lambda>u. bs_address u = x \<and> trap_site u) (us @ [s]) =
      List.find (\<lambda>u. bs_address u = x \<and> trap_site u) us" for x us
    using assms(3) by (induction us) (auto simp: trap_site_def)
  then have "program_memory (sc_push s (p_sites p)) m = program_memory (p_sites p) m" for m
    by (simp add: fun_eq_iff program_memory_def sc_push_def)
  moreover have "distinct (map bs_address (sc_push s (p_sites p)))"
    using assms(1,2) by (intro site.push_distinct) (auto simp: traps_ok_def)
  ultimately show ?thesis
    using assms by (auto simp: sites_refine_def traps_ok_def sc_push_def trap_site_def)
qed

lemma create_refines:
  assumes "traps_ok (p_sites p) (mem (p_kernel p))"
  shows "create_breakpoint_site a hw internal p = (r, p') \<Longrightarrow> sites_refine mem p p'"
    and "create_breakpoint_site_for parent i a hw internal p = (r', p') \<Longrightarrow> sites_refine mem p p'"
proof -
  have none: "sites_refine mem p p" using assms by (simp add: sites_refine_def)
  have new: "\<exists>s. p_sites q = sc_push s (p_sites p) \<and> bs_address s = a \<and> \<not> bs_enabled s \<Longrightarrow>
      p_kernel q = p_kernel p \<Longrightarrow> p_pid q = p_pid p \<Longrightarrow> \<not> sc_contains_address site_at a (p_sites p) \<Longrightarrow>
      sites_refine mem p q" for q :: "('a, 'b) process"
    using push_refines [of p mem _ q, OF assms] by blast
  show "create_breakpoint_site a hw internal p = (r, p') \<Longrightarrow> sites_refine mem p p'"
    by (cases "sc_contains_address site_at a (p_sites p)"; cases internal)
      (use none in \<open>auto simp: create_breakpoint_site_def breakpoint_site_new_def bindS_def Let_def intro!: new\<close>)
  show "create_breakpoint_site_for parent i a hw internal p = (r', p') \<Longrightarrow> sites_refine mem p p'"
    by (cases "sc_contains_address site_at a (p_sites p)")
      (use none in \<open>auto simp: create_breakpoint_site_for_def bindS_def Let_def intro!: new\<close>)
qed

lemma find_erase:
  "(\<And>s. s \<in> set xs \<Longrightarrow> P s \<Longrightarrow> \<not> Q s) \<Longrightarrow> List.find Q (sc_erase P xs) = List.find Q xs"
  by (induction xs) auto

lemma remove_refines:
  assumes "memory_kernel K (p_pid p) mem ok" "register_requests_keep_memory K mem"
    and t: "traps_ok (p_sites p) (mem (p_kernel p))" and run: "remove_site K fo a p = (r, p')"
  shows "sites_refine mem p p'"
proof (cases "sc_contains_address site_at a (p_sites p)")
  case False
  then show ?thesis using run t by (simp add: remove_site_def bindS_def sites_refine_def)
next
  case True
  obtain r1 p1 where d: "site_disable K fo a p = (r1, p1)" by fastforce
  note ref = site_toggle_refines(2) [OF assms(1-3) d]
  show ?thesis
  proof (cases r1)
    case (Inl e)
    then show ?thesis using run True d ref by (simp add: remove_site_def bindS_def thenS_def)
  next
    case (Inr u)
    have p': "p' = p1\<lparr>p_sites := sc_erase (\<lambda>x. site_at x a) (p_sites p1)\<rparr>"
      using run True d Inr by (simp add: remove_site_def bindS_def thenS_def)
    have dist: "distinct (map bs_address (p_sites p1))" using ref by (simp add: sites_refine_def traps_ok_def)
    have off: "\<not> trap_site s" if "s \<in> set (p_sites p1)" "site_at s a" for s
    proof -
      obtain s0 s1 q where s: "sc_get_by_address site_at a (p_sites p) = Inr s0"
          "breakpoint_site_disable K fo s0 p = (Inr s1, q)"
          "p1 = q\<lparr>p_sites := sc_replace (\<lambda>x. site_at x a) s1 (p_sites q)\<rparr>"
        using d Inr by (auto simp: site_disable_def on_site_def result_simps)
      have "site_op_ok mem s0 p (Inr s1, q)"
        using site_disable_ok [OF assms(1,2), of s0 fo] t site.get_by_address_Inr [OF s(1)] s(2)
        by (auto simp: traps_ok_def)
      then have q: "p_sites q = p_sites p" "bs_address s1 = bs_address s0" by (simp_all add: site_op_ok_def)
      have s0: "s0 \<in> set (p_sites p)" "bs_address s0 = a" using site.get_by_address_Inr [OF s(1)] by auto
      have "set (p_sites p1) = insert s1 (set (p_sites p) - {s0})"
        using site.replace_set [OF _ s0(1) q(2)] t s(3) q(1) s0(2) by (simp add: traps_ok_def)
      moreover have "bs_address s2 \<noteq> a" if "s2 \<in> set (p_sites p) - {s0}" for s2
        using t s0 that by (auto simp: traps_ok_def distinct_map inj_on_def)
      ultimately have "s = s1" using that by (auto simp: site_at_def)
      moreover have "\<not> bs_enabled s1"
        using s(2) by (auto simp: breakpoint_site_disable_def result_simps split: if_splits)
      ultimately show ?thesis by (simp add: trap_site_def)
    qed
    have "program_memory (p_sites p') m = program_memory (p_sites p1) m" for m
      unfolding program_memory_def p' using off by (auto simp: fun_eq_iff find_erase)
    moreover have "distinct (map bs_address (p_sites p'))" "set (p_sites p') \<subseteq> set (p_sites p1)"
      using site.erase_distinct [OF dist] site.erase_at [OF dist] by (auto simp: p')
    ultimately show ?thesis using ref by (auto simp: sites_refine_def traps_ok_def p')
  qed
qed

text \<open>What a client can do to the sites, in any order, successful or not.\<close>

inductive site_ops :: "'k kernel \<Rightarrow> float_ops \<Rightarrow> ('k, 't) process \<Rightarrow> ('k, 't) process \<Rightarrow> bool" for K fo where
  start: "site_ops K fo p p"
| create: "site_ops K fo p q \<Longrightarrow> create_breakpoint_site a hw internal q = (r, q') \<Longrightarrow> site_ops K fo p q'"
| create_for: "site_ops K fo p q \<Longrightarrow> create_breakpoint_site_for parent i a hw internal q = (r, q') \<Longrightarrow> site_ops K fo p q'"
| enable: "site_ops K fo p q \<Longrightarrow> site_enable K fo a q = (r, q') \<Longrightarrow> site_ops K fo p q'"
| disable: "site_ops K fo p q \<Longrightarrow> site_disable K fo a q = (r, q') \<Longrightarrow> site_ops K fo p q'"
| remove: "site_ops K fo p q \<Longrightarrow> remove_site K fo a q = (r, q') \<Longrightarrow> site_ops K fo p q'"

section \<open>Hiding the traps\<close>

lemma hide_traps_nth:
  assumes "distinct (map bs_address ss)" "\<forall>s \<in> set ss. unat (bs_address s - a) < length m" "i < length m"
    and "length m < 2 ^ 64"
  shows "hide_traps a ss m ! i =
    (case List.find (\<lambda>s. bs_address s = a + word_of_nat i \<and> trap_site s) ss of None \<Rightarrow> m ! i | Some s \<Rightarrow> bs_saved s)"
  using assms
proof (induction ss arbitrary: m)
  case (Cons s ss)
  have "unat (word_of_nat i :: u64) = i" using Cons.prems(3,4) by (simp add: unat_of_nat)
  then have "unat (bs_address s - a) = i \<longleftrightarrow> bs_address s - a = word_of_nat i" by (metis word_unat_eq_iff)
  then have eq: "unat (bs_address s - a) = i \<longleftrightarrow> bs_address s = a + word_of_nat i" by (auto simp: algebra_simps)
  show ?case
  proof (cases "trap_site s")
    case False
    then have h: "hide_traps a (s # ss) m = hide_traps a ss m" by (auto simp: trap_site_def)
    show ?thesis unfolding h using Cons False by simp
  next
    case True
    then have h: "hide_traps a (s # ss) m = hide_traps a ss (m[unat (bs_address s - a) := bs_saved s])"
      by (auto simp: trap_site_def)
    have later: "List.find (\<lambda>u. bs_address u = bs_address s \<and> trap_site u) ss = None"
      using Cons.prems(1) by (auto simp: find_None_iff image_iff)
    have ih: "hide_traps a ss (m[unat (bs_address s - a) := bs_saved s]) ! i =
      (case List.find (\<lambda>s. bs_address s = a + word_of_nat i \<and> trap_site s) ss of
         None \<Rightarrow> m[unat (bs_address s - a) := bs_saved s] ! i | Some s \<Rightarrow> bs_saved s)"
      using Cons.prems by (intro Cons.IH) auto
    show ?thesis
    proof (cases "bs_address s = a + word_of_nat i")
      case at: True
      then have "unat (bs_address s - a) = i" using eq by simp
      then show ?thesis unfolding h ih using later at True Cons.prems(3) by simp
    next
      case False
      then have "unat (bs_address s - a) \<noteq> i" using eq by simp
      then show ?thesis unfolding h ih using False by (simp split: option.splits)
    qed
  qed
qed simp

lemma length_hide_traps [simp]: "length (hide_traps a ss m) = length m"
  by (induction ss arbitrary: m) auto

lemma find_filter_imp:
  "(\<And>x. x \<in> set xs \<Longrightarrow> Q x \<Longrightarrow> P x) \<Longrightarrow> List.find Q (filter P xs) = List.find Q xs"
  by (induction xs) auto

section \<open>The fields of DR7\<close>

text \<open>The enable bits, the access mode and the length of slot \<open>i\<close>.\<close>

definition dr7_fields :: "nat \<Rightarrow> u64 \<Rightarrow> u64 \<times> u64 \<times> u64" where
  "dr7_fields i c = (take_bit 2 (drop_bit (i * 2) c), take_bit 2 (drop_bit (i * 4 + 16) c),
                     take_bit 2 (drop_bit (i * 4 + 18) c))"

lemma bit_dr7_clear:
  assumes "i < 4" "n < 32"
  shows "bit (dr7_clear i c) n \<longleftrightarrow>
    bit c n \<and> \<not> (i * 2 \<le> n \<and> n < i * 2 + 2) \<and> \<not> (i * 4 + 16 \<le> n \<and> n < i * 4 + 20)"
proof -
  have m: "(3 :: u32) = mask 2" "(15 :: u32) = mask 4" by (simp_all add: mask_eq_exp_minus_1)
  show ?thesis unfolding dr7_clear_def m using assms by (auto simp: bit_simps)
qed

lemma bit_dr7_set:
  assumes "i < 4" "n < 32" "mf < 4" "sf < 4"
  shows "bit (dr7_set i mf sf c) n \<longleftrightarrow>
    bit (dr7_clear i c) n \<or> n = i * 2 \<or> (i * 4 + 16 \<le> n \<and> bit mf (n - (i * 4 + 16))) \<or>
    (i * 4 + 18 \<le> n \<and> bit sf (n - (i * 4 + 18)))"
  using assms(2) by (auto simp: dr7_set_def bit_simps)

lemma small_flag_bit: "(w :: u64) < 4 \<Longrightarrow> bit w n \<Longrightarrow> n < 2"
proof -
  assume w: "w < 4" and b: "bit w n"
  have "unat (take_bit 2 w) = unat w" unfolding unsigned_take_bit_eq
    using w by (simp add: take_bit_eq_mod word_less_nat_alt)
  then have "take_bit 2 w = w" by (rule word_unat_eq_iff [THEN iffD2])
  then show "n < 2" using b bit_take_bit_iff [of 2 w n] by simp
qed

lemma two_bits_eq:
  fixes x y :: u64
  assumes "bit x k = bit y 0" "bit x (k + 1) = bit y 1" "\<And>n. bit y n \<Longrightarrow> n < 2"
  shows "take_bit 2 (drop_bit k x) = y"
proof (rule bit_eqI)
  fix n :: nat
  have "n < 2 \<Longrightarrow> n = 0 \<or> n = 1" by linarith
  then show "bit (take_bit 2 (drop_bit k x)) n = bit y n"
    unfolding bit_take_bit_iff bit_drop_bit_eq comp_apply using assms by auto
qed

lemma bit_dr7:
  assumes "i < 4" "n < 32" "mf < 4" "sf < 4"
  shows "bit (dr7_set i mf sf c) n \<longleftrightarrow>
    (if n < 16 then n = i * 2 \<or> (n \<noteq> i * 2 + 1 \<and> bit c n)
     else if i * 4 + 16 \<le> n \<and> n < i * 4 + 18 then bit mf (n - (i * 4 + 16))
     else if i * 4 + 18 \<le> n \<and> n < i * 4 + 20 then bit sf (n - (i * 4 + 18))
     else bit c n)"
proof -
  have mf: "i * 4 + 16 \<le> n \<Longrightarrow> bit mf (n - (i * 4 + 16)) \<Longrightarrow> n < i * 4 + 18"
    and sf: "i * 4 + 18 \<le> n \<Longrightarrow> bit sf (n - (i * 4 + 18)) \<Longrightarrow> n < i * 4 + 20"
    using small_flag_bit [OF assms(3), of "n - (i * 4 + 16)"] small_flag_bit [OF assms(4), of "n - (i * 4 + 18)"]
    by linarith+
  have lo: "i * 2 \<le> n \<and> n < i * 2 + 2 \<longleftrightarrow> n = i * 2 \<or> n = i * 2 + 1" by linarith
  have hi: "i * 2 + 1 < 16" using assms(1) by simp
  show ?thesis
    unfolding bit_dr7_set [OF assms] bit_dr7_clear [OF assms(1,2)] lo
    using mf sf hi by (cases "n < 16") auto
qed

lemma dr7_fields_cong:
  assumes "\<And>n. n = j * 2 \<or> n = j * 2 + 1 \<or> j * 4 + 16 \<le> n \<and> n < j * 4 + 20 \<Longrightarrow> bit x n = bit y n"
  shows "dr7_fields j x = dr7_fields j y"
proof -
  have "take_bit 2 (drop_bit k x) = take_bit 2 (drop_bit k y)"
    if "k = j * 2 \<or> k = j * 4 + 16 \<or> k = j * 4 + 18" for k
    by (rule two_bits_eq) (use that assms in \<open>auto simp: bit_take_bit_iff bit_drop_bit_eq\<close>)
  then show ?thesis by (simp add: dr7_fields_def)
qed

lemma slots_apart:
  assumes "i < 4" "j < 4" "j \<noteq> i" "n = j * 2 \<or> n = j * 2 + 1 \<or> j * 4 + 16 \<le> n \<and> n < j * 4 + 20"
  shows "\<not> (i * 2 \<le> n \<and> n < i * 2 + 2) \<and> \<not> (i * 4 + 16 \<le> n \<and> n < i * 4 + (20 :: nat))"
proof (cases "j * 4 + 16 \<le> n \<and> n < j * 4 + 20")
  case True
  then show ?thesis using assms(1-3) by linarith
next
  case False
  then have n: "n = j * 2 \<or> n = j * 2 + 1" using assms(4) by blast
  then have "\<not> (i * 2 \<le> n \<and> n < i * 2 + 2)" using assms(3) by linarith
  moreover have "n < 16" using n assms(2) by linarith
  ultimately show ?thesis by simp
qed

lemma dr7_set_fields:
  assumes "i < 4" "j < 4" "mf < 4" "sf < 4"
  shows "dr7_fields j (dr7_set i mf sf c) = (if j = i then (1, mf, sf) else dr7_fields j c)"
proof -
  note f = small_flag_bit [OF assms(3)] small_flag_bit [OF assms(4)]
  note b = bit_dr7 [OF assms(1) _ assms(3,4), of _ c]
  have j: "j * 2 + 1 < 16" "j * 4 + 19 < 32" using assms(2) by simp_all
  show ?thesis
  proof (cases "j = i")
    case True
    have "take_bit 2 (drop_bit (i * 2) (dr7_set i mf sf c)) = 1"
      by (rule two_bits_eq) (use j True in \<open>auto simp: b bit_1_iff\<close>)
    moreover have "take_bit 2 (drop_bit (i * 4 + 16) (dr7_set i mf sf c)) = mf"
      by (rule two_bits_eq) (use j True f in \<open>simp_all add: b\<close>)
    moreover have "take_bit 2 (drop_bit (i * 4 + 18) (dr7_set i mf sf c)) = sf"
      by (rule two_bits_eq) (use j True f in \<open>simp_all add: b\<close>)
    ultimately show ?thesis using True by (simp add: dr7_fields_def)
  next
    case False
    have same: "bit (dr7_set i mf sf c) n = bit c n"
      if "n = j * 2 \<or> n = j * 2 + 1 \<or> j * 4 + 16 \<le> n \<and> n < j * 4 + 20" for n
    proof (cases "n < 16")
      case True
      then have "n = j * 2 \<or> n = j * 2 + 1" using that by linarith
      then have "n \<noteq> i * 2" "n \<noteq> i * 2 + 1" using False by presburger+
      then show ?thesis using True by (simp add: b)
    next
      case n: False
      then have "j * 4 + 16 \<le> n" "n < j * 4 + 20" using that j by linarith+
      then have "n < 32" "\<not> (i * 4 + 16 \<le> n \<and> n < i * 4 + 20)" using False j by linarith+
      then show ?thesis using n by (auto simp: b)
    qed
    have "dr7_fields j (dr7_set i mf sf c) = dr7_fields j c" by (rule dr7_fields_cong) (rule same)
    then show ?thesis using False by simp
  qed
qed

lemma dr7_clear_fields:
  assumes "i < 4" "j < 4"
  shows "dr7_fields j (dr7_clear i c) = (if j = i then (0, 0, 0) else dr7_fields j c)"
proof (cases "j = i")
  case True
  have z: "take_bit 2 (drop_bit k (dr7_clear i c)) = 0" if "k = i * 2 \<or> k = i * 4 + 16 \<or> k = i * 4 + 18" for k
    by (rule two_bits_eq) (use assms that in \<open>auto simp: bit_dr7_clear\<close>)
  then show ?thesis using True by (simp add: dr7_fields_def)
next
  case False
  have "bit (dr7_clear i c) n = bit c n" if "n = j * 2 \<or> n = j * 2 + 1 \<or> j * 4 + 16 \<le> n \<and> n < j * 4 + 20" for n
  proof -
    have n: "n < 32" using that assms(2) by linarith
    show ?thesis using bit_dr7_clear [OF assms(1) n, of c] slots_apart [OF assms False that] by simp
  qed
  then have "dr7_fields j (dr7_clear i c) = dr7_fields j c" by (rule dr7_fields_cong)
  then show ?thesis using False by simp
qed

lemma free_register:
  assumes "find_free_stoppoint_register control = Inr i"
  shows "i < 4" "fst (dr7_fields i control) = 0" "\<And>j. j < i \<Longrightarrow> fst (dr7_fields j control) \<noteq> 0"
proof -
  have m: "(3 :: u64) = mask 2" by (simp add: mask_eq_exp_minus_1)
  have z: "control AND push_bit (j * 2) 3 = 0 \<longleftrightarrow> fst (dr7_fields j control) = 0" for j
  proof -
    have "control AND push_bit (j * 2) 3 = push_bit (j * 2) (take_bit 2 (drop_bit (j * 2) control))"
      unfolding m by (rule bit_eqI) (auto simp: bit_simps)
    moreover have "drop_bit (j * 2) (push_bit (j * 2) (take_bit 2 (drop_bit (j * 2) control))) =
        take_bit 2 (drop_bit (j * 2) control)"
      by (rule bit_eqI) (auto simp: bit_simps dest: bit_imp_le_length)
    ultimately show ?thesis by (auto simp: dr7_fields_def)
  qed
  from assms obtain k where k: "k < 4" "control AND push_bit (k * 2) 3 = 0" "i = k"
    "\<forall>j<k. control AND push_bit (j * 2) 3 \<noteq> 0"
    by (auto simp: find_free_stoppoint_register_def result_simps find_Some_iff)
  then show "i < 4" "fst (dr7_fields i control) = 0" "\<And>j. j < i \<Longrightarrow> fst (dr7_fields j control) \<noteq> 0"
    unfolding z by auto
qed

section \<open>Debug registers of all threads\<close>

definition debug_register :: "register_id \<Rightarrow> bool" where
  "debug_register i \<longleftrightarrow> id_dr0 \<le> i \<and> i \<le> id_dr7"

lemma debug_register_table:
  "map (\<lambda>i. (ri_size (g_register_infos ! i), ri_offset (g_register_infos ! i), ri_format (g_register_infos ! i),
      ri_type (g_register_infos ! i) = fpr)) [117..<125] =
     map (\<lambda>n. (8, n, fmt_uint, False)) [848, 856, 864, 872, 880, 888, 896, 904]"
  by code_simp

lemma debug_register_info:
  assumes "debug_register i"
  shows "i < 125" "ri_size (g_register_infos ! i) = 8" "ri_format (g_register_infos ! i) = fmt_uint"
    and "ri_offset (g_register_infos ! i) = 848 + 8 * (i - id_dr0)" "ri_type (g_register_infos ! i) \<noteq> fpr"
proof -
  have c: "i \<in> {117, 118, 119, 120, 121, 122, 123, 124}"
    using assms by (auto simp: debug_register_def id_dr0_def id_dr7_def)
  then show "i < 125" by auto
  define g where "g = (\<lambda>i. (ri_size (g_register_infos ! i), ri_offset (g_register_infos ! i),
    ri_format (g_register_infos ! i), ri_type (g_register_infos ! i) = fpr))"
  have "map g [117..<125] = map (\<lambda>n. (8, n, fmt_uint, False)) [848, 856, 864, 872, 880, 888, 896, 904]"
    unfolding g_def by (rule debug_register_table)
  then have "g i = (8, 848 + 8 * (i - 117), fmt_uint, False)" using c by (auto simp: upt_rec numeral_eq_Suc)
  then show "ri_size (g_register_infos ! i) = 8" "ri_format (g_register_infos ! i) = fmt_uint"
    "ri_offset (g_register_infos ! i) = 848 + 8 * (i - id_dr0)" "ri_type (g_register_infos ! i) \<noteq> fpr"
    by (simp_all add: g_def id_dr0_def)
qed

definition live_registers :: "registers \<Rightarrow> bool" where
  "live_registers regs \<longleftrightarrow> length (reg_data regs) = user_size \<and> reg_undefined regs = []"

lemma u64_register_read:
  assumes i: "i < 125" "ri_size (g_register_infos ! i) = 8" "ri_format (g_register_infos ! i) = fmt_uint"
    and "live_registers regs"
  shows "read_by_id_as_u64 regs i =
    Inr (from_bytes (take 8 (drop (ri_offset (g_register_infos ! i)) (reg_data regs))))"
proof -
  have "register_info_ok (g_register_infos ! i)" using g_nth_ok i(1) by simp
  then show ?thesis
    using assms(4) i g_nth_id [OF i(1)]
    by (simp add: read_by_id_as_u64_def registers_read_def is_undefined_def live_registers_def reg_map_def
        user_field_def register_info_ok_def from_bytes_def)
qed

lemma dr_read:
  assumes "debug_register i" "live_registers regs"
  shows "read_by_id_as_u64 regs i = Inr (from_bytes (take 8 (drop (848 + 8 * (i - id_dr0)) (reg_data regs))))"
  using u64_register_read [OF debug_register_info(1-3) [OF assms(1)] assms(2)] debug_register_info(4) [OF assms(1)] by simp

lemma zoom_kernel_fst: "zoomS snd (\<lambda>k (r, _). (r, k)) m (r, k) = (x, (r', k')) \<Longrightarrow> r' = r"
  by (cases "m k") (simp add: zoomS_def)

lemma registers_commit_keeps: "registers_commit K info (r, k) = (Inr x, (r', k')) \<Longrightarrow> r' = r"
  by (auto simp: registers_commit_def bindS_Inr_iff Let_def dest: zoom_kernel_fst split: if_split_asm)

lemma write_by_id_stores:
  "write_by_id K fo i v c (regs, k) = (Inr u, (regs', k')) \<Longrightarrow> store_by_id fo i v regs = Inr regs'"
  by (auto simp: write_by_id_def registers_write_def store_by_id_def bindS_Inr_iff thenS_def
      dest: registers_commit_keeps split: if_split_asm)

lemma dr_store:
  assumes i: "debug_register i" and regs: "live_registers regs" and st: "store_by_id fo i (V_u64 w) regs = Inr regs'"
  shows "live_registers regs'"
    and "debug_register e \<Longrightarrow> read_by_id_as_u64 regs' e = (if e = i then Inr w else read_by_id_as_u64 regs e)"
proof -
  note info = debug_register_info [OF i]
  let ?o = "848 + 8 * (i - id_dr0)"
  have ok: "register_info_ok (g_register_infos ! i)" using g_nth_ok info(1) by simp
  have len: "length (reg_data regs) = user_size" using regs by (simp add: live_registers_def)
  have b: "?o + 8 \<le> length (reg_data regs)" using ok info len by (simp add: register_info_ok_def)
  have r: "regs' = regs\<lparr>reg_data := splice ?o (as_bytes w) (reg_data regs)\<rparr>"
    using st info register_store_eq [OF ok len, of "V_u64 w" fo] by (simp add: store_by_id_def take_to_byte128)
  show live: "live_registers regs'" using regs b by (simp add: r live_registers_def)
  assume e: "debug_register e"
  show "read_by_id_as_u64 regs' e = (if e = i then Inr w else read_by_id_as_u64 regs e)"
  proof (cases "e = i")
    case True
    then show ?thesis using dr_read [OF i live] b by (simp add: r drop_splice from_as_bytes_exact)
  next
    case False
    let ?p = "848 + 8 * (e - id_dr0)"
    have "?p + 8 \<le> length (reg_data regs)"
      using g_nth_ok [OF debug_register_info(1) [OF e]] debug_register_info [OF e] len by (simp add: register_info_ok_def)
    moreover have "?p + 8 \<le> ?o \<or> ?o + 8 \<le> ?p" using False i e unfolding debug_register_def by linarith
    ultimately have "take 8 (drop ?p (reg_data regs')) = take 8 (drop ?p (reg_data regs))"
      using b by (intro nth_equalityI) (auto simp: r splice_nth_out)
    then show ?thesis using False dr_read [OF e live] dr_read [OF e regs] by simp
  qed
qed

lemma debug_register_dr7: "debug_register id_dr7"
  by (simp add: debug_register_def id_dr0_def id_dr7_def)

lemma new_registers_dr: "debug_register i \<Longrightarrow> read_by_id_as_u64 (new_registers tid) i = Inr 0"
  using dr_read [of i "new_registers tid"]
  by (simp add: live_registers_def new_registers_def from_bytes_def le_nat_zeros)

text \<open>The value a debug register has in the cache of a thread.\<close>

definition thread_dr :: "('k, 't) process \<Rightarrow> pid \<Rightarrow> register_id \<Rightarrow> u64 result" where
  "thread_dr p tid i = bindE (get_registers (Some tid) p) (\<lambda>regs. read_by_id_as_u64 regs i)"

definition all_live :: "('k, 't) process \<Rightarrow> bool" where
  "all_live p \<longleftrightarrow> (\<forall>tid t. map_of (p_threads p) tid = Some t \<longrightarrow> live_registers (ts_regs t))"

lemma write_thread_register_dr:
  assumes i: "debug_register i" and live: "all_live p"
    and run: "write_thread_register K fo tid i (V_u64 w) p = (Inr u, p')"
  shows "all_live p' \<and> map fst (p_threads p') = map fst (p_threads p) \<and> p_current p' = p_current p \<and>
    (\<forall>t e. debug_register e \<longrightarrow> thread_dr p' t e = (if t = tid \<and> e = i then Inr w else thread_dr p t e))"
proof -
  obtain t regs k where t: "map_of (p_threads p) tid = Some t"
    and w: "write_by_id K fo i (V_u64 w) True (ts_regs t, p_kernel p) = (Inr u, (regs, k))"
    and p': "p' = (update_thread tid (\<lambda>t. t\<lparr>ts_regs := regs\<rparr>) p)\<lparr>p_kernel := k\<rparr>"
    using run by (auto simp: write_thread_register_def on_registers_def split: option.splits prod.splits)
  have l: "live_registers (ts_regs t)" using live t by (auto simp: all_live_def)
  note st = dr_store [OF i l write_by_id_stores [OF w]]
  have look: "map_of (p_threads p') x =
      (if x = tid then Some (t\<lparr>ts_regs := regs\<rparr>) else map_of (p_threads p) x)" for x
    using t by (simp add: p' update_thread_lookup)
  have "all_live p'" using live st(1) by (auto simp: all_live_def look split: if_splits)
  moreover have "thread_dr p' x e = (if x = tid \<and> e = i then Inr w else thread_dr p x e)" if "debug_register e" for x e
    using st(2) [OF that] t by (cases "e = i") (auto simp: thread_dr_def get_registers_def look)
  ultimately show ?thesis by (simp add: p')
qed

text \<open>What is known of the caches after some debug registers of some threads were written.\<close>

definition drs_written :: "(pid \<Rightarrow> register_id \<Rightarrow> u64 option) \<Rightarrow> ('k, 't) process \<Rightarrow> ('k, 't) process \<Rightarrow> bool" where
  "drs_written w p q \<longleftrightarrow> all_live q \<and> map fst (p_threads q) = map fst (p_threads p) \<and> p_current q = p_current p \<and>
    (\<forall>t e. debug_register e \<longrightarrow>
       thread_dr q t e = (case w t e of None \<Rightarrow> thread_dr p t e | Some x \<Rightarrow> Inr x))"

lemma drs_written_trans:
  "drs_written w p q \<Longrightarrow> drs_written v q r \<Longrightarrow> (\<And>t. u t = w t ++ v t) \<Longrightarrow> drs_written u p r"
  by (auto simp: drs_written_def map_add_def split: option.splits)

lemma write_thread_register_written:
  assumes "debug_register i" "all_live p" "write_thread_register K fo tid i (V_u64 w) p = (Inr u, p')"
  shows "drs_written (\<lambda>t. if t = tid then [i \<mapsto> w] else Map.empty) p p'"
  using write_thread_register_dr [OF assms] by (auto simp: drs_written_def)

lemma write_both_written:
  assumes "debug_register i" "all_live p"
    and run: "thenS (write_thread_register K fo tid i (V_u64 a))
      (write_thread_register K fo tid id_dr7 (V_u64 m)) p = (Inr u, p')"
  shows "drs_written (\<lambda>t. if t = tid then [i \<mapsto> a, id_dr7 \<mapsto> m] else Map.empty) p p'"
proof -
  obtain x q where q: "write_thread_register K fo tid i (V_u64 a) p = (Inr x, q)"
    "write_thread_register K fo tid id_dr7 (V_u64 m) q = (Inr u, p')"
    using run by (auto simp: thenS_def bindS_Inr_iff)
  have d: "debug_register id_dr7" by (simp add: debug_register_def id_dr0_def id_dr7_def)
  note w = write_thread_register_written [OF assms(1,2) q(1)]
  then have "all_live q" by (simp add: drs_written_def)
  from drs_written_trans [OF w write_thread_register_written [OF d this q(2)]] show ?thesis by auto
qed

lemma write_threads_written:
  assumes "debug_register i" "all_live p"
    and "forS (\<lambda>tid. thenS (write_thread_register K fo tid i (V_u64 a))
      (write_thread_register K fo tid id_dr7 (V_u64 m))) tids p = (Inr u, p')"
  shows "drs_written (\<lambda>t. if t \<in> set tids then [i \<mapsto> a, id_dr7 \<mapsto> m] else Map.empty) p p'"
  using assms(2,3)
proof (induction tids arbitrary: p)
  case Nil
  then show ?case by (simp add: drs_written_def)
next
  case (Cons tid tids)
  let ?f = "\<lambda>tid. thenS (write_thread_register K fo tid i (V_u64 a))
      (write_thread_register K fo tid id_dr7 (V_u64 m))"
  obtain x q where q: "?f tid p = (Inr x, q)" "forS ?f tids q = (Inr u, p')"
    using Cons.prems(2) unfolding forS.simps thenS_def [of "?f tid"] bindS_Inr_iff by blast
  have w: "drs_written (\<lambda>t. if t = tid then [i \<mapsto> a, id_dr7 \<mapsto> m] else Map.empty) p q"
    by (rule write_both_written [OF assms(1) Cons.prems(1) q(1)])
  then have "all_live q" by (simp add: drs_written_def)
  show ?case by (rule drs_written_trans [OF w Cons.IH [OF \<open>all_live q\<close> q(2)]]) (auto simp: map_add_def fun_eq_iff)
qed

lemma set_hardware_stoppoint_written:
  assumes live: "all_live p" and run: "set_hardware_stoppoint K fo a mode sz p = (Inr i, p')"
  shows "\<exists>control size_flag. thread_dr p (p_current p) id_dr7 = Inr control \<and>
    find_free_stoppoint_register control = Inr i \<and> encode_hardware_stoppoint_size sz = Inr size_flag \<and>
    drs_written (\<lambda>t. if t = p_current p \<or> t \<in> fst ` set (p_threads p)
      then [id_dr0 + i \<mapsto> a, id_dr7 \<mapsto> dr7_set i (encode_hardware_stoppoint_mode mode) size_flag control]
      else Map.empty) p p'"
proof -
  let ?cur = "p_current p"
  from run obtain control size_flag x1 x2 x3 q1 q2 where
      c: "read_register None id_dr7 p = (Inr control, p)" "find_free_stoppoint_register control = Inr i"
        "encode_hardware_stoppoint_size sz = Inr size_flag"
    and w1: "write_thread_register K fo ?cur (id_dr0 + i) (V_u64 a) p = (Inr x1, q1)"
    and w2: "write_thread_register K fo ?cur id_dr7
      (V_u64 (dr7_set i (encode_hardware_stoppoint_mode mode) size_flag control)) q1 = (Inr x2, q2)"
    and w3: "write_other_threads K fo (id_dr0 + i) (V_u64 a)
      (dr7_set i (encode_hardware_stoppoint_mode mode) size_flag control) q2 = (Inr x3, p')"
    by (auto simp: set_hardware_stoppoint_def thenS_def bindS_Inr_iff Let_def read_register_def)
  let ?m = "dr7_set i (encode_hardware_stoppoint_mode mode) size_flag control"
  let ?w = "[id_dr0 + i \<mapsto> a, id_dr7 \<mapsto> ?m]"
  have "i < 4" by (rule free_register(1) [OF c(2)])
  then have d: "debug_register (id_dr0 + i)" by (simp add: debug_register_def id_dr0_def id_dr7_def)
  have both: "thenS (write_thread_register K fo ?cur (id_dr0 + i) (V_u64 a))
      (write_thread_register K fo ?cur id_dr7 (V_u64 ?m)) p = (Inr x2, q2)"
    using w1 w2 by (simp add: thenS_def bindS_def)
  note b = write_both_written [OF d live both]
  then have q2: "all_live q2" "map fst (p_threads q2) = map fst (p_threads p)" "p_current q2 = ?cur"
    by (simp_all add: drs_written_def)
  let ?tids = "filter (\<lambda>tid. tid \<noteq> ?cur) (map fst (p_threads p))"
  have o: "forS (\<lambda>tid. thenS (write_thread_register K fo tid (id_dr0 + i) (V_u64 a))
      (write_thread_register K fo tid id_dr7 (V_u64 ?m))) ?tids q2 = (Inr x3, p')"
    using w3 by (simp add: write_other_threads_def bindS_def q2)
  have "drs_written (\<lambda>t. if t = ?cur \<or> t \<in> fst ` set (p_threads p) then ?w else Map.empty) p p'"
    by (rule drs_written_trans [OF b write_threads_written [OF d q2(1) o]]) (auto simp: map_add_def fun_eq_iff)
  moreover have "thread_dr p ?cur id_dr7 = Inr control"
    using c(1) by (simp add: read_register_def thread_dr_def get_registers_def)
  ultimately show ?thesis using c by blast
qed

text \<open>With a kernel that accepts the writes, the operation returns.\<close>

definition accepts_user_writes :: "'k kernel \<Rightarrow> bool" where
  "accepts_user_writes K \<longleftrightarrow> (\<forall>tid off w k. k_pokeuser K tid off w k \<noteq> None)"

definition tracked :: "pid \<Rightarrow> ('k, 't) process \<Rightarrow> bool" where
  "tracked tid p \<longleftrightarrow> tid \<in> fst ` set (p_threads p)"

lemma write_dr_returns:
  assumes i: "debug_register i" and regs: "live_registers regs" and K: "accepts_user_writes K"
  shows "\<exists>regs' k'. write_by_id K fo i (V_u64 w) True (regs, k) = (Inr (), (regs', k'))"
proof -
  let ?info = "g_register_infos ! i"
  note info = debug_register_info [OF i]
  have ok: "register_info_ok ?info" using g_nth_ok info(1) by simp
  have len: "length (reg_data regs) = user_size" using regs by (simp add: live_registers_def)
  have b: "ri_offset ?info + 8 \<le> user_size" using ok info by (simp add: register_info_ok_def)
  define r where "r = regs\<lparr>reg_data := splice (ri_offset ?info) (as_bytes w) (reg_data regs)\<rparr>"
  have st: "registers_store fo ?info (V_u64 w) regs = Inr r"
    using info register_store_eq [OF ok len, of "V_u64 w" fo] by (simp add: r_def take_to_byte128)
  have "length (reg_data r) = user_size" using len b by (simp add: r_def)
  then have uf: "user_field r (ri_offset ?info) = Inr (from_bytes (drop (ri_offset ?info) (reg_data r)) :: u64)"
    using b by (simp add: user_field_def)
  have al: "ri_offset ?info mod 8 = 0" using info(4) by presburger
  obtain k' where "k_pokeuser K (reg_tid r) (ri_offset ?info) (from_bytes (drop (ri_offset ?info) (reg_data r))) k = Some k'"
    using K unfolding accepts_user_writes_def by (meson not_None_eq)
  then have "registers_commit K ?info (r, k) = (Inr (), (r, k'))"
    using info(5) al uf
    by (simp add: registers_commit_def bindS_def Let_def zoomS_def write_user_area_def)
  then show ?thesis
    using st info(1) by (simp add: write_by_id_def registers_write_def bindS_def thenS_def)
qed

definition armable :: "pid list \<Rightarrow> ('k, 't) process \<Rightarrow> bool" where
  "armable tids p \<longleftrightarrow> all_live p \<and> map fst (p_threads p) = tids"

lemma write_thread_register_returns:
  assumes "debug_register i" "accepts_user_writes K" "tid \<in> set tids"
  shows "okS (armable tids) (write_thread_register K fo tid i (V_u64 w)) (\<lambda>_. armable tids)"
  unfolding okS_def
proof safe
  fix p :: "('a, 'b) process"
  assume p: "armable tids p"
  then obtain t where t: "map_of (p_threads p) tid = Some t"
    using assms(3) unfolding armable_def by (metis list.set_map map_of_eq_None_iff not_None_eq)
  then have "live_registers (ts_regs t)" using p by (auto simp: armable_def all_live_def)
  then obtain regs k where "write_by_id K fo i (V_u64 w) True (ts_regs t, p_kernel p) = (Inr (), (regs, k))"
    using write_dr_returns [OF assms(1) _ assms(2)] by blast
  then obtain p' where run: "write_thread_register K fo tid i (V_u64 w) p = (Inr (), p')"
    using t by (simp add: write_thread_register_def on_registers_def)
  moreover have "all_live p" using p by (simp add: armable_def)
  ultimately show "\<exists>x p'. write_thread_register K fo tid i (V_u64 w) p = (Inr x, p') \<and> armable tids p'"
    using p write_thread_register_dr [OF assms(1) _ run] by (auto simp: armable_def)
qed

lemma okS_run: "okS P m Q \<Longrightarrow> P s \<Longrightarrow> (\<And>x s'. m s = (Inr x, s') \<Longrightarrow> Q x s' \<Longrightarrow> thesis) \<Longrightarrow> thesis"
  unfolding okS_def by blast

lemma write_other_threads_returns:
  assumes "debug_register i" "accepts_user_writes K"
  shows "okS (armable tids) (write_other_threads K fo i (V_u64 a) m) (\<lambda>_. armable tids)"
  unfolding write_other_threads_def
proof (rule okS_bind)
  show "okS (armable tids) (getS (\<lambda>p. filter (\<lambda>tid. tid \<noteq> p_current p) (map fst (p_threads p))))
      (\<lambda>xs p. set xs \<subseteq> set tids \<and> armable tids p)"
    by (auto simp: okS_def armable_def)
  fix xs
  show "okS (\<lambda>p. set xs \<subseteq> set tids \<and> armable tids p)
      (forS (\<lambda>tid. thenS (write_thread_register K fo tid i (V_u64 a))
        (write_thread_register K fo tid id_dr7 (V_u64 m))) xs) (\<lambda>_. armable tids)"
  proof (cases "set xs \<subseteq> set tids")
    case True
    then show ?thesis
      using write_thread_register_returns [OF _ assms(2), of _ _ tids fo] assms(1) debug_register_dr7
      by (intro okS_pre [OF okS_for]) (auto intro!: okS_then)
  qed (simp add: okS_def)
qed

lemma set_hardware_stoppoint_returns:
  assumes K: "accepts_user_writes K" and p: "all_live p" "tracked (p_current p) p"
    and c: "thread_dr p (p_current p) id_dr7 = Inr control" "find_free_stoppoint_register control = Inr i"
    and sz: "encode_hardware_stoppoint_size sz = Inr size_flag"
  shows "\<exists>p'. set_hardware_stoppoint K fo a mode sz p = (Inr i, p')"
proof -
  let ?cur = "p_current p" and ?tids = "map fst (p_threads p)"
  let ?m = "dr7_set i (encode_hardware_stoppoint_mode mode) size_flag control"
  have d: "debug_register (id_dr0 + i)" "debug_register id_dr7"
    using free_register(1) [OF c(2)] by (simp_all add: debug_register_def id_dr0_def id_dr7_def)
  have cur: "?cur \<in> set ?tids" using p(2) by (simp add: tracked_def)
  have "armable ?tids p" using p(1) by (simp add: armable_def)
  from okS_run [OF write_thread_register_returns [OF d(1) K cur] this]
  obtain x1 p1 where 1: "write_thread_register K fo ?cur (id_dr0 + i) (V_u64 a) p = (Inr x1, p1)" "armable ?tids p1" .
  from okS_run [OF write_thread_register_returns [OF d(2) K cur] 1(2)]
  obtain x2 p2 where 2: "write_thread_register K fo ?cur id_dr7 (V_u64 ?m) p1 = (Inr x2, p2)" "armable ?tids p2" .
  from okS_run [OF write_other_threads_returns [OF d(1) K] 2(2)]
  obtain x3 p3 where 3: "write_other_threads K fo (id_dr0 + i) (V_u64 a) ?m p2 = (Inr x3, p3)" .
  have r: "read_register None id_dr7 p = (Inr control, p)"
    using c(1) by (simp add: read_register_def thread_dr_def get_registers_def)
  show ?thesis
    unfolding set_hardware_stoppoint_def
    using r 1(1) 2(1) 3(1) c(2) sz by (simp add: bindS_def thenS_def Let_def)
qed

section \<open>Properties\<close>

text \<open>
  C1. Breakpoints are transparent: however sites are created, enabled, disabled and removed, with
  failures of the kernel in between, every enabled software site has its trap in memory, addresses
  stay unique, and the memory of the program with the saved bytes put back is what it was.
\<close>

theorem breakpoints_transparent:
  assumes "site_ops K fo p q" "memory_kernel K (p_pid p) mem ok" "register_requests_keep_memory K mem"
    and "traps_ok (p_sites p) (mem (p_kernel p))"
  shows "sites_refine mem p q"
  using assms
proof (induction rule: site_ops.induct)
  case (start p)
  then show ?case by (simp add: sites_refine_def)
next
  case (create p q a hw internal r q')
  then have "sites_refine mem p q" "traps_ok (p_sites q) (mem (p_kernel q))" by (auto simp: sites_refine_def)
  then show ?case using create_refines(1) [OF _ create.hyps(2)] sites_refine_trans by blast
next
  case (create_for p q parent i a hw internal r q')
  then have "sites_refine mem p q" "traps_ok (p_sites q) (mem (p_kernel q))" by (auto simp: sites_refine_def)
  then show ?case using create_refines(2) [OF _ create_for.hyps(2)] sites_refine_trans by blast
next
  case (enable p q a r q')
  then have q: "sites_refine mem p q" by blast
  then have "traps_ok (p_sites q) (mem (p_kernel q))" "memory_kernel K (p_pid q) mem ok"
    using enable.prems by (auto simp: sites_refine_def)
  then show ?case using site_toggle_refines(1) [OF _ enable.prems(2) _ enable.hyps(2)] q sites_refine_trans by blast
next
  case (disable p q a r q')
  then have q: "sites_refine mem p q" by blast
  then have "traps_ok (p_sites q) (mem (p_kernel q))" "memory_kernel K (p_pid q) mem ok"
    using disable.prems by (auto simp: sites_refine_def)
  then show ?case using site_toggle_refines(2) [OF _ disable.prems(2) _ disable.hyps(2)] q sites_refine_trans by blast
next
  case (remove p q a r q')
  then have q: "sites_refine mem p q" by blast
  then have "traps_ok (p_sites q) (mem (p_kernel q))" "memory_kernel K (p_pid q) mem ok"
    using remove.prems by (auto simp: sites_refine_def)
  then show ?case using remove_refines [OF _ remove.prems(2) _ remove.hyps(2)] q sites_refine_trans by blast
qed

text \<open>
  C22. Reading memory without traps returns the memory of the program: for any mapped range, the bytes
  under enabled software breakpoints are the saved ones and all others are those in memory.
\<close>

theorem read_without_traps_correct:
  assumes mk: "memory_kernel K (p_pid p) mem ok" and t: "traps_ok (p_sites p) (mem (p_kernel p))"
    and m: "all_mapped ok a n" and n: "n \<le> 4096 * 1000" "unat a + n < 2 ^ 64"
  shows "read_memory_without_traps K a n p = (Inr (mem_range (program_memory (p_sites p) (mem (p_kernel p))) a n), p)"
proof -
  let ?m = "mem (p_kernel p)"
  let ?ss = "sc_get_in_region site_in_range a (a + word_of_nat n) (p_sites p)"
  have ua: "unat (a + word_of_nat i) = unat a + i" if "i \<le> n" for i
    using n that by (simp add: unat_add_mod unat_of_nat)
  have inr: "a \<le> a + word_of_nat i" "a + word_of_nat i < a + word_of_nat n" if "i < n" for i
    using ua [of i] ua [of n] that by (simp_all add: word_le_nat_alt word_less_nat_alt)
  have d: "distinct (map bs_address ?ss)" using t by (simp add: traps_ok_def sc_get_in_region_def distinct_map inj_on_def)
  have off: "unat (bs_address s - a) < n" if "s \<in> set ?ss" for s
  proof -
    have "a \<le> bs_address s" "unat (bs_address s) < unat a + n"
      using that ua [of n] by (auto simp: site.in_region_iff word_less_nat_alt)
    then show ?thesis by (simp add: unat_sub word_le_nat_alt)
  qed
  have "hide_traps a ?ss (mem_range ?m a n) = mem_range (program_memory (p_sites p) ?m) a n"
  proof (rule nth_equalityI)
    fix i assume "i < length (hide_traps a ?ss (mem_range ?m a n))"
    then have i: "i < n" by simp
    have f: "List.find (\<lambda>s. bs_address s = a + word_of_nat i \<and> trap_site s) ?ss =
        List.find (\<lambda>s. bs_address s = a + word_of_nat i \<and> trap_site s) (p_sites p)"
      unfolding sc_get_in_region_def using inr [OF i] by (intro find_filter_imp) (auto simp: site_in_range_def)
    show "hide_traps a ?ss (mem_range ?m a n) ! i = mem_range (program_memory (p_sites p) ?m) a n ! i"
      using hide_traps_nth [OF d, of a "mem_range ?m a n" i] off i n
      unfolding f by (simp add: program_memory_def split: option.split)
  qed simp
  then show ?thesis
    using read_memory_mapped [OF mk m n(1)] by (simp add: read_memory_without_traps_def process_memory_def bindS_def)
qed


text \<open>
  With all four slots enabled a hardware stop point is refused with the error of the search and
  neither a register nor the kernel is touched.
\<close>

lemma hardware_slots_exhausted:
  assumes "thread_dr p (p_current p) id_dr7 = Inr control" "\<forall>j < 4. fst (dr7_fields j control) \<noteq> 0"
  shows "set_hardware_stoppoint K fo a mode sz p = (Inl (Send ''No remaining hardware debug registers!''), p)"
proof -
  have "find_free_stoppoint_register control = Inl (Send ''No remaining hardware debug registers!'')"
  proof (cases "find_free_stoppoint_register control")
    case (Inl e)
    then show ?thesis
      by (cases "List.find (\<lambda>i. control AND push_bit (i * 2) 3 = 0) [0..<4]") (simp_all add: find_free_stoppoint_register_def)
  next
    case (Inr i)
    then show ?thesis using free_register(1,2) assms(2) by blast
  qed
  then show ?thesis
    using assms(1) by (simp add: set_hardware_stoppoint_def read_register_def thread_dr_def get_registers_def bindS_def)
qed

text \<open>A process with one thread whose memory is filled with the byte 0x90.\<close>

definition sample_process :: "(u64 \<Rightarrow> byte, unit) process" where
  "sample_process = \<lparr>p_kernel = (\<lambda>_. 0x90), p_pid = 1, p_terminate_on_end = True, p_state = stopped,
     p_attached = True, p_sites = [], p_watchpoints = [], p_catch = catch_none, p_expecting_exit = False,
     p_threads = [(1, new_thread 1)], p_current = 1, p_site_id = 0, p_watch_id = 0, p_target = None\<rparr>"

definition sample_site :: breakpoint_site where
  "sample_site = \<lparr>bs_parent = None, bs_id = 1, bs_address = 0x2000, bs_enabled = True, bs_saved = 0x55,
     bs_hardware = False, bs_internal = False, bs_hw_index = - 1\<rparr>"

lemma ram_kernel_registers: "register_requests_keep_memory ram_kernel (\<lambda>m. m)"
  by (simp add: register_requests_keep_memory_def ram_kernel_def)

theorem breakpoints_transparent_witness:
  "\<forall>fo. let (_, q1) = create_breakpoint_site 0x2000 False False sample_process;
            (_, q) = site_enable ram_kernel fo 0x2000 q1
        in p_kernel q 0x2000 = 0xcc \<and> sites_refine (\<lambda>m. m) sample_process q"
proof
  fix fo
  obtain r1 q1 where c: "create_breakpoint_site 0x2000 False False sample_process = (r1, q1)" by fastforce
  obtain r2 q where e: "site_enable ram_kernel fo 0x2000 q1 = (r2, q)" by fastforce
  have "site_ops ram_kernel fo sample_process q"
    by (rule site_ops.enable [OF site_ops.create [OF site_ops.start c] e])
  then have "sites_refine (\<lambda>m. m) sample_process q"
    by (rule breakpoints_transparent [OF _ ram_kernel_memory ram_kernel_registers])
      (simp add: traps_ok_def sample_process_def)
  moreover have "p_kernel (snd (site_enable ram_kernel fo 0x2000
      (snd (create_breakpoint_site 0x2000 False False sample_process)))) 0x2000 = 0xcc" by code_simp
  ultimately show "let (_, q1) = create_breakpoint_site 0x2000 False False sample_process;
            (_, q) = site_enable ram_kernel fo 0x2000 q1
        in p_kernel q 0x2000 = 0xcc \<and> sites_refine (\<lambda>m. m) sample_process q"
    using c e by simp
qed

theorem read_without_traps_correct_witness:
  "let p = sample_process\<lparr>p_kernel := (\<lambda>_. 0x90)(0x2000 := 0xcc), p_sites := [sample_site]\<rparr>
   in read_memory_without_traps ram_kernel 0x1ffe 4 p = (Inr [0x90, 0x90, 0x55, 0x90], p)"
proof -
  let ?p = "sample_process\<lparr>p_kernel := (\<lambda>_. 0x90)(0x2000 := 0xcc), p_sites := [sample_site]\<rparr>"
  have "traps_ok (p_sites ?p) (p_kernel ?p)" by (simp add: traps_ok_def trap_site_def sample_site_def)
  moreover have "all_mapped (\<lambda>a. (0x1000 :: u64) \<le> a) 0x1ffe 4" by code_simp
  ultimately have "read_memory_without_traps ram_kernel 0x1ffe 4 ?p =
      (Inr (mem_range (program_memory (p_sites ?p) (p_kernel ?p)) 0x1ffe 4), ?p)"
    using read_without_traps_correct [OF ram_kernel_memory, of ?p "0x1ffe" 4] by simp
  moreover have "mem_range (program_memory (p_sites ?p) (p_kernel ?p)) 0x1ffe 4 = [0x90, 0x90, 0x55, 0x90]"
    by code_simp
  ultimately show ?thesis by (simp add: Let_def)
qed

text \<open>The sample process with a second thread.\<close>

definition two_threads :: "(u64 \<Rightarrow> byte, unit) process" where
  "two_threads = sample_process\<lparr>p_threads := [(1, new_thread 1), (2, new_thread 2)]\<rparr>"

lemma two_threads_live: "all_live two_threads"
  by (simp add: all_live_def two_threads_def live_registers_def new_thread_def new_registers_def split: if_splits)


text \<open>A thread whose DR7 enables all four slots.\<close>

definition full_registers :: registers where
  "full_registers = (new_registers 1)\<lparr>reg_data := splice 904 (as_bytes (0x55 :: u64)) (replicate user_size 0)\<rparr>"

lemma full_registers_dr7: "read_by_id_as_u64 full_registers id_dr7 = Inr 0x55"
proof -
  have n: "904 \<le> user_size" "904 + 8 \<le> user_size" by (simp_all add: user_size_def)
  then have "live_registers full_registers" by (simp add: live_registers_def full_registers_def new_registers_def)
  moreover have "848 + 8 * (id_dr7 - id_dr0) = 904" by (simp add: id_dr7_def id_dr0_def)
  ultimately show ?thesis
    using dr_read [OF debug_register_dr7] n by (simp add: full_registers_def drop_splice from_as_bytes_exact)
qed

lemma hardware_slots_exhausted_witness:
  "\<forall>fo. let p = sample_process\<lparr>p_threads := [(1, (new_thread 1)\<lparr>ts_regs := full_registers\<rparr>)]\<rparr>
    in set_hardware_stoppoint ram_kernel fo 0x3000 mode_write 4 p =
       (Inl (Send ''No remaining hardware debug registers!''), p)"
proof
  fix fo
  let ?p = "sample_process\<lparr>p_threads := [(1, (new_thread 1)\<lparr>ts_regs := full_registers\<rparr>)]\<rparr>"
  have "thread_dr ?p (p_current ?p) id_dr7 = Inr 0x55"
    using full_registers_dr7 by (simp add: thread_dr_def get_registers_def sample_process_def)
  moreover have "\<forall>j < 4. fst (dr7_fields j 0x55) \<noteq> 0" by code_simp
  ultimately have "set_hardware_stoppoint ram_kernel fo 0x3000 mode_write 4 ?p =
       (Inl (Send ''No remaining hardware debug registers!''), ?p)"
    by (rule hardware_slots_exhausted)
  then show "let p = ?p in set_hardware_stoppoint ram_kernel fo 0x3000 mode_write 4 p =
       (Inl (Send ''No remaining hardware debug registers!''), p)" by simp
qed

end
