(* ===== verification/Process_Control.thy ===== *)
theory Process_Control
  imports Stoppoints
begin

text \<open>
  The control part of \<open>src/process.cpp\<close>: resuming and stepping threads, waiting for their stops,
  deciding what a stop means, stopping and reaping the other threads, calling a function in the
  inferior, attaching, launching and tearing down. What the debugger calls back into (the target, the
  callback of a breakpoint, the callback the command line installs) is a record of operations on
  the process. \<open>wait_on_signal\<close> calls itself as long as the kernel delivers stops that are not
  reported, so it takes fuel.
\<close>

section \<open>Calls back\<close>

definition value_or :: "'a option \<Rightarrow> 'a \<Rightarrow> 'a" where
  "value_or v d = (case v of None \<Rightarrow> d | Some x \<Rightarrow> x)"

record ('k, 't) hooks =
  h_lifecycle_callback :: "stop_reason \<Rightarrow> ('k, 't, unit) process_op"
  h_notify_hit :: "nat \<Rightarrow> ('k, 't, bool) process_op"
  h_notify_stop :: "stop_reason \<Rightarrow> ('k, 't, unit) process_op"
  h_notify_thread_lifecycle_event :: "stop_reason \<Rightarrow> ('k, 't, unit) process_op"

text \<open>\<open>if (target_) target_->...\<close>.\<close>

definition when_target :: "('k, 't, unit) process_op \<Rightarrow> ('k, 't, unit) process_op" where
  "when_target m = bindS (getS p_target) (\<lambda>t. case t of None \<Rightarrow> retS () | Some _ \<Rightarrow> m)"

definition report_thread_lifecycle_event :: "('k, 't) hooks \<Rightarrow> stop_reason \<Rightarrow> ('k, 't, unit) process_op" where
  "report_thread_lifecycle_event H reason =
    thenS (h_lifecycle_callback H reason) (when_target (h_notify_thread_lifecycle_event H reason))"

section \<open>Requests to the kernel\<close>

definition WALL :: int where "WALL = 0x40000000"

definition await :: "'k kernel \<Rightarrow> pid \<Rightarrow> int \<Rightarrow> ('k, 't, (pid \<times> u32) option) process_op" where
  "await K pid options p =
    (case k_waitpid K pid options (p_kernel p) of (r, k) \<Rightarrow> (Inr r, p\<lparr>p_kernel := k\<rparr>))"

text \<open>A request whose failure the code does not look at.\<close>

definition attempt :: "('k \<Rightarrow> 'k option) \<Rightarrow> ('k, 't, unit) process_op" where
  "attempt f = modifyS (\<lambda>p. case f (p_kernel p) of None \<Rightarrow> p | Some k \<Rightarrow> p\<lparr>p_kernel := k\<rparr>)"

definition tgkill :: "'k kernel \<Rightarrow> pid \<Rightarrow> byte \<Rightarrow> ('k, 't, unit) process_op" where
  "tgkill K tid sig = modifyS (\<lambda>p. p\<lparr>p_kernel := k_tgkill K (p_pid p) tid (unat sig) (p_kernel p)\<rparr>)"

section \<open>Resuming\<close>

definition swallow_pending_sigstop :: "'k kernel \<Rightarrow> pid \<Rightarrow> ('k, 't, unit) process_op" where
  "swallow_pending_sigstop K tid =
    bindS (get_thread tid) (\<lambda>t.
      if ts_pending_sigstop t then
        thenS (attempt (k_cont K tid))
        (bindS (await K tid 0) (\<lambda>_.
           modifyS (update_thread tid (\<lambda>t. t\<lparr>ts_pending_sigstop := False\<rparr>))))
      else retS ())"

definition enabled_site_at :: "virt_addr \<Rightarrow> ('k, 't) process \<Rightarrow> bool" where
  "enabled_site_at a p \<longleftrightarrow> sc_enabled_stoppoint_at_address site_at bs_enabled a (p_sites p)"

definition step_over_breakpoint :: "'k kernel \<Rightarrow> float_ops \<Rightarrow> pid \<Rightarrow> ('k, 't, unit) process_op" where
  "step_over_breakpoint K fo tid =
    bindS (get_pc (Some tid)) (\<lambda>pc.
    bindS (getS (enabled_site_at pc)) (\<lambda>at_breakpoint.
      if at_breakpoint then
        thenS (site_disable K fo pc)
        (thenS (swallow_pending_sigstop K tid)
        (thenS (request ''Failed to single step!'' (k_singlestep K tid))
        (bindS (await K tid 0) (\<lambda>r.
           if r = None then throwS (Send_errno ''waitpid failed!'') else site_enable K fo pc))))
      else retS ()))"

definition send_continue :: "'k kernel \<Rightarrow> pid \<Rightarrow> ('k, 't, unit) process_op" where
  "send_continue K tid =
    bindS (getS p_catch) (\<lambda>policy.
    thenS (request ''Could NOT resume'' (if policy = catch_none then k_cont K tid else k_syscall K tid))
    (bindS (get_thread tid) (\<lambda>_.
      thenS (modifyS (update_thread tid (\<lambda>t. t\<lparr>ts_state := running\<rparr>)))
        (modifyS (\<lambda>p. p\<lparr>p_state := running\<rparr>)))))"

definition thread_ids :: "('k, 't) process \<Rightarrow> pid list" where
  "thread_ids p = map fst (p_threads p)"

definition resume_all_threads :: "'k kernel \<Rightarrow> float_ops \<Rightarrow> ('k, 't, unit) process_op" where
  "resume_all_threads K fo =
    thenS (bindS (getS thread_ids) (forS (step_over_breakpoint K fo)))
      (bindS (getS thread_ids) (forS (send_continue K)))"

definition resume :: "'k kernel \<Rightarrow> float_ops \<Rightarrow> pid option \<Rightarrow> ('k, 't, unit) process_op" where
  "resume K fo otid =
    bindS (getS (\<lambda>p. value_or otid (p_current p))) (\<lambda>tid.
      thenS (step_over_breakpoint K fo tid) (send_continue K tid))"

section \<open>What a stop means\<close>

definition read_debug_register :: "'k kernel \<Rightarrow> pid \<Rightarrow> nat \<Rightarrow> (registers \<times> 'k, unit) prog" where
  "read_debug_register K tid i =
    bindS (liftS (register_info_by_id (id_dr0 + i))) (\<lambda>info.
    bindS (getS (\<lambda>(_, k). k_peekuser K tid (ri_offset info) k)) (\<lambda>r.
      case r of
        None \<Rightarrow> throwS (Send_errno ''Could not read debug register'')
      | Some data \<Rightarrow> modifyS (\<lambda>(regs, k).
          (regs\<lparr>reg_data := splice (u_debugreg_offset + 8 * i) (as_bytes data) (reg_data regs)\<rparr>, k))))"

definition read_all_registers :: "'k kernel \<Rightarrow> pid \<Rightarrow> ('k, 't, unit) process_op" where
  "read_all_registers K tid =
    on_registers tid
      (bindS (getS (\<lambda>(_, k). k_getregs K tid k)) (\<lambda>gprs.
       case gprs of
         None \<Rightarrow> throwS (Send_errno ''Could not read GPR registers'')
       | Some bs \<Rightarrow>
           thenS (modifyS (\<lambda>(regs, k). (regs\<lparr>reg_data := splice 0 bs (reg_data regs)\<rparr>, k)))
           (bindS (getS (\<lambda>(_, k). k_getfpregs K tid k)) (\<lambda>fprs.
            case fprs of
              None \<Rightarrow> throwS (Send_errno ''Could not read FPR registers'')
            | Some fs \<Rightarrow>
                thenS (modifyS (\<lambda>(regs, k). (regs\<lparr>reg_data := splice i387_offset fs (reg_data regs)\<rparr>, k)))
                  (forS (read_debug_register K tid) [0..<8])))))"

definition TRAP_TRACE :: int where "TRAP_TRACE = 2"

definition TRAP_HWBKPT :: int where "TRAP_HWBKPT = 4"

definition SI_KERNEL :: int where "SI_KERNEL = 128"

definition trap_of_code :: "int \<Rightarrow> trap_type" where
  "trap_of_code si_code =
    (if si_code = TRAP_TRACE then single_step
     else if si_code = SI_KERNEL then software_break
     else if si_code = TRAP_HWBKPT then hardware_break
     else unknown)"

definition syscall_arg_registers :: "register_id list" where
  "syscall_arg_registers = [id_rdi, id_rsi, id_rdx, id_r10, id_r8, id_r9]"

fun read_registers :: "pid option \<Rightarrow> register_id list \<Rightarrow> ('k, 't, u64 list) process_op" where
  "read_registers otid [] = retS []"
| "read_registers otid (i # is) =
    bindS (read_register otid i) (\<lambda>w. bindS (read_registers otid is) (\<lambda>ws. retS (w # ws)))"

definition syscall_stop_info :: byte where
  "syscall_stop_info = SIGTRAP OR 0x80"

definition syscall_exit_info :: "pid \<Rightarrow> ('k, 't, syscall_information) process_op" where
  "syscall_exit_info tid =
    bindS (read_register (Some tid) id_orig_rax) (\<lambda>i.
    bindS (read_register (Some tid) id_rax) (\<lambda>ret.
    thenS (modifyS (\<lambda>p. p\<lparr>p_expecting_exit := False\<rparr>))
      (retS \<lparr>si_id = ucast i, si_entry = False, si_data = syscall_ret ret\<rparr>)))"

definition syscall_entry_info :: "pid \<Rightarrow> ('k, 't, syscall_information) process_op" where
  "syscall_entry_info tid =
    bindS (read_register (Some tid) id_orig_rax) (\<lambda>i.
    bindS (read_registers (Some tid) syscall_arg_registers) (\<lambda>args.
    thenS (modifyS (\<lambda>p. p\<lparr>p_expecting_exit := True\<rparr>))
      (retS \<lparr>si_id = ucast i, si_entry = True, si_data = syscall_args args\<rparr>)))"

definition augment_stop_reason :: "'k kernel \<Rightarrow> stop_reason \<Rightarrow> ('k, 't, stop_reason) process_op" where
  "augment_stop_reason K reason =
    (let tid = sr_tid reason
     in bindS (query (\<lambda>k. the_opt (Send_errno ''Failed to get signal info!'') (k_getsiginfo K tid k))) (\<lambda>si_code.
          if sr_info reason = syscall_stop_info then
            bindS (getS p_expecting_exit) (\<lambda>ex.
            bindS (if ex then syscall_exit_info tid else syscall_entry_info tid) (\<lambda>info.
              retS (reason\<lparr>sr_syscall := Some info, sr_info := SIGTRAP, sr_trap := Some syscall\<rparr>)))
          else
            thenS (modifyS (\<lambda>p. p\<lparr>p_expecting_exit := False\<rparr>))
              (retS (reason\<lparr>sr_trap := Some (if sr_info reason = SIGTRAP then trap_of_code si_code else unknown)\<rparr>))))"

text \<open>\<open>std::variant\<close> of two identifiers: \<open>Inl\<close> a breakpoint site, \<open>Inr\<close> a watchpoint.\<close>

definition ctz :: "u64 \<Rightarrow> nat result" where
  "ctz w = (case List.find (bit w) [0..<64] of
     None \<Rightarrow> Inl (Undefined ''__builtin_ctzll of zero'') | Some i \<Rightarrow> Inr i)"

definition get_current_hardware_stoppoint :: "pid option \<Rightarrow> ('k, 't, int + int) process_op" where
  "get_current_hardware_stoppoint otid =
    bindS (read_register otid id_dr6) (\<lambda>status.
    bindS (liftS (ctz status)) (\<lambda>index.
    bindS (read_register otid (id_dr0 + index)) (\<lambda>addr.
    bindS (getS p_sites) (\<lambda>sites.
      if sc_contains_address site_at addr sites then
        bindS (liftS (sc_get_by_address site_at addr sites)) (\<lambda>s. retS (Inl (bs_id s)))
      else
        bindS (getS p_watchpoints) (\<lambda>ws.
        bindS (liftS (sc_get_by_address watchpoint_at addr ws)) (\<lambda>w. retS (Inr (wp_id w))))))))"

definition should_resume_from_syscall :: "stop_reason \<Rightarrow> ('k, 't, bool) process_op" where
  "should_resume_from_syscall reason =
    bindS (getS p_catch) (\<lambda>policy.
      case policy of
        catch_some to_catch \<Rightarrow>
          (case sr_syscall reason of
             None \<Rightarrow> throwS (Undefined ''empty optional'')
           | Some info \<Rightarrow> retS (int (unat (si_id info)) \<notin> set to_catch))
      | _ \<Rightarrow> retS False)"

text \<open>The block for \<open>SIGTRAP\<close>; true where the thread is to be restarted without a report.\<close>

definition handle_trap ::
  "('k, 't) hooks \<Rightarrow> 'k kernel \<Rightarrow> float_ops \<Rightarrow> stop_reason \<Rightarrow> bool \<Rightarrow> ('k, 't, bool) process_op" where
  "handle_trap H K fo reason is_main_stop =
    (let tid = sr_tid reason
     in bindS (get_pc (Some tid)) (\<lambda>pc.
        let instr_begin = pc - 1
        in bindS (getS p_sites) (\<lambda>sites.
          if sr_trap reason = Some software_break \<and> sc_contains_address site_at instr_begin sites \<and>
             sc_enabled_stoppoint_at_address site_at bs_enabled instr_begin sites then
            thenS (set_pc K fo instr_begin (Some tid))
            (bindS (getS p_sites) (\<lambda>sites'.
             bindS (liftS (sc_get_by_address site_at instr_begin sites')) (\<lambda>bp.
               case bs_parent bp of
                 None \<Rightarrow> retS False
               | Some parent \<Rightarrow> bindS (h_notify_hit H parent) (\<lambda>should_restart. retS (should_restart \<and> is_main_stop)))))
          else if sr_trap reason = Some hardware_break then
            bindS (get_current_hardware_stoppoint (Some tid)) (\<lambda>i.
              case i of
                Inl _ \<Rightarrow> retS False
              | Inr wid \<Rightarrow> thenS (on_watchpoint wid (watchpoint_update_data K)) (retS False))
          else if sr_trap reason = Some syscall \<and> is_main_stop then should_resume_from_syscall reason
          else retS False)))"

definition handle_signal ::
  "('k, 't) hooks \<Rightarrow> 'k kernel \<Rightarrow> float_ops \<Rightarrow> stop_reason \<Rightarrow> bool \<Rightarrow> ('k, 't, stop_reason option) process_op" where
  "handle_signal H K fo reason is_main_stop =
    (let tid = sr_tid reason
     in if sr_trap reason = Some clone \<and> is_main_stop then retS None
        else bindS (getS p_attached) (\<lambda>attached.
          if \<not> (attached \<and> sr_reason reason = stopped) then retS (Some reason)
          else bindS (getS (\<lambda>p. tid \<notin> set (thread_ids p))) (\<lambda>is_new.
            thenS (if is_new then
                     thenS (modifyS (\<lambda>p. p\<lparr>p_threads := emplace tid (new_thread tid) (p_threads p)\<rparr>))
                       (report_thread_lifecycle_event H reason)
                   else retS ())
            (if is_new \<and> is_main_stop then retS None
             else bindS (get_thread tid) (\<lambda>t.
               if ts_pending_sigstop t \<and> sr_info reason = SIGSTOP then
                 thenS (modifyS (update_thread tid (\<lambda>t. t\<lparr>ts_pending_sigstop := False\<rparr>))) (retS None)
               else
                 thenS (read_all_registers K tid)
                 (bindS (augment_stop_reason K reason) (\<lambda>reason'.
                  bindS (if sr_info reason' = SIGTRAP then handle_trap H K fo reason' is_main_stop else retS False)
                    (\<lambda>restart.
                      if restart then retS None
                      else thenS (when_target (h_notify_stop H reason')) (retS (Some reason'))))))))))"

section \<open>Stopping and reaping the other threads\<close>

definition record_stop :: "pid \<Rightarrow> stop_reason \<Rightarrow> ('k, 't) process \<Rightarrow> ('k, 't) process" where
  "record_stop tid reason = update_thread tid (\<lambda>t. t\<lparr>ts_reason := reason, ts_state := sr_reason reason\<rparr>)"

definition note_sigstop :: "stop_reason \<Rightarrow> thread_state \<Rightarrow> thread_state" where
  "note_sigstop reason t =
    (if sr_reason reason = stopped then
       if sr_info reason \<noteq> SIGSTOP then t\<lparr>ts_pending_sigstop := True\<rparr>
       else if ts_pending_sigstop t then t\<lparr>ts_pending_sigstop := False\<rparr>
       else t
     else t)"

definition stop_running_thread ::
  "('k, 't) hooks \<Rightarrow> 'k kernel \<Rightarrow> float_ops \<Rightarrow> pid \<Rightarrow> ('k, 't, unit) process_op" where
  "stop_running_thread H K fo tid =
    bindS (get_thread tid) (\<lambda>thread.
      if ts_state thread \<noteq> running then retS ()
      else
        thenS (if \<not> ts_pending_sigstop thread then tgkill K tid SIGSTOP else retS ())
        (bindS (await K tid 0) (\<lambda>r.
           case r of
             None \<Rightarrow> throwS (Undefined ''uninitialised wait status'')
           | Some (_, wait_status) \<Rightarrow>
               bindS (liftS (stop_reason_of tid wait_status)) (\<lambda>thread_reason.
               thenS (modifyS (update_thread tid (note_sigstop thread_reason)))
               (bindS (handle_signal H K fo thread_reason False) (\<lambda>handled.
                let reason = value_or handled thread_reason
                in bindS (get_thread tid) (\<lambda>_. modifyS (record_stop tid reason))))))))"

definition stop_running_threads :: "('k, 't) hooks \<Rightarrow> 'k kernel \<Rightarrow> float_ops \<Rightarrow> ('k, 't, unit) process_op" where
  "stop_running_threads H K fo = bindS (getS thread_ids) (forS (stop_running_thread H K fo))"

fun scan_exited ::
  "('k, 't) hooks \<Rightarrow> pid \<Rightarrow> pid list \<Rightarrow> pid list \<Rightarrow> stop_reason option \<Rightarrow>
     ('k, 't, pid list \<times> stop_reason option) process_op" where
  "scan_exited H main_stop_tid [] to_remove to_report = retS (to_remove, to_report)"
| "scan_exited H main_stop_tid (tid # tids) to_remove to_report =
    bindS (get_thread tid) (\<lambda>thread.
      if tid \<noteq> main_stop_tid \<and> (ts_state thread = exited \<or> ts_state thread = terminated) then
        thenS (report_thread_lifecycle_event H (ts_reason thread))
          (bindS (getS p_pid) (\<lambda>pid.
             scan_exited H main_stop_tid tids (to_remove @ [tid])
               (if tid = pid then Some (ts_reason thread) else to_report)))
      else scan_exited H main_stop_tid tids to_remove to_report)"

definition cleanup_exited_threads :: "('k, 't) hooks \<Rightarrow> pid \<Rightarrow> ('k, 't, stop_reason option) process_op" where
  "cleanup_exited_threads H main_stop_tid =
    bindS (getS thread_ids) (\<lambda>tids.
    bindS (scan_exited H main_stop_tid tids [] None) (\<lambda>(to_remove, to_report).
      thenS (modifyS (\<lambda>p. p\<lparr>p_threads := filter (\<lambda>(tid, _). tid \<notin> set to_remove) (p_threads p)\<rparr>))
        (retS to_report)))"

section \<open>Waiting\<close>

definition recover_stop ::
  "('k, 't) hooks \<Rightarrow> 'k kernel \<Rightarrow> float_ops \<Rightarrow> pid \<Rightarrow> stop_reason \<Rightarrow> gsdb_error \<Rightarrow> ('k, 't, 'a) process_op" where
  "recover_stop H K fo tid reason e =
    (if \<not> is_exception e then throwS e
     else thenS (modifyS (record_stop tid reason))
          (thenS (stop_running_threads H K fo)
          (thenS (modifyS (\<lambda>p. p\<lparr>p_state := sr_reason reason, p_current := tid\<rparr>))
          (throwS e))))"

fun wait_on_signal ::
  "nat \<Rightarrow> ('k, 't) hooks \<Rightarrow> 'k kernel \<Rightarrow> float_ops \<Rightarrow> pid \<Rightarrow> ('k, 't, stop_reason) process_op" where
  "wait_on_signal 0 H K fo to_await = throwS (No_return ''fuel'')"
| "wait_on_signal (Suc n) H K fo to_await =
    bindS (await K to_await WALL) (\<lambda>r.
      case r of
        None \<Rightarrow> throwS (Send_errno ''waitpid FAILED'')
      | Some (tid, wait_status) \<Rightarrow>
          bindS (liftS (stop_reason_of tid wait_status)) (\<lambda>reason.
          bindS (catchS (handle_signal H K fo reason True) (recover_stop H K fo tid reason)) (\<lambda>final_reason.
            case final_reason of
              None \<Rightarrow> thenS (resume K fo (Some tid)) (wait_on_signal n H K fo to_await)
            | Some reason \<Rightarrow>
                bindS (get_thread tid) (\<lambda>_.
                thenS (modifyS (record_stop tid reason))
                (if sr_reason reason = exited \<or> sr_reason reason = terminated then
                   thenS (report_thread_lifecycle_event H reason)
                     (bindS (getS p_pid) (\<lambda>pid.
                        if tid = pid then thenS (modifyS (\<lambda>p. p\<lparr>p_state := sr_reason reason\<rparr>)) (retS reason)
                        else wait_on_signal n H K fo (- 1)))
                 else
                   thenS (stop_running_threads H K fo)
                   (bindS (cleanup_exited_threads H tid) (\<lambda>to_report.
                      let reason = value_or to_report reason
                      in thenS (modifyS (\<lambda>p. p\<lparr>p_state := sr_reason reason, p_current := tid\<rparr>))
                           (retS reason))))))))"

section \<open>Stepping and calling\<close>

definition step_instruction ::
  "nat \<Rightarrow> ('k, 't) hooks \<Rightarrow> 'k kernel \<Rightarrow> float_ops \<Rightarrow> pid option \<Rightarrow> ('k, 't, stop_reason) process_op" where
  "step_instruction n H K fo otid =
    bindS (getS (\<lambda>p. value_or otid (p_current p))) (\<lambda>tid.
    bindS (get_pc (Some tid)) (\<lambda>pc.
    bindS (getS (enabled_site_at pc)) (\<lambda>to_reenable.
    thenS (if to_reenable then site_disable K fo pc else retS ())
    (thenS (swallow_pending_sigstop K tid)
    (thenS (request ''Could not single step!'' (k_singlestep K tid))
    (bindS (wait_on_signal n H K fo tid) (\<lambda>reason.
     thenS (if to_reenable then site_enable K fo pc else retS ())
       (retS reason))))))))"

definition process_write_memory :: "'k kernel \<Rightarrow> virt_addr \<Rightarrow> byte list \<Rightarrow> ('k, 't, unit) process_op" where
  "process_write_memory K a data =
    bindS (getS p_pid) (\<lambda>pid. zoomS p_kernel (\<lambda>k p. p\<lparr>p_kernel := k\<rparr>) (write_memory K pid a data))"

definition inferior_call ::
  "nat \<Rightarrow> ('k, 't) hooks \<Rightarrow> 'k kernel \<Rightarrow> float_ops \<Rightarrow> virt_addr \<Rightarrow> virt_addr \<Rightarrow> registers \<Rightarrow> pid option \<Rightarrow>
     ('k, 't, registers) process_op" where
  "inferior_call n H K fo func_addr return_addr regs_to_restore otid =
    bindS (getS (\<lambda>p. value_or otid (p_current p))) (\<lambda>tid.
    thenS (write_thread_register K fo tid id_rip (V_u64 func_addr))
    (bindS (read_register (Some tid) id_rsp) (\<lambda>rsp0.
     let rsp = rsp0 - 8
     in thenS (process_write_memory K rsp (as_bytes return_addr))
        (thenS (write_thread_register K fo tid id_rsp (V_u64 rsp))
        (thenS (resume K fo (Some tid))
        (bindS (wait_on_signal n H K fo tid) (\<lambda>reason.
           if sr_reason reason \<noteq> stopped then throwS (Send ''Function call failed!'')
           else
             bindS (getS (get_registers (Some tid))) (\<lambda>r.
             bindS (liftS r) (\<lambda>new_regs.
             thenS (on_registers tid (thenS (modifyS (\<lambda>(_, k). (regs_to_restore, k))) (registers_flush K)))
             (thenS (when_target (h_notify_stop H reason))
               (retS new_regs)))))))))))"

end
