(* ===== verification/Process_Stops.thy ===== *)
theory Process_Stops
  imports Process_Control
begin

text \<open>
  Facts about \<open>Process_Control\<close>: what a reported stop guarantees of the threads, what a breakpoint hit,
  a system call and a step over a breakpoint do.
\<close>

section \<open>Running threads\<close>

definition running_threads :: "('k, 't) process \<Rightarrow> pid set" where
  "running_threads p = {tid. \<exists>t. map_of (p_threads p) tid = Some t \<and> ts_state t = running}"

definition runs_within :: "pid set \<Rightarrow> ('k, 't) process \<Rightarrow> bool" where
  "runs_within S p \<longleftrightarrow> running_threads p \<subseteq> S"

text \<open>Calls back that do not set threads running.\<close>

definition hooks_passive :: "('k, 't) hooks \<Rightarrow> bool" where
  "hooks_passive H \<longleftrightarrow>
    (\<forall>S r i. keepsS (runs_within S) (h_lifecycle_callback H r) \<and> keepsS (runs_within S) (h_notify_hit H i) \<and>
       keepsS (runs_within S) (h_notify_stop H r) \<and> keepsS (runs_within S) (h_notify_thread_lifecycle_event H r))"

lemma runs_within_cong:
  "p_threads q = p_threads p \<Longrightarrow> runs_within S q = runs_within S p"
  by (simp add: runs_within_def running_threads_def)

lemma runs_within_kernel [simp]:
  "runs_within S (p\<lparr>p_kernel := k\<rparr>) = runs_within S p" "runs_within S (p\<lparr>p_sites := ss\<rparr>) = runs_within S p"
  "runs_within S (p\<lparr>p_watchpoints := ws\<rparr>) = runs_within S p" "runs_within S (p\<lparr>p_expecting_exit := b\<rparr>) = runs_within S p"
  "runs_within S (p\<lparr>p_state := s\<rparr>) = runs_within S p" "runs_within S (p\<lparr>p_current := c\<rparr>) = runs_within S p"
  by (simp_all add: runs_within_def running_threads_def)

lemma runs_within_update:
  assumes "runs_within S p" "\<And>t. ts_state (f t) = running \<Longrightarrow> ts_state t = running"
  shows "runs_within S (update_thread tid f p)"
  using assms by (auto simp: runs_within_def running_threads_def update_thread_lookup split: if_splits)

lemma runs_within_record:
  assumes "runs_within S p" "sr_reason r \<noteq> running"
  shows "runs_within (S - {tid}) (record_stop tid r p)"
  using assms by (auto simp: runs_within_def running_threads_def record_stop_def update_thread_lookup split: if_splits)

lemma keeps_await [keeps_intros]: "keepsS (runs_within S) (await K tid opts)"
  by (simp add: keepsS_def await_def split: prod.splits)

lemma keeps_request [keeps_intros]:
  "keepsS (runs_within S) (request msg f)" "keepsS (runs_within S) (attempt f)" "keepsS (runs_within S) (query g)"
  "keepsS (runs_within S) (tgkill K tid sig)" "keepsS (runs_within S) (get_thread tid)"
  by (auto simp: keepsS_def request_def attempt_def query_def tgkill_def get_thread_def split: option.splits)

lemma keeps_registers [keeps_intros]: "keepsS (runs_within S) (on_registers tid m)"
  unfolding keepsS_def on_registers_def
  by (auto split: option.splits prod.splits intro!: runs_within_update)

lemma keeps_read_registers [keeps_intros]: "keepsS I (read_registers otid is)"
proof (induction "is")
  case (Cons i "is")
  show ?case unfolding read_registers.simps by (intro keeps_intros Cons.IH)
qed (simp add: keepsS_def)

lemma keeps_process_memory [keeps_intros]: "keepsS I (process_memory K a n)"
  by (simp add: keepsS_def process_memory_def)

lemma keeps_get_pc [keeps_intros]: "keepsS I (get_pc otid)"
  by (simp add: get_pc_def keeps_read_register)

lemma keeps_threads_modify [keeps_intros]:
  "keepsS (runs_within S) (modifyS (update_thread tid (\<lambda>t. t\<lparr>ts_pending_sigstop := b\<rparr>)))"
  "keepsS (runs_within S) (modifyS (update_thread tid (note_sigstop r)))"
  "keepsS (runs_within S) (modifyS (\<lambda>p. p\<lparr>p_expecting_exit := b\<rparr>))"
  "keepsS (runs_within S) (modifyS (\<lambda>p. p\<lparr>p_watchpoints := f p\<rparr>))"
  "keepsS (runs_within S) (modifyS (\<lambda>p. p\<lparr>p_state := s, p_current := c\<rparr>))"
  by (auto intro!: keepsS_modify runs_within_update simp: note_sigstop_def split: if_splits)

lemma keeps_new_thread [keeps_intros]:
  "keepsS (runs_within S) (modifyS (\<lambda>p. p\<lparr>p_threads := emplace tid (new_thread tid) (p_threads p)\<rparr>))"
proof (rule keepsS_modify)
  fix p :: "('a, 'b) process"
  assume "runs_within S p"
  then show "runs_within S (p\<lparr>p_threads := emplace tid (new_thread tid) (p_threads p)\<rparr>)"
    unfolding runs_within_def running_threads_def by (fastforce simp: emplace_lookup new_thread_def split: if_splits)
qed

lemma keeps_hooks:
  assumes "hooks_passive H"
  shows "keepsS (runs_within S) (report_thread_lifecycle_event H r)"
    and "keepsS (runs_within S) (when_target (h_notify_stop H r))"
    and "keepsS (runs_within S) (h_notify_hit H i)"
  using assms
  by (auto intro!: keeps_intros simp: report_thread_lifecycle_event_def when_target_def hooks_passive_def)

lemma keeps_handle_trap:
  assumes "hooks_passive H"
  shows "keepsS (runs_within S) (handle_trap H K fo r b)"
  unfolding handle_trap_def Let_def set_pc_def get_current_hardware_stoppoint_def on_watchpoint_def
    watchpoint_update_data_def should_resume_from_syscall_def
  by (intro keeps_intros keeps_hooks [OF assms])
    (auto intro!: keeps_intros keeps_hooks [OF assms] split: sum.splits syscall_catch_policy.splits)

lemma keeps_handle_signal:
  assumes "hooks_passive H"
  shows "keepsS (runs_within S) (handle_signal H K fo r b)"
  unfolding handle_signal_def Let_def read_all_registers_def augment_stop_reason_def syscall_exit_info_def syscall_entry_info_def
  by (intro keeps_intros keeps_hooks [OF assms] keeps_handle_trap [OF assms])

text \<open>A handled stop keeps its thread and kind.\<close>

definition stays :: "stop_reason \<Rightarrow> stop_reason option \<Rightarrow> bool" where
  "stays r res \<longleftrightarrow> (case res of None \<Rightarrow> True | Some r' \<Rightarrow> sr_reason r' = sr_reason r \<and> sr_tid r' = sr_tid r)"

lemma augment_stays:
  "augment_stop_reason K r p = (Inr r', p') \<Longrightarrow> sr_reason r' = sr_reason r \<and> sr_tid r' = sr_tid r"
  by (auto simp: augment_stop_reason_def Let_def bindS_Inr_iff thenS_Inr_iff split: if_split_asm)

lemma handle_signal_stays: "handle_signal H K fo r b p = (Inr res, p') \<Longrightarrow> stays r res"
  by (auto simp: handle_signal_def Let_def bindS_Inr_iff thenS_Inr_iff stays_def dest!: augment_stays split: if_split_asm)

lemma stop_reason_of_cases:
  "stop_reason_of tid st = Inr r \<Longrightarrow> sr_tid r = tid \<and> sr_reason r \<in> {stopped, exited, terminated}"
  by (auto simp: stop_reason_of_def Let_def split: if_split_asm)

lemma stop_running_thread_stops:
  assumes "hooks_passive H"
  shows "postS (runs_within S) (stop_running_thread H K fo tid) (\<lambda>_. runs_within (S - {tid}))"
  unfolding postS_def
proof (intro allI impI)
  fix p u p'
  assume p: "runs_within S p" and run: "stop_running_thread H K fo tid p = (Inr u, p')"
  from run obtain t where t: "map_of (p_threads p) tid = Some t"
    by (auto simp: stop_running_thread_def bindS_Inr_iff get_thread_def the_opt_Inr_iff)
  show "runs_within (S - {tid}) p'"
  proof (cases "ts_state t = running")
    case False
    then have "p' = p" using run t by (auto simp: stop_running_thread_def bindS_def get_thread_def)
    moreover have "tid \<notin> running_threads p" using False t by (simp add: running_threads_def)
    ultimately show ?thesis using p by (auto simp: runs_within_def)
  next
    case True
    let ?kill = "if \<not> ts_pending_sigstop t then tgkill K tid SIGSTOP else retS ()"
    from run True obtain u1 p1 u2 p2 st tid' r res p4 where
        1: "?kill p = (Inr u1, p1)"
      and 2: "await K tid 0 p1 = (Inr (Some (tid', st)), p2)"
      and r: "stop_reason_of tid st = Inr r"
      and 4: "handle_signal H K fo r False (update_thread tid (note_sigstop r) p2) = (Inr res, p4)"
      and 5: "p' = record_stop tid (value_or res r) p4"
      using t by (auto simp: stop_running_thread_def bindS_Inr_iff thenS_Inr_iff get_thread_def Let_def
          split: option.split_asm prod.split_asm)
    have "keepsS (runs_within S) ?kill" by (auto intro!: keeps_intros)
    then have "runs_within S p1" using 1 p by (rule keepsS_D)
    then have "runs_within S p2" by (rule keepsS_D [OF keeps_await 2])
    then have "runs_within S (update_thread tid (note_sigstop r) p2)"
      by (rule runs_within_update) (auto simp: note_sigstop_def split: if_splits)
    then have "runs_within S p4" by (rule keepsS_D [OF keeps_handle_signal [OF assms] 4])
    moreover have "sr_reason (value_or res r) \<noteq> running"
      using stop_reason_of_cases [OF r] handle_signal_stays [OF 4] by (auto simp: stays_def value_or_def split: option.splits)
    ultimately show ?thesis unfolding 5 by (rule runs_within_record)
  qed
qed

lemma stop_running_threads_stops:
  assumes "hooks_passive H" "stop_running_threads H K fo p = (Inr u, p')"
  shows "runs_within {} p'"
proof -
  have "postS (runs_within (set xs)) (forS (stop_running_thread H K fo) xs) (\<lambda>_. runs_within {})" for xs
  proof (induction xs)
    case (Cons x xs)
    have "postS (runs_within (set (x # xs) - {x})) (forS (stop_running_thread H K fo) xs) (\<lambda>_. runs_within {})"
      using Cons.IH unfolding postS_def runs_within_def by fastforce
    then show ?case unfolding forS.simps by (rule postS_then [OF stop_running_thread_stops [OF assms(1)]])
  qed (simp add: postS_def)
  moreover have "runs_within (set (thread_ids p)) p"
    by (auto simp: runs_within_def running_threads_def thread_ids_def dest!: map_of_SomeD intro: rev_image_eqI)
  ultimately show ?thesis using assms(2) by (auto simp: stop_running_threads_def postS_def)
qed

lemma scan_exited_keeps:
  assumes "hooks_passive H"
  shows "keepsS (runs_within S) (scan_exited H main tids rm rep)"
proof (induction tids arbitrary: rm rep)
  case (Cons tid tids)
  show ?case unfolding scan_exited.simps by (intro keeps_intros keeps_hooks [OF assms] Cons.IH)
qed (simp add: keepsS_def)

lemma cleanup_keeps:
  assumes "hooks_passive H"
  shows "keepsS (runs_within S) (cleanup_exited_threads H main)"
proof -
  have look: "map_of (filter (\<lambda>(tid, _). tid \<notin> R) xs) x = (if x \<in> R then None else map_of xs x)"
    for R :: "pid set" and xs :: "(pid \<times> thread_state) list" and x
    by (induction xs) auto
  have "keepsS (runs_within S) (modifyS (\<lambda>p. p\<lparr>p_threads := filter (\<lambda>(tid, _). tid \<notin> set rm) (p_threads p)\<rparr>))" for rm
    by (rule keepsS_modify) (auto simp: runs_within_def running_threads_def look split: if_splits)
  then show ?thesis
    unfolding cleanup_exited_threads_def
    by (intro keeps_intros scan_exited_keeps [OF assms]) (auto intro!: keeps_intros)
qed

text \<open>The last part of \<open>wait_on_signal\<close>, where a stop is reported.\<close>

lemma report_stop_quiet:
  assumes "hooks_passive H"
    and "thenS (stop_running_threads H K fo) (bindS (cleanup_exited_threads H tid) (\<lambda>to_report.
        let reason = value_or to_report reason
        in thenS (modifyS (\<lambda>p. p\<lparr>p_state := sr_reason reason, p_current := tid\<rparr>)) (retS reason))) p = (Inr r, p')"
  shows "runs_within {} p' \<and> p_state p' = sr_reason r \<and> p_current p' = tid"
proof -
  from assms(2) obtain u p1 rep p2 where 1: "stop_running_threads H K fo p = (Inr u, p1)"
    and 2: "cleanup_exited_threads H tid p1 = (Inr rep, p2)"
    and 3: "r = value_or rep reason" "p' = p2\<lparr>p_state := sr_reason r, p_current := tid\<rparr>"
    by (auto simp: thenS_Inr_iff bindS_Inr_iff Let_def)
  have "runs_within {} p1" by (rule stop_running_threads_stops [OF assms(1) 1])
  then have "runs_within {} p2" by (rule keepsS_D [OF cleanup_keeps [OF assms(1)] 2])
  then show ?thesis by (simp add: 3)
qed

section \<open>Switching a site\<close>

lemma replace_get:
  assumes "sc_get_by_address site_at a xs = Inr s" "bs_address s' = a"
  shows "sc_get_by_address site_at a (sc_replace (\<lambda>x. site_at x a) s' xs) = Inr s'"
proof -
  have "\<exists>x \<in> set xs. site_at x a" using site.get_by_address_Inr [OF assms(1)] by (auto simp: site_at_def)
  then have "List.find (\<lambda>x. site_at x a) (sc_replace (\<lambda>x. site_at x a) s' xs) = Some s'"
    using assms(2) by (induction xs) (auto simp: site_at_def)
  then show ?thesis by (simp add: sc_get_by_address_def sc_find_by_address_def)
qed

lemma on_site_Inr:
  assumes "on_site a f p = (Inr u, p')"
  shows "\<exists>s s' p1. sc_get_by_address site_at a (p_sites p) = Inr s \<and> f s p = (Inr s', p1) \<and>
    p' = p1\<lparr>p_sites := sc_replace (\<lambda>x. site_at x a) s' (p_sites p1)\<rparr>"
  using assms unfolding on_site_def by (auto simp: bindS_Inr_iff)

lemma enable_result: "breakpoint_site_enable K fo s p = (Inr s', p') \<Longrightarrow> bs_enabled s'"
  by (auto simp: breakpoint_site_enable_def bindS_Inr_iff thenS_Inr_iff split: if_split_asm)

lemma disable_result: "breakpoint_site_disable K fo s p = (Inr s', p') \<Longrightarrow> \<not> bs_enabled s'"
  by (auto simp: breakpoint_site_disable_def bindS_Inr_iff thenS_Inr_iff split: if_split_asm)

lemma toggled_site:
  assumes K: "memory_kernel K (p_pid p) mem ok" "register_requests_keep_memory K mem"
    and t: "traps_ok (p_sites p) (mem (p_kernel p))"
  shows "site_enable K fo a p = (Inr u, p') \<Longrightarrow> \<exists>s. sc_get_by_address site_at a (p_sites p') = Inr s \<and> bs_enabled s \<and>
      map bs_address (p_sites p') = map bs_address (p_sites p)"
    and "site_disable K fo a p = (Inr u, p') \<Longrightarrow> \<exists>s. sc_get_by_address site_at a (p_sites p') = Inr s \<and> \<not> bs_enabled s \<and>
      map bs_address (p_sites p') = map bs_address (p_sites p)"
proof -
  have get: "sc_get_by_address site_at a (p_sites p') = Inr s' \<and> map bs_address (p_sites p') = map bs_address (p_sites p)"
    if "sc_get_by_address site_at a (p_sites p) = Inr s" "site_op_ok mem s p (Inr s', p1)"
      "p' = p1\<lparr>p_sites := sc_replace (\<lambda>x. site_at x a) s' (p_sites p1)\<rparr>" for s s' p1
  proof -
    have "bs_address s' = a" "p_sites p1 = p_sites p"
      using that(2) site.get_by_address_Inr [OF that(1)] by (simp_all add: site_op_ok_def)
    then show ?thesis
      using replace_get [OF that(1)] that(3) site.replace_addresses [of "\<lambda>x. site_at x a" s'] by (simp add: site_at_def)
  qed
  have cc: "trap_site s \<longrightarrow> mem (p_kernel p) (bs_address s) = 0xcc"
    if "sc_get_by_address site_at a (p_sites p) = Inr s" for s
    using t site.get_by_address_Inr [OF that] by (auto simp: traps_ok_def)
  show "\<exists>s. sc_get_by_address site_at a (p_sites p') = Inr s \<and> bs_enabled s \<and>
      map bs_address (p_sites p') = map bs_address (p_sites p)" if "site_enable K fo a p = (Inr u, p')"
  proof -
    obtain s s' p1 where s: "sc_get_by_address site_at a (p_sites p) = Inr s" "breakpoint_site_enable K fo s p = (Inr s', p1)"
      "p' = p1\<lparr>p_sites := sc_replace (\<lambda>x. site_at x a) s' (p_sites p1)\<rparr>"
      using on_site_Inr \<open>site_enable K fo a p = (Inr u, p')\<close> unfolding site_enable_def by blast
    have "site_op_ok mem s p (Inr s', p1)" using site_enable_ok [OF K cc [OF s(1)], of fo] by (simp add: s(2))
    then show ?thesis using get [OF s(1) _ s(3)] enable_result [OF s(2)] by blast
  qed
  show "\<exists>s. sc_get_by_address site_at a (p_sites p') = Inr s \<and> \<not> bs_enabled s \<and>
      map bs_address (p_sites p') = map bs_address (p_sites p)" if "site_disable K fo a p = (Inr u, p')"
  proof -
    obtain s s' p1 where s: "sc_get_by_address site_at a (p_sites p) = Inr s" "breakpoint_site_disable K fo s p = (Inr s', p1)"
      "p' = p1\<lparr>p_sites := sc_replace (\<lambda>x. site_at x a) s' (p_sites p1)\<rparr>"
      using on_site_Inr \<open>site_disable K fo a p = (Inr u, p')\<close> unfolding site_disable_def by blast
    have "site_op_ok mem s p (Inr s', p1)" using site_disable_ok [OF K cc [OF s(1)], of fo] by (simp add: s(2))
    then show ?thesis using get [OF s(1) _ s(3)] disable_result [OF s(2)] by blast
  qed
qed

text \<open>
  The kernel lets a thread run while the debugger steps it: what it executes may write memory, but
  not the given addresses.
\<close>

definition execution_spares :: "'k kernel \<Rightarrow> ('k \<Rightarrow> u64 \<Rightarrow> byte) \<Rightarrow> pid \<Rightarrow> u64 set \<Rightarrow> bool" where
  "execution_spares K mem tid A \<longleftrightarrow>
    (\<forall>k k'. k_cont K tid k = Some k' \<or> k_singlestep K tid k = Some k' \<or> k' = snd (k_waitpid K tid 0 k) \<longrightarrow>
       (\<forall>a \<in> A. mem k' a = mem k a))"

definition spared :: "('k \<Rightarrow> u64 \<Rightarrow> byte) \<Rightarrow> u64 set \<Rightarrow> ('k, 't) process \<Rightarrow> ('k, 't) process \<Rightarrow> bool" where
  "spared mem A p0 p \<longleftrightarrow> p_sites p = p_sites p0 \<and> p_pid p = p_pid p0 \<and> (\<forall>a \<in> A. mem (p_kernel p) a = mem (p_kernel p0) a)"

lemma swallow_spares:
  assumes "execution_spares K mem tid A"
  shows "keepsS (spared mem A p0) (swallow_pending_sigstop K tid)"
    and "keepsS (spared mem A p0) (request msg (k_singlestep K tid))"
    and "keepsS (spared mem A p0) (await K tid 0)"
proof -
  show w: "keepsS (spared mem A p0) (await K tid 0)"
    using assms by (auto simp: keepsS_def spared_def await_def execution_spares_def split: prod.splits) (metis snd_conv)
  show "keepsS (spared mem A p0) (request msg (k_singlestep K tid))"
    using assms by (auto simp: keepsS_def spared_def request_def execution_spares_def split: option.splits)
  have "keepsS (spared mem A p0) (attempt (k_cont K tid))"
    using assms by (auto simp: keepsS_def spared_def attempt_def execution_spares_def split: option.splits)
  moreover have "keepsS (spared mem A p0) (modifyS (update_thread tid f))" for f
    by (rule keepsS_modify) (simp add: spared_def)
  moreover have "keepsS (spared mem A p0) (get_thread tid)" by (simp add: keepsS_def get_thread_def)
  ultimately show "keepsS (spared mem A p0) (swallow_pending_sigstop K tid)"
    unfolding swallow_pending_sigstop_def using w by (intro keeps_intros)
qed

section \<open>The program counter\<close>

lemma rip_table:
  "(let i = g_register_infos ! 16 in (ri_size i, ri_offset i, ri_format i, ri_type i = fpr)) = (8, 128, fmt_uint, False)"
  by code_simp

lemma rip_info:
  "ri_size (g_register_infos ! id_rip) = 8" "ri_offset (g_register_infos ! id_rip) = 128"
  "ri_format (g_register_infos ! id_rip) = fmt_uint" "ri_type (g_register_infos ! id_rip) \<noteq> fpr"
  using rip_table by (simp_all add: Let_def id_rip_def)

lemma write_rip:
  assumes "live_registers regs" "accepts_user_writes K"
  shows "\<exists>regs' k'. write_by_id K fo id_rip (V_u64 a) True (regs, k) = (Inr (), (regs', k')) \<and>
    read_by_id_as_u64 regs' id_rip = Inr a"
proof -
  let ?info = "g_register_infos ! id_rip"
  have i: "id_rip < 125" by (simp add: id_rip_def)
  have ok: "register_info_ok ?info" using g_nth_ok i by simp
  have len: "length (reg_data regs) = user_size" using assms(1) by (simp add: live_registers_def)
  have un: "is_undefined regs (ri_id ?info) = Inr False"
    using assms(1) i g_nth_id [OF i] by (simp add: is_undefined_def live_registers_def)
  have "value_matches ?info (V_u64 a)" using rip_info by simp
  then obtain r where r: "registers_store fo ?info (V_u64 a) regs = Inr r" "registers_read r ?info = Inr (V_u64 a)"
    using registers_read_back [OF ok len _ un] by blast
  have "length (reg_data r) = user_size" using registers_store_frame [OF ok len r(1)] by simp
  then have uf: "user_field r 128 = Inr (from_bytes (drop 128 (reg_data r)) :: u64)"
    by (simp add: user_field_def user_size_def)
  obtain k' where "k_pokeuser K (reg_tid r) 128 (from_bytes (drop 128 (reg_data r))) k = Some k'"
    using assms(2) unfolding accepts_user_writes_def by (meson not_None_eq)
  then have "registers_commit K ?info (r, k) = (Inr (), (r, k'))"
    using rip_info uf by (simp add: registers_commit_def bindS_def Let_def zoomS_def write_user_area_def)
  then show ?thesis
    using r i by (simp add: write_by_id_def registers_write_def bindS_def thenS_def read_by_id_as_u64_def)
qed

lemma set_pc_sets:
  assumes "accepts_user_writes K" "get_registers (Some tid) p = Inr regs" "live_registers regs"
  shows "\<exists>p'. set_pc K fo a (Some tid) p = (Inr (), p') \<and> get_pc (Some tid) p' = (Inr a, p') \<and> p_sites p' = p_sites p"
proof -
  obtain t where t: "map_of (p_threads p) tid = Some t" "ts_regs t = regs"
    using assms(2) by (auto simp: get_registers_def Let_def bindE_Inr_iff the_opt_Inr_iff)
  obtain regs' k' where w: "write_by_id K fo id_rip (V_u64 a) True (regs, p_kernel p) = (Inr (), (regs', k'))"
    "read_by_id_as_u64 regs' id_rip = Inr a"
    using write_rip [OF assms(3,1)] by blast
  let ?p = "(update_thread tid (\<lambda>t. t\<lparr>ts_regs := regs'\<rparr>) p)\<lparr>p_kernel := k'\<rparr>"
  have "set_pc K fo a (Some tid) p = (Inr (), ?p)" using t w(1) by (simp add: set_pc_def on_registers_def)
  moreover have "get_pc (Some tid) ?p = (Inr a, ?p)"
    using t w(2) by (simp add: get_pc_def read_register_def get_registers_def update_thread_lookup)
  moreover have "p_sites ?p = p_sites p" by simp
  ultimately show ?thesis by blast
qed

lemma on_registers_frame:
  "on_registers tid m p = (r, p') \<Longrightarrow> p_sites p' = p_sites p \<and> p_target p' = p_target p"
  by (auto simp: on_registers_def split: option.split_asm prod.split_asm)

lemma site_lookup:
  assumes "sc_get_by_address site_at a ss = Inr s" "bs_enabled s"
  shows "sc_contains_address site_at a ss" "sc_enabled_stoppoint_at_address site_at bs_enabled a ss"
  using assms
  by (simp_all add: sc_get_by_address_def sc_contains_address_def sc_enabled_stoppoint_at_address_def the_opt_Inr_iff)

lemma handle_trap_breakpoint:
  assumes K: "accepts_user_writes K" and r: "sr_trap r = Some software_break" "sr_tid r = tid"
    and regs: "get_registers (Some tid) p = Inr regs" "live_registers regs" "read_by_id_as_u64 regs id_rip = Inr (a + 1)"
    and site: "sc_get_by_address site_at a (p_sites p) = Inr s" "bs_enabled s"
    and hit: "\<And>i q. h_notify_hit H i q = (Inr restart, q)"
  shows "\<exists>p'. handle_trap H K fo r main p = (Inr (bs_parent s \<noteq> None \<and> restart \<and> main), p') \<and>
    get_pc (Some tid) p' = (Inr a, p') \<and> p_sites p' = p_sites p"
proof -
  obtain p' where p': "set_pc K fo a (Some tid) p = (Inr (), p')" "get_pc (Some tid) p' = (Inr a, p')" "p_sites p' = p_sites p"
    using set_pc_sets [OF K regs(1,2)] by blast
  have pc: "get_pc (Some tid) p = (Inr (a + 1), p)" using regs by (simp add: get_pc_def read_register_def)
  have "handle_trap H K fo r main p = (Inr (bs_parent s \<noteq> None \<and> restart \<and> main), p')"
    using pc site site_lookup [OF site] r p' hit
    by (auto simp: handle_trap_def Let_def bindS_def thenS_def split: option.split)
  then show ?thesis using p' by blast
qed

section \<open>Reading the registers of a thread\<close>

text \<open>
  The documented results of the requests that read registers: parts of the user area of the
  stopped thread.
\<close>

definition user_area_kernel :: "'k kernel \<Rightarrow> pid \<Rightarrow> ('k \<Rightarrow> byte list) \<Rightarrow> bool" where
  "user_area_kernel K tid area \<longleftrightarrow>
    (\<forall>k. length (area k) = user_size \<and>
       k_getregs K tid k = Some (take regs_size (area k)) \<and>
       k_getfpregs K tid k = Some (take i387_size (drop i387_offset (area k))) \<and>
       (\<forall>off. off mod 8 = 0 \<and> off + 8 \<le> user_size \<longrightarrow>
          k_peekuser K tid off k = Some (from_bytes (take 8 (drop off (area k))))))"

lemma splice_window_nth:
  assumes "off + n \<le> length area" "length data = length area" "j < length area"
  shows "splice off (take n (drop off area)) data ! j = (if off \<le> j \<and> j < off + n then area ! j else data ! j)"
  using assms by (auto simp: splice_def nth_append)

lemma length_splice_window:
  "off + n \<le> length area \<Longrightarrow> length data = length area \<Longrightarrow> length (splice off (take n (drop off area)) data) = length area"
  by (simp add: splice_def)

definition cache_filled :: "byte list \<Rightarrow> byte list \<Rightarrow> (nat \<Rightarrow> bool) \<Rightarrow> byte list \<Rightarrow> bool" where
  "cache_filled area old W data \<longleftrightarrow> length data = length area \<and>
    (\<forall>j < length area. data ! j = (if W j then area ! j else old ! j))"

lemma cache_filled_splice:
  assumes "cache_filled area old W data" "off + n \<le> length area"
  shows "cache_filled area old (\<lambda>j. W j \<or> off \<le> j \<and> j < off + n) (splice off (take n (drop off area)) data)"
  using assms by (auto simp: cache_filled_def splice_window_nth length_splice_window)

lemma read_debug_registers_fill:
  assumes K: "user_area_kernel K tid area" and n: "n \<le> 8"
    and d: "cache_filled (area k) old W (reg_data regs)"
  shows "\<exists>regs'. forS (read_debug_register K tid) [0..<n] (regs, k) = (Inr (), (regs', k)) \<and>
    cache_filled (area k) old (\<lambda>j. W j \<or> 848 \<le> j \<and> j < 848 + 8 * n) (reg_data regs') \<and>
    reg_undefined regs' = reg_undefined regs"
  using n
proof (induction n)
  case 0
  then show ?case using d by (auto simp: cache_filled_def)
next
  case (Suc n)
  then obtain r where r: "forS (read_debug_register K tid) [0..<n] (regs, k) = (Inr (), (r, k))"
    "cache_filled (area k) old (\<lambda>j. W j \<or> 848 \<le> j \<and> j < 848 + 8 * n) (reg_data r)" "reg_undefined r = reg_undefined regs"
    by auto
  have len: "length (area k) = 912" using K by (simp add: user_area_kernel_def user_size_def)
  have dr: "debug_register (id_dr0 + n)" using Suc.prems by (simp add: debug_register_def id_dr0_def id_dr7_def)
  let ?off = "848 + 8 * n"
  have off: "?off mod 8 = 0" "?off + 8 \<le> user_size" using Suc.prems by (simp_all add: user_size_def)
  have bytes: "as_bytes (from_bytes (take 8 (drop ?off (area k))) :: u64) = take 8 (drop ?off (area k))"
    using off len by (intro u64_rep.encode_decode) (simp add: user_size_def)
  let ?r = "r\<lparr>reg_data := splice ?off (take 8 (drop ?off (area k))) (reg_data r)\<rparr>"
  have step: "read_debug_register K tid n (r, k) = (Inr (), (?r, k))"
    using K off debug_register_info [OF dr] bytes
    by (simp add: read_debug_register_def bindS_def user_area_kernel_def u_debugreg_offset_def)
  have "cache_filled (area k) old (\<lambda>j. (W j \<or> 848 \<le> j \<and> j < 848 + 8 * n) \<or> ?off \<le> j \<and> j < ?off + 8) (reg_data ?r)"
    using cache_filled_splice [OF r(2), of ?off 8] off len by (simp add: user_size_def)
  moreover have "(\<lambda>j. (W j \<or> 848 \<le> j \<and> j < 848 + 8 * n) \<or> ?off \<le> j \<and> j < ?off + 8) =
      (\<lambda>j. W j \<or> 848 \<le> j \<and> j < 848 + 8 * Suc n)" by (auto simp: fun_eq_iff)
  ultimately show ?case using r step by (simp add: forS_append thenS_def bindS_def)
qed

lemma read_all_registers_fills:
  assumes K: "user_area_kernel K tid area" and t: "map_of (p_threads p) tid = Some t"
    and len: "length (reg_data (ts_regs t)) = user_size"
  shows "\<exists>regs. read_all_registers K tid p = (Inr (), update_thread tid (\<lambda>t. t\<lparr>ts_regs := regs\<rparr>) p) \<and>
    cache_filled (area (p_kernel p)) (reg_data (ts_regs t)) (\<lambda>j. j < 216 \<or> 224 \<le> j \<and> j < 736 \<or> 848 \<le> j) (reg_data regs) \<and>
    reg_undefined regs = reg_undefined (ts_regs t)"
proof -
  let ?a = "area (p_kernel p)" and ?r = "ts_regs t"
  have la: "length ?a = 912" using K by (simp add: user_area_kernel_def user_size_def)
  let ?d1 = "splice 0 (take 216 (drop 0 ?a)) (reg_data ?r)"
  let ?d2 = "splice 224 (take 512 (drop 224 ?a)) ?d1"
  have "cache_filled ?a (reg_data ?r) (\<lambda>_. False) (reg_data ?r)"
    using la len by (simp add: cache_filled_def user_size_def)
  from cache_filled_splice [OF cache_filled_splice [OF this, of 0 216], of 224 512]
  have f: "cache_filled ?a (reg_data ?r) (\<lambda>j. j < 216 \<or> 224 \<le> j \<and> j < 736) ?d2" using la by simp
  have d2: "?d2 = reg_data (?r\<lparr>reg_data := ?d2\<rparr>)" by simp
  from read_debug_registers_fill [OF K le_refl, of "p_kernel p" "reg_data ?r" _ "?r\<lparr>reg_data := ?d2\<rparr>"] f
  obtain r' where r': "forS (read_debug_register K tid) [0..<8] (?r\<lparr>reg_data := ?d2\<rparr>, p_kernel p) = (Inr (), (r', p_kernel p))"
    "cache_filled ?a (reg_data ?r) (\<lambda>j. (j < 216 \<or> 224 \<le> j \<and> j < 736) \<or> 848 \<le> j \<and> j < 848 + 8 * 8) (reg_data r')"
    "reg_undefined r' = reg_undefined ?r"
    by fastforce
  have "cache_filled ?a (reg_data ?r) (\<lambda>j. j < 216 \<or> 224 \<le> j \<and> j < 736 \<or> 848 \<le> j) (reg_data r')"
    using r'(2) la by (auto simp: cache_filled_def)
  moreover have "read_all_registers K tid p = (Inr (), update_thread tid (\<lambda>t. t\<lparr>ts_regs := r'\<rparr>) p)"
    using K t r'(1)
    by (simp add: read_all_registers_def on_registers_def bindS_def thenS_def user_area_kernel_def
        regs_size_def i387_size_def i387_offset_def)
  ultimately show ?thesis using r'(3) by blast
qed

lemma rip_read:
  assumes "live_registers regs"
  shows "read_by_id_as_u64 regs id_rip = Inr (from_bytes (take 8 (drop 128 (reg_data regs))))"
  using u64_register_read [OF _ rip_info(1,3) assms] rip_info(2) by (simp add: id_rip_def)

text \<open>The program counter after the registers were read is the one in the user area.\<close>

lemma filled_rip:
  assumes "cache_filled area old (\<lambda>j. j < 216 \<or> 224 \<le> j \<and> j < 736 \<or> 848 \<le> j) (reg_data regs)"
    and "length area = user_size" "reg_undefined regs = []"
  shows "live_registers regs" "read_by_id_as_u64 regs id_rip = Inr (from_bytes (take 8 (drop 128 area)))"
proof -
  show live: "live_registers regs" using assms by (simp add: live_registers_def cache_filled_def)
  have "take 8 (drop 128 (reg_data regs)) = take 8 (drop 128 area)"
    using assms by (intro nth_equalityI) (auto simp: cache_filled_def user_size_def)
  then show "read_by_id_as_u64 regs id_rip = Inr (from_bytes (take 8 (drop 128 area)))"
    using rip_read [OF live] by simp
qed

section \<open>Properties\<close>

text \<open>
  C5. When waiting returns, the recorded state of the process is the reported one, and unless it
  reports that the process has ended no tracked thread is marked running, whatever number of events
  were handled without a report on the way.
\<close>

theorem wait_reports_quiet:
  assumes "hooks_passive H" "wait_on_signal n H K fo to_await p = (Inr r, p')"
  shows "p_state p' = sr_reason r \<and> (sr_reason r \<in> {exited, terminated} \<or> running_threads p' = {})"
  using assms(2)
proof (induction n arbitrary: to_await p)
  case (Suc n)
  from Suc.prems obtain tid st reason p1 res p2 where
      w: "await K to_await WALL p = (Inr (Some (tid, st)), p1)" and s: "stop_reason_of tid st = Inr reason"
    and h: "catchS (handle_signal H K fo reason True) (recover_stop H K fo tid reason) p1 = (Inr res, p2)"
    by (auto simp: bindS_Inr_iff split: option.split_asm)
  show ?case
  proof (cases res)
    case None
    then obtain u p3 where "wait_on_signal n H K fo to_await p3 = (Inr r, p')"
      using Suc.prems w s h by (auto simp: bindS_def thenS_Inr_iff)
    then show ?thesis by (rule Suc.IH)
  next
    case (Some q)
    let ?p3 = "record_stop tid q p2"
    show ?thesis
    proof (cases "sr_reason q = exited \<or> sr_reason q = terminated")
      case True
      then obtain u p4 where "(if tid = p_pid p4 then thenS (modifyS (\<lambda>p. p\<lparr>p_state := sr_reason q\<rparr>)) (retS q)
          else wait_on_signal n H K fo (- 1)) p4 = (Inr r, p')"
        using Suc.prems w s h Some by (auto simp: bindS_def thenS_Inr_iff bindS_Inr_iff split: prod.split_asm sum.split_asm)
      then show ?thesis using True Suc.IH by (auto split: if_split_asm)
    next
      case False
      then have "thenS (stop_running_threads H K fo) (bindS (cleanup_exited_threads H tid) (\<lambda>to_report.
        let reason = value_or to_report q
        in thenS (modifyS (\<lambda>p. p\<lparr>p_state := sr_reason reason, p_current := tid\<rparr>)) (retS reason))) ?p3 = (Inr r, p')"
        using Suc.prems w s h Some by (auto simp: bindS_Inr_iff thenS_Inr_iff Let_def get_thread_def)
      then show ?thesis using report_stop_quiet [OF assms(1)] by (auto simp: runs_within_def)
    qed
  qed
qed simp

text \<open>
  C2. Stepping over a breakpoint executes the instruction of the program, not the trap: when the
  kernel is asked for the single step, memory holds the program's own byte at the program counter.
  Afterwards the site is enabled again and every enabled site has its trap.
\<close>

theorem step_over_breakpoint_original:
  assumes K: "memory_kernel K (p_pid p) mem ok" "register_requests_keep_memory K mem"
    and t: "traps_ok (p_sites p) (mem (p_kernel p))"
    and pc: "get_pc (Some tid) p = (Inr pc, p)" "enabled_site_at pc p"
    and spares: "execution_spares K mem tid (insert pc (bs_address ` set (p_sites p)))"
    and run: "step_over_breakpoint K fo tid p = (Inr u, p')"
  shows "\<exists>k1 k2. k_singlestep K tid k1 = Some k2 \<and>
      mem k1 pc = program_memory (p_sites p) (mem (p_kernel p)) pc \<and>
      traps_ok (p_sites p') (mem (p_kernel p')) \<and> enabled_site_at pc p'"
proof -
  let ?A = "insert pc (bs_address ` set (p_sites p))"
  from run pc obtain u1 p1 u2 p2 u3 p3 r p4 where
      1: "site_disable K fo pc p = (Inr u1, p1)" and 2: "swallow_pending_sigstop K tid p1 = (Inr u2, p2)"
    and 3: "request ''Failed to single step!'' (k_singlestep K tid) p2 = (Inr u3, p3)"
    and 4: "await K tid 0 p3 = (Inr r, p4)" "r \<noteq> None" and 5: "site_enable K fo pc p4 = (Inr u, p')"
    by (auto simp: step_over_breakpoint_def bindS_Inr_iff thenS_Inr_iff split: if_split_asm)
  have ref: "sites_refine mem p p1" by (rule site_toggle_refines(2) [OF K t 1])
  obtain s where s: "sc_get_by_address site_at pc (p_sites p1) = Inr s" "\<not> bs_enabled s"
      and addrs: "map bs_address (p_sites p1) = map bs_address (p_sites p)"
    using toggled_site(2) [OF K t 1] by blast
  have t1: "traps_ok (p_sites p1) (mem (p_kernel p1))" and pid1: "p_pid p1 = p_pid p"
    using ref by (simp_all add: sites_refine_def)
  have "bs_address x \<noteq> pc" if "x \<in> set (p_sites p1)" "trap_site x" for x
    using that s t1 site.get_by_address_Inr [OF s(1)] by (auto simp: traps_ok_def trap_site_def distinct_map inj_on_def)
  then have "mem (p_kernel p1) pc = program_memory (p_sites p1) (mem (p_kernel p1)) pc"
    by (simp add: program_memory_plain)
  then have own: "mem (p_kernel p1) pc = program_memory (p_sites p) (mem (p_kernel p)) pc"
    using ref by (simp add: sites_refine_def)
  note keep = swallow_spares [OF spares, of p1]
  have sp1: "spared mem ?A p1 p1" by (simp add: spared_def)
  have sp2: "spared mem ?A p1 p2" by (rule keepsS_D [OF keep(1) 2 sp1])
  have sp3: "spared mem ?A p1 p3" by (rule keepsS_D [OF keep(2) 3 sp2])
  have sp4: "spared mem ?A p1 p4" by (rule keepsS_D [OF keep(3) 4(1) sp3])
  have "bs_address x \<in> ?A" if "x \<in> set (p_sites p1)" for x
    using that arg_cong [OF addrs, of set] by auto
  then have t4: "traps_ok (p_sites p4) (mem (p_kernel p4))"
    using t1 sp4 unfolding traps_ok_def spared_def by metis
  have K4: "memory_kernel K (p_pid p4) mem ok" using K(1) sp4 pid1 by (simp add: spared_def)
  obtain k2 where "k_singlestep K tid (p_kernel p2) = Some k2"
    using 3 by (auto simp: request_def split: option.split_asm)
  moreover have "mem (p_kernel p2) pc = program_memory (p_sites p) (mem (p_kernel p)) pc"
    using sp2 own by (simp add: spared_def)
  moreover have "traps_ok (p_sites p') (mem (p_kernel p'))"
    using site_toggle_refines(1) [OF K4 K(2) t4 5] by (simp add: sites_refine_def)
  moreover have "enabled_site_at pc p'"
    using toggled_site(1) [OF K4 K(2) t4 5]
    by (auto simp: enabled_site_at_def sc_enabled_stoppoint_at_address_def sc_get_by_address_def the_opt_Inr_iff)
  ultimately show ?thesis by blast
qed


text \<open>
  Reading the registers of a stopped thread makes its cache the user area of the thread: the
  general purpose, floating point and debug registers are those of the kernel, the rest of the cache
  is kept, and only that thread changes.
\<close>

lemma read_all_registers_fresh:
  assumes "user_area_kernel K tid area" "map_of (p_threads p) tid = Some t" "length (reg_data (ts_regs t)) = user_size"
  shows "\<exists>p' regs. read_all_registers K tid p = (Inr (), p') \<and> get_registers (Some tid) p' = Inr regs \<and>
    (\<forall>j < user_size. reg_data regs ! j =
       (if j < 216 \<or> 224 \<le> j \<and> j < 736 \<or> 848 \<le> j then area (p_kernel p) ! j else reg_data (ts_regs t) ! j)) \<and>
    p_kernel p' = p_kernel p \<and> (\<forall>x. x \<noteq> tid \<longrightarrow> map_of (p_threads p') x = map_of (p_threads p) x)"
proof -
  obtain regs where r: "read_all_registers K tid p = (Inr (), update_thread tid (\<lambda>t. t\<lparr>ts_regs := regs\<rparr>) p)"
    "cache_filled (area (p_kernel p)) (reg_data (ts_regs t)) (\<lambda>j. j < 216 \<or> 224 \<le> j \<and> j < 736 \<or> 848 \<le> j) (reg_data regs)"
    using read_all_registers_fills [OF assms] by blast
  have "length (area (p_kernel p)) = user_size" using assms(1) by (simp add: user_area_kernel_def)
  then show ?thesis using r assms(2) by (auto simp: cache_filled_def get_registers_def update_thread_lookup)
qed

text \<open>The registers a system call stop reads are 64-bit ones.\<close>

lemma syscall_register_table:
  "map (\<lambda>i. (ri_size (g_register_infos ! i), ri_format (g_register_infos ! i))) (id_orig_rax # id_rax # syscall_arg_registers) =
     replicate 8 (8, fmt_uint)"
  by code_simp

lemma syscall_register_read:
  assumes "i \<in> set (id_orig_rax # id_rax # syscall_arg_registers)" "live_registers regs"
  obtains w where "read_by_id_as_u64 regs i = Inr w"
proof -
  have "(ri_size (g_register_infos ! i), ri_format (g_register_infos ! i)) \<in> set (replicate 8 (8, fmt_uint))"
    unfolding syscall_register_table [symmetric] set_map by (rule imageI) (rule assms(1))
  moreover have "i < 125" using assms(1) by (auto simp: syscall_arg_registers_def register_id_defs)
  ultimately show ?thesis using u64_register_read [of i regs] assms(2) that by (simp only: in_set_replicate prod.inject)
qed

lemma read_registers_live:
  assumes "get_registers otid p = Inr regs" "live_registers regs" "set is \<subseteq> set (id_orig_rax # id_rax # syscall_arg_registers)"
  shows "\<exists>ws. read_registers otid is p = (Inr ws, p) \<and> map (read_by_id_as_u64 regs) is = map Inr ws"
  using assms(3)
proof (induction "is")
  case (Cons i "is")
  then obtain ws where ws: "read_registers otid is p = (Inr ws, p)" "map (read_by_id_as_u64 regs) is = map Inr ws"
    by auto
  from Cons.prems have "i \<in> set (id_orig_rax # id_rax # syscall_arg_registers)" by simp
  then obtain w where "read_by_id_as_u64 regs i = Inr w" using syscall_register_read assms(2) by blast
  then have "read_registers otid (i # is) p = (Inr (w # ws), p) \<and> map (read_by_id_as_u64 regs) (i # is) = map Inr (w # ws)"
    using ws assms(1) by (simp add: bindS_def read_register_def)
  then show ?case by blast
qed simp

text \<open>
  C40. System call stops alternate: a stop is reported as the entry exactly where the previous stop
  of the process was not one, the expectation flips, the identifier comes from \<open>orig_rax\<close>, and the
  data are the six argument registers on entry and \<open>rax\<close> on exit.
\<close>

theorem syscall_stops_alternate:
  assumes K: "\<forall>k. k_getsiginfo K (sr_tid r) k \<noteq> None" and r: "sr_info r = syscall_stop_info"
    and regs: "get_registers (Some (sr_tid r)) p = Inr regs" "live_registers regs"
  shows "\<exists>info n ret args.
    augment_stop_reason K r p =
      (Inr (r\<lparr>sr_syscall := Some info, sr_info := SIGTRAP, sr_trap := Some syscall\<rparr>),
       p\<lparr>p_expecting_exit := \<not> p_expecting_exit p\<rparr>) \<and>
    read_by_id_as_u64 regs id_orig_rax = Inr n \<and> read_by_id_as_u64 regs id_rax = Inr ret \<and>
    map (read_by_id_as_u64 regs) [id_rdi, id_rsi, id_rdx, id_r10, id_r8, id_r9] = map Inr args \<and>
    info = \<lparr>si_id = ucast n, si_entry = (\<not> p_expecting_exit p),
            si_data = (if p_expecting_exit p then syscall_ret ret else syscall_args args)\<rparr>"
proof -
  obtain c where c: "k_getsiginfo K (sr_tid r) (p_kernel p) = Some c" using K by blast
  obtain n where n: "read_by_id_as_u64 regs id_orig_rax = Inr n"
    using syscall_register_read [OF _ regs(2), of id_orig_rax] by auto
  obtain ret where ret: "read_by_id_as_u64 regs id_rax = Inr ret"
    using syscall_register_read [OF _ regs(2), of id_rax] by auto
  obtain args where args: "read_registers (Some (sr_tid r)) syscall_arg_registers p = (Inr args, p)"
    "map (read_by_id_as_u64 regs) syscall_arg_registers = map Inr args"
    using read_registers_live [OF regs, of syscall_arg_registers] by auto
  let ?info = "\<lparr>si_id = ucast n, si_entry = (\<not> p_expecting_exit p),
            si_data = (if p_expecting_exit p then syscall_ret ret else syscall_args args)\<rparr>"
  have "augment_stop_reason K r p =
      (Inr (r\<lparr>sr_syscall := Some ?info, sr_info := SIGTRAP, sr_trap := Some syscall\<rparr>),
       p\<lparr>p_expecting_exit := \<not> p_expecting_exit p\<rparr>)"
    using c r n ret args(1) regs(1)
    by (simp add: augment_stop_reason_def Let_def bindS_def query_def syscall_exit_info_def syscall_entry_info_def
        read_register_def)
  then show ?thesis using n ret args(2) by (auto simp: syscall_arg_registers_def)
qed

text \<open>A program that returns where another does, and the same.\<close>

definition leS :: "('s, 'a) prog \<Rightarrow> ('s, 'a) prog \<Rightarrow> bool" where
  "leS m m' \<longleftrightarrow> (\<forall>s x s'. m s = (Inr x, s') \<longrightarrow> m' s = (Inr x, s'))"

lemma leS_refl: "leS m m"
  by (simp add: leS_def)

lemma leS_bind: "leS m m' \<Longrightarrow> (\<And>x. leS (f x) (f' x)) \<Longrightarrow> leS (bindS m f) (bindS m' f')"
  unfolding leS_def bindS_Inr_iff by blast

lemma leS_then: "leS m m' \<Longrightarrow> leS k k' \<Longrightarrow> leS (thenS m k) (thenS m' k')"
  by (simp add: thenS_def leS_bind)

lemma leS_if: "leS m m' \<Longrightarrow> leS k k' \<Longrightarrow> leS (if b then m else k) (if b then m' else k')"
  by simp

lemma leS_option:
  "leS m m' \<Longrightarrow> (\<And>x. leS (f x) (f' x)) \<Longrightarrow> leS (case v of None \<Rightarrow> m | Some x \<Rightarrow> f x) (case v of None \<Rightarrow> m' | Some x \<Rightarrow> f' x)"
  by (cases v) auto

lemma leS_pair: "(\<And>x y. leS (f x y) (f' x y)) \<Longrightarrow> leS (case v of (x, y) \<Rightarrow> f x y) (case v of (x, y) \<Rightarrow> f' x y)"
  by (cases v) auto

lemma wait_fuel_mono: "n \<le> m \<Longrightarrow> leS (wait_on_signal n H K fo to_await) (wait_on_signal m H K fo to_await)"
proof (induction n arbitrary: m to_await)
  case (Suc n)
  then obtain m' where m: "m = Suc m'" "n \<le> m'" by (cases m) auto
  show ?case
    unfolding m(1) wait_on_signal.simps
    by (intro leS_bind leS_option leS_pair leS_then leS_if leS_refl Suc.IH [OF m(2)])
qed (simp add: leS_def)

text \<open>
  The fuel given to waiting does not matter once it suffices: with more of it the same stop is
  reported and the same state is left.
\<close>

lemma wait_fuel_irrelevant:
  assumes "wait_on_signal n H K fo to_await p = (Inr r, p')" "n \<le> m"
  shows "wait_on_signal m H K fo to_await p = (Inr r, p')"
  using wait_fuel_mono [OF assms(2)] assms(1) unfolding leS_def by blast

section \<open>Examples\<close>

text \<open>
  A kernel with a user area and a memory. Every wait reports a stop by \<open>SIGTRAP\<close> that came from the
  kernel; single steps and continued threads change nothing.
\<close>

definition sim_area :: "byte list \<times> (u64 \<Rightarrow> byte) \<Rightarrow> byte list" where
  "sim_area k = take user_size (fst k @ replicate user_size 0)"

definition sim_kernel :: "(byte list \<times> (u64 \<Rightarrow> byte)) kernel" where
  "sim_kernel = \<lparr>
     k_peekdata = (\<lambda>p a (u, m). Some (from_bytes (mem_range m a 8))),
     k_pokedata = (\<lambda>p a w (u, m). Some (u, mem_update m a (as_bytes w))),
     k_vm_readv = (\<lambda>p n iov (u, m). Some (concat (map (\<lambda>(a, l). mem_range m a l) iov))),
     k_peekuser = (\<lambda>p off k. Some (from_bytes (take 8 (drop off (sim_area k))))),
     k_pokeuser = (\<lambda>p off w (u, m). Some (splice off (as_bytes w) u, m)),
     k_getregs = (\<lambda>p k. Some (take regs_size (sim_area k))), k_setregs = (\<lambda>p bs k. Some k),
     k_getfpregs = (\<lambda>p k. Some (take i387_size (drop i387_offset (sim_area k)))), k_setfpregs = (\<lambda>p bs k. Some k),
     k_getsiginfo = (\<lambda>p k. Some SI_KERNEL), k_singlestep = (\<lambda>p k. Some k), k_cont = (\<lambda>p k. Some k),
     k_syscall = (\<lambda>p k. Some k), k_waitpid = (\<lambda>p opts k. (Some (if p = - 1 then 1 else p, 0x57f), k)),
     k_tgkill = (\<lambda>p t s k. k)\<rparr>"

lemma sim_kernel_laws:
  "memory_kernel sim_kernel p snd (\<lambda>_. True)" "register_requests_keep_memory sim_kernel snd"
  "user_area_kernel sim_kernel tid sim_area" "accepts_user_writes sim_kernel"
  "execution_spares sim_kernel snd tid A"
  by (auto simp: memory_kernel_def register_requests_keep_memory_def user_area_kernel_def accepts_user_writes_def
      execution_spares_def sim_kernel_def sim_area_def user_size_def)

definition no_hooks :: "('k, 't) hooks" where
  "no_hooks = \<lparr>h_lifecycle_callback = (\<lambda>_. retS ()), h_notify_hit = (\<lambda>_. retS False), h_notify_stop = (\<lambda>_. retS ()),
     h_notify_thread_lifecycle_event = (\<lambda>_. retS ())\<rparr>"

lemma no_hooks_passive: "hooks_passive no_hooks"
  by (simp add: hooks_passive_def no_hooks_def keepsS_def)

text \<open>A thread stopped one byte after the breakpoint at 0x2000.\<close>

definition stopped_process :: "u64 \<Rightarrow> (byte list \<times> (u64 \<Rightarrow> byte), unit) process" where
  "stopped_process pc = \<lparr>p_kernel = (replicate 128 0 @ as_bytes pc, (\<lambda>_. 0x90)(0x2000 := 0xcc)), p_pid = 1,
     p_terminate_on_end = True, p_state = stopped, p_attached = True, p_sites = [sample_site], p_watchpoints = [],
     p_catch = catch_none, p_expecting_exit = False,
     p_threads = [(1, (new_thread 1)\<lparr>ts_regs := (new_registers 1)\<lparr>reg_data := splice 128 (as_bytes pc) (replicate user_size 0)\<rparr>\<rparr>),
                  (2, (new_thread 2)\<lparr>ts_state := running\<rparr>)],
     p_current = 1, p_site_id = 1, p_watch_id = 0, p_target = None\<rparr>"

text \<open>The same process before it is traced, with both threads stopping by \<open>SIGTRAP\<close>.\<close>

definition untraced_process :: "(byte list \<times> (u64 \<Rightarrow> byte), unit) process" where
  "untraced_process = (stopped_process 0x2001)\<lparr>p_attached := False\<rparr>"

definition plain_trap :: "pid \<Rightarrow> stop_reason" where
  "plain_trap tid = \<lparr>sr_reason = stopped, sr_info = SIGTRAP, sr_trap = None, sr_syscall = None, sr_tid = tid\<rparr>"

lemma untraced_wait: "\<exists>p'. wait_on_signal 1 no_hooks sim_kernel fo (- 1) untraced_process = (Inr (plain_trap 1), p')"
proof -
  have "stop_reason_of 1 0x57f = Inr (plain_trap 1)" "stop_reason_of 2 0x57f = Inr (plain_trap 2)" by code_simp+
  then have "fst (wait_on_signal 1 no_hooks sim_kernel fo (- 1) untraced_process) = Inr (plain_trap 1)"
    by (simp add: untraced_process_def stopped_process_def sim_kernel_def no_hooks_def await_def bindS_def thenS_def
        catchS_def handle_signal_def stop_running_threads_def stop_running_thread_def cleanup_exited_threads_def
        thread_ids_def get_thread_def record_stop_def update_thread_def Let_def value_or_def new_thread_def tgkill_def
        plain_trap_def)
  then show ?thesis by (metis prod.collapse)
qed

theorem wait_reports_quiet_witness:
  "\<forall>fo. \<exists>p'. wait_on_signal 1 no_hooks sim_kernel fo (- 1) untraced_process = (Inr (plain_trap 1), p') \<and>
     running_threads untraced_process \<noteq> {} \<and> running_threads p' = {}"
proof
  fix fo
  obtain p' where run: "wait_on_signal 1 no_hooks sim_kernel fo (- 1) untraced_process = (Inr (plain_trap 1), p')"
    using untraced_wait by blast
  have "2 \<in> running_threads untraced_process"
    by (simp add: running_threads_def untraced_process_def stopped_process_def)
  moreover have "running_threads p' = {}"
    using wait_reports_quiet [OF no_hooks_passive run] by (simp add: plain_trap_def)
  ultimately show "\<exists>p'. wait_on_signal 1 no_hooks sim_kernel fo (- 1) untraced_process = (Inr (plain_trap 1), p') \<and>
     running_threads untraced_process \<noteq> {} \<and> running_threads p' = {}"
    using run by blast
qed

lemma wait_fuel_irrelevant_witness:
  "\<forall>fo. \<exists>p'. wait_on_signal 1 no_hooks sim_kernel fo (- 1) untraced_process = (Inr (plain_trap 1), p') \<and>
     wait_on_signal 50 no_hooks sim_kernel fo (- 1) untraced_process = (Inr (plain_trap 1), p')"
proof
  fix fo
  obtain p' where run: "wait_on_signal 1 no_hooks sim_kernel fo (- 1) untraced_process = (Inr (plain_trap 1), p')"
    using untraced_wait by blast
  have "(1 :: nat) \<le> 50" by simp
  from wait_fuel_irrelevant [OF run this] run
  show "\<exists>p'. wait_on_signal 1 no_hooks sim_kernel fo (- 1) untraced_process = (Inr (plain_trap 1), p') \<and>
     wait_on_signal 50 no_hooks sim_kernel fo (- 1) untraced_process = (Inr (plain_trap 1), p')" by blast
qed

lemma stopped_registers:
  "live_registers (ts_regs t) \<and> read_by_id_as_u64 (ts_regs t) id_rip = Inr pc"
  if "map_of (p_threads (stopped_process pc)) 1 = Some t"
proof -
  have n: "128 + 8 \<le> user_size" by (simp add: user_size_def)
  have t: "ts_regs t = (new_registers 1)\<lparr>reg_data := splice 128 (as_bytes pc) (replicate user_size 0)\<rparr>"
    using that by (auto simp: stopped_process_def)
  then have live: "live_registers (ts_regs t)" using n by (simp add: live_registers_def new_registers_def)
  then show ?thesis using rip_read [OF live] n by (simp add: t drop_splice from_as_bytes_exact)
qed

lemma stopped_thread:
  "\<exists>t. map_of (p_threads (stopped_process pc)) 1 = Some t"
  by (simp add: stopped_process_def)

lemma stopped_area: "take 8 (drop 128 (sim_area (p_kernel (stopped_process pc)))) = as_bytes pc"
  by (simp add: sim_area_def stopped_process_def user_size_def take_append drop_append)


lemma read_all_registers_fresh_witness:
  "\<exists>p' regs. read_all_registers sim_kernel 1 (stopped_process 0x2001) = (Inr (), p') \<and>
     get_registers (Some 1) p' = Inr regs \<and> reg_data regs ! 129 = 0x20"
proof -
  let ?p = "stopped_process 0x2001"
  obtain t where t: "map_of (p_threads ?p) 1 = Some t"
    using stopped_thread by blast
  have "length (reg_data (ts_regs t)) = user_size" using stopped_registers [OF t] by (simp add: live_registers_def)
  from read_all_registers_fresh [OF sim_kernel_laws(3) t this] obtain p' regs where
      r: "read_all_registers sim_kernel 1 ?p = (Inr (), p')" "get_registers (Some 1) p' = Inr regs"
    and b: "\<forall>j < user_size. reg_data regs ! j =
       (if j < 216 \<or> 224 \<le> j \<and> j < 736 \<or> 848 \<le> j then sim_area (p_kernel ?p) ! j else reg_data (ts_regs t) ! j)"
    by blast
  have "reg_data regs ! 129 = sim_area (p_kernel ?p) ! 129" using b by (simp add: user_size_def)
  also have "\<dots> = take 8 (drop 128 (sim_area (p_kernel ?p))) ! 1"
  proof -
    have "xs ! 129 = take 8 (drop 128 xs) ! 1" if "length xs = 912" for xs :: "byte list"
      using that by simp
    moreover have "length (sim_area (p_kernel ?p)) = 912" by (simp add: sim_area_def user_size_def)
    ultimately show ?thesis by blast
  qed
  also have "\<dots> = 0x20" unfolding stopped_area by code_simp
  finally show ?thesis using r by blast
qed

theorem step_over_breakpoint_original_witness:
  "\<forall>fo. \<exists>p'. step_over_breakpoint sim_kernel fo 1 (stopped_process 0x2000) = (Inr (), p') \<and>
     enabled_site_at 0x2000 p' \<and> program_memory [sample_site] (snd (p_kernel (stopped_process 0x2000))) 0x2000 = 0x55"
proof
  fix fo
  let ?p = "stopped_process 0x2000"
  obtain t where t: "map_of (p_threads ?p) 1 = Some t"
    using stopped_thread by blast
  have pc: "get_pc (Some 1) ?p = (Inr 0x2000, ?p)"
    using stopped_registers [OF t] t by (simp add: get_pc_def read_register_def get_registers_def)
  have at: "enabled_site_at 0x2000 ?p" by (simp add: enabled_site_at_def sc_enabled_stoppoint_at_address_def
      sc_find_by_address_def stopped_process_def sample_site_def site_at_def)
  have traps: "traps_ok (p_sites ?p) (snd (p_kernel ?p))"
    by (simp add: traps_ok_def stopped_process_def sample_site_def)
  obtain p' where run: "step_over_breakpoint sim_kernel fo 1 ?p = (Inr (), p')"
    using pc at
    by (simp add: step_over_breakpoint_def bindS_def thenS_def site_disable_def site_enable_def on_site_def
        breakpoint_site_disable_def breakpoint_site_enable_def peek_word_def poke_word_def request_def await_def
        swallow_pending_sigstop_def get_thread_def new_thread_def
        stopped_process_def sample_site_def sim_kernel_def sc_get_by_address_def sc_find_by_address_def site_at_def)
  have "enabled_site_at 0x2000 p'"
    using step_over_breakpoint_original [OF sim_kernel_laws(1,2) traps pc at sim_kernel_laws(5) run] by blast
  moreover have "program_memory [sample_site] (snd (p_kernel ?p)) 0x2000 = 0x55"
    by (simp add: program_memory_def sample_site_def trap_site_def)
  ultimately show "\<exists>p'. step_over_breakpoint sim_kernel fo 1 ?p = (Inr (), p') \<and>
     enabled_site_at 0x2000 p' \<and> program_memory [sample_site] (snd (p_kernel ?p)) 0x2000 = 0x55"
    using run by blast
qed

theorem syscall_stops_alternate_witness:
  "\<exists>info. augment_stop_reason sim_kernel ((plain_trap 1)\<lparr>sr_info := 0x85\<rparr>) (stopped_process 0x2001) =
      (Inr ((plain_trap 1)\<lparr>sr_syscall := Some info, sr_trap := Some syscall\<rparr>),
       (stopped_process 0x2001)\<lparr>p_expecting_exit := True\<rparr>) \<and> si_entry info"
proof -
  let ?p = "stopped_process 0x2001" and ?r = "(plain_trap 1)\<lparr>sr_info := 0x85\<rparr>"
  obtain t where t: "map_of (p_threads ?p) 1 = Some t" using stopped_thread by blast
  have "get_registers (Some (sr_tid ?r)) ?p = Inr (ts_regs t)" "live_registers (ts_regs t)"
    using t stopped_registers [OF t] by (simp_all add: get_registers_def plain_trap_def)
  moreover have "\<forall>k. k_getsiginfo sim_kernel (sr_tid ?r) k \<noteq> None" "sr_info ?r = syscall_stop_info"
    by (simp_all add: sim_kernel_def syscall_stop_info_def SIGTRAP_def)
  ultimately obtain info where
    "augment_stop_reason sim_kernel ?r ?p =
      (Inr (?r\<lparr>sr_syscall := Some info, sr_info := SIGTRAP, sr_trap := Some syscall\<rparr>),
       ?p\<lparr>p_expecting_exit := \<not> p_expecting_exit ?p\<rparr>)" "si_entry info = (\<not> p_expecting_exit ?p)"
    using syscall_stops_alternate [of sim_kernel ?r ?p "ts_regs t"] by auto
  then show ?thesis by (intro exI [of _ info]) (simp add: plain_trap_def stopped_process_def)
qed

end
