(* ===== verification/Files.thy ===== *)
theory Files
  imports Kernel Prog_Logic
begin

text \<open>
  \<open>src/pipe.cpp\<close>, and the class \<open>mapped_file\<close> with its file descriptor in \<open>src/elf.cpp\<close>. The system calls on files are a
  record of parameters; each object owns its descriptors and closes them in its destructor.
\<close>

section \<open>System calls on files\<close>

text \<open>
  A negative descriptor and \<open>None\<close> are the failures that set \<open>errno\<close>. A mapping gives the bytes of the
  file; \<open>f_save\<close> is an \<open>std::ofstream\<close> that is opened, written and closed, whose errors the code ignores.
\<close>

record 'k files =
  f_open :: "string \<Rightarrow> 'k \<Rightarrow> int \<times> 'k"
  f_fstat :: "int \<Rightarrow> 'k \<Rightarrow> nat option"
  f_mmap :: "nat \<Rightarrow> int \<Rightarrow> 'k \<Rightarrow> (u64 \<times> byte list \<times> 'k) option"
  f_munmap :: "u64 \<Rightarrow> nat \<Rightarrow> 'k \<Rightarrow> 'k"
  f_pipe2 :: "bool \<Rightarrow> 'k \<Rightarrow> (int \<times> int \<times> 'k) option"
  f_close :: "int \<Rightarrow> 'k \<Rightarrow> 'k"
  f_read :: "int \<Rightarrow> nat \<Rightarrow> 'k \<Rightarrow> byte list option \<times> 'k"
  f_write :: "int \<Rightarrow> byte list \<Rightarrow> 'k \<Rightarrow> nat option \<times> 'k"
  f_save :: "string \<Rightarrow> byte list \<Rightarrow> 'k \<Rightarrow> 'k"

text \<open>Files that refuse every request, for the examples.\<close>

definition no_files :: "'k files" where
  "no_files = \<lparr>f_open = (\<lambda>path k. (- 1, k)), f_fstat = (\<lambda>fd k. None), f_mmap = (\<lambda>n fd k. None), f_munmap = (\<lambda>a n k. k),
     f_pipe2 = (\<lambda>b k. None), f_close = (\<lambda>fd k. k), f_read = (\<lambda>fd n k. (None, k)), f_write = (\<lambda>fd bs k. (None, k)),
     f_save = (\<lambda>path bs k. k)\<rparr>"

text \<open>Text as the bytes a file or the inferior holds.\<close>

definition string_bytes :: "string \<Rightarrow> byte list" where
  "string_bytes s = map (\<lambda>c. word_of_nat (of_char c)) s"

definition bytes_string :: "byte list \<Rightarrow> string" where
  "bytes_string bs = map (\<lambda>b. char_of (unat b)) bs"

lemma length_string_bytes [simp]: "length (string_bytes s) = length s"
  by (simp add: string_bytes_def)

lemma bytes_string_inverse: "bytes_string (take n (string_bytes s)) = take n s"
proof -
  have "char_of (unat (word_of_nat (of_char c) :: byte)) = c" for c
  proof -
    have "(of_char c :: nat) < 2 ^ 8" by (simp add: of_char_def)
    then show ?thesis by (simp add: unat_of_nat)
  qed
  then show ?thesis by (simp add: bytes_string_def string_bytes_def take_map comp_def)
qed

section \<open>Pipes\<close>

record pipe =
  read_fd :: int
  write_fd :: int

definition pipe_new :: "'k files \<Rightarrow> bool \<Rightarrow> ('k, pipe) prog" where
  "pipe_new F close_on_exec k =
    (case f_pipe2 F close_on_exec k of
       None \<Rightarrow> (Inl (Send_errno ''Pipe creation failed!''), k)
     | Some (r, w, k') \<Rightarrow> (Inr \<lparr>read_fd = r, write_fd = w\<rparr>, k'))"

text \<open>The state of an operation of a pipe: the object and the system.\<close>

type_synonym ('k, 'a) pipe_op = "(pipe \<times> 'k, 'a) prog"

definition release_read :: "('k, int) pipe_op" where
  "release_read = (\<lambda>(c, k). (Inr (read_fd c), (c\<lparr>read_fd := - 1\<rparr>, k)))"

definition release_write :: "('k, int) pipe_op" where
  "release_write = (\<lambda>(c, k). (Inr (write_fd c), (c\<lparr>write_fd := - 1\<rparr>, k)))"

definition close_read :: "'k files \<Rightarrow> ('k, unit) pipe_op" where
  "close_read F =
    (\<lambda>(c, k). (Inr (), if read_fd c \<noteq> - 1 then (c\<lparr>read_fd := - 1\<rparr>, f_close F (read_fd c) k) else (c, k)))"

definition close_write :: "'k files \<Rightarrow> ('k, unit) pipe_op" where
  "close_write F =
    (\<lambda>(c, k). (Inr (), if write_fd c \<noteq> - 1 then (c\<lparr>write_fd := - 1\<rparr>, f_close F (write_fd c) k) else (c, k)))"

definition pipe_destroy :: "'k files \<Rightarrow> ('k, unit) pipe_op" where
  "pipe_destroy F = thenS (close_read F) (close_write F)"

text \<open>One call of \<open>read\<close> with a buffer of 1024 bytes.\<close>

definition pipe_read :: "'k files \<Rightarrow> ('k, byte list) pipe_op" where
  "pipe_read F =
    (\<lambda>(c, k). case f_read F (read_fd c) 1024 k of
       (None, k') \<Rightarrow> (Inl (Send_errno ''Could not read from pipe''), (c, k'))
     | (Some bs, k') \<Rightarrow> (Inr bs, (c, k')))"

text \<open>Only a failure is looked at, not the number of bytes written.\<close>

definition pipe_write :: "'k files \<Rightarrow> byte list \<Rightarrow> ('k, unit) pipe_op" where
  "pipe_write F bs =
    (\<lambda>(c, k). case f_write F (write_fd c) bs k of
       (None, k') \<Rightarrow> (Inl (Send_errno ''Could not write to pipe!''), (c, k'))
     | (Some _, k') \<Rightarrow> (Inr (), (c, k')))"

text \<open>A pipe as a local variable: its destructor runs however the block is left.\<close>

definition with_pipe :: "'k files \<Rightarrow> ('k, 'a) pipe_op \<Rightarrow> pipe \<Rightarrow> ('k, 'a) prog" where
  "with_pipe F m c k = (case m (c, k) of (r, s) \<Rightarrow> (r, snd (snd (pipe_destroy F s))))"

section \<open>Mapped files\<close>

text \<open>\<open>unique_fd\<close>: the descriptor is closed at the end of its scope.\<close>

definition with_unique_fd :: "'k files \<Rightarrow> int \<Rightarrow> ('k, 'a) prog \<Rightarrow> ('k, 'a) prog" where
  "with_unique_fd F fd m k = (case m k of (r, k') \<Rightarrow> (r, if fd \<ge> 0 then f_close F fd k' else k'))"

record mapped_file =
  mf_addr :: u64
  mf_size :: nat
  mf_data :: "byte list"

definition mapped_file_new :: "'k files \<Rightarrow> string \<Rightarrow> ('k, mapped_file) prog" where
  "mapped_file_new F path k0 =
    (case f_open F path k0 of
       (fd, k1) \<Rightarrow>
         with_unique_fd F fd
           (\<lambda>k. if fd < 0 then (Inl (Send_errno ''Could NOT open ELF file!''), k)
                else case f_fstat F fd k of
                  None \<Rightarrow> (Inl (Send_errno ''Could NOT retrieve ELF file stats!''), k)
                | Some sz \<Rightarrow>
                    (case f_mmap F sz fd k of
                       None \<Rightarrow> (Inl (Send_errno ''Could NOT mmap ELF file!''), k)
                     | Some (a, bs, k') \<Rightarrow> (Inr \<lparr>mf_addr = a, mf_size = sz, mf_data = bs\<rparr>, k'))) k1)"

definition mapped_file_destroy :: "'k files \<Rightarrow> mapped_file \<Rightarrow> 'k \<Rightarrow> 'k" where
  "mapped_file_destroy F m = f_munmap F (mf_addr m) (mf_size m)"

section \<open>Descriptors of a pipe\<close>

text \<open>A caller of the public operations; an exception of one of them does not keep it from the next.\<close>

datatype pipe_call = Release_read | Release_write | Close_read | Close_write | Read | Write "byte list"

fun pipe_call_run :: "'k files \<Rightarrow> pipe_call \<Rightarrow> pipe \<times> 'k \<Rightarrow> pipe \<times> 'k" where
  "pipe_call_run F Release_read s = snd (release_read s)"
| "pipe_call_run F Release_write s = snd (release_write s)"
| "pipe_call_run F Close_read s = snd (close_read F s)"
| "pipe_call_run F Close_write s = snd (close_write F s)"
| "pipe_call_run F Read s = snd (pipe_read F s)"
| "pipe_call_run F (Write bs) s = snd (pipe_write F bs s)"

definition pipe_calls_run :: "'k files \<Rightarrow> pipe_call list \<Rightarrow> pipe \<times> 'k \<Rightarrow> pipe \<times> 'k" where
  "pipe_calls_run F = fold (pipe_call_run F)"

text \<open>The first call that ends the ownership of a descriptor hands it to the caller, or it is closed.\<close>

definition handed_out :: "pipe_call \<Rightarrow> pipe_call \<Rightarrow> pipe_call list \<Rightarrow> bool" where
  "handed_out release close calls = (List.find (\<lambda>c. c = release \<or> c = close) calls = Some release)"

text \<open>A record of the descriptors closed, newest first, which the other calls on pipes do not change.\<close>

definition records_closes :: "'k files \<Rightarrow> ('k \<Rightarrow> int list) \<Rightarrow> bool" where
  "records_closes F closed \<longleftrightarrow>
    (\<forall>fd k. closed (f_close F fd k) = fd # closed k) \<and>
    (\<forall>fd n k. closed (snd (f_read F fd n k)) = closed k) \<and>
    (\<forall>fd bs k. closed (snd (f_write F fd bs k)) = closed k)"

definition closes_due :: "int \<Rightarrow> bool \<Rightarrow> nat" where
  "closes_due fd out = (if fd = - 1 \<or> out then 0 else 1)"

lemma pipe_calls_closed:
  assumes "records_closes F closed" "read_fd c = - 1 \<or> read_fd c \<noteq> write_fd c" "fd \<noteq> - 1"
    and "fd = r \<or> fd = w" "read_fd c \<in> {- 1, r}" "write_fd c \<in> {- 1, w}" "r \<noteq> w"
  shows "count_list (closed (snd (snd (pipe_destroy F (pipe_calls_run F calls (c, k)))))) fd =
    count_list (closed k) fd +
    (if fd = r then closes_due (read_fd c) (handed_out Release_read Close_read calls)
     else closes_due (write_fd c) (handed_out Release_write Close_write calls))"
  using assms(2-)
proof (induction calls arbitrary: c k)
  case Nil
  then show ?case using assms(1)
    by (auto simp: pipe_calls_run_def pipe_destroy_def thenS_def bindS_def close_read_def close_write_def records_closes_def
        closes_due_def handed_out_def)
next
  case (Cons call calls)
  have run: "pipe_calls_run F (call # calls) s = pipe_calls_run F calls (pipe_call_run F call s)" for s
    by (simp add: pipe_calls_run_def)
  show ?case
  proof (cases call)
    case Read
    then show ?thesis using Cons.IH [of c "snd (f_read F (read_fd c) 1024 k)"] Cons.prems assms(1) run
      by (auto simp: pipe_read_def records_closes_def handed_out_def split: prod.splits option.splits)
  next
    case (Write bs)
    then show ?thesis using Cons.IH [of c "snd (f_write F (write_fd c) bs k)"] Cons.prems assms(1) run
      by (auto simp: pipe_write_def records_closes_def handed_out_def split: prod.splits option.splits)
  qed (use Cons.IH [of "c\<lparr>read_fd := - 1\<rparr>"] Cons.IH [of "c\<lparr>write_fd := - 1\<rparr>"] Cons.IH [of c k] Cons.prems assms(1) run in
      \<open>auto simp: release_read_def release_write_def close_read_def close_write_def records_closes_def closes_due_def handed_out_def\<close>)
qed

text \<open>
  C25. A pipe closes each of its two descriptors exactly once over its life, whatever calls are made of
  it in whatever order and whether they throw: no descriptor leaks and none is closed twice. The one
  exception is a descriptor handed out by \<open>release_read\<close> or \<open>release_write\<close> while the pipe still had it, which is left to the caller.
\<close>

theorem pipe_descriptors_once:
  assumes "records_closes F closed" "pipe_new F close_on_exec k0 = (Inr c, k)"
    and "0 \<le> read_fd c" "0 \<le> write_fd c" "read_fd c \<noteq> write_fd c"
  shows "count_list (closed (snd (snd (pipe_destroy F (pipe_calls_run F calls (c, k)))))) (read_fd c) =
      count_list (closed k) (read_fd c) + (if handed_out Release_read Close_read calls then 0 else 1) \<and>
    count_list (closed (snd (snd (pipe_destroy F (pipe_calls_run F calls (c, k)))))) (write_fd c) =
      count_list (closed k) (write_fd c) + (if handed_out Release_write Close_write calls then 0 else 1)"
  using pipe_calls_closed [OF assms(1), of c "read_fd c" "read_fd c" "write_fd c"]
    pipe_calls_closed [OF assms(1), of c "write_fd c" "read_fd c" "write_fd c"] assms(3-)
  by (simp add: closes_due_def)

text \<open>A system that records the descriptors closed and has an empty pipe at descriptors 3 and 4.\<close>

definition closing_files :: "int list files" where
  "closing_files = no_files\<lparr>f_pipe2 := (\<lambda>b k. Some (3, 4, k)), f_close := (\<lambda>fd k. fd # k)\<rparr>"

theorem pipe_descriptors_once_witness:
  "count_list (snd (snd (pipe_destroy closing_files
     (pipe_calls_run closing_files [Close_read, Release_read, Read, Release_write, Close_write] (\<lparr>read_fd = 3, write_fd = 4\<rparr>, []))))) 3 = 1 \<and>
   count_list (snd (snd (pipe_destroy closing_files
     (pipe_calls_run closing_files [Close_read, Release_read, Read, Release_write, Close_write] (\<lparr>read_fd = 3, write_fd = 4\<rparr>, []))))) 4 = 0"
proof -
  have "records_closes closing_files (\<lambda>k. k)" "pipe_new closing_files True [] = (Inr \<lparr>read_fd = 3, write_fd = 4\<rparr>, [])"
    by (simp_all add: records_closes_def closing_files_def no_files_def pipe_new_def)
  from pipe_descriptors_once [OF this, of "[Close_read, Release_read, Read, Release_write, Close_write]"]
  show ?thesis by (simp add: handed_out_def)
qed

section \<open>Descriptors and mappings of a mapped file\<close>

definition tracks_files :: "'k files \<Rightarrow> ('k \<Rightarrow> int set) \<Rightarrow> ('k \<Rightarrow> (u64 \<times> nat) set) \<Rightarrow> bool" where
  "tracks_files F fds maps \<longleftrightarrow>
    (\<forall>path k fd k'. f_open F path k = (fd, k') \<longrightarrow> maps k' = maps k \<and>
       (if fd < 0 then fds k' = fds k else fd \<notin> fds k \<and> fds k' = insert fd (fds k))) \<and>
    (\<forall>fd k. fds (f_close F fd k) = fds k - {fd} \<and> maps (f_close F fd k) = maps k) \<and>
    (\<forall>n fd k a bs k'. f_mmap F n fd k = Some (a, bs, k') \<longrightarrow>
       fds k' = fds k \<and> (a, n) \<notin> maps k \<and> maps k' = insert (a, n) (maps k)) \<and>
    (\<forall>a n k. fds (f_munmap F a n k) = fds k \<and> maps (f_munmap F a n k) = maps k - {(a, n)})"

lemma mapped_file_descriptors:
  assumes "tracks_files F fds maps" "mapped_file_new F path k = (r, k')"
  shows "fds k' = fds k \<and> (case r of Inl _ \<Rightarrow> maps k' = maps k
    | Inr m \<Rightarrow> (mf_addr m, mf_size m) \<notin> maps k \<and> maps k' = insert (mf_addr m, mf_size m) (maps k))"
proof -
  obtain fd k1 where o: "f_open F path k = (fd, k1)" by fastforce
  then have 1: "maps k1 = maps k" "fd < 0 \<Longrightarrow> fds k1 = fds k" "0 \<le> fd \<Longrightarrow> fd \<notin> fds k \<and> fds k1 = insert fd (fds k)"
    using assms(1) by (auto simp: tracks_files_def split: if_split_asm)
  have m: "fds k2 = fds k1 \<and> (a, n) \<notin> maps k1 \<and> maps k2 = insert (a, n) (maps k1)" if "f_mmap F n fd k1 = Some (a, bs, k2)" for n a bs k2
    using assms(1) that by (auto simp: tracks_files_def)
  have c: "fds (f_close F fd x) = fds x - {fd}" "maps (f_close F fd x) = maps x" for x
    using assms(1) by (simp_all add: tracks_files_def)
  show ?thesis
  proof (cases "fd < 0")
    case True
    then show ?thesis using assms(2) o 1(1,2) by (auto simp: mapped_file_new_def with_unique_fd_def)
  next
    case False
    then have f: "fds k1 - {fd} = fds k" using 1(3) by auto
    show ?thesis
    proof (cases "f_fstat F fd k1")
      case None
      then show ?thesis using assms(2) o f 1(1) c False by (auto simp: mapped_file_new_def with_unique_fd_def)
    next
      case (Some sz)
      then show ?thesis using assms(2) o f 1(1) c False m [of sz]
        by (cases "f_mmap F sz fd k1") (auto simp: mapped_file_new_def with_unique_fd_def)
    qed
  qed
qed

end
