(* ===== verification/Child_Process.thy ===== *)
theory Child_Process
  imports Files
begin

text \<open>
  The child of the fork in \<open>process::launch\<close> (\<open>src/process.cpp\<close>): it prepares itself to be traced and executes the
  program. A step that fails is reported to the debugger through the pipe.
\<close>

text \<open>The system calls of the child; a failure gives its \<open>errno\<close>. The child has its own table of descriptors.\<close>

record 'k child_calls =
  c_files :: "'k files"
  c_setpgid :: "'k \<Rightarrow> int + 'k"
  c_personality :: "'k \<Rightarrow> 'k"
  c_dup2 :: "int \<Rightarrow> int \<Rightarrow> 'k \<Rightarrow> int + 'k"
  c_traceme :: "'k \<Rightarrow> int + 'k"
  c_execlp :: "string \<Rightarrow> 'k \<Rightarrow> int + 'k"
  c_strerror :: "int \<Rightarrow> string"

definition no_child :: "'k child_calls" where
  "no_child = \<lparr>c_files = no_files, c_setpgid = (\<lambda>k. Inl 1), c_personality = (\<lambda>k. k), c_dup2 = (\<lambda>a b k. Inl 1),
     c_traceme = (\<lambda>k. Inl 1), c_execlp = (\<lambda>path k. Inl 1), c_strerror = (\<lambda>e. [])\<rparr>"

text \<open>The ways the child leaves the program of the debugger.\<close>

datatype child_end = Exec string | Exit int

definition perror_message :: "'k child_calls \<Rightarrow> string \<Rightarrow> int \<Rightarrow> string" where
  "perror_message C prefix errno = prefix @ '': '' @ c_strerror C errno"

definition exit_with_perror :: "'k child_calls \<Rightarrow> string \<Rightarrow> int \<Rightarrow> ('k, child_end) pipe_op" where
  "exit_with_perror C prefix errno =
    thenS (pipe_write (c_files C) (string_bytes (perror_message C prefix errno))) (retS (Exit (- 1)))"

text \<open>A call whose failure ends the child, and what follows it.\<close>

definition child_try ::
  "'k child_calls \<Rightarrow> string \<Rightarrow> ('k \<Rightarrow> int + 'k) \<Rightarrow> ('k, child_end) pipe_op \<Rightarrow> ('k, child_end) pipe_op" where
  "child_try C prefix call rest =
    (\<lambda>(c, k). case call k of
       Inl errno \<Rightarrow> exit_with_perror C prefix errno (c, k)
     | Inr k' \<Rightarrow> rest (c, k'))"

definition STDOUT_FILENO :: int where "STDOUT_FILENO = 1"

definition launch_child :: "'k child_calls \<Rightarrow> string \<Rightarrow> bool \<Rightarrow> int option \<Rightarrow> ('k, child_end) pipe_op" where
  "launch_child C path debug stdout_replacement =
    child_try C ''Could not set pgid!'' (c_setpgid C)
    (thenS (modifyS (\<lambda>(c, k). (c, c_personality C k)))
    (thenS (close_read (c_files C))
    ((case stdout_replacement of
        None \<Rightarrow> (\<lambda>rest. rest)
      | Some fd \<Rightarrow> child_try C ''stdout replacement failed'' (c_dup2 C fd STDOUT_FILENO))
    ((if debug then child_try C ''Tracing failed'' (c_traceme C) else (\<lambda>rest. rest))
      (child_try C ''exec FAILED'' (c_execlp C path) (retS (Exec path)))))))"

section \<open>What the child reports\<close>

text \<open>The steps of the child in order, each with the prefix of its message.\<close>

type_synonym 'k stage = "string \<times> ('k \<Rightarrow> int + 'k)"

definition child_stages :: "'k child_calls \<Rightarrow> string \<Rightarrow> bool \<Rightarrow> int option \<Rightarrow> int \<Rightarrow> 'k stage list" where
  "child_stages C path debug stdout_replacement fd =
    [(''Could not set pgid!'', c_setpgid C),
     ('''', \<lambda>k. Inr (let k' = c_personality C k in if fd \<noteq> - 1 then f_close (c_files C) fd k' else k'))] @
    (case stdout_replacement of None \<Rightarrow> [] | Some out \<Rightarrow> [(''stdout replacement failed'', c_dup2 C out STDOUT_FILENO)]) @
    (if debug then [(''Tracing failed'', c_traceme C)] else []) @
    [(''exec FAILED'', c_execlp C path)]"

fun first_failure :: "'k stage list \<Rightarrow> 'k \<Rightarrow> (string \<times> int) option" where
  "first_failure [] k = None"
| "first_failure ((prefix, call) # stages) k =
    (case call k of Inl errno \<Rightarrow> Some (prefix, errno) | Inr k' \<Rightarrow> first_failure stages k')"

text \<open>
  What the child does to the channel: the steps leave it alone, and a message of at most 4096 bytes, which is written
  in one piece, is appended.
\<close>

definition keeps_channel :: "('k \<Rightarrow> byte list) \<Rightarrow> ('k \<Rightarrow> int + 'k) \<Rightarrow> bool" where
  "keeps_channel chan call \<longleftrightarrow> (\<forall>k k'. call k = Inr k' \<longrightarrow> chan k' = chan k)"

definition child_channel :: "'k child_calls \<Rightarrow> int \<Rightarrow> ('k \<Rightarrow> byte list) \<Rightarrow> bool" where
  "child_channel C w chan \<longleftrightarrow>
    keeps_channel chan (c_setpgid C) \<and> keeps_channel chan (\<lambda>k. Inr (c_personality C k)) \<and>
    (\<forall>fd. keeps_channel chan (\<lambda>k. Inr (f_close (c_files C) fd k))) \<and> (\<forall>a b. keeps_channel chan (c_dup2 C a b)) \<and>
    keeps_channel chan (c_traceme C) \<and> (\<forall>path. keeps_channel chan (c_execlp C path)) \<and>
    (\<forall>bs k. length bs \<le> 4096 \<longrightarrow>
       (\<exists>k'. f_write (c_files C) w bs k = (Some (length bs), k') \<and> chan k' = chan k @ bs))"

lemma child_try_stage:
  "child_try C prefix call rest (c, k) =
    (case call k of Inl errno \<Rightarrow> exit_with_perror C prefix errno (c, k) | Inr k' \<Rightarrow> rest (c, k'))"
  by (simp add: child_try_def)

text \<open>How the child ends: it has left the channel alone, or written the message of the step that failed.\<close>

definition child_reports ::
  "'k child_calls \<Rightarrow> ('k \<Rightarrow> byte list) \<Rightarrow> byte list \<Rightarrow> (string \<times> int) option \<Rightarrow> child_end result \<times> pipe \<times> 'k \<Rightarrow> bool" where
  "child_reports C chan before failure out \<longleftrightarrow>
    (case failure of
       None \<Rightarrow> chan (snd (snd out)) = before
     | Some (prefix, errno) \<Rightarrow> length (perror_message C prefix errno) \<le> 4096 \<longrightarrow>
         fst out = Inr (Exit (- 1)) \<and> chan (snd (snd out)) = before @ string_bytes (perror_message C prefix errno))"

definition follows_stages :: "'k child_calls \<Rightarrow> int \<Rightarrow> ('k \<Rightarrow> byte list) \<Rightarrow> ('k, child_end) pipe_op \<Rightarrow> 'k stage list \<Rightarrow> bool" where
  "follows_stages C w chan m stages \<longleftrightarrow>
    (\<forall>c k. write_fd c = w \<longrightarrow> child_reports C chan (chan k) (first_failure stages k) (m (c, k)))"

lemma exit_reports:
  assumes "child_channel C w chan" "write_fd c = w"
  shows "child_reports C chan (chan k) (Some (prefix, errno)) (exit_with_perror C prefix errno (c, k))"
proof -
  have "\<exists>k'. f_write (c_files C) w bs k = (Some (length bs), k') \<and> chan k' = chan k @ bs" if "length bs \<le> 4096" for bs
    using assms(1) that by (simp add: child_channel_def)
  from this [of "string_bytes (perror_message C prefix errno)"] show ?thesis
    using assms(2) by (auto simp: child_reports_def exit_with_perror_def pipe_write_def thenS_def bindS_def)
qed

lemma follows_try:
  assumes "child_channel C w chan" "keeps_channel chan call" "follows_stages C w chan rest stages"
  shows "follows_stages C w chan (child_try C prefix call rest) ((prefix, call) # stages)"
  unfolding follows_stages_def
proof (intro allI impI)
  fix c :: pipe and k assume w: "write_fd c = w"
  show "child_reports C chan (chan k) (first_failure ((prefix, call) # stages) k) (child_try C prefix call rest (c, k))"
  proof (cases "call k")
    case (Inl errno)
    then show ?thesis using exit_reports [OF assms(1) w] by (simp add: child_try_stage)
  next
    case (Inr k')
    then have "chan k' = chan k" using assms(2) by (simp add: keeps_channel_def)
    moreover have "child_reports C chan (chan k') (first_failure stages k') (rest (c, k'))"
      using assms(3) w unfolding follows_stages_def by blast
    ultimately show ?thesis using Inr by (simp add: child_try_stage)
  qed
qed

text \<open>Setting the process group, then the calls that cannot fail, then the rest.\<close>

definition child_rest :: "'k child_calls \<Rightarrow> string \<Rightarrow> bool \<Rightarrow> int option \<Rightarrow> ('k, child_end) pipe_op" where
  "child_rest C path debug stdout_replacement =
    (case stdout_replacement of
       None \<Rightarrow> (\<lambda>rest. rest)
     | Some fd \<Rightarrow> child_try C ''stdout replacement failed'' (c_dup2 C fd STDOUT_FILENO))
    ((if debug then child_try C ''Tracing failed'' (c_traceme C) else (\<lambda>rest. rest))
      (child_try C ''exec FAILED'' (c_execlp C path) (retS (Exec path))))"

lemma child_rest_follows:
  assumes C: "child_channel C w chan"
  shows "follows_stages C w chan (child_rest C path debug out)
    ((case out of None \<Rightarrow> [] | Some fd \<Rightarrow> [(''stdout replacement failed'', c_dup2 C fd STDOUT_FILENO)]) @
     (if debug then [(''Tracing failed'', c_traceme C)] else []) @ [(''exec FAILED'', c_execlp C path)])"
proof -
  have k: "keeps_channel chan (c_dup2 C a b)" "keeps_channel chan (c_traceme C)" "keeps_channel chan (c_execlp C path)" for a b
    using C by (simp_all add: child_channel_def)
  have "follows_stages C w chan (retS (Exec path)) []" by (simp add: follows_stages_def child_reports_def)
  note x = follows_try [OF C k(3) this, of "''exec FAILED''"]
  then show ?thesis
    using follows_try [OF C k(2) x] follows_try [OF C k(1) x] follows_try [OF C k(1) follows_try [OF C k(2) x]]
    by (simp add: child_rest_def split: option.split)
qed

lemma launch_child_reports:
  assumes C: "child_channel C w chan" and w: "write_fd c = w"
  shows "child_reports C chan (chan k) (first_failure (child_stages C path debug out (read_fd c)) k) (launch_child C path debug out (c, k))"
proof (cases "c_setpgid C k")
  case (Inl errno)
  then show ?thesis using exit_reports [OF C w] by (simp add: launch_child_def child_try_stage child_stages_def)
next
  case (Inr k1)
  let ?c = "if read_fd c \<noteq> - 1 then c\<lparr>read_fd := - 1\<rparr> else c"
  let ?k = "let k' = c_personality C k1 in if read_fd c \<noteq> - 1 then f_close (c_files C) (read_fd c) k' else k'"
  have run: "launch_child C path debug out (c, k) = child_rest C path debug out (?c, ?k)"
    using Inr by (simp add: launch_child_def child_try_stage child_rest_def close_read_def thenS_def bindS_def Let_def)
  have chan: "chan ?k = chan k" using C Inr by (simp add: child_channel_def keeps_channel_def Let_def)
  have "child_reports C chan (chan ?k) (first_failure ((case out of None \<Rightarrow> [] | Some fd \<Rightarrow>
         [(''stdout replacement failed'', c_dup2 C fd STDOUT_FILENO)]) @
       (if debug then [(''Tracing failed'', c_traceme C)] else []) @ [(''exec FAILED'', c_execlp C path)]) ?k)
     (child_rest C path debug out (?c, ?k))"
    using child_rest_follows [OF C, of path debug out] w unfolding follows_stages_def by simp
  then show ?thesis unfolding run chan using Inr by (simp add: child_stages_def)
qed

end
