(* ===== verification/Process_Setup.thy ===== *)
theory Process_Setup
  imports Process_Stops Child_Process "HOL-Library.AList"
begin

text \<open>
  The beginning and the end of a traced process in \<open>src/process.cpp\<close>: the constructor, \<open>launch\<close> (whose
  child is in \<open>Child_Process\<close>), \<open>attach\<close>, the destructor, and the two readers of \<open>/proc\<close>:
  \<open>get_auxv\<close> and \<open>in_ptrace_stop\<close>. The further requests these make of the system are a
  second record of parameters; a fork gets the program of its child.
\<close>

section \<open>The system\<close>

record 'k system =
  sys_files :: "'k files"
  sys_child :: "'k child_calls"
  sys_fork :: "('k \<Rightarrow> child_end result \<times> 'k) \<Rightarrow> 'k \<Rightarrow> (pid \<times> 'k) option"
  sys_attach :: "pid \<Rightarrow> 'k \<Rightarrow> 'k option"
  sys_detach :: "pid \<Rightarrow> 'k \<Rightarrow> 'k option"
  sys_setoptions :: "pid \<Rightarrow> u64 \<Rightarrow> 'k \<Rightarrow> 'k option"
  sys_kill :: "pid \<Rightarrow> nat \<Rightarrow> 'k \<Rightarrow> 'k"
  sys_tasks :: "pid \<Rightarrow> 'k \<Rightarrow> pid list option"
  sys_stat :: "pid \<Rightarrow> pid \<Rightarrow> 'k \<Rightarrow> string"
  sys_auxv :: "pid \<Rightarrow> 'k \<Rightarrow> byte list"

text \<open>A system that refuses every request, for the examples.\<close>

definition no_system :: "'k system" where
  "no_system = \<lparr>sys_files = no_files, sys_child = no_child, sys_fork = (\<lambda>child k. None), sys_attach = (\<lambda>p k. None),
     sys_detach = (\<lambda>p k. None), sys_setoptions = (\<lambda>p opts k. None), sys_kill = (\<lambda>p s k. k),
     sys_tasks = (\<lambda>p k. None), sys_stat = (\<lambda>p t k. []), sys_auxv = (\<lambda>p k. [])\<rparr>"

definition PTRACE_O_TRACESYSGOOD :: u64 where "PTRACE_O_TRACESYSGOOD = 1"

definition PTRACE_O_TRACECLONE :: u64 where "PTRACE_O_TRACECLONE = 8"

definition PTRACE_O_EXITKILL :: u64 where "PTRACE_O_EXITKILL = 0x100000"

definition SIGKILL :: byte where "SIGKILL = 9"

definition SIGCONT :: byte where "SIGCONT = 18"

section \<open>The state of a thread in /proc\<close>

text \<open>\<open>std::string::rfind\<close> of one character.\<close>

definition rfind :: "char \<Rightarrow> string \<Rightarrow> nat option" where
  "rfind c line = List.find (\<lambda>i. line ! i = c) (rev [0..<length line])"

definition in_ptrace_stop :: "string \<Rightarrow> bool" where
  "in_ptrace_stop line =
    (case rfind CHR '')'' line of
       None \<Rightarrow> False
     | Some paren \<Rightarrow> paren + 2 < length line \<and> line ! (paren + 2) = CHR ''t'')"

section \<open>The auxiliary vector\<close>

text \<open>
  A failed \<open>read\<close> leaves the variable as it was: at the end of the file the loop goes on with the
  last identifier for ever, and an empty file leaves it uninitialised.
\<close>

definition auxv_key :: "u64 \<Rightarrow> int" where
  "auxv_key i = sint (ucast i :: u32)"

function read_auxv :: "byte list \<Rightarrow> (int \<times> u64) list \<Rightarrow> (int \<times> u64) list result" where
  "read_auxv bs ret =
    (if length bs < 8 then Inl (No_return ''end of the auxiliary vector'')
     else if (from_bytes bs :: u64) = 0 then Inr ret
     else if length bs < 16 then Inl (No_return ''end of the auxiliary vector'')
     else read_auxv (drop 16 bs) (AList.update (auxv_key (from_bytes bs)) (from_bytes (drop 8 bs)) ret))"
  by auto
termination by (relation "measure (\<lambda>(bs, _). length bs)") auto

declare read_auxv.simps [simp del]

definition get_auxv :: "'k system \<Rightarrow> ('k, 't, (int \<times> u64) list) process_op" where
  "get_auxv S =
    bindS (getS (\<lambda>p. sys_auxv S (p_pid p) (p_kernel p))) (\<lambda>bs.
      if bs = [] then throwS (Undefined ''uninitialised identifier'') else liftS (read_auxv bs []))"

section \<open>Construction\<close>

definition populate_existing_threads :: "'k system \<Rightarrow> ('k, 't, unit) process_op" where
  "populate_existing_threads S =
    bindS (getS (\<lambda>p. sys_tasks S (p_pid p) (p_kernel p))) (\<lambda>tasks.
    bindS (liftS (the_opt (Std_exception ''filesystem_error'') tasks))
      (forS (\<lambda>tid. modifyS (\<lambda>p. p\<lparr>p_threads := emplace tid (new_thread tid) (p_threads p)\<rparr>))))"

definition new_process :: "'k \<Rightarrow> pid \<Rightarrow> bool \<Rightarrow> bool \<Rightarrow> ('k, 't) process" where
  "new_process k pid terminate_on_end is_attached =
    \<lparr>p_kernel = k, p_pid = pid, p_terminate_on_end = terminate_on_end, p_state = stopped, p_attached = is_attached,
     p_sites = [], p_watchpoints = [], p_catch = catch_none, p_expecting_exit = False, p_threads = [],
     p_current = pid, p_site_id = 0, p_watch_id = 0, p_target = None\<rparr>"

definition set_ptrace_options :: "'k system \<Rightarrow> pid \<Rightarrow> bool \<Rightarrow> ('k, 't, unit) process_op" where
  "set_ptrace_options S pid kill_on_tracer_exit =
    (let options = PTRACE_O_TRACESYSGOOD OR PTRACE_O_TRACECLONE;
         options = (if kill_on_tracer_exit then options OR PTRACE_O_EXITKILL else options)
     in request ''Failed to set ptrace options!'' (sys_setoptions S pid options))"

section \<open>Destruction\<close>

text \<open>Reaping every thread of the inferior's process group, until the wait fails.\<close>

fun reap_group :: "nat \<Rightarrow> 'k kernel \<Rightarrow> pid \<Rightarrow> ('k, 't, unit) process_op" where
  "reap_group 0 K pid = throwS (No_return ''fuel'')"
| "reap_group (Suc n) K pid =
    bindS (await K (- pid) WALL) (\<lambda>r. case r of None \<Rightarrow> retS () | Some (tid, _) \<Rightarrow> if tid > 0 then reap_group n K pid else retS ())"

definition stop_for_detach :: "'k kernel \<Rightarrow> 'k system \<Rightarrow> pid \<Rightarrow> ('k, 't, unit) process_op" where
  "stop_for_detach K S tid =
    bindS (getS (\<lambda>p. in_ptrace_stop (sys_stat S (p_pid p) tid (p_kernel p)))) (\<lambda>halted.
      if halted then retS ()
      else thenS (tgkill K tid SIGSTOP) (bindS (await K tid WALL) (\<lambda>_. retS ())))"

definition release_stoppoints :: "'k kernel \<Rightarrow> float_ops \<Rightarrow> ('k, 't, unit) process_op" where
  "release_stoppoints K fo =
    thenS (bindS (getS (\<lambda>p. map bs_address (p_sites p))) (forS (site_disable K fo)))
      (bindS (getS (\<lambda>p. map wp_id (p_watchpoints p))) (forS (\<lambda>i. on_watchpoint i (watchpoint_disable K fo))))"

definition destroy_process :: "nat \<Rightarrow> 'k kernel \<Rightarrow> 'k system \<Rightarrow> float_ops \<Rightarrow> ('k, 't, unit) process_op" where
  "destroy_process n K S fo =
    bindS (getS (\<lambda>p. (p_pid p, p_state p))) (\<lambda>(pid, state).
      if pid = 0 then retS ()
      else if state = exited \<or> state = terminated then retS ()
      else
        thenS (modifyS (\<lambda>p. p\<lparr>p_target := None\<rparr>))
        (bindS (getS (\<lambda>p. (p_terminate_on_end p, p_attached p))) (\<lambda>(terminate_on_end, attached).
          if terminate_on_end then
            thenS (modifyS (\<lambda>p. p\<lparr>p_kernel := sys_kill S pid (unat SIGKILL) (p_kernel p)\<rparr>)) (reap_group n K pid)
          else if attached then
            thenS (catchS (thenS (bindS (getS thread_ids) (forS (stop_for_detach K S))) (release_stoppoints K fo))
                     (\<lambda>e. if is_exception e then retS () else throwS e))
            (thenS (bindS (getS thread_ids) (forS (\<lambda>tid. attempt (sys_detach S tid))))
              (modifyS (\<lambda>p. p\<lparr>p_kernel := sys_kill S pid (unat SIGCONT) (p_kernel p)\<rparr>)))
          else retS ())))"

section \<open>Launching and attaching\<close>

text \<open>
  A new process object, then the rest of \<open>launch\<close> or \<open>attach\<close>. An exception from the constructor leaves
  no object; one from the rest destroys it.
\<close>

definition constructed ::
  "nat \<Rightarrow> 'k kernel \<Rightarrow> 'k system \<Rightarrow> float_ops \<Rightarrow> 'k \<Rightarrow> pid \<Rightarrow> bool \<Rightarrow> bool \<Rightarrow> ('k, 't, unit) process_op \<Rightarrow>
     ('k, 't) process result \<times> 'k" where
  "constructed n K S fo k pid terminate_on_end is_attached m =
    (case populate_existing_threads S (new_process k pid terminate_on_end is_attached) of
       (Inl e, p) \<Rightarrow> (Inl e, p_kernel p)
     | (Inr _, p) \<Rightarrow>
         (case m p of
            (Inr _, p') \<Rightarrow> (Inr p', p_kernel p')
          | (Inl e, p') \<Rightarrow>
              if \<not> is_exception e then (Inl e, p_kernel p')
              else (case destroy_process n K S fo p' of
                      (Inl d, p'') \<Rightarrow> (Inl d, p_kernel p'')
                    | (Inr _, p'') \<Rightarrow> (Inl e, p_kernel p''))))"

definition attach ::
  "nat \<Rightarrow> ('k, 't) hooks \<Rightarrow> 'k kernel \<Rightarrow> 'k system \<Rightarrow> float_ops \<Rightarrow> pid \<Rightarrow> 'k \<Rightarrow> ('k, 't) process result \<times> 'k" where
  "attach n H K S fo pid k =
    (if pid = 0 then (Inl (Send ''INVALID PID''), k)
     else case sys_attach S pid k of
       None \<Rightarrow> (Inl (Send_errno ''Could NOT attach''), k)
     | Some k' \<Rightarrow>
         constructed n K S fo k' pid False True
           (thenS (wait_on_signal n H K fo (- 1)) (set_ptrace_options S pid False)))"

text \<open>
  What the parent of the fork does with the channel: its write end is closed first, so that the read ends when
  the child has closed its own.
\<close>

definition receive_report :: "'k files \<Rightarrow> ('k, byte list) pipe_op" where
  "receive_report F =
    thenS (close_write F) (bindS (pipe_read F) (\<lambda>data. thenS (close_read F) (retS data)))"

definition launch ::
  "nat \<Rightarrow> ('k, 't) hooks \<Rightarrow> 'k kernel \<Rightarrow> 'k system \<Rightarrow> float_ops \<Rightarrow> string \<Rightarrow> bool \<Rightarrow> int option \<Rightarrow> 'k \<Rightarrow>
     ('k, 't) process result \<times> 'k" where
  "launch n H K S fo path debug stdout_replacement k =
    (let F = sys_files S; child = launch_child (sys_child S) path debug stdout_replacement
     in case pipe_new F True k of
          (Inl e, k0) \<Rightarrow> (Inl e, k0)
        | (Inr channel, k0) \<Rightarrow>
            (case sys_fork S (\<lambda>k. apsnd snd (child (channel, k))) k0 of
               None \<Rightarrow> with_pipe F (throwS (Send_errno ''fork FAILED'')) channel k0
             | Some (pid, k1) \<Rightarrow>
                 (case with_pipe F (receive_report F) channel k1 of
                    (Inl e, k2) \<Rightarrow> (Inl e, k2)
                  | (Inr data, k2) \<Rightarrow>
                      if data \<noteq> [] then (Inl (Send (bytes_string data)), snd (k_waitpid K pid 0 k2))
                      else
                        constructed n K S fo k2 pid True debug
                          (if debug then thenS (wait_on_signal n H K fo (- 1)) (set_ptrace_options S pid True) else retS ()))))"

section \<open>Releasing the stop points\<close>

definition trap_addresses :: "('k, 't) process \<Rightarrow> u64 set" where
  "trap_addresses p = {bs_address s | s. s \<in> set (p_sites p) \<and> trap_site s}"

lemma no_traps_memory: "trap_addresses p = {} \<Longrightarrow> program_memory (p_sites p) m = m"
  by (rule ext) (auto simp: trap_addresses_def intro!: program_memory_plain)

text \<open>A process whose traps lie at some addresses and whose memory without them is fixed.\<close>

definition releasing :: "('k \<Rightarrow> u64 \<Rightarrow> byte) \<Rightarrow> ('k, 't) process \<Rightarrow> u64 set \<Rightarrow> ('k, 't) process \<Rightarrow> bool" where
  "releasing mem p0 A p \<longleftrightarrow> sites_refine mem p0 p \<and> trap_addresses p \<subseteq> A"

lemma site_disable_releases:
  assumes K: "memory_kernel K (p_pid p0) mem ok" "register_requests_keep_memory K mem"
  shows "postS (releasing mem p0 A) (site_disable K fo a) (\<lambda>_. releasing mem p0 (A - {a}))"
  unfolding postS_def
proof (intro allI impI)
  fix p u p'
  assume p: "releasing mem p0 A p" and run: "site_disable K fo a p = (Inr u, p')"
  then have t: "traps_ok (p_sites p) (mem (p_kernel p))" and K1: "memory_kernel K (p_pid p) mem ok"
    using K(1) by (simp_all add: releasing_def sites_refine_def)
  have ref: "sites_refine mem p p'" by (rule site_toggle_refines(2) [OF K1 K(2) t run])
  obtain s s' p1 where s: "sc_get_by_address site_at a (p_sites p) = Inr s" "breakpoint_site_disable K fo s p = (Inr s', p1)"
    "p' = p1\<lparr>p_sites := sc_replace (\<lambda>x. site_at x a) s' (p_sites p1)\<rparr>"
    using on_site_Inr run unfolding site_disable_def by blast
  have s1: "s \<in> set (p_sites p)" "bs_address s = a" using site.get_by_address_Inr [OF s(1)] by simp_all
  then have "trap_site s \<longrightarrow> mem (p_kernel p) (bs_address s) = 0xcc" using t unfolding traps_ok_def by blast
  then have o: "p_sites p1 = p_sites p" "bs_address s' = a"
    using site_disable_ok [OF K1 K(2), of s fo] s1 by (simp_all add: s(2) site_op_ok_def)
  have d: "distinct (map bs_address (p_sites p))" using t by (simp add: traps_ok_def)
  have "set (p_sites p') = insert s' (set (p_sites p) - {s})"
    using site.replace_set [OF d s1(1), of s'] s(3) o s1(2) by simp
  then have "trap_addresses p' \<subseteq> trap_addresses p - {a}"
    using disable_result [OF s(2)] d s1 by (auto simp: trap_addresses_def trap_site_def distinct_map inj_on_def)
  then show "releasing mem p0 (A - {a}) p'"
    using p ref sites_refine_trans by (auto simp: releasing_def)
qed

lemma disable_all_releases:
  assumes K: "memory_kernel K (p_pid p0) mem ok" "register_requests_keep_memory K mem"
  shows "postS (releasing mem p0 (set xs)) (forS (site_disable K fo) xs) (\<lambda>_. releasing mem p0 {})"
proof (induction xs)
  case (Cons x xs)
  have "postS (releasing mem p0 (set (x # xs) - {x})) (forS (site_disable K fo) xs) (\<lambda>_. releasing mem p0 {})"
  proof -
    have "releasing mem p0 (set (x # xs) - {x}) p \<Longrightarrow> releasing mem p0 (set xs) p" for p
      by (auto simp: releasing_def)
    then show ?thesis using Cons.IH unfolding postS_def by blast
  qed
  then show ?case unfolding forS.simps by (rule postS_then [OF site_disable_releases [OF K]])
qed (simp add: postS_def)

lemma watchpoint_disable_keeps:
  assumes "register_requests_keep_memory K mem"
  shows "keepsS (same_program mem p0) (on_watchpoint i (watchpoint_disable K fo))"
proof -
  have "keepsS (same_program mem p0) (modifyS (\<lambda>p. p\<lparr>p_watchpoints := f p\<rparr>))" for f
    by (rule keepsS_modify) (simp add: same_program_def)
  then show ?thesis
    unfolding on_watchpoint_def watchpoint_disable_def by (intro keeps_intros keeps_hardware(2) [OF assms])
qed

section \<open>Reading /proc\<close>

lemma rfind_append: "c \<notin> set ys \<Longrightarrow> rfind c (xs @ c # ys) = Some (length xs)"
proof -
  assume c: "c \<notin> set ys"
  let ?n = "length xs"
  have "[0..<?n + Suc (length ys)] = [0..<?n] @ ?n # [Suc ?n..<?n + Suc (length ys)]"
    using upt_add_eq_append [of 0 ?n "Suc (length ys)"] by (simp add: upt_conv_Cons del: upt_Suc)
  then have "rev [0..<length (xs @ c # ys)] = rev [Suc ?n..<?n + Suc (length ys)] @ ?n # rev [0..<?n]" by simp
  moreover have "\<forall>i \<in> set (rev [Suc ?n..<?n + Suc (length ys)]). (xs @ c # ys) ! i \<noteq> c"
  proof
    fix i assume "i \<in> set (rev [Suc ?n..<?n + Suc (length ys)])"
    then obtain j where j: "i = ?n + Suc j" "j < length ys"
      by (metis add_Suc_right add_less_cancel_left atLeastLessThan_iff less_iff_Suc_add nat_add_left_cancel_less
          not_less_eq set_rev set_upt Suc_le_eq)
    then show "(xs @ c # ys) ! i \<noteq> c" using c by (auto simp: nth_append)
  qed
  ultimately show ?thesis unfolding rfind_def by (simp add: find_append_skip)
qed

definition auxv_bytes :: "(u64 \<times> u64) list \<Rightarrow> byte list" where
  "auxv_bytes es = concat (map (\<lambda>(i, v). as_bytes i @ as_bytes v) es)"

section \<open>Properties\<close>

text \<open>
  C23. Letting go of a process leaves its code as it was: once the destructor has disabled the stop
  points, memory holds the program's own byte at every address, those under breakpoints included.
\<close>

theorem release_restores_memory:
  assumes K: "memory_kernel K (p_pid p) mem ok" "register_requests_keep_memory K mem"
    and t: "traps_ok (p_sites p) (mem (p_kernel p))"
    and run: "release_stoppoints K fo p = (Inr u, p')"
  shows "mem (p_kernel p') = program_memory (p_sites p) (mem (p_kernel p))"
proof -
  from run obtain u1 p1 where
      1: "forS (site_disable K fo) (map bs_address (p_sites p)) p = (Inr u1, p1)"
    and 2: "forS (\<lambda>i. on_watchpoint i (watchpoint_disable K fo)) (map wp_id (p_watchpoints p1)) p1 = (Inr u, p')"
    by (auto simp: release_stoppoints_def thenS_Inr_iff)
  have "releasing mem p (set (map bs_address (p_sites p))) p"
    using t by (auto simp: releasing_def sites_refine_def trap_addresses_def)
  then have rel: "releasing mem p {} p1" using disable_all_releases [OF K] 1 unfolding postS_def by blast
  then have "mem (p_kernel p1) = program_memory (p_sites p) (mem (p_kernel p))"
    using no_traps_memory [of p1] by (simp add: releasing_def sites_refine_def)
  moreover have "same_program mem p1 p'"
    by (rule keepsS_D [OF keepsS_for [OF watchpoint_disable_keeps [OF K(2)]] 2]) (simp add: same_program_def)
  ultimately show ?thesis by (simp add: same_program_def)
qed

text \<open>
  The state of a thread is found in its \<open>stat\<close> line whatever the name of the program contains:
  it is the character after the last closing parenthesis and a blank.
\<close>

lemma in_ptrace_stop_correct:
  assumes "CHR '')'' \<notin> set (state # rest)"
  shows "in_ptrace_stop (front @ '') '' @ state # rest) \<longleftrightarrow> state = CHR ''t''"
proof -
  have "rfind CHR '')'' (front @ CHR '')'' # CHR '' '' # state # rest) = Some (length front)"
    using assms by (intro rfind_append) auto
  then show ?thesis by (simp add: in_ptrace_stop_def nth_append)
qed

text \<open>
  Decoding the auxiliary vector: from the pairs the kernel writes, closed by a pair whose
  identifier is zero, the map gives every identifier its last value, and the loop ends.
\<close>

lemma auxv_roundtrip:
  assumes "\<forall>(i, v) \<in> set es. i \<noteq> 0"
  shows "\<exists>m. read_auxv (auxv_bytes es @ as_bytes (0 :: u64) @ rest) [] = Inr m \<and>
    map_of m = map_of (rev (map (\<lambda>(i, v). (auxv_key i, v)) es))"
proof -
  have "\<exists>m. read_auxv (auxv_bytes es @ as_bytes (0 :: u64) @ rest) ret = Inr m \<and>
      map_of m = map_of ret ++ map_of (rev (map (\<lambda>(i, v). (auxv_key i, v)) es))" for ret
    using assms
  proof (induction es arbitrary: ret)
    case Nil
    have "(from_bytes (as_bytes (0 :: u64) @ rest) :: u64) = 0" by (rule from_as_bytes) simp
    then show ?case by (subst read_auxv.simps) (simp add: auxv_bytes_def)
  next
    case (Cons e es)
    obtain i v where e: "e = (i, v)" by fastforce
    let ?tail = "auxv_bytes es @ as_bytes (0 :: u64) @ rest"
    have bs: "auxv_bytes (e # es) @ as_bytes (0 :: u64) @ rest = as_bytes i @ as_bytes v @ ?tail"
      by (simp add: auxv_bytes_def e)
    have "(from_bytes (as_bytes i @ as_bytes v @ ?tail) :: u64) = i" by (rule from_as_bytes) simp
    moreover have "(from_bytes (drop 8 (as_bytes i @ as_bytes v @ ?tail)) :: u64) = v"
      using from_as_bytes [of v ?tail] by simp
    moreover have "drop 16 (as_bytes i @ as_bytes v @ ?tail) = ?tail" by simp
    ultimately have step: "read_auxv (auxv_bytes (e # es) @ as_bytes (0 :: u64) @ rest) ret =
        read_auxv ?tail (AList.update (auxv_key i) v ret)"
      unfolding bs using Cons.prems e by (subst read_auxv.simps) simp
    obtain m where "read_auxv ?tail (AList.update (auxv_key i) v ret) = Inr m"
      "map_of m = map_of (AList.update (auxv_key i) v ret) ++ map_of (rev (map (\<lambda>(i, v). (auxv_key i, v)) es))"
      using Cons.IH Cons.prems by fastforce
    then show ?case unfolding step by (auto simp: e update_conv' map_add_def fun_eq_iff split: option.splits)
  qed
  from this [of "[]"] show ?thesis by simp
qed

section \<open>Examples\<close>

lemma in_ptrace_stop_correct_witness:
  "in_ptrace_stop ''4242 (a) S (b) t 1 4242'' \<and> \<not> in_ptrace_stop ''4242 (t) t) S 1 4242''"
  using in_ptrace_stop_correct [of "CHR ''t''" "'' 1 4242''" "''4242 (a) S (b''"]
    in_ptrace_stop_correct [of "CHR ''S''" "'' 1 4242''" "''4242 (t) t''"] by simp

lemma auxv_roundtrip_witness:
  "\<exists>m. read_auxv (auxv_bytes [(9, 0x401000), (7, 0x7f0000)] @ as_bytes (0 :: u64) @ as_bytes (0 :: u64)) [] = Inr m \<and>
     map_of m 9 = Some 0x401000 \<and> map_of m 7 = Some 0x7f0000 \<and> map_of m 3 = None"
proof -
  have "auxv_key 9 = 9" "auxv_key 7 = 7" by (simp_all add: auxv_key_def)
  then show ?thesis using auxv_roundtrip [of "[(9, 0x401000), (7, 0x7f0000)]" "as_bytes (0 :: u64)"] by auto
qed

theorem release_restores_memory_witness:
  "\<forall>fo. \<exists>p'. release_stoppoints sim_kernel fo (stopped_process 0x2000) = (Inr (), p') \<and> snd (p_kernel p') 0x2000 = 0x55"
proof
  fix fo
  let ?p = "stopped_process 0x2000"
  have traps: "traps_ok (p_sites ?p) (snd (p_kernel ?p))"
    by (simp add: traps_ok_def stopped_process_def sample_site_def)
  obtain p' where run: "release_stoppoints sim_kernel fo ?p = (Inr (), p')"
    by (simp add: release_stoppoints_def bindS_def thenS_def site_disable_def on_site_def
        breakpoint_site_disable_def peek_word_def poke_word_def request_def
        stopped_process_def sample_site_def sim_kernel_def sc_get_by_address_def sc_find_by_address_def site_at_def)
  have "snd (p_kernel p') = program_memory (p_sites ?p) (snd (p_kernel ?p))"
    by (rule release_restores_memory [OF sim_kernel_laws(1,2) traps run])
  moreover have "program_memory (p_sites ?p) (snd (p_kernel ?p)) 0x2000 = 0x55"
    by (simp add: program_memory_def stopped_process_def sample_site_def trap_site_def)
  ultimately show "\<exists>p'. release_stoppoints sim_kernel fo ?p = (Inr (), p') \<and> snd (p_kernel p') 0x2000 = 0x55"
    using run by simp
qed

end
