(* ===== verification/Dwarf_Constants.thy ===== *)
theory Dwarf_Constants
  imports Main
begin

text \<open>
  The DWARF enumerators of \<open>include/libgsdb/detail/dwarf.h\<close> that the library and the
  command line use. They are input abbreviations for their values: the code reads tags, attribute
  names, forms and opcodes as unsigned integers and compares them with these enumerators.
\<close>

section \<open>Tags\<close>

abbreviation (input) DW_TAG_array_type :: nat where "DW_TAG_array_type \<equiv> 1"
abbreviation (input) DW_TAG_class_type :: nat where "DW_TAG_class_type \<equiv> 2"
abbreviation (input) DW_TAG_enumeration_type :: nat where "DW_TAG_enumeration_type \<equiv> 4"
abbreviation (input) DW_TAG_formal_parameter :: nat where "DW_TAG_formal_parameter \<equiv> 5"
abbreviation (input) DW_TAG_member :: nat where "DW_TAG_member \<equiv> 13"
abbreviation (input) DW_TAG_pointer_type :: nat where "DW_TAG_pointer_type \<equiv> 15"
abbreviation (input) DW_TAG_reference_type :: nat where "DW_TAG_reference_type \<equiv> 16"
abbreviation (input) DW_TAG_structure_type :: nat where "DW_TAG_structure_type \<equiv> 19"
abbreviation (input) DW_TAG_subroutine_type :: nat where "DW_TAG_subroutine_type \<equiv> 21"
abbreviation (input) DW_TAG_typedef :: nat where "DW_TAG_typedef \<equiv> 22"
abbreviation (input) DW_TAG_union_type :: nat where "DW_TAG_union_type \<equiv> 23"
abbreviation (input) DW_TAG_inheritance :: nat where "DW_TAG_inheritance \<equiv> 28"
abbreviation (input) DW_TAG_inlined_subroutine :: nat where "DW_TAG_inlined_subroutine \<equiv> 29"
abbreviation (input) DW_TAG_ptr_to_member_type :: nat where "DW_TAG_ptr_to_member_type \<equiv> 31"
abbreviation (input) DW_TAG_subrange_type :: nat where "DW_TAG_subrange_type \<equiv> 33"
abbreviation (input) DW_TAG_base_type :: nat where "DW_TAG_base_type \<equiv> 36"
abbreviation (input) DW_TAG_const_type :: nat where "DW_TAG_const_type \<equiv> 38"
abbreviation (input) DW_TAG_subprogram :: nat where "DW_TAG_subprogram \<equiv> 46"
abbreviation (input) DW_TAG_variable :: nat where "DW_TAG_variable \<equiv> 52"
abbreviation (input) DW_TAG_volatile_type :: nat where "DW_TAG_volatile_type \<equiv> 53"
abbreviation (input) DW_TAG_rvalue_reference_type :: nat where "DW_TAG_rvalue_reference_type \<equiv> 66"

section \<open>Attributes\<close>

abbreviation (input) DW_AT_sibling :: nat where "DW_AT_sibling \<equiv> 1"
abbreviation (input) DW_AT_location :: nat where "DW_AT_location \<equiv> 2"
abbreviation (input) DW_AT_name :: nat where "DW_AT_name \<equiv> 3"
abbreviation (input) DW_AT_byte_size :: nat where "DW_AT_byte_size \<equiv> 11"
abbreviation (input) DW_AT_bit_offset :: nat where "DW_AT_bit_offset \<equiv> 12"
abbreviation (input) DW_AT_bit_size :: nat where "DW_AT_bit_size \<equiv> 13"
abbreviation (input) DW_AT_stmt_list :: nat where "DW_AT_stmt_list \<equiv> 16"
abbreviation (input) DW_AT_low_pc :: nat where "DW_AT_low_pc \<equiv> 17"
abbreviation (input) DW_AT_high_pc :: nat where "DW_AT_high_pc \<equiv> 18"
abbreviation (input) DW_AT_comp_dir :: nat where "DW_AT_comp_dir \<equiv> 27"
abbreviation (input) DW_AT_upper_bound :: nat where "DW_AT_upper_bound \<equiv> 47"
abbreviation (input) DW_AT_abstract_origin :: nat where "DW_AT_abstract_origin \<equiv> 49"
abbreviation (input) DW_AT_data_member_location :: nat where "DW_AT_data_member_location \<equiv> 56"
abbreviation (input) DW_AT_decl_file :: nat where "DW_AT_decl_file \<equiv> 58"
abbreviation (input) DW_AT_decl_line :: nat where "DW_AT_decl_line \<equiv> 59"
abbreviation (input) DW_AT_encoding :: nat where "DW_AT_encoding \<equiv> 62"
abbreviation (input) DW_AT_frame_base :: nat where "DW_AT_frame_base \<equiv> 64"
abbreviation (input) DW_AT_specification :: nat where "DW_AT_specification \<equiv> 71"
abbreviation (input) DW_AT_type :: nat where "DW_AT_type \<equiv> 73"
abbreviation (input) DW_AT_virtuality :: nat where "DW_AT_virtuality \<equiv> 76"
abbreviation (input) DW_AT_ranges :: nat where "DW_AT_ranges \<equiv> 85"
abbreviation (input) DW_AT_call_file :: nat where "DW_AT_call_file \<equiv> 88"
abbreviation (input) DW_AT_call_line :: nat where "DW_AT_call_line \<equiv> 89"
abbreviation (input) DW_AT_object_pointer :: nat where "DW_AT_object_pointer \<equiv> 100"
abbreviation (input) DW_AT_data_bit_offset :: nat where "DW_AT_data_bit_offset \<equiv> 107"
abbreviation (input) DW_AT_defaulted :: nat where "DW_AT_defaulted \<equiv> 139"

section \<open>Defaulted functions\<close>

abbreviation (input) DW_DEFAULTED_in_class :: nat where "DW_DEFAULTED_in_class \<equiv> 1"

section \<open>Attribute forms\<close>

abbreviation (input) DW_FORM_addr :: nat where "DW_FORM_addr \<equiv> 1"
abbreviation (input) DW_FORM_block2 :: nat where "DW_FORM_block2 \<equiv> 3"
abbreviation (input) DW_FORM_block4 :: nat where "DW_FORM_block4 \<equiv> 4"
abbreviation (input) DW_FORM_data2 :: nat where "DW_FORM_data2 \<equiv> 5"
abbreviation (input) DW_FORM_data4 :: nat where "DW_FORM_data4 \<equiv> 6"
abbreviation (input) DW_FORM_data8 :: nat where "DW_FORM_data8 \<equiv> 7"
abbreviation (input) DW_FORM_string :: nat where "DW_FORM_string \<equiv> 8"
abbreviation (input) DW_FORM_block :: nat where "DW_FORM_block \<equiv> 9"
abbreviation (input) DW_FORM_block1 :: nat where "DW_FORM_block1 \<equiv> 10"
abbreviation (input) DW_FORM_data1 :: nat where "DW_FORM_data1 \<equiv> 11"
abbreviation (input) DW_FORM_flag :: nat where "DW_FORM_flag \<equiv> 12"
abbreviation (input) DW_FORM_sdata :: nat where "DW_FORM_sdata \<equiv> 13"
abbreviation (input) DW_FORM_strp :: nat where "DW_FORM_strp \<equiv> 14"
abbreviation (input) DW_FORM_udata :: nat where "DW_FORM_udata \<equiv> 15"
abbreviation (input) DW_FORM_ref_addr :: nat where "DW_FORM_ref_addr \<equiv> 16"
abbreviation (input) DW_FORM_ref1 :: nat where "DW_FORM_ref1 \<equiv> 17"
abbreviation (input) DW_FORM_ref2 :: nat where "DW_FORM_ref2 \<equiv> 18"
abbreviation (input) DW_FORM_ref4 :: nat where "DW_FORM_ref4 \<equiv> 19"
abbreviation (input) DW_FORM_ref8 :: nat where "DW_FORM_ref8 \<equiv> 20"
abbreviation (input) DW_FORM_ref_udata :: nat where "DW_FORM_ref_udata \<equiv> 21"
abbreviation (input) DW_FORM_indirect :: nat where "DW_FORM_indirect \<equiv> 22"
abbreviation (input) DW_FORM_sec_offset :: nat where "DW_FORM_sec_offset \<equiv> 23"
abbreviation (input) DW_FORM_exprloc :: nat where "DW_FORM_exprloc \<equiv> 24"
abbreviation (input) DW_FORM_flag_present :: nat where "DW_FORM_flag_present \<equiv> 25"

section \<open>Expression opcodes\<close>

abbreviation (input) DW_OP_addr :: nat where "DW_OP_addr \<equiv> 3"
abbreviation (input) DW_OP_deref :: nat where "DW_OP_deref \<equiv> 6"
abbreviation (input) DW_OP_const1u :: nat where "DW_OP_const1u \<equiv> 8"
abbreviation (input) DW_OP_const1s :: nat where "DW_OP_const1s \<equiv> 9"
abbreviation (input) DW_OP_const2u :: nat where "DW_OP_const2u \<equiv> 10"
abbreviation (input) DW_OP_const2s :: nat where "DW_OP_const2s \<equiv> 11"
abbreviation (input) DW_OP_const4u :: nat where "DW_OP_const4u \<equiv> 12"
abbreviation (input) DW_OP_const4s :: nat where "DW_OP_const4s \<equiv> 13"
abbreviation (input) DW_OP_const8u :: nat where "DW_OP_const8u \<equiv> 14"
abbreviation (input) DW_OP_const8s :: nat where "DW_OP_const8s \<equiv> 15"
abbreviation (input) DW_OP_constu :: nat where "DW_OP_constu \<equiv> 16"
abbreviation (input) DW_OP_consts :: nat where "DW_OP_consts \<equiv> 17"
abbreviation (input) DW_OP_dup :: nat where "DW_OP_dup \<equiv> 18"
abbreviation (input) DW_OP_drop :: nat where "DW_OP_drop \<equiv> 19"
abbreviation (input) DW_OP_over :: nat where "DW_OP_over \<equiv> 20"
abbreviation (input) DW_OP_pick :: nat where "DW_OP_pick \<equiv> 21"
abbreviation (input) DW_OP_swap :: nat where "DW_OP_swap \<equiv> 22"
abbreviation (input) DW_OP_rot :: nat where "DW_OP_rot \<equiv> 23"
abbreviation (input) DW_OP_xderef :: nat where "DW_OP_xderef \<equiv> 24"
abbreviation (input) DW_OP_abs :: nat where "DW_OP_abs \<equiv> 25"
abbreviation (input) DW_OP_and :: nat where "DW_OP_and \<equiv> 26"
abbreviation (input) DW_OP_div :: nat where "DW_OP_div \<equiv> 27"
abbreviation (input) DW_OP_minus :: nat where "DW_OP_minus \<equiv> 28"
abbreviation (input) DW_OP_mod :: nat where "DW_OP_mod \<equiv> 29"
abbreviation (input) DW_OP_mul :: nat where "DW_OP_mul \<equiv> 30"
abbreviation (input) DW_OP_neg :: nat where "DW_OP_neg \<equiv> 31"
abbreviation (input) DW_OP_not :: nat where "DW_OP_not \<equiv> 32"
abbreviation (input) DW_OP_or :: nat where "DW_OP_or \<equiv> 33"
abbreviation (input) DW_OP_plus :: nat where "DW_OP_plus \<equiv> 34"
abbreviation (input) DW_OP_plus_uconst :: nat where "DW_OP_plus_uconst \<equiv> 35"
abbreviation (input) DW_OP_shl :: nat where "DW_OP_shl \<equiv> 36"
abbreviation (input) DW_OP_shr :: nat where "DW_OP_shr \<equiv> 37"
abbreviation (input) DW_OP_shra :: nat where "DW_OP_shra \<equiv> 38"
abbreviation (input) DW_OP_xor :: nat where "DW_OP_xor \<equiv> 39"
abbreviation (input) DW_OP_skip :: nat where "DW_OP_skip \<equiv> 47"
abbreviation (input) DW_OP_bra :: nat where "DW_OP_bra \<equiv> 40"
abbreviation (input) DW_OP_eq :: nat where "DW_OP_eq \<equiv> 41"
abbreviation (input) DW_OP_ge :: nat where "DW_OP_ge \<equiv> 42"
abbreviation (input) DW_OP_gt :: nat where "DW_OP_gt \<equiv> 43"
abbreviation (input) DW_OP_le :: nat where "DW_OP_le \<equiv> 44"
abbreviation (input) DW_OP_lt :: nat where "DW_OP_lt \<equiv> 45"
abbreviation (input) DW_OP_ne :: nat where "DW_OP_ne \<equiv> 46"
abbreviation (input) DW_OP_lit0 :: nat where "DW_OP_lit0 \<equiv> 48"
abbreviation (input) DW_OP_lit31 :: nat where "DW_OP_lit31 \<equiv> 79"
abbreviation (input) DW_OP_reg0 :: nat where "DW_OP_reg0 \<equiv> 80"
abbreviation (input) DW_OP_reg31 :: nat where "DW_OP_reg31 \<equiv> 111"
abbreviation (input) DW_OP_breg0 :: nat where "DW_OP_breg0 \<equiv> 112"
abbreviation (input) DW_OP_breg31 :: nat where "DW_OP_breg31 \<equiv> 143"
abbreviation (input) DW_OP_regx :: nat where "DW_OP_regx \<equiv> 144"
abbreviation (input) DW_OP_fbreg :: nat where "DW_OP_fbreg \<equiv> 145"
abbreviation (input) DW_OP_bregx :: nat where "DW_OP_bregx \<equiv> 146"
abbreviation (input) DW_OP_piece :: nat where "DW_OP_piece \<equiv> 147"
abbreviation (input) DW_OP_deref_size :: nat where "DW_OP_deref_size \<equiv> 148"
abbreviation (input) DW_OP_xderef_size :: nat where "DW_OP_xderef_size \<equiv> 149"
abbreviation (input) DW_OP_nop :: nat where "DW_OP_nop \<equiv> 150"
abbreviation (input) DW_OP_push_object_address :: nat where "DW_OP_push_object_address \<equiv> 151"
abbreviation (input) DW_OP_call2 :: nat where "DW_OP_call2 \<equiv> 152"
abbreviation (input) DW_OP_call4 :: nat where "DW_OP_call4 \<equiv> 153"
abbreviation (input) DW_OP_call_ref :: nat where "DW_OP_call_ref \<equiv> 154"
abbreviation (input) DW_OP_form_tls_address :: nat where "DW_OP_form_tls_address \<equiv> 155"
abbreviation (input) DW_OP_call_frame_cfa :: nat where "DW_OP_call_frame_cfa \<equiv> 156"
abbreviation (input) DW_OP_bit_piece :: nat where "DW_OP_bit_piece \<equiv> 157"
abbreviation (input) DW_OP_implicit_value :: nat where "DW_OP_implicit_value \<equiv> 158"
abbreviation (input) DW_OP_stack_value :: nat where "DW_OP_stack_value \<equiv> 159"

section \<open>Base type encodings\<close>

abbreviation (input) DW_ATE_boolean :: nat where "DW_ATE_boolean \<equiv> 2"
abbreviation (input) DW_ATE_float :: nat where "DW_ATE_float \<equiv> 4"
abbreviation (input) DW_ATE_signed :: nat where "DW_ATE_signed \<equiv> 5"
abbreviation (input) DW_ATE_signed_char :: nat where "DW_ATE_signed_char \<equiv> 6"
abbreviation (input) DW_ATE_unsigned :: nat where "DW_ATE_unsigned \<equiv> 7"
abbreviation (input) DW_ATE_unsigned_char :: nat where "DW_ATE_unsigned_char \<equiv> 8"
abbreviation (input) DW_ATE_UTF :: nat where "DW_ATE_UTF \<equiv> 16"

section \<open>Virtuality\<close>

abbreviation (input) DW_VIRTUALITY_none :: nat where "DW_VIRTUALITY_none \<equiv> 0"

section \<open>Standard line opcodes\<close>

abbreviation (input) DW_LNS_copy :: nat where "DW_LNS_copy \<equiv> 1"
abbreviation (input) DW_LNS_advance_pc :: nat where "DW_LNS_advance_pc \<equiv> 2"
abbreviation (input) DW_LNS_advance_line :: nat where "DW_LNS_advance_line \<equiv> 3"
abbreviation (input) DW_LNS_set_file :: nat where "DW_LNS_set_file \<equiv> 4"
abbreviation (input) DW_LNS_set_column :: nat where "DW_LNS_set_column \<equiv> 5"
abbreviation (input) DW_LNS_negate_stmt :: nat where "DW_LNS_negate_stmt \<equiv> 6"
abbreviation (input) DW_LNS_set_basic_block :: nat where "DW_LNS_set_basic_block \<equiv> 7"
abbreviation (input) DW_LNS_const_add_pc :: nat where "DW_LNS_const_add_pc \<equiv> 8"
abbreviation (input) DW_LNS_fixed_advance_pc :: nat where "DW_LNS_fixed_advance_pc \<equiv> 9"
abbreviation (input) DW_LNS_set_prologue_end :: nat where "DW_LNS_set_prologue_end \<equiv> 10"
abbreviation (input) DW_LNS_set_epilogue_begin :: nat where "DW_LNS_set_epilogue_begin \<equiv> 11"
abbreviation (input) DW_LNS_set_isa :: nat where "DW_LNS_set_isa \<equiv> 12"

section \<open>Extended line opcodes\<close>

abbreviation (input) DW_LNE_end_sequence :: nat where "DW_LNE_end_sequence \<equiv> 1"
abbreviation (input) DW_LNE_set_address :: nat where "DW_LNE_set_address \<equiv> 2"
abbreviation (input) DW_LNE_define_file :: nat where "DW_LNE_define_file \<equiv> 3"
abbreviation (input) DW_LNE_set_discriminator :: nat where "DW_LNE_set_discriminator \<equiv> 4"

section \<open>Call frame instructions\<close>

abbreviation (input) DW_CFA_advance_loc :: nat where "DW_CFA_advance_loc \<equiv> 64"
abbreviation (input) DW_CFA_offset :: nat where "DW_CFA_offset \<equiv> 128"
abbreviation (input) DW_CFA_restore :: nat where "DW_CFA_restore \<equiv> 192"
abbreviation (input) DW_CFA_set_loc :: nat where "DW_CFA_set_loc \<equiv> 1"
abbreviation (input) DW_CFA_advance_loc1 :: nat where "DW_CFA_advance_loc1 \<equiv> 2"
abbreviation (input) DW_CFA_advance_loc2 :: nat where "DW_CFA_advance_loc2 \<equiv> 3"
abbreviation (input) DW_CFA_advance_loc4 :: nat where "DW_CFA_advance_loc4 \<equiv> 4"
abbreviation (input) DW_CFA_offset_extended :: nat where "DW_CFA_offset_extended \<equiv> 5"
abbreviation (input) DW_CFA_restore_extended :: nat where "DW_CFA_restore_extended \<equiv> 6"
abbreviation (input) DW_CFA_undefined :: nat where "DW_CFA_undefined \<equiv> 7"
abbreviation (input) DW_CFA_same_value :: nat where "DW_CFA_same_value \<equiv> 8"
abbreviation (input) DW_CFA_register :: nat where "DW_CFA_register \<equiv> 9"
abbreviation (input) DW_CFA_remember_state :: nat where "DW_CFA_remember_state \<equiv> 10"
abbreviation (input) DW_CFA_restore_state :: nat where "DW_CFA_restore_state \<equiv> 11"
abbreviation (input) DW_CFA_def_cfa :: nat where "DW_CFA_def_cfa \<equiv> 12"
abbreviation (input) DW_CFA_def_cfa_register :: nat where "DW_CFA_def_cfa_register \<equiv> 13"
abbreviation (input) DW_CFA_def_cfa_offset :: nat where "DW_CFA_def_cfa_offset \<equiv> 14"
abbreviation (input) DW_CFA_def_cfa_expression :: nat where "DW_CFA_def_cfa_expression \<equiv> 15"
abbreviation (input) DW_CFA_expression :: nat where "DW_CFA_expression \<equiv> 16"
abbreviation (input) DW_CFA_offset_extended_sf :: nat where "DW_CFA_offset_extended_sf \<equiv> 17"
abbreviation (input) DW_CFA_def_cfa_sf :: nat where "DW_CFA_def_cfa_sf \<equiv> 18"
abbreviation (input) DW_CFA_def_cfa_offset_sf :: nat where "DW_CFA_def_cfa_offset_sf \<equiv> 19"
abbreviation (input) DW_CFA_val_offset :: nat where "DW_CFA_val_offset \<equiv> 20"
abbreviation (input) DW_CFA_val_offset_sf :: nat where "DW_CFA_val_offset_sf \<equiv> 21"
abbreviation (input) DW_CFA_val_expression :: nat where "DW_CFA_val_expression \<equiv> 22"

section \<open>Exception header pointer encodings\<close>

abbreviation (input) DW_EH_PE_absptr :: nat where "DW_EH_PE_absptr \<equiv> 0"
abbreviation (input) DW_EH_PE_uleb128 :: nat where "DW_EH_PE_uleb128 \<equiv> 1"
abbreviation (input) DW_EH_PE_udata2 :: nat where "DW_EH_PE_udata2 \<equiv> 2"
abbreviation (input) DW_EH_PE_udata4 :: nat where "DW_EH_PE_udata4 \<equiv> 3"
abbreviation (input) DW_EH_PE_udata8 :: nat where "DW_EH_PE_udata8 \<equiv> 4"
abbreviation (input) DW_EH_PE_sleb128 :: nat where "DW_EH_PE_sleb128 \<equiv> 9"
abbreviation (input) DW_EH_PE_sdata2 :: nat where "DW_EH_PE_sdata2 \<equiv> 10"
abbreviation (input) DW_EH_PE_sdata4 :: nat where "DW_EH_PE_sdata4 \<equiv> 11"
abbreviation (input) DW_EH_PE_sdata8 :: nat where "DW_EH_PE_sdata8 \<equiv> 12"
abbreviation (input) DW_EH_PE_pcrel :: nat where "DW_EH_PE_pcrel \<equiv> 16"
abbreviation (input) DW_EH_PE_textrel :: nat where "DW_EH_PE_textrel \<equiv> 32"
abbreviation (input) DW_EH_PE_datarel :: nat where "DW_EH_PE_datarel \<equiv> 48"
abbreviation (input) DW_EH_PE_funcrel :: nat where "DW_EH_PE_funcrel \<equiv> 64"

end
