(* ===== verification/Cursor.thy ===== *)
theory Cursor
  imports Bits Dwarf_Constants
begin

text \<open>
  The byte cursor of \<open>src/dwarf.cpp\<close> (class \<open>cursor\<close>), through which every DWARF structure
  is read, and the exception-header pointer decoders. A pointer into the memory-mapped ELF file is
  its offset in the image, so a cursor is the image, a position and the end of its span. As in the
  code, reads are not checked against the end of the span; a read outside the mapped image is
  undefined behaviour. Adding a \<open>std::size_t\<close> to a position is pointer arithmetic modulo
  \<open>2^64\<close>, so a converted negative offset moves the position back.
\<close>

section \<open>The cursor\<close>

record cursor =
  cur_img :: "byte list"
  cur_end :: int
  cur_pos :: int

definition cursor_over :: "byte list \<Rightarrow> int \<Rightarrow> int \<Rightarrow> cursor" where
  "cursor_over img begin_pos end_pos = \<lparr>cur_img = img, cur_end = end_pos, cur_pos = begin_pos\<rparr>"

definition cursor_inc :: "cursor \<Rightarrow> cursor" where
  "cursor_inc c = c\<lparr>cur_pos := cur_pos c + 1\<rparr>"

definition cursor_add :: "u64 \<Rightarrow> cursor \<Rightarrow> cursor" where
  "cursor_add n c = c\<lparr>cur_pos := cur_pos c + sint n\<rparr>"

definition cursor_finished :: "cursor \<Rightarrow> bool" where
  "cursor_finished c \<longleftrightarrow> cur_pos c \<ge> cur_end c"

definition read_bytes :: "nat \<Rightarrow> cursor \<Rightarrow> (byte list \<times> cursor) result" where
  "read_bytes n c =
    (if 0 \<le> cur_pos c \<and> cur_pos c + int n \<le> int (length (cur_img c))
     then Inr (take n (drop (nat (cur_pos c)) (cur_img c)), c\<lparr>cur_pos := cur_pos c + int n\<rparr>)
     else Inl (Undefined ''read outside the mapped image''))"

definition fixed_int :: "cursor \<Rightarrow> ('a::len word \<times> cursor) result" where
  "fixed_int c = bindE (read_bytes (LENGTH('a) div 8) c) (\<lambda>(bs, c'). Inr (from_bytes bs, c'))"

definition u8 :: "cursor \<Rightarrow> (byte \<times> cursor) result" where
  "u8 = fixed_int"

definition u16 :: "cursor \<Rightarrow> (u16 \<times> cursor) result" where
  "u16 = fixed_int"

definition u32 :: "cursor \<Rightarrow> (u32 \<times> cursor) result" where
  "u32 = fixed_int"

definition u64 :: "cursor \<Rightarrow> (u64 \<times> cursor) result" where
  "u64 = fixed_int"

text \<open>The signed readers, with the value converted to 64 bits by sign extension.\<close>

definition s8 :: "cursor \<Rightarrow> (u64 \<times> cursor) result" where
  "s8 c = bindE (u8 c) (\<lambda>(w, c'). Inr (scast w, c'))"

definition s16 :: "cursor \<Rightarrow> (u64 \<times> cursor) result" where
  "s16 c = bindE (u16 c) (\<lambda>(w, c'). Inr (scast w, c'))"

definition s32 :: "cursor \<Rightarrow> (u64 \<times> cursor) result" where
  "s32 c = bindE (u32 c) (\<lambda>(w, c'). Inr (scast w, c'))"

definition s64 :: "cursor \<Rightarrow> (u64 \<times> cursor) result" where
  "s64 = u64"

text \<open>
  \<open>string()\<close>: the bytes up to the first null byte before the end of the span; the position
  moves one past it, and so one past the end where there is no null byte.
\<close>

definition cursor_string :: "cursor \<Rightarrow> (string \<times> cursor) result" where
  "cursor_string c =
    (if 0 \<le> cur_pos c \<and> cur_pos c \<le> cur_end c \<and> cur_end c \<le> int (length (cur_img c))
     then let span = take (nat (cur_end c - cur_pos c)) (drop (nat (cur_pos c)) (cur_img c));
              chars = takeWhile (\<lambda>b. b \<noteq> 0) span
          in Inr (to_string_view chars, c\<lparr>cur_pos := cur_pos c + int (length chars) + 1\<rparr>)
     else Inl (Undefined ''string outside the mapped image''))"

text \<open>What is left to read; the measure under which every reader makes progress.\<close>

definition remaining :: "cursor \<Rightarrow> nat" where
  "remaining c = nat (int (length (cur_img c)) + 1 - cur_pos c)"

lemma read_bytes_Inr_iff [result_simps]:
  "read_bytes n c = Inr (bs, c') \<longleftrightarrow>
     0 \<le> cur_pos c \<and> cur_pos c + int n \<le> int (length (cur_img c)) \<and>
     bs = take n (drop (nat (cur_pos c)) (cur_img c)) \<and> c' = c\<lparr>cur_pos := cur_pos c + int n\<rparr>"
  by (auto simp: read_bytes_def)

text \<open>
  The contract of a reader: it keeps the image and the end of the span, starts inside the image
  and moves the position forward. Loops that read at least once per iteration therefore end.
\<close>

locale consuming_reader =
  fixes reader :: "cursor \<Rightarrow> ('v \<times> cursor) result"
  assumes reader_frame:
      "reader c = Inr (v, c') \<Longrightarrow> cur_img c' = cur_img c \<and> cur_end c' = cur_end c"
    and reader_progress:
      "reader c = Inr (v, c') \<Longrightarrow>
         0 \<le> cur_pos c \<and> cur_pos c \<le> int (length (cur_img c)) \<and> cur_pos c < cur_pos c'"
begin

lemma remaining_decreases: "reader c = Inr (v, c') \<Longrightarrow> remaining c' < remaining c"
  using reader_frame [of c v c'] reader_progress [of c v c'] by (auto simp: remaining_def)

lemma remaining_decreases_through:
  "reader c = Inr (v, c') \<Longrightarrow> remaining c'' \<le> remaining c' \<Longrightarrow> remaining c'' < remaining c"
  using remaining_decreases by (meson le_less_trans)

end

lemma fixed_int_consumes:
  assumes "(fixed_int :: cursor \<Rightarrow> ('a::len word \<times> cursor) result) c = Inr (v, c')"
    and "8 \<le> LENGTH('a)"
  shows "cur_img c' = cur_img c \<and> cur_end c' = cur_end c \<and> 0 \<le> cur_pos c \<and>
     cur_pos c' = cur_pos c + int (LENGTH('a) div 8) \<and> cur_pos c' \<le> int (length (cur_img c))"
  using assms by (auto simp: fixed_int_def result_simps split: prod.splits)

interpretation u8_reader: consuming_reader u8
  using fixed_int_consumes [where 'a = 8] by unfold_locales (fastforce simp: u8_def)+

interpretation u16_reader: consuming_reader u16
  using fixed_int_consumes [where 'a = 16] by unfold_locales (fastforce simp: u16_def)+

interpretation u32_reader: consuming_reader u32
  using fixed_int_consumes [where 'a = 32] by unfold_locales (fastforce simp: u32_def)+

interpretation u64_reader: consuming_reader u64
  using fixed_int_consumes [where 'a = 64] by unfold_locales (fastforce simp: u64_def)+

interpretation string_reader: consuming_reader cursor_string
  by unfold_locales (auto simp: cursor_string_def Let_def split: if_splits)

lemma signed_readers:
  "s8 c = Inr (v, c') \<Longrightarrow> \<exists>w. u8 c = Inr (w, c')"
  "s16 c = Inr (v, c') \<Longrightarrow> \<exists>w. u16 c = Inr (w, c')"
  "s32 c = Inr (v, c') \<Longrightarrow> \<exists>w. u32 c = Inr (w, c')"
  by (auto simp: s8_def s16_def s32_def result_simps)

section \<open>LEB128\<close>

text \<open>
  The loop shared by \<open>uleb128\<close> and \<open>sleb128\<close>: low seven bits of each byte, least
  significant group first, until a byte without the continuation bit. Shifting a 64-bit value by
  64 or more is undefined.
\<close>

function leb128_loop :: "cursor \<Rightarrow> u64 \<Rightarrow> nat \<Rightarrow> (u64 \<times> nat \<times> byte \<times> cursor) result" where
  "leb128_loop c res shift =
    bindE (u8 c) (\<lambda>(b, c').
      if shift \<ge> 64 then Inl (Undefined ''shift exceeds width'')
      else
        let masked = (ucast (b AND 0x7f) :: u64);
            res' = res OR push_bit shift masked;
            shift' = shift + 7
        in if b AND 0x80 \<noteq> 0 then leb128_loop c' res' shift' else Inr (res', shift', b, c'))"
  by pat_completeness auto
termination
  by (relation "measure (\<lambda>(c, _, _). remaining c)") (auto dest: u8_reader.remaining_decreases)

declare leb128_loop.simps [simp del]

definition uleb128 :: "cursor \<Rightarrow> (u64 \<times> cursor) result" where
  "uleb128 c = bindE (leb128_loop c 0 0) (\<lambda>(res, _, _, c'). Inr (res, c'))"

definition sleb128 :: "cursor \<Rightarrow> (u64 \<times> cursor) result" where
  "sleb128 c = bindE (leb128_loop c 0 0) (\<lambda>(res, shift, b, c').
     Inr (if shift < 64 \<and> b AND 0x40 \<noteq> 0 then res OR push_bit shift (NOT 0) else res, c'))"

lemma leb128_loop_consumes:
  "leb128_loop c res shift = Inr (v, s, b, c') \<Longrightarrow>
     cur_img c' = cur_img c \<and> cur_end c' = cur_end c \<and>
     0 \<le> cur_pos c \<and> cur_pos c \<le> int (length (cur_img c)) \<and> cur_pos c < cur_pos c'"
proof (induction c res shift rule: leb128_loop.induct)
  case (1 c res shift)
  from "1.prems" obtain b0 c0 where u: "u8 c = Inr (b0, c0)"
    by (subst (asm) leb128_loop.simps) (auto simp: result_simps)
  note fr = u8_reader.reader_frame [OF u] u8_reader.reader_progress [OF u]
  show ?case
  proof (cases "shift \<ge> 64 \<or> b0 AND 0x80 = 0")
    case True
    with "1.prems" u fr show ?thesis
      by (subst (asm) leb128_loop.simps) (auto simp: Let_def split: if_splits)
  next
    case False
    with "1.prems" u have "leb128_loop c0 (res OR push_bit shift (ucast (b0 AND 0x7f))) (shift + 7)
        = Inr (v, s, b, c')"
      by (subst (asm) leb128_loop.simps) (auto simp: Let_def)
    with "1.IH" [OF u refl _ refl refl refl] False fr show ?thesis by auto
  qed
qed

interpretation uleb_reader: consuming_reader uleb128
  by unfold_locales (auto simp: uleb128_def result_simps dest: leb128_loop_consumes)

interpretation sleb_reader: consuming_reader sleb128
  by unfold_locales (auto simp: sleb128_def result_simps dest: leb128_loop_consumes)

subsection \<open>What LEB128 readers compute\<close>

definition unread :: "cursor \<Rightarrow> byte list" where
  "unread c = drop (nat (cur_pos c)) (cur_img c)"

lemma read_bytes_unread:
  assumes "0 \<le> cur_pos c" "unread c = bs @ rest" "length bs = n" "0 < n"
  shows "read_bytes n c = Inr (bs, c\<lparr>cur_pos := cur_pos c + int n\<rparr>)"
    and "unread (c\<lparr>cur_pos := cur_pos c + int n\<rparr>) = rest"
proof -
  have "length (unread c) = length (cur_img c) - nat (cur_pos c)" by (simp add: unread_def)
  with assms have le: "nat (cur_pos c) + n \<le> length (cur_img c)" by simp
  then have "cur_pos c + int n \<le> int (length (cur_img c))" using assms(1) by linarith
  then show "read_bytes n c = Inr (bs, c\<lparr>cur_pos := cur_pos c + int n\<rparr>)"
    using assms by (auto simp: read_bytes_def unread_def)
  have "drop n (unread c) = rest" using assms by simp
  then show "unread (c\<lparr>cur_pos := cur_pos c + int n\<rparr>) = rest"
    using assms(1) by (simp add: unread_def nat_add_distrib add.commute)
qed

lemma u8_unread:
  assumes "0 \<le> cur_pos c" "unread c = b # rest"
  shows "u8 c = Inr (b, c\<lparr>cur_pos := cur_pos c + 1\<rparr>)"
    and "unread (c\<lparr>cur_pos := cur_pos c + 1\<rparr>) = rest"
  using read_bytes_unread [of c "[b]" rest 1] assms
  by (auto simp: u8_def fixed_int_def from_bytes_def)

fun leb_value :: "byte list \<Rightarrow> nat" where
  "leb_value [] = 0"
| "leb_value (b # bs) = unat (b AND 0x7f) + 128 * leb_value bs"

lemma continuation_bit: "(b :: byte) AND 0x80 \<noteq> 0 \<longleftrightarrow> bit b 7"
  using and_exp_eq_0_iff_not_bit [of b 7] by simp

lemma sign_bit: "(b :: byte) AND 0x40 \<noteq> 0 \<longleftrightarrow> bit b 6"
  using and_exp_eq_0_iff_not_bit [of b 6] by simp

lemma and_7f: "unat ((b :: byte) AND 0x7f) = unat b mod 128"
proof -
  have "b AND 0x7f = take_bit 7 b" by (simp add: take_bit_eq_mask mask_eq_exp_minus_1)
  then show ?thesis by (simp add: unsigned_take_bit_eq take_bit_eq_mod unat_mod)
qed

lemma leb_step_value:
  fixes res :: u64
  assumes "unat res < 2 ^ shift"
  shows "res OR push_bit shift (ucast (b AND (0x7f :: byte))) =
           word_of_nat (unat res + 2 ^ shift * unat (b AND (0x7f :: byte)))"
  unfolding or_disjoint_eq_add [OF assms] by (simp add: push_bit_eq_mult mult.commute)

text \<open>
  Any LEB128 byte sequence of at most ten bytes, minimal or padded, decodes to the sum of its
  groups modulo \<open>2^64\<close>.
\<close>

lemma leb128_loop_value:
  assumes "0 \<le> cur_pos c" "unread c = body @ final # rest"
    and "\<forall>b \<in> set body. bit b 7" "\<not> bit final 7"
    and "shift + 7 * length body < 64" "unat res < 2 ^ shift"
  shows "leb128_loop c res shift =
    Inr (word_of_nat (unat res + 2 ^ shift * leb_value (body @ [final])),
         shift + 7 * Suc (length body), final, c\<lparr>cur_pos := cur_pos c + int (Suc (length body))\<rparr>)"
  using assms
proof (induction body arbitrary: c res shift)
  case Nil
  note u = u8_unread [OF Nil.prems(1), of final rest]
  have "final AND 0x80 = 0" using Nil.prems(4) continuation_bit by blast
  with Nil.prems u show ?case
    by (subst leb128_loop.simps) (simp add: Let_def leb_step_value [OF Nil.prems(6)])
next
  case (Cons b body)
  let ?c = "c\<lparr>cur_pos := cur_pos c + 1\<rparr>"
  let ?r = "word_of_nat (unat res + 2 ^ shift * unat (b AND (0x7f :: byte))) :: u64"
  note u = u8_unread [OF Cons.prems(1), of b "body @ final # rest"]
  have high: "b AND 0x80 \<noteq> 0" using Cons.prems(3) continuation_bit by auto
  have g: "unat (b AND (0x7f :: byte)) < 128" by (simp add: and_7f)
  have "unat res + 2 ^ shift * unat (b AND (0x7f :: byte)) < 2 ^ shift * Suc (unat (b AND (0x7f :: byte)))"
    using Cons.prems(6) by simp
  also have "\<dots> \<le> 2 ^ shift * 128" using g by (intro mult_le_mono2) simp
  finally have lt: "unat res + 2 ^ shift * unat (b AND (0x7f :: byte)) < 2 ^ (shift + 7)"
    by (simp add: power_add)
  moreover have "(2::nat) ^ (shift + 7) \<le> 2 ^ 64"
    using Cons.prems(5) by (intro power_increasing) auto
  ultimately have r: "unat ?r = unat res + 2 ^ shift * unat (b AND (0x7f :: byte))"
    by (subst unat_of_nat) simp
  have "leb128_loop c res shift = leb128_loop ?c ?r (shift + 7)"
    using Cons.prems u high
    by (subst leb128_loop.simps) (simp add: Let_def leb_step_value [OF Cons.prems(6)])
  also have "\<dots> = Inr (word_of_nat (unat ?r + 2 ^ (shift + 7) * leb_value (body @ [final])),
         shift + 7 + 7 * Suc (length body), final,
         ?c\<lparr>cur_pos := cur_pos ?c + int (Suc (length body))\<rparr>)"
    using Cons.prems u lt r by (intro Cons.IH) auto
  also have "unat ?r + 2 ^ (shift + 7) * leb_value (body @ [final]) =
      unat res + 2 ^ shift * leb_value ((b # body) @ [final])"
    by (subst r) (simp add: power_add algebra_simps)
  finally show ?case by (simp add: algebra_simps)
qed

text \<open>Reference encoders: the canonical LEB128 forms of the DWARF standard.\<close>

fun uleb128_encode :: "nat \<Rightarrow> byte list" where
  "uleb128_encode n =
    (if n < 128 then [word_of_nat n]
     else word_of_nat (n mod 128 + 128) # uleb128_encode (n div 128))"

declare uleb128_encode.simps [simp del]

function sleb128_encode :: "int \<Rightarrow> byte list" where
  "sleb128_encode n =
    (if -64 \<le> n \<and> n < 64 then [word_of_int (n mod 128)]
     else word_of_int (n mod 128 + 128) # sleb128_encode (n div 128))"
  by pat_completeness auto
termination
  by (relation "measure (\<lambda>n. nat \<bar>n\<bar>)") auto

declare sleb128_encode.simps [simp del]

lemma bit_top_iff: "m < 2 ^ Suc n \<Longrightarrow> bit (m :: nat) n \<longleftrightarrow> 2 ^ n \<le> m"
proof (cases "2 ^ n \<le> m")
  case True
  moreover assume "m < 2 ^ Suc n"
  ultimately have "m div 2 ^ n = 1" by (intro div_nat_eqI) auto
  then show ?thesis using True by (simp add: bit_iff_odd)
next
  case False
  then show ?thesis by (simp add: bit_iff_odd)
qed

lemma bit_7_iff: "bit (b :: byte) 7 \<longleftrightarrow> 128 \<le> unat b"
proof -
  have "bit b 7 \<longleftrightarrow> bit (unat b) 7" by (simp add: bit_simps)
  then show ?thesis using bit_top_iff [of "unat b" 7] unat_byte_lt [of b] by simp
qed

lemma bit_6_iff: "bit (b :: byte) 6 \<longleftrightarrow> 64 \<le> unat b mod 128"
proof -
  have "bit b 6 \<longleftrightarrow> bit (take_bit 7 (unat b)) 6" by (simp add: bit_simps)
  then show ?thesis using bit_top_iff [of "unat b mod 128" 6] by (simp add: take_bit_eq_mod)
qed

lemma unat_byte_of_nat: "m < 256 \<Longrightarrow> unat (word_of_nat m :: byte) = m"
  by (subst unat_of_nat) simp

text \<open>The shape of an encoding: continuation bytes, then one final byte.\<close>

definition leb_shape :: "byte list \<Rightarrow> bool" where
  "leb_shape bs \<longleftrightarrow> bs \<noteq> [] \<and> (\<forall>b \<in> set (butlast bs). bit b 7) \<and> \<not> bit (last bs) 7"

lemma leb_shape_Cons: "bit b 7 \<Longrightarrow> leb_shape bs \<Longrightarrow> leb_shape (b # bs)"
  by (auto simp: leb_shape_def)

lemma uleb128_encode_shape: "leb_shape (uleb128_encode n) \<and> leb_value (uleb128_encode n) = n"
proof (induction n rule: uleb128_encode.induct)
  case (1 n)
  show ?case
  proof (cases "n < 128")
    case True
    then show ?thesis
      by (subst (1 2) uleb128_encode.simps)
        (simp add: leb_shape_def bit_7_iff and_7f unat_byte_of_nat)
  next
    case False
    have b: "unat (word_of_nat (n mod 128 + 128) :: byte) = n mod 128 + 128"
      by (rule unat_byte_of_nat) simp
    then have "bit (word_of_nat (n mod 128 + 128) :: byte) 7" by (simp only: bit_7_iff)
    moreover have "unat ((word_of_nat (n mod 128 + 128) :: byte) AND 0x7f) = n mod 128"
      by (simp only: and_7f b mod_add_self2 mod_mod_trivial)
    ultimately show ?thesis
      using "1.IH" [OF False] False
      by (subst (1 2) uleb128_encode.simps) (auto intro: leb_shape_Cons)
  qed
qed

lemma uleb128_encode_length: "n < 128 ^ k \<Longrightarrow> 0 < k \<Longrightarrow> length (uleb128_encode n) \<le> k"
proof (induction k arbitrary: n)
  case (Suc k)
  show ?case
  proof (cases "n < 128")
    case True
    then show ?thesis by (subst uleb128_encode.simps) simp
  next
    case False
    then have "0 < k" using Suc.prems by (cases k) auto
    moreover have "n div 128 < 128 ^ k"
      using Suc.prems(1) by (simp add: less_mult_imp_div_less mult.commute)
    ultimately have "length (uleb128_encode (n div 128)) \<le> k" using Suc.IH by blast
    then show ?thesis using False by (subst uleb128_encode.simps) simp
  qed
qed simp

lemma leb128_loop_shape:
  assumes "0 \<le> cur_pos c" "unread c = bs @ rest" "leb_shape bs" "length bs \<le> 10"
  shows "leb128_loop c 0 0 =
    Inr (word_of_nat (leb_value bs), 7 * length bs, last bs, c\<lparr>cur_pos := cur_pos c + int (length bs)\<rparr>)"
proof -
  have bs: "butlast bs @ [last bs] = bs" using assms(3) by (simp add: leb_shape_def)
  then have "unread c = butlast bs @ last bs # rest"
    using assms(2) by (metis append.assoc append_Cons append_Nil)
  then have "leb128_loop c 0 0 =
    Inr (word_of_nat (unat (0 :: u64) + 2 ^ 0 * leb_value (butlast bs @ [last bs])),
         0 + 7 * Suc (length (butlast bs)), last bs,
         c\<lparr>cur_pos := cur_pos c + int (Suc (length (butlast bs)))\<rparr>)"
    using assms by (intro leb128_loop_value [where rest = rest]) (auto simp: leb_shape_def)
  moreover have "Suc (length (butlast bs)) = length bs"
    using assms(3) by (simp add: leb_shape_def)
  ultimately show ?thesis by (simp only: bs) simp
qed

text \<open>
  Reading back an unsigned value: any 64-bit value, wherever its encoding stands in the image.
\<close>

lemma uleb128_decodes:
  assumes "0 \<le> cur_pos c" "unread c = uleb128_encode n @ rest" "n < 2 ^ 64"
  shows "uleb128 c =
    Inr (word_of_nat n, c\<lparr>cur_pos := cur_pos c + int (length (uleb128_encode n))\<rparr>)"
proof -
  have "n < 128 ^ 10" using assms(3) by simp
  then have "length (uleb128_encode n) \<le> 10" by (rule uleb128_encode_length) simp
  then show ?thesis
    using leb128_loop_shape [OF assms(1,2)] uleb128_encode_shape [of n] by (simp add: uleb128_def)
qed

lemma word_of_int_byte:
  assumes "0 \<le> k" "k < 256"
  shows "unat (word_of_int k :: byte) = nat k"
  using assms by (simp add: unsigned_of_int take_bit_eq_mod)

lemma sleb_group:
  shows "unat (word_of_int (n mod 128) :: byte) = nat (n mod 128)"
    and "unat (word_of_int (n mod 128 + 128) :: byte) = nat (n mod 128) + 128"
  by (subst word_of_int_byte; simp add: nat_add_distrib)+

text \<open>
  A signed value modulo \<open>128^k\<close> is what the \<open>k\<close> groups of its encoding add up to, and the
  sign bit of the last group tells its sign.
\<close>

lemma sleb128_encode_shape:
  "leb_shape (sleb128_encode n) \<and>
   int (leb_value (sleb128_encode n)) = n mod 128 ^ length (sleb128_encode n) \<and>
   (bit (last (sleb128_encode n)) 6 \<longleftrightarrow> n < 0) \<and>
   - (64 * 128 ^ (length (sleb128_encode n) - 1)) \<le> n \<and>
   n < 64 * 128 ^ (length (sleb128_encode n) - 1)"
proof (induction n rule: sleb128_encode.induct)
  case (1 n)
  show ?case
  proof (cases "-64 \<le> n \<and> n < 64")
    case True
    have "n mod 128 = n + 128" if "n < 0"
      using True that mod_pos_pos_trivial [of "n + 128" 128] by simp
    then have "64 \<le> nat (n mod 128) \<longleftrightarrow> n < 0"
      using True by (cases "n < 0") auto
    with True show ?thesis
      by (subst (1 2 3 4 5 6) sleb128_encode.simps)
        (auto simp: leb_shape_def bit_7_iff bit_6_iff and_7f sleb_group)
  next
    case False
    let ?r = "sleb128_encode (n div 128)" and ?b = "word_of_int (n mod 128 + 128) :: byte"
    have e: "sleb128_encode n = ?b # ?r" using False by (subst sleb128_encode.simps) auto
    have ne: "?r \<noteq> []" using "1.IH" [OF False] by (simp add: leb_shape_def)
    then obtain k where k: "length ?r = Suc k" by (cases ?r) auto
    have b: "bit ?b 7" "unat (?b AND 0x7f) = nat (n mod 128)"
      by (simp_all only: bit_7_iff and_7f sleb_group) auto
    have "int (leb_value (?b # ?r)) = n mod 128 + 128 * (n div 128 mod 128 ^ length ?r)"
      using "1.IH" [OF False] b(2) by simp
    also have "\<dots> = n mod (128 * 128 ^ length ?r)"
      by (simp add: mod_mult2_eq' zmod_zmult2_eq)
    finally have v: "int (leb_value (?b # ?r)) = n mod 128 ^ length (?b # ?r)" by simp
    have "- (64 * 128 ^ k) \<le> n div 128" "n div 128 < 64 * 128 ^ k"
      using "1.IH" [OF False] k by auto
    then have "- (64 * 128 ^ Suc k) \<le> n" "n < 64 * 128 ^ Suc k" by auto
    then show ?thesis
      unfolding e using "1.IH" [OF False] ne v b(1) k
      by (auto intro: leb_shape_Cons simp: pos_imp_zdiv_neg_iff)
  qed
qed

lemma sleb128_encode_length: "- (64 * 128 ^ k) \<le> n \<Longrightarrow> n < 64 * 128 ^ k \<Longrightarrow> length (sleb128_encode n) \<le> Suc k"
proof (induction k arbitrary: n)
  case 0
  then show ?case by (subst sleb128_encode.simps) simp
next
  case (Suc k)
  have "- (64 * 128 ^ k) \<le> n div 128" "n div 128 < 64 * 128 ^ k" using Suc.prems by auto
  then have "length (sleb128_encode (n div 128)) \<le> Suc k" by (rule Suc.IH)
  then show ?case by (subst sleb128_encode.simps) auto
qed

lemma sleb128_decodes:
  assumes "0 \<le> cur_pos c" "unread c = sleb128_encode n @ rest" "- (2 ^ 63) \<le> n" "n < 2 ^ 63"
  shows "sleb128 c =
    Inr (word_of_int n, c\<lparr>cur_pos := cur_pos c + int (length (sleb128_encode n))\<rparr>)"
proof -
  let ?e = "sleb128_encode n" and ?k = "length (sleb128_encode n)"
  note shape = sleb128_encode_shape [of n]
  have k10: "?k \<le> 10"
    using sleb128_encode_length [of 9 n] assms(3,4) by simp
  let ?res = "word_of_nat (leb_value ?e) :: u64"
  have loop: "leb128_loop c 0 0 =
      Inr (?res, 7 * ?k, last ?e, c\<lparr>cur_pos := cur_pos c + int ?k\<rparr>)"
    using leb128_loop_shape [OF assms(1,2)] shape k10 by simp
  have p: "(128::int) ^ ?k = 2 ^ (7 * ?k)" by (simp add: power_mult)
  have res: "?res = word_of_int (n mod 2 ^ (7 * ?k))"
    using shape p by (metis of_int_of_nat_eq)
  show ?thesis
  proof (cases "7 * ?k < 64 \<and> bit (last ?e) 6")
    case True
    then have neg: "n < 0" using shape by blast
    have "?k \<noteq> 0" using shape by (auto simp: leb_shape_def)
    then have half: "(64::int) * 128 ^ (?k - 1) \<le> 128 ^ ?k" by (cases ?k) auto
    have "n mod 2 ^ (7 * ?k) = n + 2 ^ (7 * ?k)"
      using neg shape half p mod_pos_pos_trivial [of "n + 2 ^ (7 * ?k)" "2 ^ (7 * ?k)"] by simp
    moreover have "unat ?res < 2 ^ (7 * ?k)"
    proof -
      have "int (leb_value ?e) < 2 ^ (7 * ?k)" using shape p by simp
      then have "leb_value ?e < 2 ^ (7 * ?k)" by simp
      moreover have "unat ?res \<le> leb_value ?e" by (subst unat_of_nat) simp
      ultimately show ?thesis by (rule le_less_trans [rotated])
    qed
    then have "?res OR push_bit (7 * ?k) (NOT 0) = ?res + push_bit (7 * ?k) (NOT 0)"
      by (rule or_disjoint_eq_add)
    moreover have "push_bit (7 * ?k) (NOT (0 :: u64)) = - (2 ^ (7 * ?k))"
      by (simp add: push_bit_eq_mult)
    ultimately have "?res OR push_bit (7 * ?k) (NOT 0) = word_of_int n"
      using res by simp
    then show ?thesis using True sign_bit by (simp add: sleb128_def loop)
  next
    case False
    have "?res = word_of_int n"
    proof (cases "7 * ?k < 64")
      case True
      with False have pos: "0 \<le> n" using shape by force
      have "?k \<noteq> 0" using shape by (auto simp: leb_shape_def)
      then have "(64::int) * 128 ^ (?k - 1) \<le> 128 ^ ?k" by (cases ?k) auto
      then have "n mod 2 ^ (7 * ?k) = n" using pos shape p by simp
      then show ?thesis using res by simp
    next
      case no: False
      have "n mod 2 ^ (7 * ?k) mod 2 ^ 64 = n mod 2 ^ 64"
        using no by (intro mod_mod_cancel le_imp_power_dvd) simp
      then show ?thesis unfolding res by (simp add: word_of_int_eq_iff take_bit_eq_mod)
    qed
    then show ?thesis using False sign_bit by (auto simp: sleb128_def loop)
  qed
qed

section \<open>Skipping an attribute value\<close>

text \<open>
  \<open>skip_form\<close> advances past a value of a given form. \<open>DW_FORM_indirect\<close> reads the form from
  the data and recurs; it consumes at least one byte each time, so the recursion ends.
\<close>

definition skip_string :: "cursor \<Rightarrow> cursor result" where
  "skip_string c =
    (if cursor_finished c then Inr (cursor_inc c)
     else if 0 \<le> cur_pos c \<and> cur_end c \<le> int (length (cur_img c))
     then let span = take (nat (cur_end c - cur_pos c)) (drop (nat (cur_pos c)) (cur_img c))
          in Inr (c\<lparr>cur_pos := cur_pos c + int (length (takeWhile (\<lambda>b. b \<noteq> 0) span)) + 1\<rparr>)
     else Inl (Undefined ''string outside the mapped image''))"

function skip_form :: "nat \<Rightarrow> cursor \<Rightarrow> cursor result" where
  "skip_form form c =
    (if form = DW_FORM_flag_present then Inr c
     else if form \<in> {DW_FORM_data1, DW_FORM_ref1, DW_FORM_flag} then Inr (cursor_add 1 c)
     else if form \<in> {DW_FORM_data2, DW_FORM_ref2} then Inr (cursor_add 2 c)
     else if form \<in> {DW_FORM_data4, DW_FORM_ref4, DW_FORM_ref_addr, DW_FORM_sec_offset, DW_FORM_strp}
       then Inr (cursor_add 4 c)
     else if form \<in> {DW_FORM_data8, DW_FORM_addr} then Inr (cursor_add 8 c)
     else if form = DW_FORM_sdata then bindE (sleb128 c) (\<lambda>(_, c'). Inr c')
     else if form \<in> {DW_FORM_udata, DW_FORM_ref_udata} then bindE (uleb128 c) (\<lambda>(_, c'). Inr c')
     else if form = DW_FORM_block1 then bindE (u8 c) (\<lambda>(n, c'). Inr (cursor_add (ucast n) c'))
     else if form = DW_FORM_block2 then bindE (u16 c) (\<lambda>(n, c'). Inr (cursor_add (ucast n) c'))
     else if form = DW_FORM_block4 then bindE (u32 c) (\<lambda>(n, c'). Inr (cursor_add (ucast n) c'))
     else if form \<in> {DW_FORM_block, DW_FORM_exprloc}
       then bindE (uleb128 c) (\<lambda>(n, c'). Inr (cursor_add n c'))
     else if form = DW_FORM_string then skip_string c
     else if form = DW_FORM_indirect then bindE (uleb128 c) (\<lambda>(f, c'). skip_form (unat f) c')
     else Inl (Send ''Unrecognized DWARF form!''))"
  by pat_completeness auto
termination
  by (relation "measure (\<lambda>(_, c). remaining c)") (auto dest: uleb_reader.remaining_decreases)

declare skip_form.simps [simp del]

section \<open>Exception-header pointers\<close>

definition parse_eh_frame_pointer_with_base ::
  "cursor \<Rightarrow> byte \<Rightarrow> u64 \<Rightarrow> (u64 \<times> cursor) result" where
  "parse_eh_frame_pointer_with_base cur encoding base =
    (let scheme = unat (encoding AND 0x0f);
         rel = (\<lambda>r. bindE r (\<lambda>(v, c). Inr (base + v, c)))
     in if scheme = DW_EH_PE_absptr then rel (u64 cur)
        else if scheme = DW_EH_PE_uleb128 then rel (uleb128 cur)
        else if scheme = DW_EH_PE_udata2 then rel (bindE (u16 cur) (\<lambda>(v, c). Inr (ucast v, c)))
        else if scheme = DW_EH_PE_udata4 then rel (bindE (u32 cur) (\<lambda>(v, c). Inr (ucast v, c)))
        else if scheme = DW_EH_PE_udata8 then rel (u64 cur)
        else if scheme = DW_EH_PE_sleb128 then rel (sleb128 cur)
        else if scheme = DW_EH_PE_sdata2 then rel (s16 cur)
        else if scheme = DW_EH_PE_sdata4 then rel (s32 cur)
        else if scheme = DW_EH_PE_sdata8 then rel (s64 cur)
        else Inl (Send ''Unknown eh_frame pointer encoding!''))"

definition parse_eh_frame_pointer ::
  "cursor \<Rightarrow> byte \<Rightarrow> u64 \<Rightarrow> u64 \<Rightarrow> u64 \<Rightarrow> u64 \<Rightarrow> (u64 \<times> cursor) result" where
  "parse_eh_frame_pointer cur encoding pc text_section_start data_section_start func_start =
    (let scheme = unat (encoding AND 0x70)
     in if scheme = DW_EH_PE_absptr then parse_eh_frame_pointer_with_base cur encoding 0
        else if scheme = DW_EH_PE_pcrel then parse_eh_frame_pointer_with_base cur encoding pc
        else if scheme = DW_EH_PE_textrel
          then parse_eh_frame_pointer_with_base cur encoding text_section_start
        else if scheme = DW_EH_PE_datarel
          then parse_eh_frame_pointer_with_base cur encoding data_section_start
        else if scheme = DW_EH_PE_funcrel
          then parse_eh_frame_pointer_with_base cur encoding func_start
        else Inl (Send ''Unknown eh_frame pointer encoding!''))"

definition eh_frame_pointer_encoding_size :: "byte \<Rightarrow> nat result" where
  "eh_frame_pointer_encoding_size encoding =
    (let scheme = unat (encoding AND 0x7)
     in if scheme = DW_EH_PE_absptr then Inr 8
        else if scheme = DW_EH_PE_udata2 then Inr 2
        else if scheme = DW_EH_PE_udata4 then Inr 4
        else if scheme = DW_EH_PE_udata8 then Inr 8
        else Inl (Send ''Invalid pointer encoding!''))"

section \<open>Readers and encodings\<close>

text \<open>
  The contract between a reader and an encoding of values: where the encoding of an admissible
  value is what comes next in the image, the reader returns the value and stands behind it.
\<close>

definition advance :: "nat \<Rightarrow> cursor \<Rightarrow> cursor" where
  "advance n c = c\<lparr>cur_pos := cur_pos c + int n\<rparr>"

definition stands_before :: "cursor \<Rightarrow> byte list \<Rightarrow> byte list \<Rightarrow> bool" where
  "stands_before c bs rest \<longleftrightarrow> 0 \<le> cur_pos c \<and> unread c = bs @ rest"

lemma advance_advance [simp]: "advance m (advance n c) = advance (n + m) c"
  by (simp add: advance_def)

lemma advance_sel [simp]:
  "cur_pos (advance n c) = cur_pos c + int n" "cur_img (advance n c) = cur_img c"
  "cur_end (advance n c) = cur_end c" "advance 0 c = c"
  by (simp_all add: advance_def)

lemma stands_before_advance:
  assumes "stands_before c (bs @ cs) rest"
  shows "stands_before (advance (length bs) c) cs rest"
proof -
  have "drop (length bs) (unread c) = cs @ rest" using assms by (simp add: stands_before_def)
  then show ?thesis
    using assms by (simp add: stands_before_def unread_def nat_add_distrib add.commute)
qed

lemma stands_before_assoc: "stands_before c (bs @ cs) rest \<longleftrightarrow> stands_before c bs (cs @ rest)"
  by (simp add: stands_before_def)

locale decoding_reader =
  fixes reader :: "cursor \<Rightarrow> ('v \<times> cursor) result"
    and encode :: "'w \<Rightarrow> byte list"
    and admissible :: "'w \<Rightarrow> bool"
    and value_of :: "'w \<Rightarrow> 'v"
  assumes decodes:
    "admissible w \<Longrightarrow> stands_before c (encode w) rest \<Longrightarrow>
       reader c = Inr (value_of w, advance (length (encode w)) c)"
begin

lemma decodes_then:
  "admissible w \<Longrightarrow> stands_before c (encode w @ later) rest \<Longrightarrow>
     reader c = Inr (value_of w, advance (length (encode w)) c) \<and>
     stands_before (advance (length (encode w)) c) later rest"
  using decodes stands_before_advance by (metis stands_before_assoc)

lemma bind_decodes:
  "admissible w \<Longrightarrow> stands_before c (encode w @ later) rest \<Longrightarrow>
     bindE (reader c) f = f (value_of w, advance (length (encode w)) c)"
  using decodes_then by fastforce

end

lemma fixed_int_decodes:
  assumes "stands_before c (as_bytes (w :: 'a::len word)) rest"
    and "LENGTH('a) = 8 * (LENGTH('a) div 8)"
  shows "fixed_int c = Inr (w, advance (length (as_bytes w)) c)"
proof -
  have "0 < LENGTH('a) div 8" using assms(2) by (metis gr0I mult_0_right len_gt_0 less_irrefl)
  then have "read_bytes (LENGTH('a) div 8) c = Inr (as_bytes w, advance (LENGTH('a) div 8) c)"
    using read_bytes_unread(1) [of c "as_bytes w" rest "LENGTH('a) div 8"] assms(1)
    by (simp add: stands_before_def advance_def)
  moreover have "from_bytes (as_bytes w) = w" using from_as_bytes [of w "[]"] assms(2) by simp
  ultimately show ?thesis by (simp add: fixed_int_def)
qed

interpretation u8_code: decoding_reader u8 "as_bytes :: byte \<Rightarrow> _" "\<lambda>_. True" "\<lambda>w. w"
  by unfold_locales (simp add: u8_def fixed_int_decodes)

interpretation u16_code: decoding_reader u16 "as_bytes :: u16 \<Rightarrow> _" "\<lambda>_. True" "\<lambda>w. w"
  by unfold_locales (simp add: u16_def fixed_int_decodes)

interpretation u32_code: decoding_reader u32 "as_bytes :: u32 \<Rightarrow> _" "\<lambda>_. True" "\<lambda>w. w"
  by unfold_locales (simp add: u32_def fixed_int_decodes)

interpretation u64_code: decoding_reader u64 "as_bytes :: u64 \<Rightarrow> _" "\<lambda>_. True" "\<lambda>w. w"
  by unfold_locales (simp add: u64_def fixed_int_decodes)

interpretation uleb_code: decoding_reader uleb128 uleb128_encode "\<lambda>n. n < 2 ^ 64" word_of_nat
  by unfold_locales (auto simp: stands_before_def advance_def intro: uleb128_decodes)

interpretation sleb_code: decoding_reader sleb128 sleb128_encode "\<lambda>n. - (2 ^ 63) \<le> n \<and> n < 2 ^ 63" word_of_int
  by unfold_locales (auto simp: stands_before_def advance_def intro: sleb128_decodes)

lemma u8_next: "stands_before c (b # later) rest \<Longrightarrow> u8 c = Inr (b, advance 1 c) \<and> stands_before (advance 1 c) later rest"
  using u8_unread [of c b "later @ rest"] by (simp add: stands_before_def advance_def)

section \<open>Skipping encoded attribute values\<close>

text \<open>
  The byte sequences that encode a value of a form, after the DWARF standard, for the forms of a
  fixed size, the variable-length integers and the blocks.
\<close>

inductive form_encoding :: "nat \<Rightarrow> byte list \<Rightarrow> bool" where
  fe_present: "form_encoding DW_FORM_flag_present []"
| fe_1: "form \<in> {DW_FORM_data1, DW_FORM_ref1, DW_FORM_flag} \<Longrightarrow> length bs = 1 \<Longrightarrow> form_encoding form bs"
| fe_2: "form \<in> {DW_FORM_data2, DW_FORM_ref2} \<Longrightarrow> length bs = 2 \<Longrightarrow> form_encoding form bs"
| fe_4: "form \<in> {DW_FORM_data4, DW_FORM_ref4, DW_FORM_ref_addr, DW_FORM_sec_offset, DW_FORM_strp} \<Longrightarrow>
    length bs = 4 \<Longrightarrow> form_encoding form bs"
| fe_8: "form \<in> {DW_FORM_data8, DW_FORM_addr} \<Longrightarrow> length bs = 8 \<Longrightarrow> form_encoding form bs"
| fe_sleb: "- (2 ^ 63) \<le> i \<Longrightarrow> i < 2 ^ 63 \<Longrightarrow> form_encoding DW_FORM_sdata (sleb128_encode i)"
| fe_uleb: "form \<in> {DW_FORM_udata, DW_FORM_ref_udata} \<Longrightarrow> n < 2 ^ 64 \<Longrightarrow> form_encoding form (uleb128_encode n)"
| fe_block1: "length data < 2 ^ 8 \<Longrightarrow>
    form_encoding DW_FORM_block1 (as_bytes (word_of_nat (length data) :: byte) @ data)"
| fe_block2: "length data < 2 ^ 16 \<Longrightarrow>
    form_encoding DW_FORM_block2 (as_bytes (word_of_nat (length data) :: u16) @ data)"
| fe_block4: "length data < 2 ^ 32 \<Longrightarrow>
    form_encoding DW_FORM_block4 (as_bytes (word_of_nat (length data) :: u32) @ data)"
| fe_block: "form \<in> {DW_FORM_block, DW_FORM_exprloc} \<Longrightarrow> length data < 2 ^ 63 \<Longrightarrow>
    form_encoding form (uleb128_encode (length data) @ data)"
| fe_string: "0 \<notin> set chars \<Longrightarrow> form_encoding DW_FORM_string (chars @ [0])"
| fe_indirect: "form < 2 ^ 64 \<Longrightarrow> form_encoding form bs \<Longrightarrow>
    form_encoding DW_FORM_indirect (uleb128_encode form @ bs)"

lemma cursor_add_advance: "n < 2 ^ 63 \<Longrightarrow> cursor_add (word_of_nat n) c = advance n c"
proof -
  assume n: "n < 2 ^ 63"
  have "sint (word_of_nat n :: u64) = signed_take_bit 63 (int n)"
    by (simp add: signed_of_nat)
  also have "\<dots> = int n" using n by (intro signed_take_bit_int_eq_self) auto
  finally show ?thesis by (simp add: cursor_add_def advance_def)
qed

lemma cursor_add_small:
  "cursor_add 1 c = advance 1 c" "cursor_add 2 c = advance 2 c"
  "cursor_add 4 c = advance 4 c" "cursor_add 8 c = advance 8 c"
  using cursor_add_advance [of 1 c] cursor_add_advance [of 2 c] cursor_add_advance [of 4 c]
    cursor_add_advance [of 8 c]
  by simp_all

lemma skip_fixed_1: "form \<in> {DW_FORM_data1, DW_FORM_ref1, DW_FORM_flag} \<Longrightarrow> skip_form form c = Inr (advance 1 c)"
  by (subst skip_form.simps) (auto simp: cursor_add_small)

lemma skip_fixed_2: "form \<in> {DW_FORM_data2, DW_FORM_ref2} \<Longrightarrow> skip_form form c = Inr (advance 2 c)"
  by (subst skip_form.simps) (auto simp: cursor_add_small)

lemma skip_fixed_4:
  "form \<in> {DW_FORM_data4, DW_FORM_ref4, DW_FORM_ref_addr, DW_FORM_sec_offset, DW_FORM_strp} \<Longrightarrow>
     skip_form form c = Inr (advance 4 c)"
  by (subst skip_form.simps) (auto simp: cursor_add_small)

lemma skip_fixed_8: "form \<in> {DW_FORM_data8, DW_FORM_addr} \<Longrightarrow> skip_form form c = Inr (advance 8 c)"
  by (subst skip_form.simps) (auto simp: cursor_add_small)

lemmas skip_fixed = skip_fixed_1 skip_fixed_2 skip_fixed_4 skip_fixed_8

lemma skip_string_advance:
  assumes "0 \<notin> set chars" "stands_before c (chars @ [0]) rest"
    and "cur_pos c + int (Suc (length chars)) \<le> cur_end c" "cur_end c \<le> int (length (cur_img c))"
  shows "skip_string c = Inr (advance (Suc (length chars)) c)"
proof -
  have u: "drop (nat (cur_pos c)) (cur_img c) = chars @ 0 # rest"
    using assms(2) by (simp add: stands_before_def unread_def)
  have "Suc (length chars) \<le> nat (cur_end c - cur_pos c)" using assms(3) by linarith
  then obtain k where k: "nat (cur_end c - cur_pos c) = Suc (length chars) + k"
    by (metis le_iff_add)
  have "\<And>b. b \<in> set chars \<Longrightarrow> b \<noteq> 0" using assms(1) by metis
  then have "takeWhile (\<lambda>b. b \<noteq> 0) (chars @ 0 # take k rest) = chars"
    by (simp add: takeWhile_append2)
  moreover have "take (nat (cur_end c - cur_pos c)) (chars @ 0 # rest) = chars @ 0 # take k rest"
    by (simp add: k)
  ultimately have "takeWhile (\<lambda>b. b \<noteq> 0) (take (nat (cur_end c - cur_pos c)) (chars @ 0 # rest)) = chars"
    by simp
  then show ?thesis
    using assms by (auto simp: skip_string_def cursor_finished_def stands_before_def advance_def u Let_def)
qed

lemma skip_block:
  assumes "stands_before c (bs @ data) rest" "length data < 2 ^ 63"
    and "\<And>r. stands_before c bs r \<Longrightarrow> reader c = Inr (v, advance (length bs) c)"
    and "conv v = word_of_nat (length data)"
  shows "bindE (reader c) (\<lambda>(n, c'). Inr (cursor_add (conv n) c')) = Inr (advance (length (bs @ data)) c)"
  using assms cursor_add_advance [OF assms(2)] by (simp add: stands_before_assoc)

lemma ucast_of_length:
  assumes "n < 2 ^ LENGTH('a)"
  shows "ucast (word_of_nat n :: 'a::len word) = (word_of_nat n :: 'b::len word)"
  using assms by (simp add: unsigned_of_nat take_bit_nat_eq_self)

lemma skip_form_encoded:
  "form_encoding form bs \<Longrightarrow> stands_before c bs rest \<Longrightarrow>
     cur_pos c + int (length bs) \<le> cur_end c \<Longrightarrow> cur_end c \<le> int (length (cur_img c)) \<Longrightarrow>
     skip_form form c = Inr (advance (length bs) c)"
proof (induction arbitrary: c rule: form_encoding.induct)
  case fe_present
  show ?case by (subst skip_form.simps) simp
next
  case (fe_1 form bs)
  then show ?case by (simp only: skip_fixed)
next
  case (fe_2 form bs)
  then show ?case by (simp only: skip_fixed)
next
  case (fe_4 form bs)
  then show ?case by (simp only: skip_fixed)
next
  case (fe_8 form bs)
  then show ?case by (simp only: skip_fixed)
next
  case (fe_sleb i)
  then show ?case by (subst skip_form.simps) (simp add: sleb_code.decodes)
next
  case (fe_uleb form n)
  then show ?case by (subst skip_form.simps) (auto simp: uleb_code.decodes)
next
  case (fe_block1 data)
  then have "bindE (u8 c) (\<lambda>(n, c'). Inr (cursor_add (ucast n) c')) =
      Inr (advance (length (as_bytes (word_of_nat (length data) :: byte) @ data)) c)"
    by (intro skip_block) (auto simp: u8_code.decodes ucast_of_length)
  then show ?case by (subst skip_form.simps) simp
next
  case (fe_block2 data)
  then have "bindE (u16 c) (\<lambda>(n, c'). Inr (cursor_add (ucast n) c')) =
      Inr (advance (length (as_bytes (word_of_nat (length data) :: u16) @ data)) c)"
    by (intro skip_block) (auto simp: u16_code.decodes ucast_of_length)
  then show ?case by (subst skip_form.simps) simp
next
  case (fe_block4 data)
  then have "bindE (u32 c) (\<lambda>(n, c'). Inr (cursor_add (ucast n) c')) =
      Inr (advance (length (as_bytes (word_of_nat (length data) :: u32) @ data)) c)"
    by (intro skip_block) (auto simp: u32_code.decodes ucast_of_length)
  then show ?case by (subst skip_form.simps) simp
next
  case (fe_block form data)
  then have "bindE (uleb128 c) (\<lambda>(n, c'). Inr (cursor_add (id n) c')) =
      Inr (advance (length (uleb128_encode (length data) @ data)) c)"
    by (intro skip_block) (auto simp: uleb_code.decodes)
  then show ?case using fe_block.hyps(1) by (subst skip_form.simps) auto
next
  case (fe_string chars)
  then show ?case by (subst skip_form.simps) (simp add: skip_string_advance)
next
  case (fe_indirect form bs)
  let ?c = "advance (length (uleb128_encode form)) c"
  have u: "uleb128 c = Inr (word_of_nat form, ?c)" "stands_before ?c bs rest"
    using uleb_code.decodes_then [OF fe_indirect.hyps(1)] fe_indirect.prems(1) by auto
  have "unat (word_of_nat form :: u64) = form" using fe_indirect.hyps(1) by (simp add: unat_of_nat)
  then have "skip_form DW_FORM_indirect c = skip_form form ?c"
    by (subst skip_form.simps) (simp add: u)
  also have "\<dots> = Inr (advance (length bs) ?c)"
    using fe_indirect.prems by (intro fe_indirect.IH u(2)) auto
  finally show ?case by simp
qed

section \<open>Properties\<close>

text \<open>
  C39. Reading back LEB128: wherever the standard encoding of an unsigned 64-bit value or of a
  signed 64-bit value stands in the image, \<open>uleb128\<close> and \<open>sleb128\<close> return the value and leave
  the cursor exactly behind the encoding.
\<close>

theorem leb128_roundtrip:
  assumes "0 \<le> cur_pos c"
  shows "(unread c = uleb128_encode n @ rest \<and> n < 2 ^ 64 \<longrightarrow>
      uleb128 c = Inr (word_of_nat n, c\<lparr>cur_pos := cur_pos c + int (length (uleb128_encode n))\<rparr>)) \<and>
    (unread c = sleb128_encode i @ rest \<and> - (2 ^ 63) \<le> i \<and> i < 2 ^ 63 \<longrightarrow>
      sleb128 c = Inr (word_of_int i, c\<lparr>cur_pos := cur_pos c + int (length (sleb128_encode i))\<rparr>))"
  using uleb128_decodes [OF assms] sleb128_decodes [OF assms] by blast

theorem leb128_roundtrip_witness:
  "uleb128 (cursor_over (7 # uleb128_encode 300 @ [9]) 1 4) = Inr (300, cursor_over (7 # uleb128_encode 300 @ [9]) 3 4) \<and>
   sleb128 (cursor_over (sleb128_encode (- 129)) 0 2) = Inr (- 129, cursor_over (sleb128_encode (- 129)) 2 2)"
  using leb128_roundtrip [of "cursor_over (7 # uleb128_encode 300 @ [9]) 1 4" 300 "[9]"]
    leb128_roundtrip [of "cursor_over (sleb128_encode (- 129)) 0 2" _ "[]" "- 129"]
  by (simp add: cursor_over_def unread_def uleb128_encode.simps sleb128_encode.simps)

end
