(* ===== verification/Elf_Object.thy ===== *)
theory Elf_Object
  imports Addresses Bits
begin

text \<open>
  \<open>src/elf.cpp\<close>, \<open>include/libgsdb/elf.hpp\<close> and \<open>src/types.cpp\<close>: the parsed ELF
  object (section headers, section map, symbol table and the two symbol indexes), section and
  symbol lookup, the conversions between file and virtual addresses, and the collection of
  loaded objects. The structures of \<open><elf.h>\<close> are decoded from the mapped image at their
  documented offsets. The C++ demangler is a parameter.
\<close>

section \<open>Structures of the file\<close>

record elf64_ehdr =
  e_entry :: u64
  e_shoff :: u64
  e_shentsize :: u16
  e_shnum :: u16
  e_shstrndx :: u16

record elf64_shdr =
  sh_name :: u32
  sh_addr :: u64
  sh_offset :: u64
  sh_size :: u64
  sh_entsize :: u64

record elf64_sym =
  st_name :: u32
  st_info :: byte
  st_value :: u64
  st_size :: u64

definition STT_TLS :: byte where
  "STT_TLS = 6"

definition st_type :: "elf64_sym \<Rightarrow> byte" where
  "st_type s = st_info s AND 0xf"

definition slice :: "byte list \<Rightarrow> nat \<Rightarrow> nat \<Rightarrow> byte list result" where
  "slice img off n = (if off + n \<le> length img then Inr (take n (drop off img))
                      else Inl (Undefined ''read outside the mapped image''))"

definition field :: "byte list \<Rightarrow> nat \<Rightarrow> 'a::len word" where
  "field bs off = from_bytes (drop off bs)"

definition decode_ehdr :: "byte list \<Rightarrow> elf64_ehdr" where
  "decode_ehdr bs = \<lparr>e_entry = field bs 24, e_shoff = field bs 40, e_shentsize = field bs 58,
                     e_shnum = field bs 60, e_shstrndx = field bs 62\<rparr>"

definition decode_shdr :: "byte list \<Rightarrow> elf64_shdr" where
  "decode_shdr bs = \<lparr>sh_name = field bs 0, sh_addr = field bs 16, sh_offset = field bs 24,
                     sh_size = field bs 32, sh_entsize = field bs 56\<rparr>"

definition decode_sym :: "byte list \<Rightarrow> elf64_sym" where
  "decode_sym bs = \<lparr>st_name = field bs 0, st_info = field bs 4, st_value = field bs 8,
                    st_size = field bs 16\<rparr>"

text \<open>A \<open>std::string_view\<close> built from a \<open>const char*\<close>: the bytes up to a null byte.\<close>

definition c_string :: "byte list \<Rightarrow> nat \<Rightarrow> string result" where
  "c_string img off =
    (let rest = drop off img
     in if 0 \<in> set rest then Inr (to_string_view (takeWhile (\<lambda>b. b \<noteq> 0) rest))
        else Inl (Undefined ''unterminated string''))"

section \<open>The object\<close>

record elf =
  elf_no :: elf_id
  elf_path :: string
  elf_map :: "byte list"
  elf_header :: elf64_ehdr
  section_headers :: "elf64_shdr list"
  section_map :: "string \<rightharpoonup> elf64_shdr"
  load_bias :: virt_addr
  symbol_table :: "elf64_sym list"
  symbol_name_map :: "(string \<times> elf64_sym) list"
  symbol_addr_map :: "((u64 \<times> u64) \<times> elf64_sym) list"

definition notify_loaded :: "virt_addr \<Rightarrow> elf \<Rightarrow> elf" where
  "notify_loaded address e = e\<lparr>load_bias := address\<rparr>"

text \<open>
  \<open>n_headers\<close> has the type of \<open>e_shnum\<close>, 16 bits, also when it takes the 64-bit
  \<open>sh_size\<close> of the first section header.
\<close>

definition n_section_headers :: "elf \<Rightarrow> u16 result" where
  "n_section_headers e =
    (let h = elf_header e
     in if e_shnum h = 0 \<and> e_shentsize h \<noteq> 0
        then bindE (slice (elf_map e) (unat (e_shoff h)) 64)
               (\<lambda>bs. Inr (ucast (sh_size (decode_shdr bs))))
        else Inr (e_shnum h))"

definition parse_section_headers :: "elf \<Rightarrow> elf result" where
  "parse_section_headers e =
    bindE (n_section_headers e) (\<lambda>n.
      bindE (slice (elf_map e) (unat (e_shoff (elf_header e))) (64 * unat n)) (\<lambda>bs.
        Inr (e\<lparr>section_headers := map (\<lambda>i. decode_shdr (take 64 (drop (64 * i) bs))) [0..<unat n]\<rparr>)))"

definition get_section_name :: "elf \<Rightarrow> nat \<Rightarrow> string result" where
  "get_section_name e index =
    (let i = unat (e_shstrndx (elf_header e))
     in if i < length (section_headers e)
        then c_string (elf_map e) (unat (sh_offset (section_headers e ! i)) + index)
        else Inl (Undefined ''section index out of range''))"

definition build_section_map :: "elf \<Rightarrow> elf result" where
  "build_section_map e =
    foldE (\<lambda>s acc. bindE (get_section_name acc (unat (sh_name s))) (\<lambda>name.
             Inr (acc\<lparr>section_map := (section_map acc)(name \<mapsto> s)\<rparr>)))
          (section_headers e) e"

definition get_section :: "elf \<Rightarrow> string \<Rightarrow> elf64_shdr option" where
  "get_section e name = section_map e name"

text \<open>
  The contents of a section as the bounds of a span of the image. A missing section gives the
  empty span at the null pointer, a position outside every image.
\<close>

definition null_pos :: int where
  "null_pos = - (2 ^ 70)"

definition get_section_contents :: "elf \<Rightarrow> string \<Rightarrow> int \<times> int" where
  "get_section_contents e name =
    (case get_section e name of
       None \<Rightarrow> (null_pos, null_pos)
     | Some s \<Rightarrow> (int (unat (sh_offset s)), int (unat (sh_offset s)) + int (unat (sh_size s))))"

definition get_string :: "elf \<Rightarrow> nat \<Rightarrow> string result" where
  "get_string e index =
    (case get_section e ''.strtab'' of
       Some s \<Rightarrow> c_string (elf_map e) (unat (sh_offset s) + index)
     | None \<Rightarrow>
        (case get_section e ''.dynstr'' of
           Some s \<Rightarrow> c_string (elf_map e) (unat (sh_offset s) + index)
         | None \<Rightarrow> Inr []))"

definition get_section_containing_file_addr :: "elf \<Rightarrow> file_addr \<Rightarrow> elf64_shdr option" where
  "get_section_containing_file_addr e addr =
    (if fa_elf addr \<noteq> Some (elf_no e) then None
     else List.find (\<lambda>s. sh_addr s \<le> fa_addr addr \<and> sh_addr s + sh_size s > fa_addr addr)
            (section_headers e))"

definition get_section_containing_virt_addr :: "elf \<Rightarrow> virt_addr \<Rightarrow> elf64_shdr option" where
  "get_section_containing_virt_addr e addr =
    List.find (\<lambda>s. addr \<ge> load_bias e + sh_addr s \<and> load_bias e + sh_addr s + sh_size s > addr)
      (section_headers e)"

definition get_section_start_address :: "elf \<Rightarrow> string \<Rightarrow> file_addr option" where
  "get_section_start_address e name =
    map_option (\<lambda>s. mk_file_addr (elf_no e) (sh_addr s)) (get_section e name)"

definition parse_symbol_table :: "elf \<Rightarrow> elf result" where
  "parse_symbol_table e =
    (case (case get_section e ''.symtab'' of Some s \<Rightarrow> Some s | None \<Rightarrow> get_section e ''.dynsym'') of
       None \<Rightarrow> Inr e
     | Some s \<Rightarrow>
        if sh_entsize s = 0 then Inl (Undefined ''division by zero'')
        else
          let n = unat (sh_size s div sh_entsize s); size = unat (sh_size s)
          in if size > 24 * n then Inl (Undefined ''copy past the end of symbol_table_'')
             else bindE (slice (elf_map e) (unat (sh_offset s)) size) (\<lambda>bs.
               let buf = bs @ replicate (24 * n - size) 0
               in Inr (e\<lparr>symbol_table := map (\<lambda>i. decode_sym (take 24 (drop (24 * i) buf))) [0..<n]\<rparr>)))"

text \<open>
  \<open>symbol_addr_map_\<close> is a \<open>std::map\<close> ordered by the start of the range alone: an ordered
  list of entries, in which inserting a start that is present changes nothing.
\<close>

fun addr_map_insert ::
  "(u64 \<times> u64) \<Rightarrow> 'v \<Rightarrow> ((u64 \<times> u64) \<times> 'v) list \<Rightarrow> ((u64 \<times> u64) \<times> 'v) list" where
  "addr_map_insert k v [] = [(k, v)]"
| "addr_map_insert k v ((k', v') # m) =
    (if fst k < fst k' then (k, v) # (k', v') # m
     else if fst k = fst k' then (k', v') # m
     else (k', v') # addr_map_insert k v m)"

definition index_symbol :: "(string \<Rightarrow> string option) \<Rightarrow> elf64_sym \<Rightarrow> elf \<Rightarrow> elf result" where
  "index_symbol demangle s e =
    bindE (get_string e (unat (st_name s))) (\<lambda>mangled.
      let names = (case demangle mangled of None \<Rightarrow> [] | Some d \<Rightarrow> [(d, s)]) @ [(mangled, s)];
          e1 = e\<lparr>symbol_name_map := symbol_name_map e @ names\<rparr>
      in Inr (if st_value s \<noteq> 0 \<and> st_name s \<noteq> 0 \<and> st_type s \<noteq> STT_TLS
              then e1\<lparr>symbol_addr_map :=
                     addr_map_insert (st_value s, st_value s + st_size s) s (symbol_addr_map e1)\<rparr>
              else e1))"

definition build_symbol_maps :: "(string \<Rightarrow> string option) \<Rightarrow> elf \<Rightarrow> elf result" where
  "build_symbol_maps demangle e = foldE (index_symbol demangle) (symbol_table e) e"

definition elf_construct ::
  "(string \<Rightarrow> string option) \<Rightarrow> elf_id \<Rightarrow> string \<Rightarrow> byte list \<Rightarrow> elf result" where
  "elf_construct demangle no path img =
    bindE (slice img 0 64) (\<lambda>hdr.
      bindE (parse_section_headers
        \<lparr>elf_no = no, elf_path = path, elf_map = img, elf_header = decode_ehdr hdr,
         section_headers = [], section_map = Map.empty, load_bias = 0, symbol_table = [],
         symbol_name_map = [], symbol_addr_map = []\<rparr>) (\<lambda>e1.
      bindE (build_section_map e1) (\<lambda>e2.
      bindE (parse_symbol_table e2) (\<lambda>e3. build_symbol_maps demangle e3))))"

definition get_symbols_by_name :: "elf \<Rightarrow> string \<Rightarrow> elf64_sym list" where
  "get_symbols_by_name e name = map snd (filter (\<lambda>p. fst p = name) (symbol_name_map e))"

definition get_symbol_at_file_addr :: "elf \<Rightarrow> file_addr \<Rightarrow> elf64_sym option" where
  "get_symbol_at_file_addr e address =
    (if fa_elf address \<noteq> Some (elf_no e) then None
     else map_option snd (List.find (\<lambda>p. fst (fst p) = fa_addr address) (symbol_addr_map e)))"

text \<open>
  \<open>lower_bound\<close> splits the ordered map at the first entry whose start is not below the address;
  stepping the iterator back gives the last entry before it.
\<close>

definition get_symbol_containing_file_addr :: "elf \<Rightarrow> file_addr \<Rightarrow> elf64_sym option" where
  "get_symbol_containing_file_addr e address =
    (if fa_elf address \<noteq> Some (elf_no e) \<or> symbol_addr_map e = [] then None
     else
       let a = fa_addr address;
           before = takeWhile (\<lambda>p. fst (fst p) < a) (symbol_addr_map e);
           it = dropWhile (\<lambda>p. fst (fst p) < a) (symbol_addr_map e)
       in if it \<noteq> [] \<and> fst (fst (hd it)) = a then Some (snd (hd it))
          else if before = [] then None
          else let (key, v) = last before
               in if fst key < a \<and> snd key > a then Some v else None)"

section \<open>Address conversions\<close>

definition to_virt_addr :: "elf \<Rightarrow> file_addr \<Rightarrow> virt_addr result" where
  "to_virt_addr e a =
    (if fa_elf a = None then Inl (Terminate ''to_virt_addr called on NULL address'')
     else case get_section_containing_file_addr e a of
            None \<Rightarrow> Inr 0
          | Some _ \<Rightarrow> Inr (fa_addr a + load_bias e))"

definition to_file_addr :: "elf \<Rightarrow> virt_addr \<Rightarrow> file_addr" where
  "to_file_addr e a =
    (case get_section_containing_virt_addr e a of
       None \<Rightarrow> null_file_addr
     | Some _ \<Rightarrow> mk_file_addr (elf_no e) (a - load_bias e))"

definition get_symbol_at_virt_addr :: "elf \<Rightarrow> virt_addr \<Rightarrow> elf64_sym option" where
  "get_symbol_at_virt_addr e a = get_symbol_at_file_addr e (to_file_addr e a)"

definition get_symbol_containing_virt_addr :: "elf \<Rightarrow> virt_addr \<Rightarrow> elf64_sym option" where
  "get_symbol_containing_virt_addr e a = get_symbol_containing_file_addr e (to_file_addr e a)"

definition data_pointer_as_file_offset :: "elf \<Rightarrow> int \<Rightarrow> file_offset" where
  "data_pointer_as_file_offset e ptr = \<lparr>fo_elf = Some (elf_no e), fo_off = word_of_int ptr\<rparr>"

definition file_offset_as_data_pointer :: "file_offset \<Rightarrow> int" where
  "file_offset_as_data_pointer off = sint (fo_off off)"

section \<open>The collection of objects\<close>

type_synonym elf_collection = "elf list"

definition elf_collection_push :: "elf \<Rightarrow> elf_collection \<Rightarrow> elf_collection" where
  "elf_collection_push e elves = elves @ [e]"

definition get_elf_containing_address :: "elf_collection \<Rightarrow> virt_addr \<Rightarrow> elf option" where
  "get_elf_containing_address elves a =
    List.find (\<lambda>e. get_section_containing_virt_addr e a \<noteq> None) elves"

definition get_elf_by_path :: "elf_collection \<Rightarrow> string \<Rightarrow> elf option" where
  "get_elf_by_path elves path = List.find (\<lambda>e. elf_path e = path) elves"

definition path_filename :: "string \<Rightarrow> string" where
  "path_filename p = rev (takeWhile (\<lambda>c. c \<noteq> CHR ''/'') (rev p))"

definition get_elf_by_filename :: "elf_collection \<Rightarrow> string \<Rightarrow> elf option" where
  "get_elf_by_filename elves name = List.find (\<lambda>e. path_filename (elf_path e) = name) elves"

definition to_file_addr_in :: "elf_collection \<Rightarrow> virt_addr \<Rightarrow> file_addr" where
  "to_file_addr_in elves a =
    (case get_elf_containing_address elves a of
       None \<Rightarrow> null_file_addr
     | Some e \<Rightarrow> to_file_addr e a)"

section \<open>The symbol index\<close>

text \<open>
  The address map is strictly ordered by the start of the range; every way of building it keeps
  that, and it never drops or changes an entry.
\<close>

definition addr_map_sorted :: "((u64 \<times> u64) \<times> 'v) list \<Rightarrow> bool" where
  "addr_map_sorted m \<longleftrightarrow> sorted_wrt (<) (map (fst \<circ> fst) m)"

lemma addr_map_insert_set:
  "set (addr_map_insert k v m) \<subseteq> insert (k, v) (set m)"
  "set m \<subseteq> set (addr_map_insert k v m)"
  by (induction k v m rule: addr_map_insert.induct) auto

lemma addr_map_insert_starts:
  "fst k \<in> (fst \<circ> fst) ` set (addr_map_insert k v m)"
  by (induction k v m rule: addr_map_insert.induct) auto

lemma addr_map_insert_sorted: "addr_map_sorted m \<Longrightarrow> addr_map_sorted (addr_map_insert k v m)"
proof (induction k v m rule: addr_map_insert.induct)
  case (2 k v k' v' m)
  then show ?case
    using addr_map_insert_set(1) [of k v m] by (fastforce simp: addr_map_sorted_def)
qed (simp add: addr_map_sorted_def)

lemma index_symbol_sorted:
  "index_symbol demangle s e = Inr e' \<Longrightarrow> addr_map_sorted (symbol_addr_map e) \<Longrightarrow>
     addr_map_sorted (symbol_addr_map e')"
  by (auto simp: index_symbol_def Let_def result_simps addr_map_insert_sorted)

lemma build_section_map_frame:
  assumes "build_section_map e = Inr e'"
  shows "symbol_addr_map e' = symbol_addr_map e \<and> elf_no e' = elf_no e \<and>
    section_headers e' = section_headers e \<and> elf_map e' = elf_map e"
proof -
  let ?P = "\<lambda>x. symbol_addr_map x = symbol_addr_map e \<and> elf_no x = elf_no e \<and>
    section_headers x = section_headers e \<and> elf_map x = elf_map e"
  show ?thesis
    by (rule foldE_invariant [OF assms [unfolded build_section_map_def], where P = ?P])
      (auto simp: result_simps)
qed

lemma parse_symbol_table_frame:
  "parse_symbol_table e = Inr e' \<Longrightarrow>
     symbol_addr_map e' = symbol_addr_map e \<and> section_headers e' = section_headers e"
  by (auto simp: parse_symbol_table_def Let_def result_simps split: option.splits if_splits)

lemma build_symbol_maps_sorted:
  assumes "build_symbol_maps demangle e = Inr e'" "addr_map_sorted (symbol_addr_map e)"
  shows "addr_map_sorted (symbol_addr_map e')"
  by (rule foldE_invariant [OF assms(1) [unfolded build_symbol_maps_def],
        where P = "\<lambda>x. addr_map_sorted (symbol_addr_map x)"])
    (use assms(2) index_symbol_sorted in auto)

lemma elf_construct_sorted:
  assumes "elf_construct demangle no path img = Inr e"
  shows "addr_map_sorted (symbol_addr_map e)"
proof -
  obtain e0 e1 e2 e3 where e0: "symbol_addr_map e0 = []" "parse_section_headers e0 = Inr e1"
    and e2: "build_section_map e1 = Inr e2" and e3: "parse_symbol_table e2 = Inr e3"
    and e: "build_symbol_maps demangle e3 = Inr e"
  proof -
    have "\<exists>e0 e1 e2 e3. symbol_addr_map e0 = [] \<and> parse_section_headers e0 = Inr e1 \<and>
        build_section_map e1 = Inr e2 \<and> parse_symbol_table e2 = Inr e3 \<and>
        build_symbol_maps demangle e3 = Inr e"
      using assms by (simp add: elf_construct_def result_simps) (metis elf.select_convs(10))
    then show thesis using that by blast
  qed
  have "symbol_addr_map e1 = []" using e0 by (auto simp: parse_section_headers_def result_simps)
  then have "symbol_addr_map e3 = []"
    using build_section_map_frame [OF e2] parse_symbol_table_frame [OF e3] by simp
  then show ?thesis using build_symbol_maps_sorted [OF e] by (simp add: addr_map_sorted_def)
qed

lemma addr_map_sorted_append:
  "addr_map_sorted (xs @ ys) \<longleftrightarrow> addr_map_sorted xs \<and> addr_map_sorted ys \<and>
     (\<forall>p \<in> set xs. \<forall>q \<in> set ys. fst (fst p) < fst (fst q))"
  by (simp add: addr_map_sorted_def sorted_wrt_append)

lemma addr_map_sorted_Cons:
  "addr_map_sorted (p # m) \<longleftrightarrow> addr_map_sorted m \<and> (\<forall>q \<in> set m. fst (fst p) < fst (fst q))"
  by (auto simp: addr_map_sorted_def)

text \<open>
  What containing means: the symbol starts at the address, or starts before it and ends after it.
  Where ranges do not overlap, at most one symbol contains an address.
\<close>

definition symbol_contains :: "(u64 \<times> u64) \<Rightarrow> u64 \<Rightarrow> bool" where
  "symbol_contains k a \<longleftrightarrow> fst k = a \<or> fst k < a \<and> a < snd k"

definition addr_map_disjoint :: "((u64 \<times> u64) \<times> 'v) list \<Rightarrow> bool" where
  "addr_map_disjoint m \<longleftrightarrow>
    (\<forall>p \<in> set m. \<forall>q \<in> set m. fst (fst p) < fst (fst q) \<longrightarrow> snd (fst p) \<le> fst (fst q))"

lemma dropWhile_from:
  assumes "addr_map_sorted m" "q \<in> set (dropWhile (\<lambda>p. fst (fst p) < a) m)"
  shows "a \<le> fst (fst q)"
  using assms by (induction m) (auto simp: addr_map_sorted_Cons not_less split: if_splits dest: order.strict_implies_order)

lemma addr_map_containing:
  assumes sorted: "addr_map_sorted m" and disj: "addr_map_disjoint m"
    and b: "b = takeWhile (\<lambda>p. fst (fst p) < a) m" and d: "d = dropWhile (\<lambda>p. fst (fst p) < a) m"
  shows "(if d \<noteq> [] \<and> fst (fst (hd d)) = a then Some (snd (hd d))
          else if b = [] then None
          else let (key, v) = last b in if fst key < a \<and> snd key > a then Some v else None) = Some s
     \<longleftrightarrow> (\<exists>k. (k, s) \<in> set m \<and> symbol_contains k a)"
proof -
  have m: "m = b @ d" by (simp add: b d)
  have bl: "\<forall>p \<in> set b. fst (fst p) < a" by (auto simp: b dest: set_takeWhileD)
  have dl: "\<forall>p \<in> set d. a \<le> fst (fst p)" using dropWhile_from [OF sorted] by (auto simp: d)
  show ?thesis
  proof (cases "d \<noteq> [] \<and> fst (fst (hd d)) = a")
    case True
    then obtain k v d' where dd: "d = (k, v) # d'" "fst k = a" by (cases d) auto
    have uniq: "k' = k \<and> s' = v" if "(k', s') \<in> set m" "symbol_contains k' a" for k' s'
    proof (cases "fst k' < a")
      case True
      then have "snd k' \<le> a" using disj that(1) dd m by (force simp: addr_map_disjoint_def)
      then show ?thesis using that(2) True by (auto simp: symbol_contains_def)
    next
      case False
      then have "(k', s') \<in> set d" "fst k' = a"
        using that m bl by (auto simp: symbol_contains_def)
      then show ?thesis using sorted dd by (auto simp: m addr_map_sorted_append addr_map_sorted_Cons)
    qed
    have "(k, v) \<in> set m" "symbol_contains k a" using dd m by (auto simp: symbol_contains_def)
    with uniq have "(\<exists>k. (k, s) \<in> set m \<and> symbol_contains k a) \<longleftrightarrow> v = s" by blast
    then show ?thesis using dd by simp
  next
    case False
    have none: "fst k \<noteq> a" if "(k, v) \<in> set m" for k v
    proof
      assume k: "fst k = a"
      then have "(k, v) \<in> set d" using that bl m by auto
      then obtain p d' where dd: "d = p # d'" by (cases d) auto
      then have "fst (fst p) \<noteq> a" "a \<le> fst (fst p)" using False dl by auto
      then have "a < fst (fst p)" by simp
      moreover have "fst (fst p) \<le> fst k"
        using \<open>(k, v) \<in> set d\<close> sorted by (auto simp: m dd addr_map_sorted_append addr_map_sorted_Cons)
      ultimately show False using k by simp
    qed
    show ?thesis
    proof (cases b rule: rev_cases)
      case Nil
      then have "a < fst k" if "(k, v) \<in> set m" for k v
        using that dl none [OF that] m by fastforce
      then have "\<not> symbol_contains k a" if "(k, v) \<in> set m" for k v
        using that by (fastforce simp: symbol_contains_def)
      then show ?thesis using False Nil by auto
    next
      case (snoc b' q)
      obtain k v where q: "q = (k, v)" by fastforce
      have lt: "fst k < a" using bl snoc q by auto
      have uniq: "k' = k \<and> s' = v" if "(k', s') \<in> set m" "fst k' < a" "a < snd k'" for k' s'
      proof (rule ccontr)
        assume ne: "\<not> (k' = k \<and> s' = v)"
        have "(k', s') \<in> set b" using that dl m by auto
        then have "fst k' < fst k"
          using ne sorted snoc q by (auto simp: m addr_map_sorted_append)
        then have "snd k' \<le> fst k"
          using disj that(1) snoc q m by (force simp: addr_map_disjoint_def)
        then show False using that(3) lt by simp
      qed
      have "(k, v) \<in> set m" using snoc q m by simp
      then have "(\<exists>k. (k, s) \<in> set m \<and> symbol_contains k a) \<longleftrightarrow> v = s \<and> a < snd k"
        using uniq none lt unfolding symbol_contains_def by blast
      then show ?thesis using False snoc q lt by auto
    qed
  qed
qed

text \<open>
  The collection of symbol ranges is looked up by binary search over the starts; where the
  ranges do not overlap, that finds exactly the symbol whose range contains the address.
\<close>

lemma get_symbol_containing_iff:
  assumes "addr_map_sorted (symbol_addr_map e)" "addr_map_disjoint (symbol_addr_map e)"
  shows "get_symbol_containing_file_addr e (mk_file_addr (elf_no e) a) = Some s \<longleftrightarrow>
    (\<exists>k. (k, s) \<in> set (symbol_addr_map e) \<and> symbol_contains k a)"
  using addr_map_containing [OF assms refl refl, of a s]
  by (cases "symbol_addr_map e = []") (simp_all add: get_symbol_containing_file_addr_def Let_def)

section \<open>Sections in the address space\<close>

text \<open>
  A loaded object whose sections, moved by the load bias, stay inside the 64-bit address space.
\<close>

definition sections_fit :: "elf \<Rightarrow> bool" where
  "sections_fit e \<longleftrightarrow> (\<forall>s \<in> set (section_headers e).
     unat (load_bias e) + unat (sh_addr s) + unat (sh_size s) < 2 ^ 64)"

lemma section_range_shift:
  fixes a b s n :: u64
  assumes "unat b + unat s + unat n < 2 ^ 64"
  shows "s \<le> a \<and> s + n > a \<longleftrightarrow> a + b \<ge> b + s \<and> b + s + n > a + b \<and> unat b + unat a < 2 ^ 64"
proof -
  have sn: "unat (s + n) = unat s + unat n" "unat (b + s) = unat b + unat s"
    "unat (b + s + n) = unat b + unat s + unat n"
    using assms by (simp_all add: unat_add_mod)
  show ?thesis
  proof (cases "unat b + unat a < 2 ^ 64")
    case True
    then have "unat (a + b) = unat a + unat b" by (simp add: unat_add_mod)
    then show ?thesis using True sn by (simp add: word_le_nat_alt word_less_nat_alt)
  next
    case False
    then show ?thesis using sn assms by (simp add: word_le_nat_alt word_less_nat_alt)
  qed
qed

lemma find_cong_on:
  "(\<And>x. x \<in> set xs \<Longrightarrow> P x = Q x) \<Longrightarrow> List.find P xs = List.find Q xs"
  by (induction xs) auto

lemma section_lookup_shift:
  assumes "sections_fit e" "unat (load_bias e) + unat a < 2 ^ 64"
  shows "get_section_containing_virt_addr e (a + load_bias e) =
    get_section_containing_file_addr e (mk_file_addr (elf_no e) a)"
  unfolding get_section_containing_virt_addr_def get_section_containing_file_addr_def mk_file_addr_sel
  using assms section_range_shift [of "load_bias e" _ _ a]
  by (simp, intro find_cong_on) (auto simp: sections_fit_def)

lemma section_lookup_bound:
  assumes "sections_fit e"
    and "get_section_containing_file_addr e (mk_file_addr (elf_no e) a) = Some s"
  shows "unat (load_bias e) + unat a < 2 ^ 64"
proof -
  have "s \<in> set (section_headers e)" "sh_addr s \<le> a \<and> sh_addr s + sh_size s > a"
    using assms(2) by (auto simp: get_section_containing_file_addr_def elim!: find_split)
  then show ?thesis
    using assms(1) section_range_shift [of "load_bias e" "sh_addr s" "sh_size s" a]
    by (simp add: sections_fit_def)
qed

lemma virt_lookup_bound:
  assumes "sections_fit e" "get_section_containing_virt_addr e v = Some s"
  shows "load_bias e \<le> v"
proof -
  from assms(2) have s: "s \<in> set (section_headers e)" "load_bias e + sh_addr s \<le> v"
    by (auto simp: get_section_containing_virt_addr_def elim!: find_split)
  with assms(1) have "unat (load_bias e + sh_addr s) = unat (load_bias e) + unat (sh_addr s)"
    by (auto simp: sections_fit_def unat_add_mod)
  with s(2) show ?thesis by (simp add: word_le_nat_alt)
qed

lemma to_file_to_virt:
  assumes "sections_fit e"
    and "get_section_containing_file_addr e (mk_file_addr (elf_no e) a) \<noteq> None"
  shows "to_virt_addr e (mk_file_addr (elf_no e) a) = Inr (a + load_bias e) \<and>
    to_file_addr e (a + load_bias e) = mk_file_addr (elf_no e) a"
proof -
  obtain s where s: "get_section_containing_file_addr e (mk_file_addr (elf_no e) a) = Some s"
    using assms(2) by auto
  note bound = section_lookup_bound [OF assms(1) s]
  show ?thesis
    using s section_lookup_shift [OF assms(1) bound] by (simp add: to_virt_addr_def to_file_addr_def)
qed

lemma to_virt_to_file:
  assumes "sections_fit e" "get_section_containing_virt_addr e v \<noteq> None"
  shows "to_virt_addr e (to_file_addr e v) = Inr v"
proof -
  obtain s where s: "get_section_containing_virt_addr e v = Some s" using assms(2) by auto
  have le: "load_bias e \<le> v" by (rule virt_lookup_bound [OF assms(1) s])
  then have "unat (v - load_bias e) = unat v - unat (load_bias e)" by (simp add: unat_sub)
  then have "unat (load_bias e) + unat (v - load_bias e) = unat v"
    using le by (simp add: word_le_nat_alt)
  then have "unat (load_bias e) + unat (v - load_bias e) < 2 ^ 64"
    using unsigned_less [of v] by simp
  from section_lookup_shift [OF assms(1) this] s
  have "get_section_containing_file_addr e (mk_file_addr (elf_no e) (v - load_bias e)) = Some s"
    by simp
  then show ?thesis using s by (simp add: to_virt_addr_def to_file_addr_def)
qed

section \<open>A small object\<close>

text \<open>
  An image with a symbol table of two symbols and one string table, and a loaded object with one
  section, for the instances of the properties.
\<close>

definition sample_shdr :: "u32 \<Rightarrow> u64 \<Rightarrow> u64 \<Rightarrow> u64 \<Rightarrow> byte list" where
  "sample_shdr nm off sz entsize =
    as_bytes nm @ replicate 20 0 @ as_bytes off @ as_bytes sz @ replicate 16 0 @ as_bytes entsize"

definition sample_sym :: "u32 \<Rightarrow> u64 \<Rightarrow> u64 \<Rightarrow> byte list" where
  "sample_sym nm addr sz = as_bytes nm @ [2, 0, 1, 0] @ as_bytes addr @ as_bytes sz"

definition sample_image :: "byte list" where
  "sample_image =
     replicate 40 0 @ as_bytes (64 :: u64) @ replicate 10 0 @ as_bytes (64 :: u16) @
       as_bytes (2 :: u16) @ as_bytes (1 :: u16)
     @ sample_shdr 1 192 48 24
     @ sample_shdr 9 240 21 0
     @ sample_sym 17 0x1040 8 @ sample_sym 19 0x1010 0x20
     @ [0, 46, 115, 121, 109, 116, 97, 98, 0, 46, 115, 116, 114, 116, 97, 98, 0, 102, 0, 103, 0]"

definition sample_symbol_map :: "((u64 \<times> u64) \<times> elf64_sym) list" where
  "sample_symbol_map =
    [((0x1010, 0x1030), \<lparr>st_name = 19, st_info = 2, st_value = 0x1010, st_size = 0x20\<rparr>),
     ((0x1040, 0x1048), \<lparr>st_name = 17, st_info = 2, st_value = 0x1040, st_size = 8\<rparr>)]"

definition sample_object :: elf where
  "sample_object =
    \<lparr>elf_no = 0, elf_path = ''a'', elf_map = [],
     elf_header = \<lparr>e_entry = 0, e_shoff = 0, e_shentsize = 64, e_shnum = 1, e_shstrndx = 0\<rparr>,
     section_headers = [\<lparr>sh_name = 0, sh_addr = 0x1000, sh_offset = 0, sh_size = 0x200, sh_entsize = 0\<rparr>],
     section_map = Map.empty, load_bias = 0x555555554000, symbol_table = [],
     symbol_name_map = [], symbol_addr_map = sample_symbol_map\<rparr>"

lemma sample_elf_construct:
  "map_sum id symbol_addr_map (elf_construct (\<lambda>_. None) 0 ''a'' sample_image) = Inr sample_symbol_map"
  by code_simp

section \<open>Properties\<close>



text \<open>
  C31. For an object whose sections stay inside the address space once moved by the load bias,
  conversion to virtual addresses and conversion to file addresses are inverse to each other on
  the addresses that lie in a section.
\<close>

theorem address_conversion_roundtrip:
  assumes "sections_fit e"
  shows "(get_section_containing_file_addr e (mk_file_addr (elf_no e) a) \<noteq> None \<longrightarrow>
      bindE (to_virt_addr e (mk_file_addr (elf_no e) a)) (\<lambda>v. Inr (to_file_addr e v)) =
        Inr (mk_file_addr (elf_no e) a)) \<and>
    (get_section_containing_virt_addr e v \<noteq> None \<longrightarrow>
      to_virt_addr e (to_file_addr e v) = Inr v)"
  using to_file_to_virt [OF assms] to_virt_to_file [OF assms] by simp

theorem address_conversion_roundtrip_witness:
  "sections_fit sample_object \<and> get_section_containing_file_addr sample_object (mk_file_addr 0 0x1040) \<noteq> None \<and>
   bindE (to_virt_addr sample_object (mk_file_addr 0 0x1040)) (\<lambda>v. Inr (to_file_addr sample_object v)) =
     Inr (mk_file_addr 0 0x1040)"
proof -
  have "sections_fit sample_object"
    "get_section_containing_file_addr sample_object (mk_file_addr 0 0x1040) \<noteq> None"
    by (simp_all add: sections_fit_def sample_object_def get_section_containing_file_addr_def)
  then show ?thesis
    using address_conversion_roundtrip [of sample_object "0x1040" 0] by (simp add: sample_object_def)
qed

end
