(* ===== verification/Dwarf_Die.thy ===== *)
theory Dwarf_Die
  imports Cursor Elf_Object
begin

text \<open>
  \<open>src/dwarf.cpp\<close>, the debugging information entries: abbreviation tables, \<open>parse_die\<close>, the
  typed views of an attribute, range lists and address ranges of an entry. A pointer into the
  mapped file is its offset, as in theory \<open>Cursor\<close>. The operations that follow references need the
  list of compile units of the object, which they take as an argument.
\<close>

section \<open>Abbreviation tables\<close>

record attr_spec =
  spec_attr :: nat
  spec_form :: nat

record abbrev =
  ab_code :: u64
  ab_tag :: nat
  ab_has_children :: bool
  ab_attr_specs :: "attr_spec list"

type_synonym abbrev_table = "(u64 \<times> abbrev) list"

function parse_attr_specs :: "cursor \<Rightarrow> attr_spec list \<Rightarrow> (attr_spec list \<times> cursor) result" where
  "parse_attr_specs cur specs =
    bindE (uleb128 cur) (\<lambda>(attr, c1).
    bindE (uleb128 c1) (\<lambda>(form, c2).
      if attr \<noteq> 0 then parse_attr_specs c2 (specs @ [\<lparr>spec_attr = unat attr, spec_form = unat form\<rparr>])
      else Inr (specs, c2)))"
  by pat_completeness auto
termination
  by (relation "measure (\<lambda>(c, _). remaining c)")
    (auto dest!: uleb_reader.remaining_decreases)

declare parse_attr_specs.simps [simp del]

lemma parse_attr_specs_consumes:
  "parse_attr_specs cur specs = Inr (res, c') \<Longrightarrow> remaining c' < remaining cur"
proof (induction cur specs rule: parse_attr_specs.induct)
  case (1 cur specs)
  from "1.prems" obtain attr c1 form c2 where r: "uleb128 cur = Inr (attr, c1)" "uleb128 c1 = Inr (form, c2)"
    by (subst (asm) parse_attr_specs.simps) (auto simp: result_simps)
  then have lt: "remaining c2 < remaining cur"
    by (meson less_trans uleb_reader.remaining_decreases)
  show ?case
  proof (cases "attr = 0")
    case True
    then show ?thesis using "1.prems" r lt by (subst (asm) parse_attr_specs.simps) auto
  next
    case False
    have "remaining c' < remaining c2"
      using "1.prems" r False
      by (subst (asm) parse_attr_specs.simps) (auto intro: "1.IH" [OF r(1) refl r(2) refl])
    then show ?thesis using lt by simp
  qed
qed

text \<open>
  The terminating null code is followed, as the code is written, by one more tag, children flag
  and attribute list.
\<close>

function parse_abbrev_loop :: "cursor \<Rightarrow> abbrev_table \<Rightarrow> abbrev_table result" where
  "parse_abbrev_loop cur table =
    bindE (uleb128 cur) (\<lambda>(code, c1).
    bindE (uleb128 c1) (\<lambda>(tag, c2).
    bindE (u8 c2) (\<lambda>(has_children, c3).
    bindE (parse_attr_specs c3 []) (\<lambda>(specs, c4).
      if code \<noteq> 0
      then parse_abbrev_loop c4
        (emplace code \<lparr>ab_code = code, ab_tag = unat tag, ab_has_children = has_children \<noteq> 0,
                       ab_attr_specs = specs\<rparr> table)
      else Inr table))))"
  by pat_completeness auto
termination
proof (relation "measure (\<lambda>(c, _). remaining c)", goal_cases)
  case 1
  show ?case by simp
next
  case (2 cur table x1 code c1 x2 tag c2 x3 hc c3 x4 specs c4)
  then have "remaining c1 < remaining cur" "remaining c2 < remaining c1" "remaining c3 < remaining c2"
    "remaining c4 < remaining c3"
    by (auto dest: uleb_reader.remaining_decreases u8_reader.remaining_decreases parse_attr_specs_consumes)
  then show ?case by simp
qed

declare parse_abbrev_loop.simps [simp del]

definition parse_abbrev_table :: "elf \<Rightarrow> u64 \<Rightarrow> abbrev_table result" where
  "parse_abbrev_table obj off =
    (let (b, e) = get_section_contents obj ''.debug_abbrev''
     in parse_abbrev_loop (cursor_add off (cursor_over (elf_map obj) b e)) [])"

text \<open>The cache of parsed tables by offset.\<close>

definition get_abbrev_table ::
  "elf \<Rightarrow> (u64 \<times> abbrev_table) list \<Rightarrow> u64 \<Rightarrow> (abbrev_table \<times> (u64 \<times> abbrev_table) list) result" where
  "get_abbrev_table obj tables off =
    (case map_of tables off of
       Some t \<Rightarrow> Inr (t, tables)
     | None \<Rightarrow> bindE (parse_abbrev_table obj off) (\<lambda>t.
         let tables' = emplace off t tables
         in bindE (map_at tables' off) (\<lambda>t'. Inr (t', tables'))))"

section \<open>Compile units and line tables as data\<close>

record line_file =
  lf_path :: string
  lf_mod_time :: u64
  lf_file_len :: u64

record line_table =
  lt_begin :: int
  lt_end :: int
  lt_default_is_stmt :: bool
  lt_line_base :: u64
  lt_line_range :: byte
  lt_opcode_base :: byte
  lt_include_dirs :: "string list"
  lt_file_names :: "line_file list"

record compile_unit =
  cu_elf :: elf
  cu_begin :: int
  cu_end :: int
  cu_abbrev_offset :: u64
  cu_lines :: "line_table option"

definition cu_abbrev_table :: "compile_unit \<Rightarrow> abbrev_table result" where
  "cu_abbrev_table cu = parse_abbrev_table (cu_elf cu) (cu_abbrev_offset cu)"

definition cu_cursor :: "compile_unit \<Rightarrow> int \<Rightarrow> cursor" where
  "cu_cursor cu pos = cursor_over (elf_map (cu_elf cu)) pos (cu_end cu)"

section \<open>Debugging information entries\<close>

text \<open>A null entry has no abbreviation and only knows where the next entry starts.\<close>

record die =
  die_pos :: int
  die_cu :: compile_unit
  die_abbrev :: "abbrev option"
  die_next :: int
  die_attr_locs :: "int list"

fun skip_attrs :: "attr_spec list \<Rightarrow> cursor \<Rightarrow> int list \<Rightarrow> (int list \<times> cursor) result" where
  "skip_attrs [] cur locs = Inr (locs, cur)"
| "skip_attrs (s # specs) cur locs =
    bindE (skip_form (spec_form s) cur) (\<lambda>c. skip_attrs specs c (locs @ [cur_pos cur]))"

definition parse_die :: "compile_unit \<Rightarrow> int \<Rightarrow> die result" where
  "parse_die cu pos =
    bindE (uleb128 (cu_cursor cu pos)) (\<lambda>(abbrev_code, c1).
      if abbrev_code = 0
      then Inr \<lparr>die_pos = null_pos, die_cu = cu, die_abbrev = None, die_next = cur_pos c1,
                die_attr_locs = []\<rparr>
      else
        bindE (cu_abbrev_table cu) (\<lambda>table.
        bindE (map_at table abbrev_code) (\<lambda>ab.
        bindE (skip_attrs (ab_attr_specs ab) c1 []) (\<lambda>(locs, c2).
          Inr \<lparr>die_pos = pos, die_cu = cu, die_abbrev = Some ab, die_next = cur_pos c2,
               die_attr_locs = locs\<rparr>))))"

definition cu_root :: "compile_unit \<Rightarrow> die result" where
  "cu_root cu = parse_die cu (cu_begin cu + 11)"

definition die_abbrev_entry :: "die \<Rightarrow> abbrev result" where
  "die_abbrev_entry d = the_opt (Undefined ''null abbreviation dereferenced'') (die_abbrev d)"

definition die_tag :: "die \<Rightarrow> nat result" where
  "die_tag d = bindE (die_abbrev_entry d) (\<lambda>ab. Inr (ab_tag ab))"

definition die_contains :: "die \<Rightarrow> nat \<Rightarrow> bool result" where
  "die_contains d attribute =
    bindE (die_abbrev_entry d) (\<lambda>ab. Inr (\<exists>s \<in> set (ab_attr_specs ab). spec_attr s = attribute))"

record attr =
  at_cu :: compile_unit
  at_type :: nat
  at_form :: nat
  at_location :: int

fun find_attr :: "compile_unit \<Rightarrow> attr_spec list \<Rightarrow> int list \<Rightarrow> nat \<Rightarrow> attr result" where
  "find_attr cu (s # specs) (l # locs) attribute =
    (if spec_attr s = attribute
     then Inr \<lparr>at_cu = cu, at_type = spec_attr s, at_form = spec_form s, at_location = l\<rparr>
     else find_attr cu specs locs attribute)"
| "find_attr cu [] locs attribute = Inl (Send ''Attribute not found!'')"
| "find_attr cu (s # specs) [] attribute = Inl (Undefined ''attribute location out of range'')"

definition die_attr :: "die \<Rightarrow> nat \<Rightarrow> attr result" where
  "die_attr d attribute =
    bindE (die_abbrev_entry d) (\<lambda>ab. find_attr (die_cu d) (ab_attr_specs ab) (die_attr_locs d) attribute)"

section \<open>Views of an attribute\<close>

definition at_cursor :: "attr \<Rightarrow> cursor" where
  "at_cursor a = cu_cursor (at_cu a) (at_location a)"

definition as_address :: "attr \<Rightarrow> file_addr result" where
  "as_address a =
    (if at_form a \<noteq> DW_FORM_addr then Inl (Send ''Invalid address type!'')
     else bindE (u64 (at_cursor a)) (\<lambda>(v, _). Inr (mk_file_addr (elf_no (cu_elf (at_cu a))) v)))"

definition as_section_offset :: "attr \<Rightarrow> u32 result" where
  "as_section_offset a =
    (if at_form a \<noteq> DW_FORM_sec_offset then Inl (Send ''Invalid offset type!'')
     else bindE (u32 (at_cursor a)) (\<lambda>(v, _). Inr v))"

definition as_int :: "attr \<Rightarrow> u64 result" where
  "as_int a =
    (let c = at_cursor a; f = at_form a
     in if f = DW_FORM_data1 then bindE (u8 c) (\<lambda>(v, _). Inr (ucast v))
        else if f = DW_FORM_data2 then bindE (u16 c) (\<lambda>(v, _). Inr (ucast v))
        else if f = DW_FORM_data4 then bindE (u32 c) (\<lambda>(v, _). Inr (ucast v))
        else if f = DW_FORM_data8 then bindE (u64 c) (\<lambda>(v, _). Inr v)
        else if f = DW_FORM_udata then bindE (uleb128 c) (\<lambda>(v, _). Inr v)
        else Inl (Send ''Invalid integer type!''))"

text \<open>A block as the bounds of its span.\<close>

definition as_block :: "attr \<Rightarrow> (int \<times> u64) result" where
  "as_block a =
    (let c = at_cursor a; f = at_form a;
         at = (\<lambda>r. bindE r (\<lambda>(n, c'). Inr (cur_pos c', n)))
     in if f = DW_FORM_block1 then at (bindE (u8 c) (\<lambda>(v, c'). Inr (ucast v, c')))
        else if f = DW_FORM_block2 then at (bindE (u16 c) (\<lambda>(v, c'). Inr (ucast v, c')))
        else if f = DW_FORM_block4 then at (bindE (u32 c) (\<lambda>(v, c'). Inr (ucast v, c')))
        else if f = DW_FORM_block then at (uleb128 c)
        else Inl (Send ''Invalid block type!''))"

text \<open>A reference into another unit is looked up among the units of the same object.\<close>

definition as_reference :: "compile_unit list \<Rightarrow> attr \<Rightarrow> die result" where
  "as_reference units a =
    (let c = at_cursor a; f = at_form a; cu = at_cu a;
         local = (\<lambda>r. bindE r (\<lambda>off. parse_die cu (cu_begin cu + sint (off :: u64))))
     in if f = DW_FORM_ref1 then local (bindE (u8 c) (\<lambda>(v, _). Inr (ucast v)))
        else if f = DW_FORM_ref2 then local (bindE (u16 c) (\<lambda>(v, _). Inr (ucast v)))
        else if f = DW_FORM_ref4 then local (bindE (u32 c) (\<lambda>(v, _). Inr (ucast v)))
        else if f = DW_FORM_ref8 then local (bindE (u64 c) (\<lambda>(v, _). Inr v))
        else if f = DW_FORM_udata then local (bindE (uleb128 c) (\<lambda>(v, _). Inr v))
        else if f = DW_FORM_ref_addr then
          bindE (u32 c) (\<lambda>(v, _).
            let pos = fst (get_section_contents (cu_elf cu) ''.debug_info'') + int (unat v)
            in bindE (the_opt (Undefined ''end iterator dereferenced'')
                        (List.find (\<lambda>u. elf_no (cu_elf u) = elf_no (cu_elf cu) \<and> cu_begin u \<le> pos \<and> cu_end u > pos) units))
                 (\<lambda>u. parse_die u pos))
        else Inl (Send ''Invalid reference type!''))"

definition as_string :: "attr \<Rightarrow> string result" where
  "as_string a =
    (if at_form a = DW_FORM_string then bindE (cursor_string (at_cursor a)) (\<lambda>(s, _). Inr s)
     else if at_form a = DW_FORM_strp then
       bindE (u32 (at_cursor a)) (\<lambda>(off, _).
         let e = cu_elf (at_cu a); (b, n) = get_section_contents e ''.debug_str''
         in bindE (cursor_string (cursor_over (elf_map e) (b + int (unat off)) n)) (\<lambda>(s, _). Inr s))
     else Inl (Send ''Invalid string type!''))"

section \<open>Range lists\<close>

record range_list =
  rl_cu :: compile_unit
  rl_begin :: int
  rl_end :: int
  rl_base :: file_addr

record range_entry =
  re_low :: file_addr
  re_high :: file_addr

definition range_entry_contains :: "range_entry \<Rightarrow> file_addr \<Rightarrow> bool result" where
  "range_entry_contains e addr =
    bindE (file_addr_leq (re_low e) addr) (\<lambda>a.
      if a then file_addr_less addr (re_high e) else Inr False)"

text \<open>
  One step of the iterator: entries that select a base address are consumed, the pair of zeros ends
  the list (\<open>None\<close>). Each entry read consumes sixteen bytes, so the loop ends.
\<close>

function range_next :: "cursor \<Rightarrow> elf_id \<Rightarrow> file_addr \<Rightarrow> ((range_entry \<times> cursor \<times> file_addr) option) result" where
  "range_next cur no base =
    bindE (u64 cur) (\<lambda>(low, c1).
    bindE (u64 c1) (\<lambda>(high, c2).
      if low = NOT 0 then range_next c2 no (mk_file_addr no high)
      else if low = 0 \<and> high = 0 then Inr None
      else Inr (Some (\<lparr>re_low = file_addr_add (mk_file_addr no low) (fa_addr base),
                       re_high = file_addr_add (mk_file_addr no high) (fa_addr base)\<rparr>, c2, base))))"
  by pat_completeness auto
termination
  by (relation "measure (\<lambda>(c, _, _). remaining c)") (auto dest!: u64_reader.remaining_decreases)

declare range_next.simps [simp del]

lemma range_next_consumes:
  "range_next cur no base = Inr (Some (e, c', b')) \<Longrightarrow> remaining c' < remaining cur"
proof (induction cur no base rule: range_next.induct)
  case (1 cur no base)
  from "1.prems" obtain low c1 high c2 where r: "u64 cur = Inr (low, c1)" "u64 c1 = Inr (high, c2)"
    by (subst (asm) range_next.simps) (auto simp: result_simps)
  then have lt: "remaining c2 < remaining cur" by (meson less_trans u64_reader.remaining_decreases)
  show ?case
  proof (cases "low = NOT 0")
    case True
    then have "range_next c2 no (mk_file_addr no high) = Inr (Some (e, c', b'))"
      using "1.prems" r by (subst (asm) range_next.simps) simp
    then have "remaining c' < remaining c2" by (rule "1.IH" [OF r(1) refl r(2) refl True])
    then show ?thesis using lt by simp
  next
    case False
    then show ?thesis
      using "1.prems" r lt by (subst (asm) range_next.simps) (auto split: if_splits)
  qed
qed

function range_entries_from :: "cursor \<Rightarrow> elf_id \<Rightarrow> file_addr \<Rightarrow> range_entry list result" where
  "range_entries_from cur no base =
    bindE (range_next cur no base) (\<lambda>r.
      case r of
        None \<Rightarrow> Inr []
      | Some (e, c, b) \<Rightarrow> bindE (range_entries_from c no b) (\<lambda>es. Inr (e # es)))"
  by pat_completeness auto
termination
  by (relation "measure (\<lambda>(c, _, _). remaining c)") (auto dest!: range_next_consumes)

declare range_entries_from.simps [simp del]

text \<open>
  \<open>std::any_of\<close> over the range list: it stops at the first entry that contains the address and
  decodes no entry behind it.
\<close>

function range_contains_from :: "cursor \<Rightarrow> elf_id \<Rightarrow> file_addr \<Rightarrow> file_addr \<Rightarrow> bool result" where
  "range_contains_from cur no base addr =
    bindE (range_next cur no base) (\<lambda>r.
      case r of
        None \<Rightarrow> Inr False
      | Some (e, c, b) \<Rightarrow>
          bindE (range_entry_contains e addr) (\<lambda>found.
            if found then Inr True else range_contains_from c no b addr))"
  by pat_completeness auto
termination
  by (relation "measure (\<lambda>(c, _, _, _). remaining c)") (auto dest!: range_next_consumes)

declare range_contains_from.simps [simp del]

definition as_range_list :: "attr \<Rightarrow> range_list result" where
  "as_range_list a =
    bindE (as_section_offset a) (\<lambda>off.
    bindE (cu_root (at_cu a)) (\<lambda>root.
    bindE (die_contains root DW_AT_low_pc) (\<lambda>has_low.
    bindE (if has_low then bindE (die_attr root DW_AT_low_pc) as_address else Inr null_file_addr) (\<lambda>base.
      let (b, e) = get_section_contents (cu_elf (at_cu a)) ''.debug_ranges''
      in Inr \<lparr>rl_cu = at_cu a, rl_begin = b + int (unat off), rl_end = e, rl_base = base\<rparr>))))"

definition range_list_cursor :: "range_list \<Rightarrow> cursor" where
  "range_list_cursor r = cursor_over (elf_map (cu_elf (rl_cu r))) (rl_begin r) (rl_end r)"

definition range_list_contains :: "range_list \<Rightarrow> file_addr \<Rightarrow> bool result" where
  "range_list_contains r addr =
    range_contains_from (range_list_cursor r) (elf_no (cu_elf (rl_cu r))) (rl_base r) addr"

definition range_list_entries :: "range_list \<Rightarrow> range_entry list result" where
  "range_list_entries r =
    range_entries_from (range_list_cursor r) (elf_no (cu_elf (rl_cu r))) (rl_base r)"

section \<open>The address range of an entry\<close>

text \<open>
  \<open>low_pc\<close> dereferences the first iterator of a range list without a test. The iterator stores
  the values it reads, so on an empty list it holds the terminating pair of zeros.
\<close>

definition die_low_pc :: "die \<Rightarrow> file_addr result" where
  "die_low_pc d =
    bindE (die_contains d DW_AT_ranges) (\<lambda>has_ranges.
    if has_ranges then
      bindE (die_attr d DW_AT_ranges) (\<lambda>a.
      bindE (as_range_list a) (\<lambda>r.
      bindE (range_next (range_list_cursor r) (elf_no (cu_elf (rl_cu r))) (rl_base r)) (\<lambda>first.
        case first of
          None \<Rightarrow> Inr (mk_file_addr (elf_no (cu_elf (rl_cu r))) 0)
        | Some (e, _, _) \<Rightarrow> Inr (re_low e))))
    else
      bindE (die_contains d DW_AT_low_pc) (\<lambda>has_low.
        if has_low then bindE (die_attr d DW_AT_low_pc) as_address
        else Inl (Send ''DIE does NOT have low PC!'')))"

text \<open>
  The last entry of a range list. On an empty list the code increments past the end, which starts
  a read at the null pointer.
\<close>

definition die_high_pc :: "die \<Rightarrow> file_addr result" where
  "die_high_pc d =
    bindE (die_contains d DW_AT_ranges) (\<lambda>has_ranges.
    if has_ranges then
      bindE (die_attr d DW_AT_ranges) (\<lambda>a.
      bindE (as_range_list a) (\<lambda>r.
      bindE (range_list_entries r) (\<lambda>es.
        if es = [] then Inl (Undefined ''end of range list incremented'') else Inr (re_high (last es)))))
    else
      bindE (die_contains d DW_AT_high_pc) (\<lambda>has_high.
        if has_high then
          bindE (die_attr d DW_AT_high_pc) (\<lambda>a.
            if at_form a = DW_FORM_addr then as_address a
            else bindE (die_low_pc d) (\<lambda>low. bindE (as_int a) (\<lambda>n. file_addr_plus low n)))
        else Inl (Send ''DIE does not have high PC!'')))"

definition contains_address :: "die \<Rightarrow> file_addr \<Rightarrow> bool result" where
  "contains_address d address =
    bindE (die_abbrev_entry d) (\<lambda>_.
     if fa_elf address \<noteq> Some (elf_no (cu_elf (die_cu d))) then Inr False
     else
       bindE (die_contains d DW_AT_ranges) (\<lambda>has_ranges.
       if has_ranges then
         bindE (die_attr d DW_AT_ranges) (\<lambda>a. bindE (as_range_list a) (\<lambda>r. range_list_contains r address))
       else
         bindE (die_contains d DW_AT_low_pc) (\<lambda>has_low.
         if has_low then
           bindE (die_low_pc d) (\<lambda>low.
           bindE (file_addr_leq low address) (\<lambda>le.
             if le then bindE (die_high_pc d) (\<lambda>high. file_addr_greater high address) else Inr False))
         else Inr False)))"

section \<open>Reading back an abbreviation table\<close>

definition encode_spec :: "attr_spec \<Rightarrow> byte list" where
  "encode_spec s = uleb128_encode (spec_attr s) @ uleb128_encode (spec_form s)"

definition encode_abbrev :: "abbrev \<Rightarrow> byte list" where
  "encode_abbrev ab =
    uleb128_encode (unat (ab_code ab)) @ uleb128_encode (ab_tag ab) @
    [if ab_has_children ab then 1 else 0] @ concat (map encode_spec (ab_attr_specs ab)) @ [0, 0]"

definition spec_ok :: "attr_spec \<Rightarrow> bool" where
  "spec_ok s \<longleftrightarrow> 0 < spec_attr s \<and> spec_attr s < 2 ^ 64 \<and> spec_form s < 2 ^ 64"

definition abbrev_ok :: "abbrev \<Rightarrow> bool" where
  "abbrev_ok ab \<longleftrightarrow> ab_tag ab < 2 ^ 64 \<and> list_all spec_ok (ab_attr_specs ab)"

lemma uleb128_encode_0: "uleb128_encode 0 = [0]"
  by (simp add: uleb128_encode.simps)

lemma unat_of_u64: "n < 2 ^ 64 \<Longrightarrow> unat (word_of_nat n :: u64) = n"
  by (simp add: unat_of_nat)

lemma parse_attr_specs_encoded:
  "list_all spec_ok specs \<Longrightarrow>
   stands_before c (concat (map encode_spec specs) @ [0, 0] @ later) rest \<Longrightarrow>
   parse_attr_specs c acc =
     Inr (acc @ specs, advance (length (concat (map encode_spec specs)) + 2) c)"
proof (induction specs arbitrary: c acc)
  case Nil
  have "stands_before c (uleb128_encode 0 @ uleb128_encode 0 @ later) rest"
    using Nil.prems by (simp add: uleb128_encode_0)
  from uleb_code.decodes_then [OF _ this]
  have u: "uleb128 c = Inr (0, advance 1 c)" "stands_before (advance 1 c) (uleb128_encode 0 @ later) rest"
    by (simp_all add: uleb128_encode_0)
  from uleb_code.decodes_then [OF _ u(2)] have "uleb128 (advance 1 c) = Inr (0, advance 2 c)"
    by (simp add: uleb128_encode_0)
  then show ?case by (subst parse_attr_specs.simps) (simp add: u)
next
  case (Cons s specs)
  let ?m = "concat (map encode_spec specs) @ [0, 0] @ later"
  let ?a = "length (uleb128_encode (spec_attr s))" and ?f = "length (uleb128_encode (spec_form s))"
  have ok: "0 < spec_attr s" "spec_attr s < 2 ^ 64" "spec_form s < 2 ^ 64"
    using Cons.prems(1) by (auto simp: spec_ok_def)
  have "stands_before c (uleb128_encode (spec_attr s) @ uleb128_encode (spec_form s) @ ?m) rest"
    using Cons.prems(2) by (simp add: encode_spec_def [of s])
  from uleb_code.decodes_then [OF ok(2) this]
  have 1: "uleb128 c = Inr (word_of_nat (spec_attr s), advance ?a c)"
    "stands_before (advance ?a c) (uleb128_encode (spec_form s) @ ?m) rest" by auto
  from uleb_code.decodes_then [OF ok(3) 1(2)]
  have 2: "uleb128 (advance ?a c) = Inr (word_of_nat (spec_form s), advance (?a + ?f) c)"
    "stands_before (advance (?a + ?f) c) ?m rest" by auto
  have nz: "(word_of_nat (spec_attr s) :: u64) \<noteq> 0" using ok by (metis less_irrefl unat_0 unat_of_u64)
  have eta: "\<lparr>spec_attr = spec_attr s, spec_form = spec_form s\<rparr> = s" by simp
  have "parse_attr_specs c acc = parse_attr_specs (advance (?a + ?f) c) (acc @ [s])"
    using nz ok by (subst parse_attr_specs.simps) (simp add: 1 2 unat_of_u64 eta)
  also have "\<dots> = Inr (acc @ [s] @ specs, advance (?a + ?f + (length (concat (map encode_spec specs)) + 2)) c)"
    using Cons.IH [OF _ 2(2)] Cons.prems(1) by simp
  finally show ?case by (simp add: encode_spec_def [of s] add.assoc)
qed

lemma parse_abbrev_one:
  assumes "abbrev_ok ab" "stands_before c (encode_abbrev ab @ later) rest"
  obtains c1 c2 c3 h where "uleb128 c = Inr (ab_code ab, c1)"
    "uleb128 c1 = Inr (word_of_nat (ab_tag ab), c2)"
    "u8 c2 = Inr (h, c3)" "h \<noteq> 0 \<longleftrightarrow> ab_has_children ab"
    "parse_attr_specs c3 [] = Inr (ab_attr_specs ab, advance (length (encode_abbrev ab)) c)"
    "stands_before (advance (length (encode_abbrev ab)) c) later rest"
proof -
  let ?h = "if ab_has_children ab then 1 else 0 :: byte"
  let ?S = "concat (map encode_spec (ab_attr_specs ab))"
  let ?m = "?S @ [0, 0] @ later"
  let ?k = "length (uleb128_encode (unat (ab_code ab)))" and ?t = "length (uleb128_encode (ab_tag ab))"
  have tag: "ab_tag ab < 2 ^ 64" "list_all spec_ok (ab_attr_specs ab)"
    using assms(1) by (auto simp: abbrev_ok_def)
  have code: "unat (ab_code ab) < 2 ^ 64" using unsigned_less [of "ab_code ab"] by simp
  have "stands_before c (uleb128_encode (unat (ab_code ab)) @ uleb128_encode (ab_tag ab) @ [?h] @ ?m) rest"
    using assms(2) by (simp add: encode_abbrev_def)
  from uleb_code.decodes_then [OF code this]
  have 1: "uleb128 c = Inr (ab_code ab, advance ?k c)"
    "stands_before (advance ?k c) (uleb128_encode (ab_tag ab) @ [?h] @ ?m) rest" by auto
  from uleb_code.decodes_then [OF tag(1) 1(2)]
  have 2: "uleb128 (advance ?k c) = Inr (word_of_nat (ab_tag ab), advance (?k + ?t) c)"
    "stands_before (advance (?k + ?t) c) (?h # ?m) rest" by auto
  from u8_next [OF 2(2)]
  have 3: "u8 (advance (?k + ?t) c) = Inr (?h, advance (?k + ?t + 1) c)"
    "stands_before (advance (?k + ?t + 1) c) ?m rest" by auto
  have len: "length (encode_abbrev ab) = ?k + ?t + 1 + (length ?S + 2)" by (simp add: encode_abbrev_def)
  have 4: "parse_attr_specs (advance (?k + ?t + 1) c) [] =
      Inr (ab_attr_specs ab, advance (length (encode_abbrev ab)) c)"
    using parse_attr_specs_encoded [OF tag(2) 3(2), of "[]"] by (simp add: len)
  have "stands_before (advance (length (encode_abbrev ab)) c) later rest"
    using assms(2) stands_before_advance by blast
  with 1 2 3 4 that [of "advance ?k c" "advance (?k + ?t) c" ?h] show thesis by simp
qed

lemma parse_abbrev_loop_encoded:
  assumes "list_all abbrev_ok abbrs" "list_all (\<lambda>ab. ab_code ab \<noteq> 0) abbrs"
    and "abbrev_ok z" "ab_code z = 0"
    and "stands_before c (concat (map encode_abbrev abbrs) @ encode_abbrev z) rest"
  shows "parse_abbrev_loop c table = Inr (fold (\<lambda>ab. emplace (ab_code ab) ab) abbrs table)"
  using assms
proof (induction abbrs arbitrary: c table)
  case Nil
  then have "stands_before c (encode_abbrev z @ []) rest" by simp
  from parse_abbrev_one [OF Nil.prems(3) this] obtain c1 c2 c3 h where
    "uleb128 c = Inr (ab_code z, c1)" "uleb128 c1 = Inr (word_of_nat (ab_tag z), c2)"
    "u8 c2 = Inr (h, c3)" "parse_attr_specs c3 [] = Inr (ab_attr_specs z, advance (length (encode_abbrev z)) c)"
    by metis
  then show ?case using Nil.prems(4) by (subst parse_abbrev_loop.simps) simp
next
  case (Cons ab abbrs)
  have ok: "abbrev_ok ab" "ab_code ab \<noteq> 0" using Cons.prems(1,2) by auto
  have "stands_before c (encode_abbrev ab @ concat (map encode_abbrev abbrs) @ encode_abbrev z) rest"
    using Cons.prems(5) by simp
  from parse_abbrev_one [OF ok(1) this] obtain c1 c2 c3 h where p:
    "uleb128 c = Inr (ab_code ab, c1)" "uleb128 c1 = Inr (word_of_nat (ab_tag ab), c2)"
    "u8 c2 = Inr (h, c3)" "h \<noteq> 0 \<longleftrightarrow> ab_has_children ab"
    "parse_attr_specs c3 [] = Inr (ab_attr_specs ab, advance (length (encode_abbrev ab)) c)"
    "stands_before (advance (length (encode_abbrev ab)) c) (concat (map encode_abbrev abbrs) @ encode_abbrev z) rest"
    by metis
  have "ab_tag ab < 2 ^ 64" using ok(1) by (simp add: abbrev_ok_def)
  then have "\<lparr>ab_code = ab_code ab, ab_tag = unat (word_of_nat (ab_tag ab) :: u64), ab_has_children = h \<noteq> 0,
      ab_attr_specs = ab_attr_specs ab\<rparr> = ab"
    using p(4) by (simp add: unat_of_u64)
  then have "parse_abbrev_loop c table =
      parse_abbrev_loop (advance (length (encode_abbrev ab)) c) (emplace (ab_code ab) ab table)"
    using ok(2) p by (subst parse_abbrev_loop.simps) simp
  also have "\<dots> = Inr (fold (\<lambda>ab. emplace (ab_code ab) ab) abbrs (emplace (ab_code ab) ab table))"
    using Cons.prems p(6) by (intro Cons.IH) auto
  finally show ?case by simp
qed

lemma fold_emplace_distinct:
  assumes "distinct (map ab_code abbrs)" "\<forall>ab \<in> set abbrs. map_of table (ab_code ab) = None"
  shows "fold (\<lambda>ab. emplace (ab_code ab) ab) abbrs table = table @ map (\<lambda>ab. (ab_code ab, ab)) abbrs"
  using assms
proof (induction abbrs arbitrary: table)
  case (Cons ab abbrs)
  have "emplace (ab_code ab) ab table = table @ [(ab_code ab, ab)]"
    using Cons.prems by (simp add: emplace_def)
  moreover have "\<forall>x \<in> set abbrs. map_of (table @ [(ab_code ab, ab)]) (ab_code x) = None"
    using Cons.prems by (auto simp: map_of_snoc image_iff simp del: map_of_append)
  ultimately show ?case using Cons by simp
qed simp

lemma get_abbrev_table_cached:
  assumes "\<And>o' t. map_of tables o' = Some t \<Longrightarrow> parse_abbrev_table obj o' = Inr t"
  shows "map_sum id fst (get_abbrev_table obj tables off) = parse_abbrev_table obj off"
    and "get_abbrev_table obj tables off = Inr (t, tables') \<Longrightarrow>
      map_of tables' o' = Some t' \<Longrightarrow> parse_abbrev_table obj o' = Inr t'"
  using assms
  by (auto simp: get_abbrev_table_def Let_def map_at_def emplace_lookup result_simps
      split: option.splits if_splits sum.splits; cases "parse_abbrev_table obj off"; auto simp: emplace_lookup)+

text \<open>
  The standard ends a table with a single zero byte. Where that byte is the last one mapped, the
  extra tag the loop reads after the null code lies outside the image.
\<close>

lemma abbrev_terminator_overread:
  assumes "stands_before c [0] []"
  shows "parse_abbrev_loop c table = Inl (Undefined ''read outside the mapped image'')"
proof -
  have "stands_before c (uleb128_encode 0 @ []) []" using assms by (simp add: uleb128_encode_0)
  from uleb_code.decodes_then [OF _ this]
  have u: "uleb128 c = Inr (0, advance 1 c)" "stands_before (advance 1 c) [] []"
    by (simp_all add: uleb128_encode_0)
  have "length (cur_img c) \<le> nat (cur_pos c + 1)"
    using u(2) by (simp add: stands_before_def unread_def)
  then have "u8 (advance 1 c) = Inl (Undefined ''read outside the mapped image'')"
    using u(2) by (auto simp: u8_def fixed_int_def read_bytes_def stands_before_def)
  then have "uleb128 (advance 1 c) = Inl (Undefined ''read outside the mapped image'')"
    unfolding uleb128_def by (subst leb128_loop.simps) simp
  then show ?thesis by (subst parse_abbrev_loop.simps) (simp add: u)
qed

section \<open>The layout of an entry\<close>

definition chunk_offsets :: "byte list list \<Rightarrow> nat list" where
  "chunk_offsets chunks = map (\<lambda>i. length (concat (take i chunks))) [0..<length chunks]"

lemma chunk_offsets_Cons:
  "chunk_offsets (bs # chunks) = 0 # map ((+) (length bs)) (chunk_offsets chunks)"
proof -
  have "[0..<length (bs # chunks)] = 0 # map Suc [0..<length chunks]"
    by (simp add: map_Suc_upt upt_conv_Cons del: upt_Suc)
  then show ?thesis by (simp add: chunk_offsets_def del: upt_Suc)
qed

lemma skip_attrs_encoded:
  assumes "list_all2 (\<lambda>s bs. form_encoding (spec_form s) bs) specs chunks"
    and "stands_before c (concat chunks) rest"
    and "cur_pos c + int (length (concat chunks)) \<le> cur_end c" "cur_end c \<le> int (length (cur_img c))"
  shows "skip_attrs specs c locs =
    Inr (locs @ map (\<lambda>n. cur_pos c + int n) (chunk_offsets chunks), advance (length (concat chunks)) c)"
  using assms
proof (induction specs chunks arbitrary: c locs rule: list_all2_induct)
  case Nil
  then show ?case by (simp add: chunk_offsets_def)
next
  case (Cons s specs bs chunks)
  have "skip_form (spec_form s) c = Inr (advance (length bs) c)"
    using Cons.prems by (intro skip_form_encoded [OF Cons.hyps(1), where rest = "concat chunks @ rest"])
      (auto simp: stands_before_assoc)
  moreover have "stands_before (advance (length bs) c) (concat chunks) rest"
    using Cons.prems(1) stands_before_advance by simp
  then have "skip_attrs specs (advance (length bs) c) (locs @ [cur_pos c]) =
      Inr ((locs @ [cur_pos c]) @ map (\<lambda>n. cur_pos (advance (length bs) c) + int n) (chunk_offsets chunks),
        advance (length (concat chunks)) (advance (length bs) c))"
    using Cons.prems by (intro Cons.IH) auto
  ultimately show ?case by (simp add: chunk_offsets_Cons comp_def add.assoc)
qed

lemma find_attr_nth:
  assumes "i < length specs" "length locs = length specs"
    and "\<forall>j < i. spec_attr (specs ! j) \<noteq> spec_attr (specs ! i)"
  shows "find_attr cu specs locs (spec_attr (specs ! i)) =
    Inr \<lparr>at_cu = cu, at_type = spec_attr (specs ! i), at_form = spec_form (specs ! i), at_location = locs ! i\<rparr>"
  using assms
proof (induction specs arbitrary: locs i)
  case (Cons s specs)
  obtain l locs' where l: "locs = l # locs'" using Cons.prems(2) by (cases locs) auto
  show ?case
  proof (cases i)
    case 0
    then show ?thesis using l by simp
  next
    case (Suc k)
    have "spec_attr s \<noteq> spec_attr (specs ! k)" using Cons.prems(3) Suc by fastforce
    moreover have "\<forall>j < k. spec_attr (specs ! j) \<noteq> spec_attr (specs ! k)"
      using Cons.prems(3) Suc by fastforce
    ultimately show ?thesis using Cons.IH [of k locs'] Cons.prems Suc l by simp
  qed
qed simp

lemma parse_die_encoded:
  assumes "cu_abbrev_table cu = Inr table" "map_of table code = Some ab" "code \<noteq> 0"
    and "list_all2 (\<lambda>s bs. form_encoding (spec_form s) bs) (ab_attr_specs ab) chunks"
    and "stands_before (cu_cursor cu pos) (uleb128_encode (unat code) @ concat chunks) rest"
    and "pos + int (length (uleb128_encode (unat code) @ concat chunks)) \<le> cu_end cu"
    and "cu_end cu \<le> int (length (elf_map (cu_elf cu)))"
  shows "parse_die cu pos = Inr
    \<lparr>die_pos = pos, die_cu = cu, die_abbrev = Some ab,
     die_next = pos + int (length (uleb128_encode (unat code) @ concat chunks)),
     die_attr_locs = map (\<lambda>n. pos + int (length (uleb128_encode (unat code)) + n)) (chunk_offsets chunks)\<rparr>"
proof -
  let ?k = "length (uleb128_encode (unat code))" and ?c = "cu_cursor cu pos"
  have "unat code < 2 ^ 64" using unsigned_less [of code] by simp
  from uleb_code.decodes_then [OF this assms(5)]
  have u: "uleb128 ?c = Inr (code, advance ?k ?c)" "stands_before (advance ?k ?c) (concat chunks) rest"
    by auto
  have "skip_attrs (ab_attr_specs ab) (advance ?k ?c) [] =
      Inr ([] @ map (\<lambda>n. cur_pos (advance ?k ?c) + int n) (chunk_offsets chunks),
        advance (length (concat chunks)) (advance ?k ?c))"
    using assms(6,7) by (intro skip_attrs_encoded [OF assms(4) u(2)]) (auto simp: cu_cursor_def cursor_over_def)
  then show ?thesis
    using assms(1-3) u(1)
    by (simp add: parse_die_def map_at_def cu_cursor_def cursor_over_def add.assoc)
qed

section \<open>Reading back a range list\<close>

definition encode_range :: "u64 \<times> u64 \<Rightarrow> byte list" where
  "encode_range r = as_bytes (fst r) @ as_bytes (snd r)"

definition range_ok :: "u64 \<times> u64 \<Rightarrow> bool" where
  "range_ok r \<longleftrightarrow> fst r \<noteq> NOT 0 \<and> r \<noteq> (0, 0)"

lemma range_next_encoded:
  assumes "stands_before c (encode_range r @ later) rest" "fst r \<noteq> NOT 0"
  shows "range_next c no base =
      (if r = (0, 0) then Inr None
       else Inr (Some (\<lparr>re_low = mk_file_addr no (fst r + fa_addr base),
                        re_high = mk_file_addr no (snd r + fa_addr base)\<rparr>, advance 16 c, base)))"
    and "stands_before (advance 16 c) later rest"
proof -
  have "stands_before c (as_bytes (fst r) @ as_bytes (snd r) @ later) rest"
    using assms(1) by (simp add: encode_range_def)
  from u64_code.decodes_then [OF _ this]
  have 1: "u64 c = Inr (fst r, advance 8 c)" "stands_before (advance 8 c) (as_bytes (snd r) @ later) rest"
    by auto
  from u64_code.decodes_then [OF _ 1(2)]
  have 2: "u64 (advance 8 c) = Inr (snd r, advance 16 c)" "stands_before (advance 16 c) later rest" by auto
  show "range_next c no base =
      (if r = (0, 0) then Inr None
       else Inr (Some (\<lparr>re_low = mk_file_addr no (fst r + fa_addr base),
                        re_high = mk_file_addr no (snd r + fa_addr base)\<rparr>, advance 16 c, base)))"
    using assms(2) by (subst range_next.simps)
      (auto simp: 1 2 file_addr_add_def mk_file_addr_def prod_eq_iff)
  show "stands_before (advance 16 c) later rest" by (rule 2(2))
qed

lemma range_contains_encoded:
  assumes "list_all range_ok rs" "stands_before c (concat (map encode_range rs) @ encode_range (0, 0)) rest"
  shows "range_contains_from c no base (mk_file_addr no a) =
    Inr (\<exists>r \<in> set rs. fst r + fa_addr base \<le> a \<and> a < snd r + fa_addr base)"
  using assms
proof (induction rs arbitrary: c)
  case Nil
  then have "stands_before c (encode_range (0, 0) @ []) rest" by simp
  from range_next_encoded(1) [OF this, of no base] show ?case
    by (subst range_contains_from.simps) simp
next
  case (Cons r rs)
  have ok: "fst r \<noteq> NOT 0" "r \<noteq> (0, 0)" using Cons.prems(1) by (auto simp: range_ok_def)
  have "stands_before c (encode_range r @ concat (map encode_range rs) @ encode_range (0, 0)) rest"
    using Cons.prems(2) by simp
  note n = range_next_encoded [OF this ok(1)]
  have "range_contains_from (advance 16 c) no base (mk_file_addr no a) =
      Inr (\<exists>r \<in> set rs. fst r + fa_addr base \<le> a \<and> a < snd r + fa_addr base)"
    using Cons.prems(1) n(2) by (intro Cons.IH) auto
  then show ?case
    using ok by (subst range_contains_from.simps) (auto simp: n(1) range_entry_contains_def)
qed

section \<open>A small object with debugging information\<close>

definition sample_abbrevs :: "abbrev list" where
  "sample_abbrevs =
    [\<lparr>ab_code = 1, ab_tag = DW_TAG_subprogram, ab_has_children = False,
      ab_attr_specs = [\<lparr>spec_attr = DW_AT_name, spec_form = DW_FORM_string\<rparr>,
                       \<lparr>spec_attr = DW_AT_low_pc, spec_form = DW_FORM_addr\<rparr>,
                       \<lparr>spec_attr = DW_AT_high_pc, spec_form = DW_FORM_data4\<rparr>]\<rparr>]"

definition null_abbrev :: abbrev where
  "null_abbrev = \<lparr>ab_code = 0, ab_tag = 0, ab_has_children = False, ab_attr_specs = []\<rparr>"

definition sample_abbrev_bytes :: "byte list" where
  "sample_abbrev_bytes = concat (map encode_abbrev sample_abbrevs) @ encode_abbrev null_abbrev"

definition sample_chunks :: "byte list list" where
  "sample_chunks = [[97, 46, 99, 0], as_bytes (0x1000 :: u64), as_bytes (0x20 :: u32)]"

definition sample_dwarf_elf :: elf where
  "sample_dwarf_elf =
    \<lparr>elf_no = 0, elf_path = ''a'', elf_map = sample_abbrev_bytes @ [1] @ concat sample_chunks,
     elf_header = \<lparr>e_entry = 0, e_shoff = 0, e_shentsize = 64, e_shnum = 1, e_shstrndx = 0\<rparr>,
     section_headers = [],
     section_map = [''.debug_abbrev'' \<mapsto>
       \<lparr>sh_name = 0, sh_addr = 0, sh_offset = 0, sh_size = 16, sh_entsize = 0\<rparr>],
     load_bias = 0, symbol_table = [], symbol_name_map = [], symbol_addr_map = []\<rparr>"

definition sample_cu :: compile_unit where
  "sample_cu = \<lparr>cu_elf = sample_dwarf_elf, cu_begin = 5, cu_end = 33, cu_abbrev_offset = 0, cu_lines = None\<rparr>"

lemma sample_abbrev_length: "length sample_abbrev_bytes = 16"
  by code_simp

lemma sample_cu_table: "cu_abbrev_table sample_cu = Inr (map (\<lambda>ab. (ab_code ab, ab)) sample_abbrevs)"
proof -
  let ?c = "cursor_over (elf_map sample_dwarf_elf) 0 16"
  have "stands_before ?c (concat (map encode_abbrev sample_abbrevs) @ encode_abbrev null_abbrev)
      ([1] @ concat sample_chunks)"
    by (simp add: stands_before_def cursor_over_def unread_def sample_dwarf_elf_def sample_abbrev_bytes_def)
  then have "parse_abbrev_loop ?c [] = Inr (fold (\<lambda>ab. emplace (ab_code ab) ab) sample_abbrevs [])"
    by (intro parse_abbrev_loop_encoded [where z = null_abbrev])
      (simp_all add: sample_abbrevs_def null_abbrev_def abbrev_ok_def spec_ok_def)
  then show ?thesis
    by (simp add: cu_abbrev_table_def sample_cu_def parse_abbrev_table_def get_section_contents_def
        get_section_def sample_dwarf_elf_def cursor_add_def cursor_over_def fold_emplace_distinct
        sample_abbrevs_def emplace_def)
qed

section \<open>Properties\<close>



text \<open>
  Parsing an entry: where the image holds an abbreviation code and, for each attribute of the
  abbreviation in order, an encoding of a value of its form, \<open>parse_die\<close> returns an entry with
  that abbreviation whose next entry starts behind the last value, and asking the entry for its
  \<open>i\<close>-th attribute (if no earlier one has the same name) gives the location where its value starts.
\<close>

lemma parse_die_layout:
  assumes "cu_abbrev_table cu = Inr table" "map_of table code = Some ab" "code \<noteq> 0"
    and "list_all2 (\<lambda>s bs. form_encoding (spec_form s) bs) (ab_attr_specs ab) chunks"
    and "0 \<le> pos" "drop (nat pos) (elf_map (cu_elf cu)) = uleb128_encode (unat code) @ concat chunks @ rest"
    and "pos + int (length (uleb128_encode (unat code) @ concat chunks)) \<le> cu_end cu"
    and "cu_end cu \<le> int (length (elf_map (cu_elf cu)))"
  shows "\<exists>d. parse_die cu pos = Inr d \<and> die_abbrev d = Some ab \<and>
    die_next d = pos + int (length (uleb128_encode (unat code) @ concat chunks)) \<and>
    (\<forall>i < length chunks. (\<forall>j < i. spec_attr (ab_attr_specs ab ! j) \<noteq> spec_attr (ab_attr_specs ab ! i)) \<longrightarrow>
      die_attr d (spec_attr (ab_attr_specs ab ! i)) =
        Inr \<lparr>at_cu = cu, at_type = spec_attr (ab_attr_specs ab ! i),
             at_form = spec_form (ab_attr_specs ab ! i),
             at_location = pos + int (length (uleb128_encode (unat code) @ concat (take i chunks)))\<rparr>)"
proof -
  have st: "stands_before (cu_cursor cu pos) (uleb128_encode (unat code) @ concat chunks) rest"
    using assms(5,6) by (simp add: stands_before_def cu_cursor_def cursor_over_def unread_def)
  note p = parse_die_encoded [OF assms(1-4) st assms(7,8)]
  have len: "length chunks = length (ab_attr_specs ab)" using assms(4) by (simp add: list_all2_lengthD)
  show ?thesis
    unfolding p by (auto simp: die_attr_def die_abbrev_entry_def len find_attr_nth chunk_offsets_def)
qed

lemma sample_form_encodings:
  "list_all2 (\<lambda>s bs. form_encoding (spec_form s) bs) (ab_attr_specs (hd sample_abbrevs)) sample_chunks"
  using fe_string [of "[97, 46, 99]"]
  by (simp add: sample_abbrevs_def sample_chunks_def fe_4 fe_8)

lemma parse_die_layout_witness:
  "\<exists>d. parse_die sample_cu 16 = Inr d \<and> die_abbrev d = Some (hd sample_abbrevs) \<and> die_next d = 33 \<and>
     bindE (die_attr d DW_AT_high_pc) as_int = Inr 0x20"
proof -
  let ?ab = "hd sample_abbrevs"
  have enc: "uleb128_encode (unat (1 :: u64)) = [1]" "uleb128_encode (Suc 0) = [1]"
    by (simp_all add: uleb128_encode.simps)
  have lens: "length (concat sample_chunks) = 16" by (simp add: sample_chunks_def)
  have "\<exists>d. parse_die sample_cu 16 = Inr d \<and> die_abbrev d = Some ?ab \<and>
    die_next d = 16 + int (length (uleb128_encode (unat (1 :: u64)) @ concat sample_chunks)) \<and>
    (\<forall>i < length sample_chunks. (\<forall>j < i. spec_attr (ab_attr_specs ?ab ! j) \<noteq> spec_attr (ab_attr_specs ?ab ! i)) \<longrightarrow>
      die_attr d (spec_attr (ab_attr_specs ?ab ! i)) =
        Inr \<lparr>at_cu = sample_cu, at_type = spec_attr (ab_attr_specs ?ab ! i),
             at_form = spec_form (ab_attr_specs ?ab ! i),
             at_location = 16 + int (length (uleb128_encode (unat (1 :: u64)) @ concat (take i sample_chunks)))\<rparr>)"
  proof (rule parse_die_layout [OF sample_cu_table _ _ sample_form_encodings, where rest = "[]"])
    show "map_of (map (\<lambda>ab. (ab_code ab, ab)) sample_abbrevs) 1 = Some ?ab"
      by (simp add: sample_abbrevs_def)
    show "drop (nat 16) (elf_map (cu_elf sample_cu)) =
        uleb128_encode (unat (1 :: u64)) @ concat sample_chunks @ []"
      by (simp add: enc sample_cu_def sample_dwarf_elf_def sample_abbrev_length)
    show "16 + int (length (uleb128_encode (unat (1 :: u64)) @ concat sample_chunks)) \<le> cu_end sample_cu"
      "cu_end sample_cu \<le> int (length (elf_map (cu_elf sample_cu)))"
      by (simp_all add: enc lens sample_cu_def sample_dwarf_elf_def sample_abbrev_length)
  qed simp_all
  then obtain d where d: "parse_die sample_cu 16 = Inr d" "die_abbrev d = Some ?ab" "die_next d = 33"
    "\<And>i. i < length sample_chunks \<Longrightarrow> (\<forall>j < i. spec_attr (ab_attr_specs ?ab ! j) \<noteq> spec_attr (ab_attr_specs ?ab ! i)) \<Longrightarrow>
      die_attr d (spec_attr (ab_attr_specs ?ab ! i)) =
        Inr \<lparr>at_cu = sample_cu, at_type = spec_attr (ab_attr_specs ?ab ! i),
             at_form = spec_form (ab_attr_specs ?ab ! i),
             at_location = 16 + int (length (uleb128_encode (unat (1 :: u64)) @ concat (take i sample_chunks)))\<rparr>"
    by (auto simp: enc lens)
  have loc: "die_attr d DW_AT_high_pc = Inr \<lparr>at_cu = sample_cu, at_type = DW_AT_high_pc,
      at_form = DW_FORM_data4, at_location = 29\<rparr>"
    using d(4) [of 2] by (simp add: sample_abbrevs_def sample_chunks_def enc less_Suc_eq numeral_2_eq_2)
  have "stands_before (cu_cursor sample_cu 29) (as_bytes (0x20 :: u32)) []"
    by (simp add: stands_before_def cu_cursor_def cursor_over_def unread_def sample_cu_def
        sample_dwarf_elf_def sample_abbrev_length sample_chunks_def drop_Cons')
  from u32_code.decodes [OF _ this] loc have "bindE (die_attr d DW_AT_high_pc) as_int = Inr 0x20"
    by (simp add: as_int_def at_cursor_def)
  with d show ?thesis by blast
qed


definition sample_ranges :: range_list where
  "sample_ranges =
    \<lparr>rl_cu = sample_cu\<lparr>cu_elf := sample_dwarf_elf\<lparr>elf_map :=
       encode_range (0x10, 0x20) @ encode_range (0x40, 0x48) @ encode_range (0, 0)\<rparr>\<rparr>,
     rl_begin = 0, rl_end = 48, rl_base = mk_file_addr 0 0x1000\<rparr>"


end
