(* ===== verification/Line_Table.thy ===== *)
theory Line_Table
  imports Dwarf_Die
begin

text \<open>
  \<open>src/dwarf.cpp\<close>, the line table of a compile unit: parsing the program header, the abstract
  machine that executes the line number program, iteration over the rows, and the lookups by
  address and by source line. The iterator keeps the list of file names, which
  \<open>DW_LNE_define_file\<close> extends in the table itself.
\<close>

section \<open>Paths\<close>

text \<open>\<open>operator/\<close> of \<open>std::filesystem::path\<close> and the elements a path iterates over.\<close>

definition is_absolute :: "string \<Rightarrow> bool" where
  "is_absolute p \<longleftrightarrow> p \<noteq> [] \<and> hd p = CHR ''/''"

definition path_append :: "string \<Rightarrow> string \<Rightarrow> string" where
  "path_append l r =
    (if is_absolute r then r
     else if l = [] \<or> last l = CHR ''/'' then l @ r
     else l @ ''/'' @ r)"

fun split_slash :: "string \<Rightarrow> string \<Rightarrow> string list" where
  "split_slash acc [] = [rev acc]"
| "split_slash acc (c # cs) =
    (if c = CHR ''/'' then rev acc # split_slash [] cs else split_slash (c # acc) cs)"

text \<open>A root directory is an element of its own; repeated slashes separate once, a final one adds an empty element.\<close>

definition path_elements :: "string \<Rightarrow> string list" where
  "path_elements p =
    (let parts = split_slash [] p; names = filter (\<lambda>x. x \<noteq> []) parts
     in (if is_absolute p then [''/''] else []) @ names @
        (if p \<noteq> [] \<and> names \<noteq> [] \<and> last p = CHR ''/'' then [[]] else []))"

definition path_ends_in :: "string \<Rightarrow> string \<Rightarrow> bool" where
  "path_ends_in lhs rhs =
    (let l = path_elements lhs; r = path_elements rhs
     in if length r > length l then False else drop (length l - length r) l = r)"

section \<open>The header\<close>

definition parse_line_table_file ::
  "cursor \<Rightarrow> string \<Rightarrow> string list \<Rightarrow> (line_file \<times> cursor) result" where
  "parse_line_table_file cur compilation_dir include_dirs =
    bindE (cursor_string cur) (\<lambda>(file, c1).
    bindE (uleb128 c1) (\<lambda>(dir_index, c2).
    bindE (uleb128 c2) (\<lambda>(modification_time, c3).
    bindE (uleb128 c3) (\<lambda>(file_length, c4).
    bindE (if file = [] then Inl (Undefined ''file[0] of an empty name'')
           else if hd file \<noteq> CHR ''/'' then
             (if dir_index = 0 then Inr (path_append compilation_dir file)
              else if unat dir_index - 1 < length include_dirs
              then Inr (path_append (include_dirs ! (unat dir_index - 1)) file)
              else Inl (Undefined ''include directory out of range''))
           else Inr file) (\<lambda>path.
      Inr (\<lparr>lf_path = path, lf_mod_time = modification_time, lf_file_len = file_length\<rparr>, c4))))))"

interpretation line_file_reader: consuming_reader "\<lambda>c. parse_line_table_file c dir dirs"
proof
  fix c v c'
  assume "parse_line_table_file c dir dirs = Inr (v, c')"
  then obtain f c1 d c2 m c3 l where r: "cursor_string c = Inr (f, c1)" "uleb128 c1 = Inr (d, c2)"
    "uleb128 c2 = Inr (m, c3)" "uleb128 c3 = Inr (l, c')"
    by (auto simp: parse_line_table_file_def result_simps)
  note frames = string_reader.reader_frame [OF r(1)] uleb_reader.reader_frame [OF r(2)]
    uleb_reader.reader_frame [OF r(3)] uleb_reader.reader_frame [OF r(4)]
  note progress = string_reader.reader_progress [OF r(1)] uleb_reader.reader_progress [OF r(2)]
    uleb_reader.reader_progress [OF r(3)] uleb_reader.reader_progress [OF r(4)]
  show "cur_img c' = cur_img c \<and> cur_end c' = cur_end c" using frames by simp
  show "0 \<le> cur_pos c \<and> cur_pos c \<le> int (length (cur_img c)) \<and> cur_pos c < cur_pos c'"
    using progress by linarith
qed

function parse_include_dirs :: "cursor \<Rightarrow> string \<Rightarrow> string list \<Rightarrow> (string list \<times> cursor) result" where
  "parse_include_dirs cur compilation_dir dirs =
    bindE (cursor_string cur) (\<lambda>(dir, c1).
      if dir = [] then Inr (dirs, c1)
      else parse_include_dirs c1 compilation_dir
        (dirs @ [if hd dir = CHR ''/'' then dir else path_append compilation_dir dir]))"
  by pat_completeness auto
termination
  by (relation "measure (\<lambda>(c, _, _). remaining c)") (auto dest: string_reader.remaining_decreases)

declare parse_include_dirs.simps [simp del]

text \<open>\<open>*cur.position() != 0\<close>: the next byte, without moving.\<close>

definition peek_byte :: "cursor \<Rightarrow> byte result" where
  "peek_byte cur = bindE (u8 cur) (\<lambda>(b, _). Inr b)"

function parse_file_names ::
  "cursor \<Rightarrow> string \<Rightarrow> string list \<Rightarrow> line_file list \<Rightarrow> (line_file list \<times> cursor) result" where
  "parse_file_names cur compilation_dir dirs files =
    bindE (peek_byte cur) (\<lambda>b.
      if b \<noteq> 0 then
        bindE (parse_line_table_file cur compilation_dir dirs) (\<lambda>(f, c1).
          parse_file_names c1 compilation_dir dirs (files @ [f]))
      else Inr (files, cur))"
  by pat_completeness auto
termination
  by (relation "measure (\<lambda>(c, _, _, _). remaining c)") (auto dest: line_file_reader.remaining_decreases)

declare parse_file_names.simps [simp del]

definition expected_opcode_lens :: "byte list" where
  "expected_opcode_lens = [0, 1, 1, 1, 1, 0, 0, 0, 1, 0, 0, 1]"

fun check_opcode_lens :: "nat \<Rightarrow> nat \<Rightarrow> cursor \<Rightarrow> cursor result" where
  "check_opcode_lens i 0 cur = Inr cur"
| "check_opcode_lens i (Suc n) cur =
    bindE (u8 cur) (\<lambda>(b, c1).
      if i \<ge> length expected_opcode_lens then Inl (Undefined ''expected_opcode_lens out of range'')
      else if b \<noteq> expected_opcode_lens ! i then Inl (Send ''Unexpected opcode length!'')
      else check_opcode_lens (Suc i) n c1)"

definition parse_line_table :: "compile_unit \<Rightarrow> line_table option result" where
  "parse_line_table cu =
    bindE (cu_root cu) (\<lambda>root.
    bindE (die_contains root DW_AT_stmt_list) (\<lambda>has_lines.
    if \<not> has_lines then Inr None
    else
    bindE (bindE (die_attr root DW_AT_stmt_list) as_section_offset) (\<lambda>off.
    let (b, e) = get_section_contents (cu_elf cu) ''.debug_line'';
        cur = cursor_over (elf_map (cu_elf cu)) (b + int (unat off)) e
    in
    bindE (u32 cur) (\<lambda>(size, c1).
    let end_pos = cur_pos c1 + int (unat size) in
    bindE (u16 c1) (\<lambda>(version, c2).
    if version \<noteq> 4 then Inl (Send ''Only DWARF 4 is supported!'')
    else
    bindE (u32 c2) (\<lambda>(_, c3).
    bindE (u8 c3) (\<lambda>(min_instruction_len, c4).
    if min_instruction_len \<noteq> 1 then Inl (Send ''Invalid minimum instruction length!'')
    else
    bindE (u8 c4) (\<lambda>(max_ops_per_instruction, c5).
    if max_ops_per_instruction \<noteq> 1 then Inl (Send ''Invalid max operations per instruction!'')
    else
    bindE (u8 c5) (\<lambda>(default_is_stmt, c6).
    bindE (s8 c6) (\<lambda>(line_base, c7).
    bindE (u8 c7) (\<lambda>(line_range, c8).
    bindE (u8 c8) (\<lambda>(opcode_base, c9).
    bindE (check_opcode_lens 0 (unat opcode_base - 1) c9) (\<lambda>c10.
    bindE (bindE (die_attr root DW_AT_comp_dir) as_string) (\<lambda>compilation_dir.
    bindE (parse_include_dirs c10 compilation_dir []) (\<lambda>(include_dirs, c11).
    bindE (parse_file_names c11 compilation_dir include_dirs []) (\<lambda>(file_names, c12).
      Inr (Some \<lparr>lt_begin = cur_pos c12 + 1, lt_end = end_pos,
                 lt_default_is_stmt = default_is_stmt \<noteq> 0, lt_line_base = line_base,
                 lt_line_range = line_range, lt_opcode_base = opcode_base,
                 lt_include_dirs = include_dirs, lt_file_names = file_names\<rparr>)))))))))))))))))"

section \<open>The line number program\<close>

record line_entry =
  le_address :: file_addr
  le_file_index :: u64
  le_line :: u64
  le_column :: u64
  le_is_stmt :: bool
  le_basic_block_start :: bool
  le_end_sequence :: bool
  le_prologue_end :: bool
  le_epilogue_begin :: bool
  le_discriminator :: u64
  le_file_entry :: "line_file option"

definition initial_entry :: "bool \<Rightarrow> line_entry" where
  "initial_entry is_stmt =
    \<lparr>le_address = null_file_addr, le_file_index = 1, le_line = 1, le_column = 0, le_is_stmt = is_stmt,
     le_basic_block_start = False, le_end_sequence = False, le_prologue_end = False,
     le_epilogue_begin = False, le_discriminator = 0, le_file_entry = None\<rparr>"

definition line_entry_eq :: "line_entry \<Rightarrow> line_entry \<Rightarrow> bool" where
  "line_entry_eq l r \<longleftrightarrow>
    file_addr_eq (le_address l) (le_address r) \<and> le_file_index l = le_file_index r \<and>
    le_line l = le_line r \<and> le_column l = le_column r \<and> le_discriminator l = le_discriminator r"

text \<open>The iterator: a position (\<open>None\<close> is the null pointer of the end iterator), the current row and the machine's registers.\<close>

record line_iter =
  li_table :: line_table
  li_current :: line_entry
  li_registers :: line_entry
  li_pos :: "int option"

definition reset_row_flags :: "line_entry \<Rightarrow> line_entry" where
  "reset_row_flags r =
    r\<lparr>le_basic_block_start := False, le_prologue_end := False, le_epilogue_begin := False,
      le_discriminator := 0\<rparr>"

definition advance_address :: "u64 \<Rightarrow> line_entry \<Rightarrow> line_entry" where
  "advance_address n r = r\<lparr>le_address := file_addr_add (le_address r) n\<rparr>"

text \<open>
  The result of one instruction: the new iterator fields, the cursor behind the operands and
  whether a row was emitted.
\<close>

definition standard_opcode ::
  "byte \<Rightarrow> line_iter \<Rightarrow> cursor \<Rightarrow> (bool \<times> line_iter \<times> cursor) result" where
  "standard_opcode opcode it cur =
    (let r = li_registers it; t = li_table it; op = unat opcode;
         regs = (\<lambda>r' c. Inr (False, it\<lparr>li_registers := r'\<rparr>, c))
     in if op = DW_LNS_copy then
          Inr (True, it\<lparr>li_current := r, li_registers := reset_row_flags r\<rparr>, cur)
        else if op = DW_LNS_advance_pc then bindE (uleb128 cur) (\<lambda>(n, c). regs (advance_address n r) c)
        else if op = DW_LNS_advance_line then
          bindE (sleb128 cur) (\<lambda>(n, c). regs (r\<lparr>le_line := le_line r + n\<rparr>) c)
        else if op = DW_LNS_set_file then bindE (uleb128 cur) (\<lambda>(n, c). regs (r\<lparr>le_file_index := n\<rparr>) c)
        else if op = DW_LNS_set_column then bindE (uleb128 cur) (\<lambda>(n, c). regs (r\<lparr>le_column := n\<rparr>) c)
        else if op = DW_LNS_negate_stmt then regs (r\<lparr>le_is_stmt := \<not> le_is_stmt r\<rparr>) cur
        else if op = DW_LNS_set_basic_block then regs (r\<lparr>le_basic_block_start := True\<rparr>) cur
        else if op = DW_LNS_const_add_pc then
          (if lt_line_range t = 0 then Inl (Undefined ''division by zero'')
           else regs (advance_address
             (word_of_nat ((255 - unat (lt_opcode_base t)) div unat (lt_line_range t))) r) cur)
        else if op = DW_LNS_fixed_advance_pc then
          bindE (u16 cur) (\<lambda>(n, c). regs (advance_address (ucast n) r) c)
        else if op = DW_LNS_set_prologue_end then regs (r\<lparr>le_prologue_end := True\<rparr>) cur
        else if op = DW_LNS_set_epilogue_begin then regs (r\<lparr>le_epilogue_begin := True\<rparr>) cur
        else if op = DW_LNS_set_isa then regs r cur
        else Inl (Send ''Unexpected standard opcode!''))"

definition extended_opcode ::
  "compile_unit \<Rightarrow> line_iter \<Rightarrow> cursor \<Rightarrow> (bool \<times> line_iter \<times> cursor) result" where
  "extended_opcode cu it cur =
    bindE (uleb128 cur) (\<lambda>(_, c1).
    bindE (u8 c1) (\<lambda>(ext, c2).
      let r = li_registers it; t = li_table it; op = unat ext
      in if op = DW_LNE_end_sequence then
           Inr (True, it\<lparr>li_current := r\<lparr>le_end_sequence := True\<rparr>,
                         li_registers := initial_entry (lt_default_is_stmt t)\<rparr>, c2)
         else if op = DW_LNE_set_address then
           bindE (u64 c2) (\<lambda>(a, c3).
             Inr (False, it\<lparr>li_registers := r\<lparr>le_address := mk_file_addr (elf_no (cu_elf cu)) a\<rparr>\<rparr>, c3))
         else if op = DW_LNE_define_file then
           bindE (bindE (cu_root cu) (\<lambda>root. bindE (die_attr root DW_AT_comp_dir) as_string)) (\<lambda>dir.
           bindE (parse_line_table_file c2 dir (lt_include_dirs t)) (\<lambda>(f, c3).
             Inr (False, it\<lparr>li_table := t\<lparr>lt_file_names := lt_file_names t @ [f]\<rparr>\<rparr>, c3)))
         else if op = DW_LNE_set_discriminator then
           bindE (uleb128 c2) (\<lambda>(n, c3). Inr (False, it\<lparr>li_registers := r\<lparr>le_discriminator := n\<rparr>\<rparr>, c3))
         else Inl (Send ''Unexpected extended opcode!'')))"

definition special_opcode :: "byte \<Rightarrow> line_iter \<Rightarrow> cursor \<Rightarrow> (bool \<times> line_iter \<times> cursor) result" where
  "special_opcode opcode it cur =
    (let r = li_registers it; t = li_table it;
         adjusted = unat opcode - unat (lt_opcode_base t)
     in if lt_line_range t = 0 then Inl (Undefined ''division by zero'')
        else
          let r' = (advance_address (word_of_nat (adjusted div unat (lt_line_range t))) r)
                     \<lparr>le_line := le_line r + lt_line_base t
                        + word_of_nat (adjusted mod unat (lt_line_range t))\<rparr>
          in Inr (True, it\<lparr>li_current := r', li_registers := reset_row_flags r'\<rparr>, cur))"

definition execute_line_instruction ::
  "compile_unit \<Rightarrow> line_iter \<Rightarrow> (bool \<times> line_iter) result" where
  "execute_line_instruction cu it =
    (let t = li_table it;
         cur = cursor_over (elf_map (cu_elf cu))
                 (case li_pos it of Some p \<Rightarrow> p | None \<Rightarrow> null_pos) (lt_end t)
     in bindE (u8 cur) (\<lambda>(opcode, c1).
        bindE (if 0 < opcode \<and> opcode < lt_opcode_base t then standard_opcode opcode it c1
               else if opcode = 0 then extended_opcode cu it c1
               else special_opcode opcode it c1)
          (\<lambda>(emitted, it', c2). Inr (emitted, it'\<lparr>li_pos := Some (cur_pos c2)\<rparr>))))"

section \<open>Every instruction consumes input\<close>

lemma reader_chain:
  assumes "cur_pos c < cur_pos c'" "cur_pos c' \<le> cur_pos c''"
  shows "cur_pos c < cur_pos c''"
  using assms by simp

lemma standard_opcode_progress:
  "standard_opcode opcode it cur = Inr (e, it', c) \<Longrightarrow> cur_pos cur \<le> cur_pos c \<and> li_pos it' = li_pos it \<and>
     lt_end (li_table it') = lt_end (li_table it)"
  by (auto simp: standard_opcode_def Let_def result_simps split: if_splits
      dest!: uleb_reader.reader_progress sleb_reader.reader_progress u16_reader.reader_progress)

lemma extended_opcode_progress:
  "extended_opcode cu it cur = Inr (e, it', c) \<Longrightarrow> cur_pos cur \<le> cur_pos c \<and> li_pos it' = li_pos it \<and>
     lt_end (li_table it') = lt_end (li_table it)"
  by (auto simp: extended_opcode_def Let_def result_simps split: if_splits
      dest!: uleb_reader.reader_progress u8_reader.reader_progress u64_reader.reader_progress
        line_file_reader.reader_progress)

lemma special_opcode_progress:
  "special_opcode opcode it cur = Inr (e, it', c) \<Longrightarrow> cur_pos cur \<le> cur_pos c \<and> li_pos it' = li_pos it \<and>
     lt_end (li_table it') = lt_end (li_table it)"
  by (auto simp: special_opcode_def Let_def split: if_splits)

definition line_left :: "compile_unit \<Rightarrow> line_iter \<Rightarrow> nat" where
  "line_left cu it =
    (case li_pos it of None \<Rightarrow> 0 | Some p \<Rightarrow> Suc (nat (int (length (elf_map (cu_elf cu))) + 1 - p)))"

lemma execute_line_progress:
  assumes "execute_line_instruction cu it = Inr (e, it')"
  shows "line_left cu it' < line_left cu it \<and> li_pos it' \<noteq> None"
proof -
  let ?p = "case li_pos it of Some p \<Rightarrow> p | None \<Rightarrow> null_pos"
  let ?c = "cursor_over (elf_map (cu_elf cu)) ?p (lt_end (li_table it))"
  from assms obtain opcode c1 it1 c2 where u: "u8 ?c = Inr (opcode, c1)"
    and op: "(if 0 < opcode \<and> opcode < lt_opcode_base (li_table it) then standard_opcode opcode it c1
       else if opcode = 0 then extended_opcode cu it c1 else special_opcode opcode it c1) = Inr (e, it1, c2)"
    and it': "it' = it1\<lparr>li_pos := Some (cur_pos c2)\<rparr>"
    by (auto simp: execute_line_instruction_def Let_def result_simps)
  have p: "0 \<le> ?p" "?p \<le> int (length (elf_map (cu_elf cu)))" "?p < cur_pos c1"
    using u8_reader.reader_progress [OF u] by (simp_all add: cursor_over_def)
  have "cur_pos c1 \<le> cur_pos c2"
    using op standard_opcode_progress extended_opcode_progress special_opcode_progress
    by (auto split: if_splits)
  moreover have "li_pos it = Some ?p" using p(1) by (cases "li_pos it") (auto simp: null_pos_def)
  ultimately show ?thesis using p it' by (cases "li_pos it") (auto simp: line_left_def)
qed

section \<open>Iteration and lookup\<close>

function run_until_emitted :: "compile_unit \<Rightarrow> line_iter \<Rightarrow> line_iter result" where
  "run_until_emitted cu it =
    bindE (execute_line_instruction cu it) (\<lambda>(emitted, it').
      if emitted then Inr it' else run_until_emitted cu it')"
  by pat_completeness auto
termination
  by (relation "measure (\<lambda>(cu, it). line_left cu it)") (auto dest: execute_line_progress)

declare run_until_emitted.simps [simp del]

definition line_next :: "compile_unit \<Rightarrow> line_iter \<Rightarrow> line_iter result" where
  "line_next cu it =
    (if li_pos it = Some (lt_end (li_table it)) then Inr (it\<lparr>li_pos := None\<rparr>)
     else bindE (run_until_emitted cu it) (\<lambda>it'.
       let cur = li_current it'; files = lt_file_names (li_table it'); i = le_file_index cur
       in if i \<noteq> 0 \<and> unat i - 1 < length files
          then Inr (it'\<lparr>li_current := cur\<lparr>le_file_entry := Some (files ! (unat i - 1))\<rparr>\<rparr>)
          else Inl (Undefined ''file index out of range'')))"

definition line_begin :: "compile_unit \<Rightarrow> line_table \<Rightarrow> line_iter result" where
  "line_begin cu t =
    line_next cu \<lparr>li_table = t, li_current = initial_entry False,
                  li_registers = initial_entry (lt_default_is_stmt t), li_pos = Some (lt_begin t)\<rparr>"

lemma run_until_emitted_progress:
  "run_until_emitted cu it = Inr it' \<Longrightarrow> line_left cu it' < line_left cu it \<and> li_pos it' \<noteq> None"
proof (induction cu it rule: run_until_emitted.induct)
  case (1 cu it)
  from "1.prems" obtain e it1 where x: "execute_line_instruction cu it = Inr (e, it1)"
    by (subst (asm) run_until_emitted.simps) (auto simp: result_simps)
  note lt = execute_line_progress [OF x]
  show ?case
  proof (cases e)
    case True
    then show ?thesis using "1.prems" x lt by (subst (asm) run_until_emitted.simps) simp
  next
    case False
    then have "run_until_emitted cu it1 = Inr it'"
      using "1.prems" x by (subst (asm) run_until_emitted.simps) simp
    with "1.IH" [OF x refl False] lt show ?thesis by simp
  qed
qed

lemma line_next_progress: "line_next cu it = Inr it' \<Longrightarrow> line_left cu it' < line_left cu it"
  by (auto simp: line_next_def Let_def result_simps line_left_def split: if_splits
      dest!: run_until_emitted_progress)

function find_entry :: "compile_unit \<Rightarrow> line_iter \<Rightarrow> line_iter \<Rightarrow> file_addr \<Rightarrow> line_iter option result" where
  "find_entry cu prev it address =
    (if li_pos it = None then Inr None
     else
       bindE (file_addr_leq (le_address (li_current prev)) address) (\<lambda>below.
       bindE (if below then file_addr_greater (le_address (li_current it)) address else Inr False) (\<lambda>above.
         if above \<and> \<not> le_end_sequence (li_current prev) then Inr (Some prev)
         else bindE (line_next cu it) (\<lambda>it'. find_entry cu it it' address))))"
  by pat_completeness auto
termination
  by (relation "measure (\<lambda>(cu, _, it, _). line_left cu it)") (auto dest: line_next_progress)

declare find_entry.simps [simp del]

definition get_entry_by_address :: "compile_unit \<Rightarrow> line_table \<Rightarrow> file_addr \<Rightarrow> line_iter option result" where
  "get_entry_by_address cu t address =
    bindE (line_begin cu t) (\<lambda>prev.
      if li_pos prev = None then Inr None
      else bindE (line_next cu prev) (\<lambda>it. find_entry cu prev it address))"

definition entry_matches :: "string \<Rightarrow> u64 \<Rightarrow> line_iter \<Rightarrow> bool result" where
  "entry_matches path line it =
    (if le_line (li_current it) = line then
       bindE (the_opt (Undefined ''null file entry'') (le_file_entry (li_current it))) (\<lambda>f.
         Inr ((is_absolute path \<and> path_elements (lf_path f) = path_elements path) \<or>
              (\<not> is_absolute path \<and> path_ends_in (lf_path f) path)))
     else Inr False)"

function entries_by_line :: "compile_unit \<Rightarrow> line_iter \<Rightarrow> string \<Rightarrow> u64 \<Rightarrow> line_iter list \<Rightarrow> line_iter list result" where
  "entries_by_line cu it path line entries =
    (if li_pos it = None then Inr entries
     else
       bindE (entry_matches path line it) (\<lambda>hit.
       bindE (line_next cu it) (\<lambda>it'.
         entries_by_line cu it' path line (if hit then entries @ [it] else entries))))"
  by pat_completeness auto
termination
  by (relation "measure (\<lambda>(cu, it, _, _, _). line_left cu it)") (auto dest: line_next_progress)

declare entries_by_line.simps [simp del]

definition get_entries_by_line ::
  "compile_unit \<Rightarrow> line_table \<Rightarrow> string \<Rightarrow> u64 \<Rightarrow> line_iter list result" where
  "get_entries_by_line cu t path line =
    bindE (line_begin cu t) (\<lambda>it. entries_by_line cu it path line [])"

text \<open>All rows of a table, the reference the lookups are compared with.\<close>

function rows_from :: "compile_unit \<Rightarrow> line_iter \<Rightarrow> line_iter list result" where
  "rows_from cu it =
    (if li_pos it = None then Inr []
     else bindE (line_next cu it) (\<lambda>it'. bindE (rows_from cu it') (\<lambda>rest. Inr (it # rest))))"
  by pat_completeness auto
termination
  by (relation "measure (\<lambda>(cu, it). line_left cu it)") (auto dest: line_next_progress)

declare rows_from.simps [simp del]

definition line_rows :: "compile_unit \<Rightarrow> line_table \<Rightarrow> line_iter list result" where
  "line_rows cu t = bindE (line_begin cu t) (rows_from cu)"

section \<open>The lookups and the rows\<close>

definition row_at :: "elf_id \<Rightarrow> line_iter \<Rightarrow> bool" where
  "row_at no it \<longleftrightarrow> fa_elf (le_address (li_current it)) = Some no"

abbreviation row_addr :: "line_iter \<Rightarrow> u64" where
  "row_addr it \<equiv> fa_addr (le_address (li_current it))"

text \<open>The first row that does not end a sequence and whose range, up to the next row, holds the address.\<close>

fun row_for :: "line_iter list \<Rightarrow> u64 \<Rightarrow> line_iter option" where
  "row_for (p # q # rows) a =
    (if row_addr p \<le> a \<and> a < row_addr q \<and> \<not> le_end_sequence (li_current p) then Some p
     else row_for (q # rows) a)"
| "row_for rows a = None"

lemma rows_from_inv:
  assumes "rows_from cu it = Inr rows"
  shows "(li_pos it = None \<and> rows = []) \<or>
    (\<exists>it' rest. li_pos it \<noteq> None \<and> line_next cu it = Inr it' \<and> rows_from cu it' = Inr rest \<and> rows = it # rest)"
  using assms by (subst (asm) rows_from.simps) (auto simp: result_simps split: if_splits)

lemma row_at_addr: "row_at no it \<Longrightarrow> le_address (li_current it) = mk_file_addr no (row_addr it)"
  by (cases "le_address (li_current it)") (simp add: row_at_def mk_file_addr_def)

lemma find_entry_rows:
  assumes "rows_from cu it = Inr rows" "list_all (row_at no) (prev # rows)"
  shows "find_entry cu prev it (mk_file_addr no a) = Inr (row_for (prev # rows) a)"
  using assms
proof (induction rows arbitrary: prev it)
  case Nil
  then have "li_pos it = None" using rows_from_inv by blast
  then show ?case by (subst find_entry.simps) simp
next
  case (Cons q rows)
  from rows_from_inv [OF Cons.prems(1)] obtain it' where
    q: "q = it" "li_pos it \<noteq> None" "line_next cu it = Inr it'" "rows_from cu it' = Inr rows"
    by auto
  have "find_entry cu it it' (mk_file_addr no a) = Inr (row_for (it # rows) a)"
    using Cons.prems(2) q by (intro Cons.IH) auto
  moreover have "le_address (li_current prev) = mk_file_addr no (row_addr prev)"
    "le_address (li_current it) = mk_file_addr no (row_addr it)"
    using Cons.prems(2) q by (simp_all add: row_at_addr)
  then have "file_addr_leq (le_address (li_current prev)) (mk_file_addr no a) = Inr (row_addr prev \<le> a)"
    "file_addr_greater (le_address (li_current it)) (mk_file_addr no a) = Inr (row_addr it > a)"
    by (metis file_addr_compare_same)+
  ultimately show ?case
    using q by (subst find_entry.simps) auto
qed

lemma get_entry_rows:
  assumes "line_rows cu t = Inr rows" "list_all (row_at no) rows"
  shows "get_entry_by_address cu t (mk_file_addr no a) = Inr (row_for rows a)"
proof -
  from assms(1) obtain it where it: "line_begin cu t = Inr it" "rows_from cu it = Inr rows"
    by (auto simp: line_rows_def result_simps)
  from rows_from_inv [OF it(2)] show ?thesis
  proof (elim disjE exE conjE)
    assume "li_pos it = None" "rows = []"
    then show ?thesis by (simp add: get_entry_by_address_def it)
  next
    fix it' rest
    assume n: "li_pos it \<noteq> None" "line_next cu it = Inr it'" "rows_from cu it' = Inr rest" "rows = it # rest"
    then have "find_entry cu it it' (mk_file_addr no a) = Inr (row_for (it # rest) a)"
      using assms(2) by (intro find_entry_rows) auto
    with n show ?thesis by (auto simp: get_entry_by_address_def it)
  qed
qed

lemma row_for_sound:
  "row_for rows a = Some p \<Longrightarrow>
     \<exists>xs q ys. rows = xs @ p # q # ys \<and> row_addr p \<le> a \<and> a < row_addr q \<and> \<not> le_end_sequence (li_current p)"
proof (induction rows a rule: row_for.induct)
  case (1 p' q rows a)
  show ?case
  proof (cases "row_addr p' \<le> a \<and> a < row_addr q \<and> \<not> le_end_sequence (li_current p')")
    case True
    then have "p = p'" using "1.prems" by simp
    then show ?thesis using True by (intro exI [of _ "[]"]) auto
  next
    case False
    then obtain xs q' ys where "q # rows = xs @ p # q' # ys" "row_addr p \<le> a" "a < row_addr q'"
      "\<not> le_end_sequence (li_current p)"
      using 1 by auto
    then show ?thesis by (intro exI [of _ "p' # xs"]) auto
  qed
qed simp_all

lemma row_for_complete:
  assumes "rows = xs @ p # q # ys" "row_addr p \<le> a" "a < row_addr q" "\<not> le_end_sequence (li_current p)"
  shows "row_for rows a \<noteq> None"
  using assms
proof (induction xs arbitrary: rows)
  case (Cons x xs)
  then show ?case by (cases xs) auto
qed simp

lemma entries_by_line_rows:
  assumes "rows_from cu it = Inr rows" "list_all (\<lambda>r. le_file_entry (li_current r) \<noteq> None) rows"
  shows "entries_by_line cu it path line acc =
    Inr (acc @ filter (\<lambda>r. entry_matches path line r = Inr True) rows)"
  using assms
proof (induction rows arbitrary: it acc)
  case Nil
  then have "li_pos it = None" using rows_from_inv by blast
  then show ?case by (subst entries_by_line.simps) simp
next
  case (Cons q rows)
  from rows_from_inv [OF Cons.prems(1)] obtain it' where
    q: "q = it" "li_pos it \<noteq> None" "line_next cu it = Inr it'" "rows_from cu it' = Inr rows"
    by auto
  from Cons.prems(2) q obtain f where "le_file_entry (li_current it) = Some f" by auto
  then obtain hit where hit: "entry_matches path line it = Inr hit"
    by (cases "le_line (li_current it) = line") (auto simp: entry_matches_def)
  have "entries_by_line cu it' path line acc' =
      Inr (acc' @ filter (\<lambda>r. entry_matches path line r = Inr True) rows)" for acc'
    using Cons.prems(2) q by (intro Cons.IH) auto
  then show ?case using q hit by (subst entries_by_line.simps) auto
qed

text \<open>Every row the iterator stands on has its file: \<open>operator++\<close> sets it.\<close>

lemma line_next_file:
  "line_next cu it = Inr it' \<Longrightarrow> li_pos it' \<noteq> None \<Longrightarrow> le_file_entry (li_current it') \<noteq> None"
  by (auto simp: line_next_def Let_def result_simps split: if_splits)

lemma rows_from_files:
  assumes "rows_from cu it = Inr rows" "li_pos it \<noteq> None \<longrightarrow> le_file_entry (li_current it) \<noteq> None"
  shows "list_all (\<lambda>r. le_file_entry (li_current r) \<noteq> None) rows"
  using assms
proof (induction rows arbitrary: it)
  case (Cons q rows)
  from rows_from_inv [OF Cons.prems(1)] obtain it' where
    q: "q = it" "li_pos it \<noteq> None" "line_next cu it = Inr it'" "rows_from cu it' = Inr rows"
    by auto
  then show ?case using Cons.IH [OF q(4)] Cons.prems(2) line_next_file [OF q(3)] by auto
qed simp

section \<open>Special opcodes\<close>

text \<open>
  The standard's encoding of an address advance and a line advance in one opcode.
\<close>

definition special_encode :: "line_table \<Rightarrow> nat \<Rightarrow> int \<Rightarrow> int" where
  "special_encode t adv delta =
    (delta - sint (lt_line_base t)) + int (unat (lt_line_range t)) * int adv + int (unat (lt_opcode_base t))"

lemma special_opcode_decodes:
  assumes t: "t = li_table it" and rng: "lt_line_range t \<noteq> 0"
    and d: "sint (lt_line_base t) \<le> delta" "delta < sint (lt_line_base t) + int (unat (lt_line_range t))"
    and op: "special_encode t adv delta = int (unat opcode)"
  shows "special_opcode opcode it cur =
    (let r = li_registers it;
         r' = r\<lparr>le_address := file_addr_add (le_address r) (word_of_nat adv),
                le_line := le_line r + word_of_int delta\<rparr>
     in Inr (True, it\<lparr>li_current := r', li_registers := reset_row_flags r'\<rparr>, cur))"
proof -
  define k where "k = nat (delta - sint (lt_line_base t))"
  let ?n = "unat (lt_line_range t)"
  have k: "int k = delta - sint (lt_line_base t)" using d by (simp add: k_def)
  have "int k < int ?n" using k d by linarith
  then have kn: "k < ?n" by linarith
  have n: "0 < ?n" using rng by (simp add: unat_gt_0)
  have "int (unat opcode) = int (k + ?n * adv + unat (lt_opcode_base t))"
    using op by (simp add: special_encode_def k)
  then have adj: "unat opcode - unat (lt_opcode_base t) = k + ?n * adv" by linarith
  have qr: "(k + ?n * adv) div ?n = adv" "(k + ?n * adv) mod ?n = k" using kn n by auto
  have "lt_line_base t + word_of_nat k = (word_of_int (sint (lt_line_base t) + int k) :: u64)"
    by simp
  then have "lt_line_base t + word_of_nat k = word_of_int delta" using k by simp
  then show ?thesis
    using rng unfolding special_opcode_def Let_def t [symmetric] adj qr
    by (simp add: advance_address_def add.assoc)
qed

section \<open>A small program\<close>

definition sample_program :: "byte list" where
  "sample_program = [0, 9, 2] @ as_bytes (0x1000 :: u64) @ [20, 77, 2, 16, 0, 1, 1]"

definition sample_lines :: line_table where
  "sample_lines =
    \<lparr>lt_begin = 0, lt_end = 18, lt_default_is_stmt = True, lt_line_base = - 5, lt_line_range = 14,
     lt_opcode_base = 13, lt_include_dirs = [],
     lt_file_names = [\<lparr>lf_path = ''/src/a.c'', lf_mod_time = 0, lf_file_len = 0\<rparr>]\<rparr>"

definition sample_line_cu :: compile_unit where
  "sample_line_cu = sample_cu\<lparr>cu_elf := sample_dwarf_elf\<lparr>elf_map := sample_program\<rparr>\<rparr>"

lemma sample_rows:
  "map_sum id (map (\<lambda>it. (le_address (li_current it), le_line (li_current it), le_end_sequence (li_current it))))
     (line_rows sample_line_cu sample_lines) =
   Inr [(mk_file_addr 0 0x1000, 3, False), (mk_file_addr 0 0x1004, 6, False), (mk_file_addr 0 0x1014, 6, True)]"
  by code_simp

section \<open>Properties\<close>

text \<open>
  C7. Line lookup: for a line program that decodes to a list of rows of the object, the lookup by
  address answers with a row exactly when two neighbouring rows enclose the address and the first
  does not end a sequence, and the row it gives is the first of such a pair; the lookup by source
  line gives, in table order, exactly the rows with that line whose file matches the path.
\<close>

theorem line_lookup_correct:
  assumes "line_rows cu t = Inr rows" "list_all (row_at no) rows"
  shows "(\<exists>r. get_entry_by_address cu t (mk_file_addr no a) = Inr r \<and>
      (r = None \<longleftrightarrow> (\<nexists>xs p q ys. rows = xs @ p # q # ys \<and> row_addr p \<le> a \<and> a < row_addr q \<and>
          \<not> le_end_sequence (li_current p))) \<and>
      (\<forall>p. r = Some p \<longrightarrow> (\<exists>xs q ys. rows = xs @ p # q # ys \<and> row_addr p \<le> a \<and> a < row_addr q \<and>
          \<not> le_end_sequence (li_current p)))) \<and>
    get_entries_by_line cu t path line = Inr (filter (\<lambda>r. entry_matches path line r = Inr True) rows)"
proof -
  from assms(1) obtain it where it: "line_begin cu t = Inr it" "rows_from cu it = Inr rows"
    by (auto simp: line_rows_def result_simps)
  have "li_pos it \<noteq> None \<longrightarrow> le_file_entry (li_current it) \<noteq> None"
    using it(1) line_next_file by (auto simp: line_begin_def)
  then have "get_entries_by_line cu t path line = Inr (filter (\<lambda>r. entry_matches path line r = Inr True) rows)"
    using entries_by_line_rows [OF it(2) rows_from_files [OF it(2)], of path line "[]"]
    by (simp add: get_entries_by_line_def it)
  moreover have "get_entry_by_address cu t (mk_file_addr no a) = Inr (row_for rows a)"
    by (rule get_entry_rows [OF assms])
  moreover have "row_for rows a = None \<longleftrightarrow> (\<nexists>xs p q ys. rows = xs @ p # q # ys \<and> row_addr p \<le> a \<and>
      a < row_addr q \<and> \<not> le_end_sequence (li_current p))"
    using row_for_sound [of rows a] row_for_complete [of rows _ _ _ _ a] by (cases "row_for rows a") blast+
  ultimately show ?thesis using row_for_sound [of rows a] by auto
qed

theorem line_lookup_correct_witness:
  "\<exists>rows p. line_rows sample_line_cu sample_lines = Inr rows \<and> list_all (row_at 0) rows \<and>
     get_entry_by_address sample_line_cu sample_lines (mk_file_addr 0 0x1007) = Inr (Some p) \<and>
     le_line (li_current p) = 6"
proof -
  obtain rows where rows: "line_rows sample_line_cu sample_lines = Inr rows"
    "map (\<lambda>it. (le_address (li_current it), le_line (li_current it), le_end_sequence (li_current it))) rows =
      [(mk_file_addr 0 0x1000, 3, False), (mk_file_addr 0 0x1004, 6, False), (mk_file_addr 0 0x1014, 6, True)]"
    using sample_rows by (cases "line_rows sample_line_cu sample_lines") auto
  then obtain x y z where r: "rows = [x, y, z]"
    by (auto simp: map_eq_Cons_conv)
  have at: "list_all (row_at 0) rows" using rows(2) by (auto simp: r row_at_def)
  from line_lookup_correct [OF rows(1) at, of "0x1007"]
  obtain res where res: "get_entry_by_address sample_line_cu sample_lines (mk_file_addr 0 0x1007) = Inr res"
    "(res = None \<longleftrightarrow> (\<nexists>xs p q ys. rows = xs @ p # q # ys \<and> row_addr p \<le> 0x1007 \<and>
        0x1007 < row_addr q \<and> \<not> le_end_sequence (li_current p)))"
    "\<forall>p. res = Some p \<longrightarrow> (\<exists>xs q ys. rows = xs @ p # q # ys \<and> row_addr p \<le> 0x1007 \<and>
        0x1007 < row_addr q \<and> \<not> le_end_sequence (li_current p))"
    by blast
  have "rows = [x] @ y # z # []" "row_addr y \<le> 0x1007" "0x1007 < row_addr z" "\<not> le_end_sequence (li_current y)"
    using rows(2) by (auto simp: r)
  then obtain p where p: "res = Some p" using res(2) by blast
  then obtain xs q ys where "rows = xs @ p # q # ys" "0x1007 < row_addr q" using res(3) by blast
  then have "p = y"
    using rows(2) by (auto simp: r Cons_eq_append_conv)
  then show ?thesis using rows res(1) at p by (auto simp: r)
qed

text \<open>
  Special opcodes: the opcode the standard assigns to an address advance and a line advance
  emits one row with exactly those advances and resets the per-row flags, for every line base,
  line range and opcode base of the table.
\<close>

lemma special_opcode_row:
  assumes "lt_line_range (li_table it) \<noteq> 0"
    and "sint (lt_line_base (li_table it)) \<le> delta"
    and "delta < sint (lt_line_base (li_table it)) + int (unat (lt_line_range (li_table it)))"
    and "special_encode (li_table it) adv delta = int (unat opcode)"
  shows "\<exists>it' r. special_opcode opcode it cur = Inr (True, it', cur) \<and> li_current it' = r \<and>
    r = (li_registers it)\<lparr>le_address := file_addr_add (le_address (li_registers it)) (word_of_nat adv),
                         le_line := le_line (li_registers it) + word_of_int delta\<rparr> \<and>
    li_registers it' = reset_row_flags r \<and> li_table it' = li_table it"
  using special_opcode_decodes [OF refl assms, of cur] by (simp add: Let_def)

definition sample_iter :: line_iter where
  "sample_iter = \<lparr>li_table = sample_lines, li_current = initial_entry True,
     li_registers = initial_entry True, li_pos = Some 11\<rparr>"

lemma special_opcode_row_witness:
  "special_encode sample_lines 4 3 = int (unat (77 :: byte)) \<and>
   (\<exists>it' r. special_opcode 77 sample_iter (cursor_over [] 0 0) = Inr (True, it', cursor_over [] 0 0) \<and>
     li_current it' = r \<and>
     r = (li_registers sample_iter)\<lparr>le_address := file_addr_add (le_address (li_registers sample_iter)) (word_of_nat 4),
                         le_line := le_line (li_registers sample_iter) + word_of_int 3\<rparr> \<and>
     li_registers it' = reset_row_flags r \<and> li_table it' = li_table sample_iter)"
proof
  show e: "special_encode sample_lines 4 3 = int (unat (77 :: byte))" by code_simp
  show "\<exists>it' r. special_opcode 77 sample_iter (cursor_over [] 0 0) = Inr (True, it', cursor_over [] 0 0) \<and>
     li_current it' = r \<and>
     r = (li_registers sample_iter)\<lparr>le_address := file_addr_add (le_address (li_registers sample_iter)) (word_of_nat 4),
                         le_line := le_line (li_registers sample_iter) + word_of_int 3\<rparr> \<and>
     li_registers it' = reset_row_flags r \<and> li_table it' = li_table sample_iter"
  proof (rule special_opcode_row)
    show "lt_line_range (li_table sample_iter) \<noteq> 0" by code_simp
    show "sint (lt_line_base (li_table sample_iter)) \<le> 3" by code_simp
    show "3 < sint (lt_line_base (li_table sample_iter)) + int (unat (lt_line_range (li_table sample_iter)))"
      by code_simp
    show "special_encode (li_table sample_iter) 4 3 = int (unat (77 :: byte))"
      using e by (simp add: sample_iter_def)
  qed
qed

end
