(* ===== verification/Dwarf_Info.thy ===== *)
theory Dwarf_Info
  imports Line_Table
begin

text \<open>
  \<open>src/dwarf.cpp\<close>, the debugging information of an object: the compile units, iteration over the
  children of an entry, the name and function indexes, and the lookups over them (functions,
  variables, scopes, inlined calls, bit fields). Following \<open>DW_AT_sibling\<close> or a chain of
  references can lead back to an entry already visited, so these walks take fuel; running out of
  it is the value \<open>No_return\<close>. The hash maps are lists in order of insertion.
\<close>

section \<open>Compile units\<close>

definition parse_compile_unit :: "elf \<Rightarrow> cursor \<Rightarrow> compile_unit result" where
  "parse_compile_unit obj cur =
    bindE (u32 cur) (\<lambda>(size, c1).
    bindE (u16 c1) (\<lambda>(version, c2).
    bindE (u32 c2) (\<lambda>(abbrev_off, c3).
    bindE (u8 c3) (\<lambda>(address_size, c4).
    if size = 0xffffffff then Inl (Send ''Only DWARF32 is supported!'')
    else if version \<noteq> 4 then Inl (Send ''Only DWARF version 4 is supported!'')
    else if address_size \<noteq> 8 then Inl (Send ''Invalid address size for DWARF!'')
    else
      let cu = \<lparr>cu_elf = obj, cu_begin = cur_pos cur, cu_end = cur_pos cur + int (unat (size + 4)),
                cu_abbrev_offset = ucast abbrev_off, cu_lines = None\<rparr>
      in bindE (parse_line_table cu) (\<lambda>lines. Inr (cu\<lparr>cu_lines := lines\<rparr>))))))"

text \<open>
  The loop over \<open>.debug_info\<close> advances by the size of each unit. The 32-bit size wraps to zero for
  the length \<open>0xfffffffc\<close>: the loop then parses the same unit again for ever.
\<close>

function parse_compile_units_loop :: "elf \<Rightarrow> cursor \<Rightarrow> compile_unit list \<Rightarrow> compile_unit list result" where
  "parse_compile_units_loop obj cur units =
    (if cursor_finished cur then Inr units
     else
       bindE (parse_compile_unit obj cur) (\<lambda>cu.
         if cu_end cu \<le> cu_begin cu then Inl (No_return ''compile unit of size zero'')
         else parse_compile_units_loop obj (cur\<lparr>cur_pos := cur_pos cur + (cu_end cu - cu_begin cu)\<rparr>)
                (units @ [cu])))"
  by pat_completeness auto
termination
  by (relation "measure (\<lambda>(_, cur, _). nat (cur_end cur - cur_pos cur))")
    (auto simp: cursor_finished_def)

declare parse_compile_units_loop.simps [simp del]

definition parse_compile_units :: "elf \<Rightarrow> compile_unit list result" where
  "parse_compile_units obj =
    (let (b, e) = get_section_contents obj ''.debug_info''
     in parse_compile_units_loop obj (cursor_over (elf_map obj) b e) [])"

section \<open>The children of an entry\<close>

definition children_first :: "die \<Rightarrow> die result" where
  "children_first d = parse_die (die_cu d) (die_next d)"

text \<open>
  \<open>operator++\<close> of the iterator, and the loop that runs an iterator over the children of an entry
  without a sibling attribute up to the null entry.
\<close>

fun iter_next :: "nat \<Rightarrow> compile_unit list \<Rightarrow> die \<Rightarrow> die result"
  and iter_to_null :: "nat \<Rightarrow> compile_unit list \<Rightarrow> die \<Rightarrow> die result" where
  "iter_next n units d =
    (case die_abbrev d of
       None \<Rightarrow> Inr d
     | Some ab \<Rightarrow>
        if \<not> ab_has_children ab then parse_die (die_cu d) (die_next d)
        else bindE (die_contains d DW_AT_sibling) (\<lambda>has_sibling.
          if has_sibling then bindE (die_attr d DW_AT_sibling) (as_reference units)
          else (case n of
             0 \<Rightarrow> Inl (No_return ''fuel'')
           | Suc m \<Rightarrow>
              bindE (children_first d) (\<lambda>sub.
              bindE (iter_to_null m units sub) (\<lambda>null_entry.
                parse_die (die_cu d) (die_next null_entry))))))"
| "iter_to_null n units d =
    (case die_abbrev d of
       None \<Rightarrow> Inr d
     | Some _ \<Rightarrow>
        (case n of
           0 \<Rightarrow> Inl (No_return ''fuel'')
         | Suc m \<Rightarrow> bindE (iter_next m units d) (iter_to_null m units)))"

declare iter_next.simps [simp del]
declare iter_to_null.simps [simp del]

text \<open>
  A range-\<open>for\<close> over the children with a body that may leave the loop (\<open>True\<close>), from the entry the
  iterator stands on.
\<close>

fun for_children_from ::
  "nat \<Rightarrow> compile_unit list \<Rightarrow> (die \<Rightarrow> 's \<Rightarrow> ('s \<times> bool) result) \<Rightarrow> die \<Rightarrow> 's \<Rightarrow> 's result" where
  "for_children_from n units body d s =
    (case die_abbrev d of
       None \<Rightarrow> Inr s
     | Some _ \<Rightarrow>
        bindE (body d s) (\<lambda>(s', stop).
          if stop then Inr s'
          else (case n of
             0 \<Rightarrow> Inl (No_return ''fuel'')
           | Suc m \<Rightarrow> bindE (iter_next m units d) (\<lambda>d'. for_children_from m units body d' s'))))"

declare for_children_from.simps [simp del]

definition for_children ::
  "nat \<Rightarrow> compile_unit list \<Rightarrow> (die \<Rightarrow> 's \<Rightarrow> ('s \<times> bool) result) \<Rightarrow> die \<Rightarrow> 's \<Rightarrow> 's result" where
  "for_children n units body d s =
    bindE (die_abbrev_entry d) (\<lambda>ab.
      if ab_has_children ab
      then bindE (children_first d) (\<lambda>c. for_children_from n units body c s)
      else Inr s)"

definition children :: "nat \<Rightarrow> compile_unit list \<Rightarrow> die \<Rightarrow> die list result" where
  "children n units d = for_children n units (\<lambda>c cs. Inr (cs @ [c], False)) d []"

section \<open>Names and the index\<close>

fun die_name :: "nat \<Rightarrow> compile_unit list \<Rightarrow> die \<Rightarrow> string option result" where
  "die_name n units d =
    bindE (die_contains d DW_AT_name) (\<lambda>has_name.
    if has_name then bindE (bindE (die_attr d DW_AT_name) as_string) (\<lambda>s. Inr (Some s))
    else
    bindE (die_contains d DW_AT_specification) (\<lambda>has_spec.
    bindE (die_contains d DW_AT_abstract_origin) (\<lambda>has_origin.
      if has_spec \<or> has_origin then
        (case n of
           0 \<Rightarrow> Inl (No_return ''fuel'')
         | Suc m \<Rightarrow>
            bindE (bindE (die_attr d (if has_spec then DW_AT_specification else DW_AT_abstract_origin))
                    (as_reference units))
              (die_name m units))
      else Inr None)))"

declare die_name.simps [simp del]

record index_entry =
  ie_cu :: compile_unit
  ie_pos :: int

record dwarf_index =
  function_index :: "(string \<times> index_entry) list"
  global_variable_index :: "(string \<times> index_entry) list"
  member_function_index :: "(int \<times> index_entry) list"

definition empty_index :: dwarf_index where
  "empty_index = \<lparr>function_index = [], global_variable_index = [], member_function_index = []\<rparr>"

definition index_function :: "nat \<Rightarrow> compile_unit list \<Rightarrow> die \<Rightarrow> dwarf_index \<Rightarrow> dwarf_index result" where
  "index_function n units d idx =
    bindE (die_contains d DW_AT_low_pc) (\<lambda>has_low.
    bindE (die_contains d DW_AT_ranges) (\<lambda>has_ranges.
    bindE (die_tag d) (\<lambda>tag.
      let entry = \<lparr>ie_cu = die_cu d, ie_pos = die_pos d\<rparr>
      in if (has_low \<or> has_ranges) \<and> (tag = DW_TAG_subprogram \<or> tag = DW_TAG_inlined_subroutine) then
           bindE (die_name n units d) (\<lambda>nm.
             case nm of
               Some s \<Rightarrow> Inr (idx\<lparr>function_index := function_index idx @ [(s, entry)]\<rparr>)
             | None \<Rightarrow> Inr idx)
         else Inr idx)))"

definition index_member_function :: "compile_unit list \<Rightarrow> die \<Rightarrow> dwarf_index \<Rightarrow> dwarf_index result" where
  "index_member_function units d idx =
    bindE (die_contains d DW_AT_specification) (\<lambda>has_spec.
    bindE (die_contains d DW_AT_abstract_origin) (\<lambda>has_origin.
      let entry = \<lparr>ie_cu = die_cu d, ie_pos = die_pos d\<rparr>
      in if has_spec \<or> has_origin then
           bindE (bindE (die_attr d (if has_spec then DW_AT_specification else DW_AT_abstract_origin))
                    (as_reference units)) (\<lambda>decl.
             Inr (idx\<lparr>member_function_index := emplace (die_pos decl) entry (member_function_index idx)\<rparr>))
         else Inr idx))"

definition index_global_variable ::
  "nat \<Rightarrow> compile_unit list \<Rightarrow> die \<Rightarrow> bool \<Rightarrow> dwarf_index \<Rightarrow> dwarf_index result" where
  "index_global_variable n units d in_function idx =
    bindE (die_contains d DW_AT_location) (\<lambda>has_location.
    bindE (die_tag d) (\<lambda>tag.
      if has_location \<and> tag = DW_TAG_variable \<and> \<not> in_function then
        bindE (die_name n units d) (\<lambda>nm.
          case nm of
            Some s \<Rightarrow> Inr (idx\<lparr>global_variable_index := global_variable_index idx @
                               [(s, \<lparr>ie_cu = die_cu d, ie_pos = die_pos d\<rparr>)]\<rparr>)
          | None \<Rightarrow> Inr idx)
      else Inr idx))"

fun index_die :: "nat \<Rightarrow> compile_unit list \<Rightarrow> die \<Rightarrow> bool \<Rightarrow> dwarf_index \<Rightarrow> dwarf_index result" where
  "index_die n units d in_function idx =
    bindE (index_function n units d idx) (\<lambda>idx1.
    bindE (die_tag d) (\<lambda>tag.
      let is_function = (tag = DW_TAG_subprogram \<or> tag = DW_TAG_inlined_subroutine)
      in
      bindE (if is_function then index_member_function units d idx1 else Inr idx1) (\<lambda>idx2.
      bindE (index_global_variable n units d in_function idx2) (\<lambda>idx3.
        case n of
          0 \<Rightarrow> Inl (No_return ''fuel'')
        | Suc m \<Rightarrow>
           for_children m units
             (\<lambda>c s. bindE (index_die m units c (in_function \<or> is_function) s) (\<lambda>s'. Inr (s', False)))
             d idx3))))"

declare index_die.simps [simp del]

record dwarf =
  dw_elf :: elf
  dw_units :: "compile_unit list"
  dw_index :: dwarf_index

definition index :: "nat \<Rightarrow> dwarf \<Rightarrow> dwarf result" where
  "index n dw =
    (if function_index (dw_index dw) \<noteq> [] then Inr dw
     else bindE (foldE (\<lambda>cu idx. bindE (cu_root cu) (\<lambda>root. index_die n (dw_units dw) root False idx))
                   (dw_units dw) (dw_index dw))
            (\<lambda>idx. Inr (dw\<lparr>dw_index := idx\<rparr>)))"

section \<open>Lookups\<close>

fun find_unit :: "compile_unit list \<Rightarrow> file_addr \<Rightarrow> compile_unit option result" where
  "find_unit [] addr = Inr None"
| "find_unit (cu # cus) addr =
    bindE (cu_root cu) (\<lambda>root.
    bindE (contains_address root addr) (\<lambda>found. if found then Inr (Some cu) else find_unit cus addr))"

definition compile_unit_containing_address :: "dwarf \<Rightarrow> file_addr \<Rightarrow> compile_unit option result" where
  "compile_unit_containing_address dw addr = find_unit (dw_units dw) addr"

definition entry_die :: "index_entry \<Rightarrow> die result" where
  "entry_die e = parse_die (ie_cu e) (ie_pos e)"

fun find_function_entry :: "(string \<times> index_entry) list \<Rightarrow> file_addr \<Rightarrow> die option result" where
  "find_function_entry [] addr = Inr None"
| "find_function_entry ((nm, e) # es) addr =
    bindE (entry_die e) (\<lambda>d.
    bindE (contains_address d addr) (\<lambda>found.
    bindE (if found then die_tag d else Inr 0) (\<lambda>tag.
      if found \<and> tag = DW_TAG_subprogram then Inr (Some d) else find_function_entry es addr)))"

definition function_containing_address :: "nat \<Rightarrow> dwarf \<Rightarrow> file_addr \<Rightarrow> die option result" where
  "function_containing_address n dw addr =
    bindE (index n dw) (\<lambda>dw'. find_function_entry (function_index (dw_index dw')) addr)"

fun entry_dies :: "index_entry list \<Rightarrow> die list result" where
  "entry_dies [] = Inr []"
| "entry_dies (e # es) = bindE (entry_die e) (\<lambda>d. bindE (entry_dies es) (\<lambda>ds. Inr (d # ds)))"

definition find_functions :: "nat \<Rightarrow> dwarf \<Rightarrow> string \<Rightarrow> die list result" where
  "find_functions n dw nm =
    bindE (index n dw) (\<lambda>dw'.
      entry_dies (map snd (filter (\<lambda>p. fst p = nm) (function_index (dw_index dw')))))"

definition line_entry_at_address :: "dwarf \<Rightarrow> file_addr \<Rightarrow> line_iter option result" where
  "line_entry_at_address dw addr =
    bindE (compile_unit_containing_address dw addr) (\<lambda>cu.
      case cu of
        None \<Rightarrow> Inr None
      | Some cu' \<Rightarrow>
         bindE (the_opt (Undefined ''null line table dereferenced'') (cu_lines cu')) (\<lambda>t.
           get_entry_by_address cu' t addr))"

definition find_global_variable :: "nat \<Rightarrow> dwarf \<Rightarrow> string \<Rightarrow> die option result" where
  "find_global_variable n dw nm =
    bindE (index n dw) (\<lambda>dw'.
      case map_of (global_variable_index (dw_index dw')) nm of
        None \<Rightarrow> Inr None
      | Some e \<Rightarrow> bindE (entry_die e) (\<lambda>d. Inr (Some d)))"

text \<open>Inlined calls at an address: the first matching child, again and again.\<close>

definition find_inlined_child :: "nat \<Rightarrow> compile_unit list \<Rightarrow> file_addr \<Rightarrow> die \<Rightarrow> die option result" where
  "find_inlined_child n units address d =
    for_children n units
      (\<lambda>c s. bindE (die_tag c) (\<lambda>tag.
         if tag = DW_TAG_inlined_subroutine
         then bindE (contains_address c address) (\<lambda>found. Inr (if found then (Some c, True) else (s, False)))
         else Inr (s, False)))
      d None"

fun inline_stack_from :: "nat \<Rightarrow> compile_unit list \<Rightarrow> file_addr \<Rightarrow> die \<Rightarrow> die list result" where
  "inline_stack_from n units address d =
    bindE (find_inlined_child n units address d) (\<lambda>found.
      case found of
        None \<Rightarrow> Inr [d]
      | Some c \<Rightarrow>
         (case n of
            0 \<Rightarrow> Inl (No_return ''fuel'')
          | Suc m \<Rightarrow> bindE (inline_stack_from m units address c) (\<lambda>ds. Inr (d # ds))))"

declare inline_stack_from.simps [simp del]

definition inline_stack_at_address :: "nat \<Rightarrow> dwarf \<Rightarrow> file_addr \<Rightarrow> die list result" where
  "inline_stack_at_address n dw address =
    bindE (function_containing_address n dw address) (\<lambda>func.
      case func of None \<Rightarrow> Inr [] | Some d \<Rightarrow> inline_stack_from n (dw_units dw) address d)"

fun scopes_at_address_in_die ::
  "nat \<Rightarrow> compile_unit list \<Rightarrow> die \<Rightarrow> file_addr \<Rightarrow> die list \<Rightarrow> die list result" where
  "scopes_at_address_in_die n units d address scopes =
    (case n of
       0 \<Rightarrow> Inl (No_return ''fuel'')
     | Suc m \<Rightarrow>
        for_children m units
          (\<lambda>c s. bindE (contains_address c address) (\<lambda>found.
             if found
             then bindE (scopes_at_address_in_die m units c address s) (\<lambda>s'. Inr (s' @ [c], False))
             else Inr (s, False)))
          d scopes)"

declare scopes_at_address_in_die.simps [simp del]

definition scopes_at_address :: "nat \<Rightarrow> dwarf \<Rightarrow> file_addr \<Rightarrow> die list result" where
  "scopes_at_address n dw address =
    bindE (function_containing_address n dw address) (\<lambda>func.
      case func of
        None \<Rightarrow> Inr []
      | Some d \<Rightarrow> bindE (scopes_at_address_in_die n (dw_units dw) d address []) (\<lambda>scopes. Inr (scopes @ [d])))"

definition find_variable_in_scope :: "nat \<Rightarrow> compile_unit list \<Rightarrow> string \<Rightarrow> die \<Rightarrow> die option result" where
  "find_variable_in_scope n units nm scope =
    for_children n units
      (\<lambda>c s. bindE (die_tag c) (\<lambda>tag.
         if tag = DW_TAG_variable \<or> tag = DW_TAG_formal_parameter
         then bindE (die_name n units c) (\<lambda>cn. Inr (if cn = Some nm then (Some c, True) else (s, False)))
         else Inr (s, False)))
      scope None"

fun find_in_scopes :: "nat \<Rightarrow> compile_unit list \<Rightarrow> string \<Rightarrow> die list \<Rightarrow> die option result" where
  "find_in_scopes n units nm [] = Inr None"
| "find_in_scopes n units nm (scope # scopes) =
    bindE (find_variable_in_scope n units nm scope) (\<lambda>found.
      case found of Some d \<Rightarrow> Inr (Some d) | None \<Rightarrow> find_in_scopes n units nm scopes)"

definition find_local_variable :: "nat \<Rightarrow> dwarf \<Rightarrow> string \<Rightarrow> file_addr \<Rightarrow> die option result" where
  "find_local_variable n dw nm pc =
    bindE (scopes_at_address n dw pc) (find_in_scopes n (dw_units dw) nm)"

fun get_member_function_definition :: "nat \<Rightarrow> dwarf \<Rightarrow> die \<Rightarrow> die option result" where
  "get_member_function_definition n dw decl =
    bindE (index n dw) (\<lambda>dw'.
      case map_of (member_function_index (dw_index dw')) (die_pos decl) of
        None \<Rightarrow> Inr None
      | Some e \<Rightarrow>
         bindE (entry_die e) (\<lambda>d.
         bindE (die_contains d DW_AT_low_pc) (\<lambda>has_low.
         bindE (if has_low then Inr True else die_contains d DW_AT_ranges) (\<lambda>has_range.
           if has_range then Inr (Some d)
           else (case n of
                   0 \<Rightarrow> Inl (No_return ''fuel'')
                 | Suc m \<Rightarrow> get_member_function_definition m dw' d)))))"

declare get_member_function_definition.simps [simp del]

section \<open>Source position and bit fields of an entry\<close>

definition die_file :: "die \<Rightarrow> line_file result" where
  "die_file d =
    bindE (die_tag d) (\<lambda>tag.
    bindE (bindE (die_attr d (if tag = DW_TAG_inlined_subroutine then DW_AT_call_file else DW_AT_decl_file))
             as_int) (\<lambda>idx.
    bindE (the_opt (Undefined ''null line table dereferenced'') (cu_lines (die_cu d))) (\<lambda>t.
      if idx \<noteq> 0 \<and> unat idx - 1 < length (lt_file_names t)
      then Inr (lt_file_names t ! (unat idx - 1))
      else Inl (Undefined ''file index out of range''))))"

definition die_line :: "die \<Rightarrow> u64 result" where
  "die_line d =
    bindE (die_tag d) (\<lambda>tag.
      bindE (die_attr d (if tag = DW_TAG_inlined_subroutine then DW_AT_call_line else DW_AT_decl_line)) as_int)"

definition die_location :: "die \<Rightarrow> (line_file \<times> u64) result" where
  "die_location d = bindE (die_file d) (\<lambda>f. bindE (die_line d) (\<lambda>l. Inr (f, l)))"

record bitfield_information =
  bf_bit_size :: u64
  bf_storage_byte_size :: u64
  bf_bit_offset :: byte

definition get_bitfield_information :: "die \<Rightarrow> u64 \<Rightarrow> bitfield_information option result" where
  "get_bitfield_information d class_byte_size =
    bindE (die_contains d DW_AT_bit_offset) (\<lambda>has_bit_offset.
    bindE (die_contains d DW_AT_data_bit_offset) (\<lambda>has_data_bit_offset.
    if \<not> has_bit_offset \<and> \<not> has_data_bit_offset then Inr None
    else
    bindE (bindE (die_attr d DW_AT_bit_size) as_int) (\<lambda>bit_size.
    bindE (die_contains d DW_AT_byte_size) (\<lambda>has_byte_size.
    bindE (if has_byte_size then bindE (die_attr d DW_AT_byte_size) as_int else Inr class_byte_size)
      (\<lambda>storage_byte_size.
    bindE (if has_bit_offset
           then bindE (bindE (die_attr d DW_AT_bit_offset) as_int) (\<lambda>offset_field.
             Inr (ucast (storage_byte_size * 8 - offset_field - bit_size)))
           else Inr (0 :: byte)) (\<lambda>off1.
    bindE (if has_data_bit_offset
           then bindE (bindE (die_attr d DW_AT_data_bit_offset) as_int) (\<lambda>v. Inr (ucast (v mod 8)))
           else Inr off1) (\<lambda>off2.
      Inr (Some \<lparr>bf_bit_size = bit_size, bf_storage_byte_size = storage_byte_size, bf_bit_offset = off2\<rparr>))))))))"

section \<open>Iteration over a tree of entries\<close>

text \<open>
  The trees \<open>.debug_info\<close> encodes: an entry with its abbreviation code, the encoded attribute
  values and its children, which end with a null entry where the abbreviation says it has any.
\<close>

datatype dtree = DNode u64 "byte list list" "dtree list"

fun has_kids :: "abbrev_table \<Rightarrow> u64 \<Rightarrow> bool" where
  "has_kids table code = (case map_of table code of Some ab \<Rightarrow> ab_has_children ab | None \<Rightarrow> False)"

fun encode_node :: "dtree \<Rightarrow> byte list" where
  "encode_node (DNode code chunks kids) = uleb128_encode (unat code) @ concat chunks"

fun encode_tree :: "abbrev_table \<Rightarrow> dtree \<Rightarrow> byte list" where
  "encode_tree table (DNode code chunks kids) =
    uleb128_encode (unat code) @ concat chunks @
    (if has_kids table code then concat (map (encode_tree table) kids) @ [0] else [])"

definition node_ok :: "abbrev \<Rightarrow> byte list list \<Rightarrow> bool" where
  "node_ok ab chunks \<longleftrightarrow>
    list_all2 (\<lambda>s bs. form_encoding (spec_form s) bs) (ab_attr_specs ab) chunks \<and>
    (\<forall>s \<in> set (ab_attr_specs ab). spec_attr s \<noteq> DW_AT_sibling)"

fun tree_ok :: "abbrev_table \<Rightarrow> dtree \<Rightarrow> bool" where
  "tree_ok table (DNode code chunks kids) \<longleftrightarrow>
    code \<noteq> 0 \<and> (\<exists>ab. map_of table code = Some ab \<and> node_ok ab chunks \<and> (\<not> ab_has_children ab \<longrightarrow> kids = [])) \<and>
    list_all (tree_ok table) kids"

fun tree_cost :: "dtree \<Rightarrow> nat" where
  "tree_cost (DNode code chunks kids) = Suc (sum_list (map (\<lambda>k. Suc (tree_cost k)) kids))"

abbreviation forest_cost :: "dtree list \<Rightarrow> nat" where
  "forest_cost kids \<equiv> sum_list (map (\<lambda>k. Suc (tree_cost k)) kids)"

definition bytes_at :: "compile_unit \<Rightarrow> int \<Rightarrow> byte list \<Rightarrow> bool" where
  "bytes_at cu pos bs \<longleftrightarrow> 0 \<le> pos \<and> take (length bs) (drop (nat pos) (elf_map (cu_elf cu))) = bs \<and>
     pos + int (length bs) \<le> cu_end cu"

text \<open>The entry \<open>parse_die\<close> gives for a node.\<close>

definition node_die :: "compile_unit \<Rightarrow> abbrev_table \<Rightarrow> int \<Rightarrow> dtree \<Rightarrow> die" where
  "node_die cu table pos t =
    (case t of DNode code chunks kids \<Rightarrow>
      \<lparr>die_pos = pos, die_cu = cu, die_abbrev = map_of table code,
       die_next = pos + int (length (encode_node t)),
       die_attr_locs = map (\<lambda>n. pos + int (length (uleb128_encode (unat code)) + n)) (chunk_offsets chunks)\<rparr>)"

fun forest_dies :: "compile_unit \<Rightarrow> abbrev_table \<Rightarrow> int \<Rightarrow> dtree list \<Rightarrow> die list" where
  "forest_dies cu table pos [] = []"
| "forest_dies cu table pos (k # ks) =
    node_die cu table pos k # forest_dies cu table (pos + int (length (encode_tree table k))) ks"

lemma bytes_at_append:
  assumes "bytes_at cu pos (bs @ cs)"
  shows "bytes_at cu pos bs" "bytes_at cu (pos + int (length bs)) cs"
proof -
  let ?d = "drop (nat pos) (elf_map (cu_elf cu))"
  from assms have p: "0 \<le> pos" "pos + int (length bs) + int (length cs) \<le> cu_end cu"
    and t: "take (length bs + length cs) ?d = bs @ cs" by (auto simp: bytes_at_def)
  have 1: "take (length bs) ?d = bs"
    using arg_cong [OF t, of "take (length bs)"] by simp
  have "take (length cs) (drop (length bs) ?d) = cs"
    using arg_cong [OF t, of "drop (length bs)"] by (simp add: drop_take)
  moreover have "drop (nat (pos + int (length bs))) (elf_map (cu_elf cu)) = drop (length bs) ?d"
    using p(1) by (simp add: nat_add_distrib add.commute)
  ultimately have 2: "take (length cs) (drop (nat (pos + int (length bs))) (elf_map (cu_elf cu))) = cs"
    by simp
  show "bytes_at cu pos bs" using 1 p unfolding bytes_at_def by linarith
  show "bytes_at cu (pos + int (length bs)) cs" using 2 p unfolding bytes_at_def by linarith
qed

lemma bytes_at_stands:
  assumes "bytes_at cu pos bs"
  obtains rest where "stands_before (cu_cursor cu pos) bs rest"
proof -
  have "unread (cu_cursor cu pos) = bs @ drop (length bs) (drop (nat pos) (elf_map (cu_elf cu)))"
    using assms unfolding bytes_at_def unread_def cu_cursor_def cursor_over_def
    by (metis append_take_drop_id cursor.select_convs(1) cursor.select_convs(3))
  then show thesis
    using that assms by (auto simp: stands_before_def bytes_at_def cu_cursor_def cursor_over_def)
qed

lemma encode_tree_split:
  "encode_tree table (DNode code chunks kids) = encode_node (DNode code chunks kids) @
    (if has_kids table code then concat (map (encode_tree table) kids) @ [0] else [])"
  by simp

lemma parse_node:
  assumes "cu_abbrev_table cu = Inr table" "cu_end cu \<le> int (length (elf_map (cu_elf cu)))"
    and "tree_ok table t" "bytes_at cu pos (encode_node t)"
  shows "parse_die cu pos = Inr (node_die cu table pos t)"
proof -
  obtain code chunks kids where t: "t = DNode code chunks kids" by (cases t)
  from assms(3) t obtain ab where ab: "code \<noteq> 0" "map_of table code = Some ab"
    "list_all2 (\<lambda>s bs. form_encoding (spec_form s) bs) (ab_attr_specs ab) chunks"
    by (auto simp: node_ok_def)
  obtain rest where st: "stands_before (cu_cursor cu pos) (encode_node t) rest"
    using bytes_at_stands [OF assms(4)] .
  have "pos + int (length (encode_node t)) \<le> cu_end cu" using assms(4) by (simp add: bytes_at_def)
  from parse_die_encoded [OF assms(1) ab(2,1,3) _ _ assms(2), of pos rest] st this
  show ?thesis by (simp add: node_die_def t ab)
qed

definition null_die :: "compile_unit \<Rightarrow> int \<Rightarrow> die" where
  "null_die cu pos = \<lparr>die_pos = null_pos, die_cu = cu, die_abbrev = None, die_next = pos + 1, die_attr_locs = []\<rparr>"

lemma parse_null:
  assumes "bytes_at cu pos [0]"
  shows "parse_die cu pos = Inr (null_die cu pos)"
proof -
  obtain rest where "stands_before (cu_cursor cu pos) (uleb128_encode 0) rest"
    using bytes_at_stands [OF assms] by (metis uleb128_encode_0)
  from uleb_code.decodes [OF _ this] show ?thesis
    by (simp add: parse_die_def null_die_def uleb128_encode_0 cu_cursor_def cursor_over_def)
qed

text \<open>The entry at the start of a forest that a null entry ends.\<close>

definition forest_head :: "compile_unit \<Rightarrow> abbrev_table \<Rightarrow> int \<Rightarrow> dtree list \<Rightarrow> die" where
  "forest_head cu table pos kids =
    (case kids of [] \<Rightarrow> null_die cu pos | k # _ \<Rightarrow> node_die cu table pos k)"

lemma encode_tree_node: "\<exists>bs. encode_tree table t = encode_node t @ bs"
  by (cases t) simp

lemma parse_forest_head:
  assumes "cu_abbrev_table cu = Inr table" "cu_end cu \<le> int (length (elf_map (cu_elf cu)))"
    and "list_all (tree_ok table) kids" "bytes_at cu pos (concat (map (encode_tree table) kids) @ [0])"
  shows "parse_die cu pos = Inr (forest_head cu table pos kids)"
proof (cases kids)
  case Nil
  then show ?thesis using assms(4) parse_null by (simp add: forest_head_def)
next
  case (Cons k ks)
  obtain bs where "encode_tree table k = encode_node k @ bs" using encode_tree_node by blast
  then have "bytes_at cu pos (encode_node k @ (bs @ concat (map (encode_tree table) ks) @ [0]))"
    using assms(4) Cons by simp
  then have "bytes_at cu pos (encode_node k)" by (rule bytes_at_append(1))
  then show ?thesis using assms Cons by (simp add: forest_head_def parse_node)
qed

lemma iter_to_null_forest:
  assumes cu: "cu_abbrev_table cu = Inr table" "cu_end cu \<le> int (length (elf_map (cu_elf cu)))"
    and step: "\<And>k p n. k \<in> set kids \<Longrightarrow> bytes_at cu p (encode_tree table k) \<Longrightarrow> tree_cost k \<le> n \<Longrightarrow>
      iter_next n units (node_die cu table p k) = parse_die cu (p + int (length (encode_tree table k)))"
    and "list_all (tree_ok table) kids" "bytes_at cu pos (concat (map (encode_tree table) kids) @ [0])"
    and "forest_cost kids \<le> n"
  shows "iter_to_null n units (forest_head cu table pos kids) =
    Inr (null_die cu (pos + int (length (concat (map (encode_tree table) kids)))))"
  using assms(3-)
proof (induction kids arbitrary: pos n)
  case Nil
  then show ?case by (subst iter_to_null.simps) (simp add: forest_head_def null_die_def)
next
  case (Cons k ks)
  let ?p = "pos + int (length (encode_tree table k))"
  obtain m where n: "n = Suc m" "tree_cost k \<le> m" "forest_cost ks \<le> m"
    using Cons.prems(4) by (cases n) auto
  have at: "bytes_at cu pos (encode_tree table k)" "bytes_at cu ?p (concat (map (encode_tree table) ks) @ [0])"
    using Cons.prems(3) bytes_at_append [of cu pos "encode_tree table k"] by simp_all
  have "iter_next m units (node_die cu table pos k) = Inr (forest_head cu table ?p ks)"
    using Cons.prems(1) [OF _ at(1) n(2)] parse_forest_head [OF cu _ at(2)] Cons.prems(2) by simp
  moreover have "die_abbrev (node_die cu table pos k) \<noteq> None"
    using Cons.prems(2) by (cases k) (auto simp: node_die_def)
  moreover have "iter_to_null m units (forest_head cu table ?p ks) =
      Inr (null_die cu (?p + int (length (concat (map (encode_tree table) ks)))))"
    using Cons.prems at n by (intro Cons.IH) auto
  ultimately show ?case
    by (subst iter_to_null.simps) (auto simp: n(1) forest_head_def add.assoc)
qed

lemma no_sibling: "node_ok ab chunks \<Longrightarrow> die_abbrev d = Some ab \<Longrightarrow> die_contains d DW_AT_sibling = Inr False"
  by (auto simp: node_ok_def die_contains_def die_abbrev_entry_def)

lemma iter_next_tree:
  assumes cu: "cu_abbrev_table cu = Inr table" "cu_end cu \<le> int (length (elf_map (cu_elf cu)))"
    and "tree_ok table t" "bytes_at cu pos (encode_tree table t)" "tree_cost t \<le> n"
  shows "iter_next n units (node_die cu table pos t) = parse_die cu (pos + int (length (encode_tree table t)))"
  using assms(3-)
proof (induction t arbitrary: pos n)
  case (DNode code chunks kids)
  let ?t = "DNode code chunks kids" and ?d = "node_die cu table pos (DNode code chunks kids)"
  from DNode.prems(1) obtain ab where ab: "map_of table code = Some ab" "node_ok ab chunks"
    "\<not> ab_has_children ab \<longrightarrow> kids = []" by auto
  have d: "die_abbrev ?d = Some ab" "die_cu ?d = cu" "die_next ?d = pos + int (length (encode_node ?t))"
    by (simp_all add: node_die_def ab)
  show ?case
  proof (cases "ab_has_children ab")
    case False
    then have "encode_tree table ?t = encode_node ?t" using ab by simp
    then show ?thesis using False d by (subst iter_next.simps) simp
  next
    case True
    let ?p = "pos + int (length (encode_node ?t))"
    have enc: "encode_tree table ?t = encode_node ?t @ concat (map (encode_tree table) kids) @ [0]"
      using ab True by simp
    have at: "bytes_at cu ?p (concat (map (encode_tree table) kids) @ [0])"
      using DNode.prems(2) bytes_at_append(2) unfolding enc by blast
    obtain m where m: "n = Suc m" "forest_cost kids \<le> m" using DNode.prems(3) by (cases n) auto
    have oks: "list_all (tree_ok table) kids" using DNode.prems(1) by simp
    have "iter_to_null m units (forest_head cu table ?p kids) =
        Inr (null_die cu (?p + int (length (concat (map (encode_tree table) kids)))))"
      using oks by (intro iter_to_null_forest [OF cu _ oks at m(2)] DNode.IH) (auto simp: list_all_iff)
    moreover have "children_first ?d = Inr (forest_head cu table ?p kids)"
      using parse_forest_head [OF cu oks at] d by (simp add: children_first_def)
    ultimately show ?thesis
      using True d no_sibling [OF ab(2) d(1)]
      by (subst iter_next.simps) (simp add: m(1) null_die_def enc ac_simps del: encode_tree.simps encode_node.simps)
  qed
qed

lemma for_children_forest:
  assumes cu: "cu_abbrev_table cu = Inr table" "cu_end cu \<le> int (length (elf_map (cu_elf cu)))"
    and "list_all (tree_ok table) kids" "bytes_at cu pos (concat (map (encode_tree table) kids) @ [0])"
    and "forest_cost kids \<le> n"
  shows "for_children_from n units (\<lambda>c s. bindE (f c s) (\<lambda>s'. Inr (s', False))) (forest_head cu table pos kids) s =
    foldE f (forest_dies cu table pos kids) s"
  using assms(3-)
proof (induction kids arbitrary: pos n s)
  case Nil
  then show ?case by (subst for_children_from.simps) (simp add: forest_head_def null_die_def)
next
  case (Cons k ks)
  let ?p = "pos + int (length (encode_tree table k))"
  obtain m where n: "n = Suc m" "tree_cost k \<le> m" "forest_cost ks \<le> m"
    using Cons.prems(3) by (cases n) auto
  have at: "bytes_at cu pos (encode_tree table k)" "bytes_at cu ?p (concat (map (encode_tree table) ks) @ [0])"
    using Cons.prems(2) bytes_at_append [of cu pos "encode_tree table k"] by simp_all
  have next_ok: "iter_next m units (node_die cu table pos k) = Inr (forest_head cu table ?p ks)"
    using iter_next_tree [OF cu _ at(1) n(2)] parse_forest_head [OF cu _ at(2)] Cons.prems(1) by simp
  have ab: "die_abbrev (node_die cu table pos k) \<noteq> None"
    using Cons.prems(1) by (cases k) (auto simp: node_die_def)
  have IH: "for_children_from m units (\<lambda>c s. bindE (f c s) (\<lambda>s'. Inr (s', False))) (forest_head cu table ?p ks) s' =
      foldE f (forest_dies cu table ?p ks) s'" for s'
    using Cons.prems at n by (intro Cons.IH) auto
  have head: "forest_head cu table pos (k # ks) = node_die cu table pos k" by (simp add: forest_head_def)
  obtain y where "die_abbrev (node_die cu table pos k) = Some y" using ab by blast
  then show ?case
    unfolding head n(1) by (subst for_children_from.simps) (simp add: next_ok IH bindE_assoc)
qed

section \<open>The compile units cover their section\<close>

fun units_tile :: "int \<Rightarrow> int \<Rightarrow> compile_unit list \<Rightarrow> bool" where
  "units_tile pos end_pos [] \<longleftrightarrow> end_pos \<le> pos"
| "units_tile pos end_pos (u # us) \<longleftrightarrow>
    cu_begin u = pos \<and> pos < end_pos \<and> pos < cu_end u \<and> units_tile (cu_end u) end_pos us"

lemma parse_compile_unit_begin:
  "parse_compile_unit obj cur = Inr cu \<Longrightarrow> cu_begin cu = cur_pos cur \<and> cu_elf cu = obj"
  by (auto simp: parse_compile_unit_def Let_def result_simps split: if_splits)

lemma parse_compile_units_tile:
  "parse_compile_units_loop obj cur acc = Inr units \<Longrightarrow>
     \<exists>us. units = acc @ us \<and> units_tile (cur_pos cur) (cur_end cur) us \<and> (\<forall>u \<in> set us. cu_elf u = obj)"
proof (induction obj cur acc rule: parse_compile_units_loop.induct)
  case (1 obj cur acc)
  show ?case
  proof (cases "cursor_finished cur")
    case True
    then show ?thesis
      using "1.prems" by (subst (asm) parse_compile_units_loop.simps) (auto simp: cursor_finished_def)
  next
    case False
    let ?next = "\<lambda>cu. cur\<lparr>cur_pos := cur_pos cur + (cu_end cu - cu_begin cu)\<rparr>"
    from "1.prems" False obtain cu where cu: "parse_compile_unit obj cur = Inr cu" "\<not> cu_end cu \<le> cu_begin cu"
      "parse_compile_units_loop obj (?next cu) (acc @ [cu]) = Inr units"
      by (subst (asm) parse_compile_units_loop.simps) (auto simp: result_simps split: if_splits)
    note b = parse_compile_unit_begin [OF cu(1)]
    from "1.IH" [OF False cu(1,2,3)] obtain us where us: "units = (acc @ [cu]) @ us"
      "units_tile (cur_pos (?next cu)) (cur_end (?next cu)) us" "\<forall>u \<in> set us. cu_elf u = obj" by blast
    have "units_tile (cur_pos cur) (cur_end cur) (cu # us)"
      using us(2) cu(2) b False by (simp add: cursor_finished_def)
    then show ?thesis using us b by (intro exI [of _ "cu # us"]) auto
  qed
qed

section \<open>A small tree\<close>

definition tree_abbrevs :: "abbrev list" where
  "tree_abbrevs =
    [\<lparr>ab_code = 1, ab_tag = DW_TAG_subprogram, ab_has_children = True,
      ab_attr_specs = [\<lparr>spec_attr = DW_AT_decl_line, spec_form = DW_FORM_data1\<rparr>]\<rparr>,
     \<lparr>ab_code = 2, ab_tag = DW_TAG_variable, ab_has_children = False,
      ab_attr_specs = [\<lparr>spec_attr = DW_AT_decl_line, spec_form = DW_FORM_data1\<rparr>]\<rparr>]"

definition tree_table :: abbrev_table where
  "tree_table = map (\<lambda>ab. (ab_code ab, ab)) tree_abbrevs"

definition sample_tree :: dtree where
  "sample_tree = DNode 1 [[5]] [DNode 1 [[6]] [DNode 2 [[7]] []], DNode 2 [[8]] []]"

definition tree_abbrev_bytes :: "byte list" where
  "tree_abbrev_bytes = concat (map encode_abbrev tree_abbrevs) @ encode_abbrev null_abbrev"

definition unit_header :: "u32 \<Rightarrow> byte list" where
  "unit_header sz = as_bytes sz @ as_bytes (4 :: u16) @ as_bytes (0 :: u32) @ [8]"

definition tree_elf :: elf where
  "tree_elf = sample_dwarf_elf
    \<lparr>elf_map := tree_abbrev_bytes @ unit_header 17 @ encode_tree tree_table sample_tree,
     section_map := [''.debug_abbrev'' \<mapsto>
        \<lparr>sh_name = 0, sh_addr = 0, sh_offset = 0, sh_size = 19, sh_entsize = 0\<rparr>,
      ''.debug_info'' \<mapsto>
        \<lparr>sh_name = 0, sh_addr = 0, sh_offset = 19, sh_size = 21, sh_entsize = 0\<rparr>]\<rparr>"

definition tree_cu :: compile_unit where
  "tree_cu = \<lparr>cu_elf = tree_elf, cu_begin = 19, cu_end = 40, cu_abbrev_offset = 0, cu_lines = None\<rparr>"

lemma tree_cu_table: "cu_abbrev_table tree_cu = Inr tree_table"
  by code_simp

lemma tree_bytes: "bytes_at tree_cu 30 (encode_tree tree_table sample_tree)"
  by code_simp

lemma tree_length: "cu_end tree_cu \<le> int (length (elf_map (cu_elf tree_cu)))"
  by code_simp

lemma tree_tree_ok: "tree_ok tree_table sample_tree"
  by (simp add: sample_tree_def tree_table_def tree_abbrevs_def node_ok_def fe_1)

section \<open>Properties\<close>

text \<open>
  C28. Iterating over the children of an entry: where the image holds the encoding of a tree of
  entries without sibling attributes, parsing the root and iterating with fuel at least the size
  of the tree succeeds and visits exactly the root's direct children, in order, each at the
  position where its encoding starts, whatever nested entries lie between them.
\<close>

theorem children_of_tree:
  assumes "cu_abbrev_table cu = Inr table" "cu_end cu \<le> int (length (elf_map (cu_elf cu)))"
    and "tree_ok table (DNode code chunks kids)"
    and "bytes_at cu pos (encode_tree table (DNode code chunks kids))"
    and "tree_cost (DNode code chunks kids) \<le> n"
  shows "\<exists>d. parse_die cu pos = Inr d \<and>
    children n units d =
      Inr (forest_dies cu table (pos + int (length (encode_node (DNode code chunks kids)))) kids)"
proof -
  let ?t = "DNode code chunks kids" and ?p = "pos + int (length (encode_node (DNode code chunks kids)))"
  from assms(3) obtain ab where ab: "map_of table code = Some ab" "\<not> ab_has_children ab \<longrightarrow> kids = []" by auto
  have parts: "bytes_at cu pos (encode_node ?t)"
    "bytes_at cu ?p (if has_kids table code then concat (map (encode_tree table) kids) @ [0] else [])"
    using assms(4) bytes_at_append unfolding encode_tree_split by blast+
  have p: "parse_die cu pos = Inr (node_die cu table pos ?t)"
    by (rule parse_node [OF assms(1-3) parts(1)])
  have d: "die_abbrev (node_die cu table pos ?t) = Some ab" "die_cu (node_die cu table pos ?t) = cu"
    "die_next (node_die cu table pos ?t) = ?p" by (simp_all add: node_die_def ab)
  have fold: "foldE (\<lambda>c cs. Inr (cs @ [c])) ds acc = Inr (acc @ ds)" for ds acc :: "die list"
    by (induction ds arbitrary: acc) auto
  have "children n units (node_die cu table pos ?t) = Inr (forest_dies cu table ?p kids)"
  proof (cases "ab_has_children ab")
    case False
    then show ?thesis using d ab(2) by (simp add: children_def for_children_def die_abbrev_entry_def)
  next
    case True
    have oks: "list_all (tree_ok table) kids" using assms(3) by simp
    have at: "bytes_at cu ?p (concat (map (encode_tree table) kids) @ [0])" using parts(2) True ab(1) by simp
    have "for_children_from n units (\<lambda>c s. bindE (Inr (s @ [c])) (\<lambda>s'. Inr (s', False)))
        (forest_head cu table ?p kids) [] = Inr (forest_dies cu table ?p kids)"
      using for_children_forest [OF assms(1,2) oks at, of n units "\<lambda>c s. Inr (s @ [c])"] assms(5) fold
      by simp
    then show ?thesis
      using True d parse_forest_head [OF assms(1,2) oks at]
      by (simp add: children_def for_children_def die_abbrev_entry_def children_first_def)
  qed
  then show ?thesis using p by blast
qed

theorem children_of_tree_witness:
  "\<exists>d. parse_die tree_cu 30 = Inr d \<and>
    children 10 [] d = Inr (forest_dies tree_cu tree_table 32
      [DNode 1 [[6]] [DNode 2 [[7]] []], DNode 2 [[8]] []])"
proof -
  have "\<exists>d. parse_die tree_cu 30 = Inr d \<and>
    children 10 [] d = Inr (forest_dies tree_cu tree_table
      (30 + int (length (encode_node (DNode 1 [[5]] [DNode 1 [[6]] [DNode 2 [[7]] []], DNode 2 [[8]] []]))))
      [DNode 1 [[6]] [DNode 2 [[7]] []], DNode 2 [[8]] []])"
    by (rule children_of_tree [OF tree_cu_table tree_length])
      (use tree_tree_ok tree_bytes in \<open>simp_all add: sample_tree_def\<close>)
  then show ?thesis by (simp add: uleb128_encode.simps)
qed



end
