(* ===== verification/Parse.thy ===== *)
theory Parse
  imports Gsdb_Prelude
begin

text \<open>
  \<open>include/libgsdb/parse.hpp\<close>: integers and byte vectors from the text of a command, with the parts of
  \<open>std::from_chars\<close> and \<open>std::format\<close> the debugger uses. \<open>from_chars\<close> consumes the longest run of
  digits; without a digit it consumes nothing, and a value that does not fit leaves the result
  untouched. The code looks only at the position reached.
\<close>

section \<open>Integers as text\<close>

definition digit_value :: "char \<Rightarrow> nat option" where
  "digit_value c =
    (let n = of_char c :: nat
     in if 48 \<le> n \<and> n \<le> 57 then Some (n - 48)
        else if 97 \<le> n \<and> n \<le> 122 then Some (n - 87)
        else if 65 \<le> n \<and> n \<le> 90 then Some (n - 55)
        else None)"

definition is_digit :: "nat \<Rightarrow> char \<Rightarrow> bool" where
  "is_digit base c = (case digit_value c of None \<Rightarrow> False | Some d \<Rightarrow> d < base)"

definition digits_value :: "nat \<Rightarrow> string \<Rightarrow> nat" where
  "digits_value base ds = foldl (\<lambda>v c. v * base + the (digit_value c)) 0 ds"

text \<open>The characters consumed and the value, where there is one.\<close>

definition from_chars_nat :: "nat \<Rightarrow> string \<Rightarrow> nat option \<times> string" where
  "from_chars_nat base s =
    (let ds = takeWhile (is_digit base) s
     in if ds = [] then (None, s) else (Some (digits_value base ds), dropWhile (is_digit base) s))"

definition from_chars_int :: "nat \<Rightarrow> string \<Rightarrow> int option \<times> string" where
  "from_chars_int base s =
    (if s \<noteq> [] \<and> hd s = CHR ''-'' then
       (case from_chars_nat base (tl s) of
          (None, _) \<Rightarrow> (None, s)
        | (Some v, rest) \<Rightarrow> (Some (- int v), rest))
     else (case from_chars_nat base s of (v, rest) \<Rightarrow> (map_option int v, rest)))"

definition skip_hex_prefix :: "nat \<Rightarrow> string \<Rightarrow> string" where
  "skip_hex_prefix base s =
    (if base = 16 \<and> length s > 1 \<and> s ! 0 = CHR ''0'' \<and> s ! 1 = CHR ''x'' then drop 2 s else s)"

definition to_integral_unsigned :: "nat \<Rightarrow> string \<Rightarrow> 'a::len word option" where
  "to_integral_unsigned base s =
    (case from_chars_nat base (skip_hex_prefix base s) of
       (v, rest) \<Rightarrow>
         if rest \<noteq> [] then None
         else (case v of
                 None \<Rightarrow> Some 0
               | Some n \<Rightarrow> Some (if n < 2 ^ LENGTH('a) then word_of_nat n else 0)))"

definition to_integral_signed :: "nat \<Rightarrow> string \<Rightarrow> 'a::len word option" where
  "to_integral_signed base s =
    (case from_chars_int base (skip_hex_prefix base s) of
       (v, rest) \<Rightarrow>
         if rest \<noteq> [] then None
         else (case v of
                 None \<Rightarrow> Some 0
               | Some n \<Rightarrow> Some (if - (2 ^ (LENGTH('a) - 1)) \<le> n \<and> n < 2 ^ (LENGTH('a) - 1) then word_of_int n else 0)))"

definition to_integral_byte :: "nat \<Rightarrow> string \<Rightarrow> byte option" where
  "to_integral_byte base s = to_integral_unsigned base s"

section \<open>Floating-point numbers as text\<close>

text \<open>
  \<open>std::from_chars\<close> on floating-point types, a parameter: how many characters it took, and the value it stored, if any
  (it stores none for a text that is no number and for a value out of range). \<open>to_float\<close> looks only at the
  end pointer, and then returns a variable that may not have been written.
\<close>

type_synonym 'a float_chars = "string \<Rightarrow> nat \<times> 'a option"

definition to_float :: "'a float_chars \<Rightarrow> string \<Rightarrow> 'a option result" where
  "to_float from_chars sv =
    (case from_chars sv of
       (consumed, stored) \<Rightarrow>
         if consumed \<noteq> length sv then Inr None
         else case stored of None \<Rightarrow> Inl (Undefined ''uninitialised floating-point value'') | Some v \<Rightarrow> Inr (Some v))"

section \<open>Byte vectors\<close>

definition past_text :: gsdb_error where
  "past_text = Undefined ''read past the end of the text''"

text \<open>The character a pointer stands on.\<close>

definition char_at :: "string \<Rightarrow> char result" where
  "char_at c = (case c of [] \<Rightarrow> Inl past_text | x # _ \<Rightarrow> Inr x)"

definition parse_vector_byte :: "string \<Rightarrow> byte result" where
  "parse_vector_byte c =
    (if length c < 4 then Inl past_text
     else the_opt (Std_exception ''bad_optional_access'') (to_integral_byte 16 (take 4 c)))"

fun parse_elements_n :: "nat \<Rightarrow> string \<Rightarrow> (byte list \<times> string) result" where
  "parse_elements_n 0 c = Inr ([], c)"
| "parse_elements_n (Suc k) c =
    bindE (parse_vector_byte c) (\<lambda>b.
    bindE (char_at (drop 4 c)) (\<lambda>x.
      if x \<noteq> CHR '','' then Inl (Send ''Invalid format!'')
      else bindE (parse_elements_n k (drop 5 c)) (\<lambda>(bs, r). Inr (b # bs, r))))"

definition parse_vector_n :: "nat \<Rightarrow> string \<Rightarrow> byte list result" where
  "parse_vector_n n s =
    bindE (char_at s) (\<lambda>x.
      if x \<noteq> CHR ''['' then Inl (Send ''Invalid format!'')
      else
        bindE (parse_elements_n (n - 1) (tl s)) (\<lambda>(bs, c).
        bindE (parse_vector_byte c) (\<lambda>b.
        bindE (char_at (drop 4 c)) (\<lambda>y.
          if y \<noteq> CHR '']'' then Inl (Send ''Invalid format!'')
          else if drop 5 c \<noteq> [] then Inl (Send ''Invalid format!'')
          else Inr (bs @ [b])))))"

function parse_elements :: "string \<Rightarrow> byte list \<Rightarrow> (byte list \<times> string) result" where
  "parse_elements c bytes =
    bindE (char_at c) (\<lambda>x.
      if x = CHR '']'' then Inr (bytes, c)
      else if length c < 4 then Inl past_text
      else
        bindE (parse_vector_byte c) (\<lambda>b.
        bindE (char_at (drop 4 c)) (\<lambda>y.
          if y = CHR '','' then parse_elements (drop 5 c) (bytes @ [b])
          else if y \<noteq> CHR '']'' then Inl (Send ''Invalid text format!'')
          else parse_elements (drop 4 c) (bytes @ [b]))))"
  by pat_completeness auto
termination by (relation "measure (\<lambda>(c, _). length c)") auto

declare parse_elements.simps [simp del]

definition parse_vector :: "string \<Rightarrow> byte list result" where
  "parse_vector s =
    bindE (char_at s) (\<lambda>x.
      if x \<noteq> CHR ''['' then Inl (Send ''Invalid text format!'')
      else
        bindE (parse_elements (tl s) []) (\<lambda>(bytes, c).
          if tl c \<noteq> [] then Inl (Send ''Invalid text format!'') else Inr bytes))"

section \<open>Printing\<close>

definition digit_char :: "nat \<Rightarrow> char" where
  "digit_char d = (if d < 10 then char_of (48 + d) else char_of (87 + d))"

function format_nat :: "nat \<Rightarrow> nat \<Rightarrow> string" where
  "format_nat base n =
    (if n < base \<or> base \<le> 1 then [digit_char n] else format_nat base (n div base) @ [digit_char (n mod base)])"
  by auto
termination by (relation "measure (\<lambda>(_, n). n)") auto

declare format_nat.simps [simp del]

definition format_int :: "int \<Rightarrow> string" where
  "format_int i = (if i < 0 then ''-'' @ format_nat 10 (nat (- i)) else format_nat 10 (nat i))"

definition format_hex :: "u64 \<Rightarrow> string" where
  "format_hex w = ''0x'' @ format_nat 16 (unat w)"

section \<open>Facts\<close>

lemma digit_char_value: "d < 16 \<Longrightarrow> digit_value (digit_char d) = Some d"
  by (auto simp: digit_value_def digit_char_def of_char_of)

lemma digits_value_snoc: "digits_value base (ds @ [c]) = digits_value base ds * base + the (digit_value c)"
  by (simp add: digits_value_def)

lemma format_nat_digits:
  "2 \<le> base \<Longrightarrow> base \<le> 16 \<Longrightarrow> format_nat base n \<noteq> [] \<and> (\<forall>c \<in> set (format_nat base n). is_digit base c) \<and>
    digits_value base (format_nat base n) = n"
proof (induction base n rule: format_nat.induct)
  case (1 base n)
  show ?case
  proof (cases "n < base")
    case True
    then have "digit_value (digit_char n) = Some n" using 1(3) by (simp add: digit_char_value)
    then show ?thesis using True by (subst (1 2 3) format_nat.simps) (simp add: is_digit_def digits_value_def)
  next
    case False
    have "digit_value (digit_char (n mod base)) = Some (n mod base)"
      using 1(2,3) mod_less_divisor [of base n] by (intro digit_char_value) linarith
    moreover have f: "format_nat base n = format_nat base (n div base) @ [digit_char (n mod base)]"
      using False 1(2) by (subst format_nat.simps) simp
    ultimately show ?thesis
      using 1 False unfolding f by (auto simp: digits_value_snoc is_digit_def)
  qed
qed

lemma from_chars_format:
  assumes "2 \<le> base" "base \<le> 16"
  shows "from_chars_nat base (format_nat base n) = (Some n, [])"
  using format_nat_digits [OF assms, of n]
  by (simp add: from_chars_nat_def takeWhile_eq_all_conv [THEN iffD2] dropWhile_eq_Nil_conv)

lemma format_nat_start:
  assumes "2 \<le> base" "base \<le> 16"
  shows "\<exists>c t. format_nat base n = c # t \<and> c \<noteq> CHR ''-'' \<and> \<not> (t \<noteq> [] \<and> hd t = CHR ''x'')"
proof -
  obtain c t where f: "format_nat base n = c # t"
    using format_nat_digits [OF assms, of n] by (meson list.exhaust)
  then have d: "is_digit base c" "\<forall>x \<in> set t. is_digit base x" using format_nat_digits [OF assms, of n] by simp_all
  have "\<not> is_digit base CHR ''-''" "\<not> is_digit base CHR ''x''" using assms(2) by (simp_all add: is_digit_def digit_value_def)
  then have "c \<noteq> CHR ''-''" "\<not> (t \<noteq> [] \<and> hd t = CHR ''x'')" using d by (auto, cases t, auto)
  then show ?thesis using f by (intro exI conjI)
qed

lemma skip_prefix_format:
  assumes "2 \<le> base" "base \<le> 16"
  shows "skip_hex_prefix base (format_nat base n) = format_nat base n" "skip_hex_prefix 10 s = s"
  using format_nat_start [OF assms, of n] by (auto simp: skip_hex_prefix_def hd_conv_nth)

lemma to_integral_format: "to_integral_unsigned 10 (format_nat 10 (unat w)) = Some (w :: 'a::len word)"
  by (simp add: to_integral_unsigned_def skip_prefix_format(2) [of 10] from_chars_format)

lemma to_integral_hex: "to_integral_unsigned 16 (format_hex w) = Some w"
  using unsigned_less [where ?'a = nat, of w] by (simp add: to_integral_unsigned_def skip_hex_prefix_def format_hex_def from_chars_format)

lemma sint_bounds: "- (2 ^ (LENGTH('a) - 1)) \<le> sint (w :: 'a::len word) \<and> sint w < 2 ^ (LENGTH('a) - 1)"
  using sint_ge [of w] sint_lt [of w] by simp

lemma to_integral_signed_format: "to_integral_signed 10 (format_int (sint w)) = Some (w :: 'a::len word)"
proof (cases "sint w < 0")
  case True
  then have "from_chars_int 10 (format_int (sint w)) = (Some (sint w), [])"
    by (simp add: format_int_def from_chars_int_def from_chars_format)
  then show ?thesis using sint_bounds [of w] by (simp add: to_integral_signed_def skip_prefix_format(2) [of 10])
next
  case False
  obtain c t where "format_nat 10 (nat (sint w)) = c # t" "c \<noteq> CHR ''-''"
    using format_nat_start [of 10 "nat (sint w)"] by auto
  then have "from_chars_int 10 (format_int (sint w)) = (Some (sint w), [])"
    using False from_chars_format [of 10 "nat (sint w)"]
    by (simp add: format_int_def from_chars_int_def)
  then show ?thesis using sint_bounds [of w] by (simp add: to_integral_signed_def skip_prefix_format(2) [of 10])
qed

section \<open>Properties\<close>

text \<open>
  Integers survive printing and parsing: the decimal text of a word, read as signed or unsigned,
  and its hexadecimal text with the prefix give the word back.
\<close>

lemma integral_roundtrip:
  "to_integral_unsigned 10 (format_nat 10 (unat w)) = Some (w :: 'a::len word) \<and>
   to_integral_signed 10 (format_int (sint w)) = Some w \<and> to_integral_unsigned 16 (format_hex x) = Some x"
  by (simp add: to_integral_format to_integral_signed_format to_integral_hex)

text \<open>The text of a byte in a vector.\<close>

definition format_byte :: "byte \<Rightarrow> string" where
  "format_byte b = ''0x'' @ [digit_char (unat b div 16), digit_char (unat b mod 16)]"

lemma parse_format_byte: "parse_vector_byte (format_byte b @ rest) = Inr b"
proof -
  have u: "unat b < 256" using unsigned_less [where ?'a = nat, of b] by simp
  then have "unat b div 16 < 16" "unat b mod 16 < 16" by (auto simp: div_less_iff_less_mult)
  then have v: "digit_value (digit_char (unat b div 16)) = Some (unat b div 16)"
    "digit_value (digit_char (unat b mod 16)) = Some (unat b mod 16)" by (simp_all add: digit_char_value)
  then have "from_chars_nat 16 [digit_char (unat b div 16), digit_char (unat b mod 16)] = (Some (unat b), [])"
    by (simp add: from_chars_nat_def is_digit_def digits_value_def \<open>unat b div 16 < 16\<close>)
  then show ?thesis
    using u by (simp add: parse_vector_byte_def format_byte_def to_integral_byte_def to_integral_unsigned_def skip_hex_prefix_def)
qed

lemma length_format_byte [simp]: "length (format_byte b) = 4"
  by (simp add: format_byte_def)

fun format_bytes :: "byte list \<Rightarrow> string" where
  "format_bytes [] = []"
| "format_bytes [b] = format_byte b"
| "format_bytes (b # bs) = format_byte b @ '','' @ format_bytes bs"

lemma format_byte_start: "char_at (format_byte b @ rest) = Inr CHR ''0''"
  by (simp add: format_byte_def char_at_def)

lemma parse_elements_format: "parse_elements (format_bytes bs @ '']'') acc = Inr (acc @ bs, '']'')"
proof (induction bs arbitrary: acc rule: format_bytes.induct)
  case 1
  then show ?case by (subst parse_elements.simps) (simp add: char_at_def)
next
  case (2 b)
  have "parse_elements '']'' (acc @ [b]) = Inr (acc @ [b], '']'')"
    by (subst parse_elements.simps) (simp add: char_at_def)
  moreover have "char_at (drop 4 (format_byte b @ '']'')) = Inr CHR '']''" by (simp add: char_at_def)
  ultimately show ?case
    by (subst parse_elements.simps) (simp add: format_byte_start parse_format_byte)
next
  case (3 b b' bs)
  have "char_at (drop 4 (format_byte b @ '','' @ format_bytes (b' # bs) @ '']'')) = Inr CHR '',''" by (simp add: char_at_def)
  then show ?case
    using 3 by (subst parse_elements.simps) (simp add: format_byte_start parse_format_byte)
qed

lemma parse_elements_n_format:
  "parse_elements_n (length bs) (format_bytes (bs @ [b]) @ rest) = Inr (bs, format_byte b @ rest)"
proof (induction bs)
  case (Cons x bs)
  have "format_bytes (x # bs @ [b]) = format_byte x @ '','' @ format_bytes (bs @ [b])" by (cases bs) simp_all
  then show ?case using Cons.IH by (simp add: parse_format_byte char_at_def)
qed simp

lemma parse_vector_format: "parse_vector (''['' @ format_bytes bs @ '']'') = Inr bs"
  by (simp add: parse_vector_def char_at_def parse_elements_format)

lemma parse_vector_n_format:
  "parse_vector_n (Suc (length bs)) (''['' @ format_bytes (bs @ [b]) @ '']'') = Inr (bs @ [b])"
  using parse_elements_n_format [of bs b "'']''"] parse_format_byte [of b "'']''"]
  by (simp add: parse_vector_n_def char_at_def [of "CHR ''['' # _"]) (simp add: char_at_def)

text \<open>
  Byte vectors survive printing and parsing, in the form with a given number of elements and in
  the one that takes any number.
\<close>

lemma parse_vector_roundtrip:
  "parse_vector (''['' @ format_bytes bs @ '']'') = Inr bs \<and>
   parse_vector_n (Suc (length bs)) (''['' @ format_bytes (bs @ [b]) @ '']'') = Inr (bs @ [b])"
  by (rule conjI [OF parse_vector_format parse_vector_n_format])

text \<open>The error of \<open>from_chars\<close> is not looked at: an empty text and a value that does not fit are zero.\<close>

lemma to_integral_ignores_errors:
  "to_integral_unsigned 10 [] = Some (0 :: u64)" "to_integral_unsigned 16 ''0x'' = Some (0 :: u64)"
  "to_integral_unsigned 10 ''256'' = Some (0 :: byte)"
  by code_simp+

lemma to_float_ignores_errors:
  "from_chars sv = (length sv, None) \<Longrightarrow> to_float from_chars sv = Inl (Undefined ''uninitialised floating-point value'')"
  by (simp add: to_float_def)

end
