(* ===== verification/Types.thy ===== *)
theory Types
  imports Dwarf_Info Parse
begin

text \<open>
  \<open>src/type.cpp\<close>, \<open>include/libgsdb/type.hpp\<close> and the two functions of \<open>src/dwarf.cpp\<close> on types: the type of
  a value as a debugging entry or a builtin one, its size, alignment and calling convention classes,
  equality, and typed data with their members, elements and text. The size cache only repeats a
  computed value and is left out. Entries refer to each other, so the walks take fuel, as those of
  \<open>Dwarf_Info\<close>. What the inferior's memory contributes comes from a reader of memory and one of
  strings; the text of floating point numbers, which only \<open>std::format\<close> knows, is a record of parameters.
\<close>

section \<open>Types\<close>

datatype builtin_type = bt_string | bt_character | bt_integer | bt_boolean | bt_floating_point

datatype parameter_class =
  pc_integer | pc_sse | pc_sseup | pc_x87 | pc_x87up | pc_complex_x87 | pc_memory | pc_no_class

datatype gtype = Die_type die | Builtin_type builtin_type

fun get_die :: "gtype \<Rightarrow> die result" where
  "get_die (Die_type d) = Inr d"
| "get_die (Builtin_type b) = Inl (Send ''Type is not DWARF info!'')"

fun get_builtin_type :: "gtype \<Rightarrow> builtin_type result" where
  "get_builtin_type (Builtin_type b) = Inr b"
| "get_builtin_type (Die_type d) = Inl (Send ''Type is not a builtin type!'')"

fun is_from_dwarf :: "gtype \<Rightarrow> bool" where
  "is_from_dwarf (Die_type d) = True"
| "is_from_dwarf (Builtin_type b) = False"

definition as_type :: "compile_unit list \<Rightarrow> attr \<Rightarrow> gtype result" where
  "as_type units a = bindE (as_reference units a) (\<lambda>d. Inr (Die_type d))"

text \<open>\<open>die[DW_AT_type].as_type()\<close> and \<open>die[attribute].as_int()\<close>.\<close>

definition die_type :: "compile_unit list \<Rightarrow> die \<Rightarrow> gtype result" where
  "die_type units d = bindE (die_attr d DW_AT_type) (as_type units)"

definition die_int :: "die \<Rightarrow> nat \<Rightarrow> u64 result" where
  "die_int d attribute = bindE (die_attr d attribute) as_int"

definition type_tag :: "gtype \<Rightarrow> nat result" where
  "type_tag t = bindE (get_die t) die_tag"

fun strip :: "nat \<Rightarrow> compile_unit list \<Rightarrow> nat list \<Rightarrow> gtype \<Rightarrow> gtype result" where
  "strip n units tags t =
    bindE (get_die t) (\<lambda>d.
    bindE (die_tag d) (\<lambda>tag.
      if tag \<notin> set tags then Inr t
      else (case n of
              0 \<Rightarrow> Inl (No_return ''fuel'')
            | Suc m \<Rightarrow> bindE (die_type units d) (strip m units tags))))"

declare strip.simps [simp del]

definition strip_cv_typedef :: "nat \<Rightarrow> compile_unit list \<Rightarrow> gtype \<Rightarrow> gtype result" where
  "strip_cv_typedef n units = strip n units [DW_TAG_const_type, DW_TAG_volatile_type, DW_TAG_typedef]"

definition strip_cvref_typedef :: "nat \<Rightarrow> compile_unit list \<Rightarrow> gtype \<Rightarrow> gtype result" where
  "strip_cvref_typedef n units =
    strip n units [DW_TAG_const_type, DW_TAG_volatile_type, DW_TAG_typedef, DW_TAG_reference_type,
      DW_TAG_rvalue_reference_type]"

definition strip_all :: "nat \<Rightarrow> compile_unit list \<Rightarrow> gtype \<Rightarrow> gtype result" where
  "strip_all n units =
    strip n units [DW_TAG_const_type, DW_TAG_volatile_type, DW_TAG_typedef, DW_TAG_reference_type,
      DW_TAG_rvalue_reference_type, DW_TAG_pointer_type]"

fun builtin_size :: "builtin_type \<Rightarrow> u64" where
  "builtin_size bt_boolean = 1"
| "builtin_size bt_character = 1"
| "builtin_size bt_integer = 8"
| "builtin_size bt_floating_point = 8"
| "builtin_size bt_string = 8"

text \<open>The sizes of the dimensions of an array entry, in the order of its children.\<close>

definition array_dimensions :: "nat \<Rightarrow> compile_unit list \<Rightarrow> die \<Rightarrow> u64 list result" where
  "array_dimensions n units d =
    for_children n units
      (\<lambda>child dims. bindE (die_tag child) (\<lambda>tag.
         if tag = DW_TAG_subrange_type
         then bindE (die_int child DW_AT_upper_bound) (\<lambda>ub. Inr (dims @ [ub + 1], False))
         else Inr (dims, False))) d []"

fun byte_size :: "nat \<Rightarrow> compile_unit list \<Rightarrow> gtype \<Rightarrow> u64 result" where
  "byte_size n units (Builtin_type b) = Inr (builtin_size b)"
| "byte_size n units (Die_type d) =
    bindE (die_tag d) (\<lambda>tag.
      if tag = DW_TAG_pointer_type then Inr 8
      else if tag = DW_TAG_ptr_to_member_type then
        bindE (die_type units d) (\<lambda>member_type.
        bindE (type_tag member_type) (\<lambda>mtag. Inr (if mtag = DW_TAG_subroutine_type then 16 else 8)))
      else if tag = DW_TAG_array_type then
        bindE (die_type units d) (\<lambda>value_type.
        bindE (case n of 0 \<Rightarrow> Inl (No_return ''fuel'') | Suc m \<Rightarrow> byte_size m units value_type) (\<lambda>value_size.
        bindE (array_dimensions n units d) (\<lambda>dims. Inr (fold (\<lambda>x acc. acc * x) dims value_size))))
      else
        bindE (die_contains d DW_AT_byte_size) (\<lambda>has_size.
        if has_size then die_int d DW_AT_byte_size
        else bindE (die_contains d DW_AT_type) (\<lambda>has_type.
          if has_type then
            bindE (die_type units d) (\<lambda>t.
              case n of 0 \<Rightarrow> Inl (No_return ''fuel'') | Suc m \<Rightarrow> byte_size m units t)
          else Inr 0)))"

declare byte_size.simps(2) [simp del]

definition is_char_type :: "nat \<Rightarrow> compile_unit list \<Rightarrow> gtype \<Rightarrow> bool result" where
  "is_char_type n units t =
    bindE (strip_cv_typedef n units t) (\<lambda>s.
    bindE (get_die s) (\<lambda>stripped.
    bindE (die_contains stripped DW_AT_encoding) (\<lambda>has.
    if \<not> has then Inr False
    else
      bindE (die_int stripped DW_AT_encoding) (\<lambda>encoding.
      bindE (die_tag stripped) (\<lambda>tag.
        Inr (tag = DW_TAG_base_type \<and>
             (unat encoding = DW_ATE_signed_char \<or> unat encoding = DW_ATE_unsigned_char)))))))"

definition class_tag :: "nat \<Rightarrow> bool" where
  "class_tag tag \<longleftrightarrow> tag = DW_TAG_class_type \<or> tag = DW_TAG_structure_type \<or> tag = DW_TAG_union_type"

definition is_class_type :: "nat \<Rightarrow> compile_unit list \<Rightarrow> gtype \<Rightarrow> bool result" where
  "is_class_type n units t =
    (if \<not> is_from_dwarf t then Inr False
     else bindE (strip_cv_typedef n units t) (\<lambda>s. bindE (type_tag s) (\<lambda>tag. Inr (class_tag tag))))"

definition is_reference_type :: "nat \<Rightarrow> compile_unit list \<Rightarrow> gtype \<Rightarrow> bool result" where
  "is_reference_type n units t =
    (if \<not> is_from_dwarf t then Inr False
     else bindE (strip_cv_typedef n units t) (\<lambda>s. bindE (type_tag s) (\<lambda>tag.
       Inr (tag = DW_TAG_reference_type \<or> tag = DW_TAG_rvalue_reference_type))))"

text \<open>A child that is a data member of each object, not a static one.\<close>

definition is_data_member :: "die \<Rightarrow> bool result" where
  "is_data_member child =
    bindE (die_tag child) (\<lambda>tag.
      if tag \<noteq> DW_TAG_member then Inr False
      else bindE (die_contains child DW_AT_data_member_location) (\<lambda>a.
        if a then Inr True else die_contains child DW_AT_data_bit_offset))"

section \<open>Equality\<close>

definition encoding_matches :: "u64 \<Rightarrow> builtin_type \<Rightarrow> bool" where
  "encoding_matches encoding b =
    (let e = unat encoding
     in if e = DW_ATE_boolean then b = bt_boolean
        else if e = DW_ATE_float then b = bt_floating_point
        else if e = DW_ATE_signed \<or> e = DW_ATE_unsigned then b = bt_integer
        else if e = DW_ATE_signed_char \<or> e = DW_ATE_unsigned_char then b = bt_character
        else False)"

definition type_eq_builtin :: "nat \<Rightarrow> compile_unit list \<Rightarrow> gtype \<Rightarrow> builtin_type \<Rightarrow> bool result" where
  "type_eq_builtin n units from_dwarf b =
    bindE (strip_cvref_typedef n units from_dwarf) (\<lambda>s.
    bindE (get_die s) (\<lambda>d.
    bindE (die_tag d) (\<lambda>tag.
      if tag = DW_TAG_base_type then
        bindE (die_int d DW_AT_encoding) (\<lambda>encoding. Inr (encoding_matches encoding b))
      else if tag = DW_TAG_pointer_type then
        bindE (die_type units d) (\<lambda>t. bindE (is_char_type n units t) (\<lambda>c. Inr (c \<and> b = bt_string)))
      else Inr False)))"

definition type_eq :: "nat \<Rightarrow> compile_unit list \<Rightarrow> gtype \<Rightarrow> gtype \<Rightarrow> bool result" where
  "type_eq n units lhs rhs =
    (case (lhs, rhs) of
       (Builtin_type a, Builtin_type b) \<Rightarrow> Inr (a = b)
     | (Builtin_type b, Die_type d) \<Rightarrow> type_eq_builtin n units (Die_type d) b
     | (Die_type d, Builtin_type b) \<Rightarrow> type_eq_builtin n units (Die_type d) b
     | (Die_type a, Die_type b) \<Rightarrow>
         bindE (strip_all n units lhs) (\<lambda>lhs_stripped.
         bindE (strip_all n units rhs) (\<lambda>rhs_stripped.
         bindE (bindE (get_die lhs_stripped) (die_name n units)) (\<lambda>lhs_name.
         bindE (bindE (get_die rhs_stripped) (die_name n units)) (\<lambda>rhs_name.
           Inr (lhs_name \<noteq> None \<and> lhs_name = rhs_name))))))"

section \<open>Alignment\<close>

text \<open>\<open>member_type.alignment()\<close> is called twice for a member that raises the maximum; the two calls agree.\<close>

fun alignment :: "nat \<Rightarrow> compile_unit list \<Rightarrow> gtype \<Rightarrow> u64 result" where
  "alignment n units t =
    (if \<not> is_from_dwarf t then byte_size n units t
     else
       bindE (strip_cv_typedef n units t) (\<lambda>stripped.
       bindE (get_die stripped) (\<lambda>d.
       bindE (die_tag d) (\<lambda>tag.
         if class_tag tag then
           (case n of
              0 \<Rightarrow> Inl (No_return ''fuel'')
            | Suc m \<Rightarrow>
                for_children n units
                  (\<lambda>child max_alignment.
                     bindE (is_data_member child) (\<lambda>is_member.
                       if is_member then
                         bindE (die_type units child) (\<lambda>member_type.
                         bindE (alignment m units member_type) (\<lambda>a.
                           Inr (if a > max_alignment then a else max_alignment, False)))
                       else Inr (max_alignment, False))) d 1)
         else if tag = DW_TAG_array_type then
           bindE (die_type units d) (\<lambda>value_type.
             case n of 0 \<Rightarrow> Inl (No_return ''fuel'') | Suc m \<Rightarrow> alignment m units value_type)
         else byte_size n units stripped))))"

declare alignment.simps [simp del]

fun has_unaligned_fields :: "nat \<Rightarrow> compile_unit list \<Rightarrow> gtype \<Rightarrow> bool result" where
  "has_unaligned_fields n units t =
    (if \<not> is_from_dwarf t then Inr False
     else
       bindE (is_class_type n units t) (\<lambda>is_class.
         if \<not> is_class then Inr False
         else
           bindE (strip_cv_typedef n units t) (\<lambda>stripped.
           bindE (get_die stripped) (\<lambda>d.
           (case n of
              0 \<Rightarrow> Inl (No_return ''fuel'')
            | Suc m \<Rightarrow>
                for_children n units
                  (\<lambda>child found.
                     bindE (die_tag child) (\<lambda>tag.
                     bindE (die_contains child DW_AT_data_member_location) (\<lambda>located.
                       if tag = DW_TAG_member \<and> located then
                         bindE (die_type units child) (\<lambda>member_type.
                         bindE (alignment n units member_type) (\<lambda>align.
                         bindE (if align = 0 then Inr False
                                else bindE (die_int child DW_AT_data_member_location) (\<lambda>off. Inr (off mod align \<noteq> 0)))
                           (\<lambda>unaligned.
                              if unaligned then Inr (True, True)
                              else bindE (has_unaligned_fields m units member_type) (\<lambda>b.
                                     if b then Inr (True, True) else Inr (found, False)))))
                       else Inr (found, False)))) d False)))))"

declare has_unaligned_fields.simps [simp del]

section \<open>Classes that cannot be copied bytewise\<close>

definition is_destructor :: "nat \<Rightarrow> compile_unit list \<Rightarrow> die \<Rightarrow> bool result" where
  "is_destructor n units func =
    bindE (die_name n units func) (\<lambda>nm.
      Inr (case nm of None \<Rightarrow> False | Some s \<Rightarrow> length s > 1 \<and> s ! 0 = CHR ''~''))"

text \<open>
  The loop over the children of a function: the count goes up for every child, and the loop returns
  false where a parameter does not fit.
\<close>

definition constructor_parameter ::
  "nat \<Rightarrow> compile_unit list \<Rightarrow> gtype \<Rightarrow> die \<Rightarrow> int \<Rightarrow> bool result" where
  "constructor_parameter n units class_type child i =
    (if i = 0 then
       bindE (die_type units child) (\<lambda>t.
       bindE (get_die t) (\<lambda>d.
       bindE (die_tag d) (\<lambda>tag.
         if tag \<noteq> DW_TAG_pointer_type then Inr False
         else bindE (bindE (die_type units d) (strip_cv_typedef n units)) (\<lambda>pointee. type_eq n units pointee class_type))))
     else if i = 1 then
       bindE (die_type units child) (\<lambda>t.
       bindE (get_die t) (\<lambda>d.
       bindE (die_tag d) (\<lambda>tag.
         if tag \<noteq> DW_TAG_reference_type \<and> tag \<noteq> DW_TAG_rvalue_reference_type then Inr False
         else bindE (bindE (die_type units d) (strip_cv_typedef n units)) (\<lambda>ref. type_eq n units ref class_type))))
     else Inr False)"

definition is_copy_or_move_constructor ::
  "nat \<Rightarrow> compile_unit list \<Rightarrow> gtype \<Rightarrow> die \<Rightarrow> bool result" where
  "is_copy_or_move_constructor n units class_type func =
    bindE (bindE (get_die class_type) (die_name n units)) (\<lambda>class_name.
    bindE (die_name n units func) (\<lambda>func_name.
      if class_name \<noteq> func_name then Inr False
      else
        bindE (for_children n units
          (\<lambda>child (i, ok).
             bindE (die_tag child) (\<lambda>tag.
               if tag = DW_TAG_formal_parameter then
                 bindE (constructor_parameter n units class_type child i) (\<lambda>fits.
                   if fits then Inr ((i + 1, ok), False) else Inr ((i, False), True))
               else Inr ((i + 1, ok), False))) func (0, True)) (\<lambda>(i, ok).
          Inr (ok \<and> i = 2))))"

text \<open>\<open>!x != DW_DEFAULTED_in_class\<close>, as the two tests on \<open>DW_AT_defaulted\<close> are written.\<close>

definition not_defaulted :: "die \<Rightarrow> bool result" where
  "not_defaulted child =
    bindE (die_contains child DW_AT_defaulted) (\<lambda>has.
      if \<not> has then Inr True
      else bindE (die_int child DW_AT_defaulted) (\<lambda>v.
        Inr ((if v = 0 then 1 else 0 :: nat) \<noteq> DW_DEFAULTED_in_class)))"

definition virtual_child :: "die \<Rightarrow> bool result" where
  "virtual_child child =
    bindE (die_contains child DW_AT_virtuality) (\<lambda>has.
      if has then bindE (die_int child DW_AT_virtuality) (\<lambda>v. Inr (unat v \<noteq> DW_VIRTUALITY_none)) else Inr False)"

definition user_provided ::
  "nat \<Rightarrow> compile_unit list \<Rightarrow> gtype \<Rightarrow> die \<Rightarrow> bool result" where
  "user_provided n units class_type child =
    bindE (die_tag child) (\<lambda>tag.
      if tag \<noteq> DW_TAG_subprogram then Inr False
      else bindE (is_copy_or_move_constructor n units class_type child) (\<lambda>ctor.
        if ctor then not_defaulted child
        else bindE (is_destructor n units child) (\<lambda>dtor.
          if dtor then not_defaulted child else Inr False)))"

fun is_non_trivial_for_calls :: "nat \<Rightarrow> compile_unit list \<Rightarrow> gtype \<Rightarrow> bool result" where
  "is_non_trivial_for_calls n units t =
    bindE (strip_cv_typedef n units t) (\<lambda>s.
    bindE (get_die s) (\<lambda>stripped.
    bindE (die_tag stripped) (\<lambda>tag.
      if class_tag tag then
        (case n of
           0 \<Rightarrow> Inl (No_return ''fuel'')
         | Suc m \<Rightarrow>
             for_children n units
               (\<lambda>child found.
                  bindE (is_data_member child) (\<lambda>is_member.
                  bindE (die_tag child) (\<lambda>ctag.
                  bindE (if is_member \<or> ctag = DW_TAG_inheritance
                         then bindE (die_type units child) (is_non_trivial_for_calls m units) else Inr False) (\<lambda>sub.
                    if sub then Inr (True, True)
                    else bindE (virtual_child child) (\<lambda>virt.
                      if virt then Inr (True, True)
                      else bindE (user_provided n units t child) (\<lambda>user.
                        if user then Inr (True, True) else Inr (found, False))))))) stripped False)
      else if tag = DW_TAG_array_type then
        bindE (die_type units stripped) (\<lambda>value_type.
          case n of 0 \<Rightarrow> Inl (No_return ''fuel'') | Suc m \<Rightarrow> is_non_trivial_for_calls m units value_type)
      else Inr False)))"

declare is_non_trivial_for_calls.simps [simp del]

section \<open>Parameter classes\<close>

definition merge_parameter_classes :: "parameter_class \<Rightarrow> parameter_class \<Rightarrow> parameter_class" where
  "merge_parameter_classes lhs rhs =
    (if lhs = rhs then lhs
     else if lhs = pc_no_class then rhs
     else if rhs = pc_no_class then lhs
     else if lhs = pc_memory \<or> rhs = pc_memory then pc_memory
     else if lhs = pc_integer \<or> rhs = pc_integer then pc_integer
     else if lhs = pc_x87 \<or> rhs = pc_x87 \<or> lhs = pc_x87up \<or> rhs = pc_x87up \<or>
             lhs = pc_complex_x87 \<or> rhs = pc_complex_x87 then pc_memory
     else pc_sse)"

type_synonym eightbytes = "parameter_class \<times> parameter_class"

fun builtin_classes :: "builtin_type \<Rightarrow> eightbytes" where
  "builtin_classes bt_floating_point = (pc_sse, pc_no_class)"
| "builtin_classes _ = (pc_integer, pc_no_class)"

definition base_type_classes :: "u64 \<Rightarrow> eightbytes result" where
  "base_type_classes encoding =
    (let e = unat encoding
     in if e = DW_ATE_boolean \<or> e = DW_ATE_signed \<or> e = DW_ATE_signed_char \<or> e = DW_ATE_unsigned \<or>
           e = DW_ATE_unsigned_char then Inr (pc_integer, pc_no_class)
        else if e = DW_ATE_float then Inr (pc_sse, pc_no_class)
        else Inl (Send ''Unimplemented base type encoding!''))"

definition cleanup_classes :: "eightbytes \<Rightarrow> eightbytes" where
  "cleanup_classes cs =
    (if fst cs = pc_memory \<or> snd cs = pc_memory then (pc_memory, pc_memory)
     else if snd cs = pc_x87up \<and> fst cs \<noteq> pc_x87 then (pc_memory, pc_memory)
     else cs)"

text \<open>
  The bit offset of a field. A bit field's offset is the one within its storage, and the sum with the
  \<open>int\<close> argument is computed in 64 bits and narrowed where it is passed on.
\<close>

definition field_bit_offset ::
  "nat \<Rightarrow> compile_unit list \<Rightarrow> gtype \<Rightarrow> die \<Rightarrow> u32 \<Rightarrow> (gtype \<times> u64) result" where
  "field_bit_offset n units t fld bit_offset =
    bindE (byte_size n units t) (\<lambda>sz.
    bindE (get_bitfield_information fld sz) (\<lambda>info.
    bindE (die_type units fld) (\<lambda>field_type.
      case info of
        Some bf \<Rightarrow> Inr (field_type, scast (ucast (bf_bit_offset bf) + bit_offset :: u32))
      | None \<Rightarrow>
          bindE (byte_size n units field_type) (\<lambda>_.
          bindE (die_int fld DW_AT_data_member_location) (\<lambda>loc. Inr (field_type, loc * 8 + scast bit_offset))))))"

definition merge_field :: "u64 \<Rightarrow> eightbytes \<Rightarrow> eightbytes \<Rightarrow> eightbytes result" where
  "merge_field eightbyte_index classes field_classes =
    (if eightbyte_index = 0 then
       Inr (merge_parameter_classes (fst classes) (fst field_classes),
            merge_parameter_classes (snd classes) (snd field_classes))
     else if eightbyte_index = 1 then
       Inr (fst classes, merge_parameter_classes (snd classes) (fst field_classes))
     else Inl (Undefined ''eightbyte index out of range''))"

fun get_parameter_classes :: "nat \<Rightarrow> compile_unit list \<Rightarrow> gtype \<Rightarrow> eightbytes result"
  and classify_class_type :: "nat \<Rightarrow> compile_unit list \<Rightarrow> gtype \<Rightarrow> eightbytes result"
  and classify_class_field :: "nat \<Rightarrow> compile_unit list \<Rightarrow> gtype \<Rightarrow> die \<Rightarrow> eightbytes \<Rightarrow> u32 \<Rightarrow> eightbytes result" where
  "get_parameter_classes n units (Builtin_type b) = Inr (builtin_classes b)"
| "get_parameter_classes n units (Die_type d0) =
    bindE (strip_cv_typedef n units (Die_type d0)) (\<lambda>stripped.
    bindE (get_die stripped) (\<lambda>d.
    bindE (die_tag d) (\<lambda>tag.
    bindE (if tag = DW_TAG_base_type then byte_size n units stripped else Inr 0) (\<lambda>sz.
      if tag = DW_TAG_base_type \<and> sz \<le> 8 then bindE (die_int d DW_AT_encoding) base_type_classes
      else if tag = DW_TAG_pointer_type \<or> tag = DW_TAG_reference_type \<or> tag = DW_TAG_rvalue_reference_type
      then Inr (pc_integer, pc_no_class)
      else if tag = DW_TAG_base_type then
        bindE (die_int d DW_AT_encoding) (\<lambda>encoding.
          Inr (if unat encoding = DW_ATE_float \<and> sz = 16 then (pc_x87, pc_x87up) else (pc_no_class, pc_no_class)))
      else if class_tag tag \<or> tag = DW_TAG_array_type then
        (case n of 0 \<Rightarrow> Inl (No_return ''fuel'') | Suc m \<Rightarrow> classify_class_type m units (Die_type d0))
      else Inr (pc_no_class, pc_no_class)))))"
| "classify_class_type n units t =
    bindE (is_non_trivial_for_calls n units t) (\<lambda>ntfpoc.
    if ntfpoc then Inl (Send ''NTFPOC types are not supported!'')
    else
    bindE (byte_size n units t) (\<lambda>sz.
    bindE (if sz > 16 then Inr True else has_unaligned_fields n units t) (\<lambda>in_memory.
    if in_memory then Inr (pc_memory, pc_memory)
    else
    bindE (get_die t) (\<lambda>d.
    bindE (die_tag d) (\<lambda>tag.
    bindE (case n of
             0 \<Rightarrow> Inl (No_return ''fuel'')
           | Suc m \<Rightarrow>
               if tag = DW_TAG_array_type then
                 bindE (die_type units d) (\<lambda>value_type.
                 bindE (get_parameter_classes m units value_type) (\<lambda>classes.
                   Inr (if sz > 8 \<and> snd classes = pc_no_class then (fst classes, fst classes) else classes)))
               else
                 for_children n units
                   (\<lambda>child classes.
                      bindE (is_data_member child) (\<lambda>is_member.
                        if is_member then bindE (classify_class_field m units t child classes 0) (\<lambda>cs. Inr (cs, False))
                        else Inr (classes, False))) d (pc_no_class, pc_no_class))
      (\<lambda>classes. Inr (cleanup_classes classes)))))))"
| "classify_class_field n units t fld classes bit_offset =
    bindE (field_bit_offset n units t fld bit_offset) (\<lambda>(field_type, current_bit_offset).
    bindE (is_class_type n units field_type) (\<lambda>is_class.
      (case n of
         0 \<Rightarrow> Inl (No_return ''fuel'')
       | Suc m \<Rightarrow>
           if is_class then
             bindE (get_die field_type) (\<lambda>d.
               for_children n units
                 (\<lambda>child cs.
                    bindE (is_data_member child) (\<lambda>is_member.
                      if is_member
                      then bindE (classify_class_field m units t child cs (ucast current_bit_offset)) (\<lambda>cs'. Inr (cs', False))
                      else Inr (cs, False))) d classes)
           else
             bindE (get_parameter_classes m units field_type) (\<lambda>field_classes.
               merge_field (current_bit_offset div 64) classes field_classes))))"

declare get_parameter_classes.simps(2) [simp del]
declare classify_class_type.simps [simp del]
declare classify_class_field.simps [simp del]

section \<open>Typed data\<close>

record typed_data =
  td_data :: "byte list"
  td_type :: gtype
  td_address :: "virt_addr option"

definition outside_data :: gsdb_error where
  "outside_data = Undefined ''read outside the data''"

text \<open>\<open>std::vector{begin + off, begin + off + n}\<close> of a vector.\<close>

definition data_slice :: "byte list \<Rightarrow> u64 \<Rightarrow> u64 \<Rightarrow> byte list result" where
  "data_slice bs off n =
    (if unat off + unat n \<le> length bs then Inr (take (unat n) (drop (unat off) bs)) else Inl outside_data)"

text \<open>\<open>from_bytes<T>(data_ptr())\<close>.\<close>

definition data_word :: "byte list \<Rightarrow> 'a::len word result" where
  "data_word bs = (if LENGTH('a) div 8 \<le> length bs then Inr (from_bytes bs) else Inl outside_data)"

definition fixup_bitfield :: "nat \<Rightarrow> compile_unit list \<Rightarrow> die \<Rightarrow> typed_data \<Rightarrow> typed_data result" where
  "fixup_bitfield n units member_die td =
    bindE (strip_cv_typedef n units (td_type td)) (\<lambda>stripped.
    bindE (byte_size n units stripped) (\<lambda>sz.
    bindE (get_bitfield_information member_die sz) (\<lambda>info.
      case info of
        None \<Rightarrow> Inr td
      | Some bf \<Rightarrow>
          bindE (memcpy_bits (replicate (unat (bf_storage_byte_size bf)) 0) 0 (td_data td) (ucast (bf_bit_offset bf))
                   (ucast (bf_bit_size bf))) (\<lambda>fixed_data.
            Inr \<lparr>td_data = fixed_data, td_type = td_type td, td_address = None\<rparr>))))"

definition member_byte_offset :: "die \<Rightarrow> u64 result" where
  "member_byte_offset child =
    bindE (die_contains child DW_AT_data_member_location) (\<lambda>located.
      if located then die_int child DW_AT_data_member_location
      else bindE (die_int child DW_AT_data_bit_offset) (\<lambda>bits. Inr (bits div 8)))"

definition deref_pointer ::
  "nat \<Rightarrow> compile_unit list \<Rightarrow> (virt_addr \<Rightarrow> nat \<Rightarrow> byte list result) \<Rightarrow> typed_data \<Rightarrow> typed_data result" where
  "deref_pointer n units rm td =
    bindE (strip_cv_typedef n units (td_type td)) (\<lambda>stripped.
    bindE (get_die stripped) (\<lambda>d.
    bindE (die_tag d) (\<lambda>tag.
      if tag \<noteq> DW_TAG_pointer_type then Inl (Send ''Not a pointer type!'')
      else
        bindE (data_word (td_data td)) (\<lambda>address.
        bindE (die_type units d) (\<lambda>value_type.
        bindE (byte_size n units value_type) (\<lambda>sz.
        bindE (rm address (unat sz)) (\<lambda>bs.
          Inr \<lparr>td_data = bs, td_type = value_type, td_address = Some address\<rparr>)))))))"

definition find_member :: "nat \<Rightarrow> compile_unit list \<Rightarrow> string \<Rightarrow> die \<Rightarrow> die option result" where
  "find_member n units member_name d =
    for_children n units
      (\<lambda>child found. bindE (die_name n units child) (\<lambda>nm.
         if (case nm of None \<Rightarrow> [] | Some s \<Rightarrow> s) = member_name then Inr (Some child, True) else Inr (found, False))) d None"

definition read_member :: "nat \<Rightarrow> compile_unit list \<Rightarrow> string \<Rightarrow> typed_data \<Rightarrow> typed_data result" where
  "read_member n units member_name td =
    bindE (get_die (td_type td)) (\<lambda>d.
    bindE (find_member n units member_name d) (\<lambda>it.
      case it of
        None \<Rightarrow> Inl (Send ''No such member!'')
      | Some var \<Rightarrow>
          bindE (die_type units var) (\<lambda>value_type.
          bindE (member_byte_offset var) (\<lambda>byte_offset.
          bindE (byte_size n units value_type) (\<lambda>sz.
          bindE (data_slice (td_data td) byte_offset sz) (\<lambda>member_data.
            fixup_bitfield n units var
              \<lparr>td_data = member_data, td_type = value_type,
               td_address = map_option (\<lambda>a. a + byte_offset) (td_address td)\<rparr>))))))"

definition typed_index ::
  "nat \<Rightarrow> compile_unit list \<Rightarrow> (virt_addr \<Rightarrow> nat \<Rightarrow> byte list result) \<Rightarrow> u64 \<Rightarrow> typed_data \<Rightarrow> typed_data result" where
  "typed_index n units rm ix td =
    bindE (strip_cv_typedef n units (td_type td)) (\<lambda>stripped.
    bindE (get_die stripped) (\<lambda>d.
    bindE (die_tag d) (\<lambda>tag.
      if tag \<noteq> DW_TAG_array_type \<and> tag \<noteq> DW_TAG_pointer_type then Inl (Send ''Not an array or pointer type!'')
      else
        bindE (die_type units d) (\<lambda>value_type.
        bindE (byte_size n units value_type) (\<lambda>element_size.
          let off = ix * element_size
          in if tag = DW_TAG_pointer_type then
               bindE (data_word (td_data td)) (\<lambda>address.
               bindE (rm (address + off) (unat element_size)) (\<lambda>bs.
                 Inr \<lparr>td_data = bs, td_type = value_type, td_address = Some (address + off)\<rparr>))
             else if element_size = 0 \<or> ix \<ge> word_of_nat (length (td_data td)) div element_size then
               Inl (Send ''Index out of range!'')
             else
               bindE (data_slice (td_data td) off element_size) (\<lambda>bs.
                 Inr \<lparr>td_data = bs, td_type = value_type, td_address = map_option (\<lambda>a. a + off) (td_address td)\<rparr>))))))"

section \<open>Text\<close>

record visual_env =
  ve_units :: "compile_unit list"
  ve_read_string :: "virt_addr \<Rightarrow> string result"
  ve_float :: "32 word \<Rightarrow> string"
  ve_double :: "64 word \<Rightarrow> string"
  ve_long_double :: "128 word \<Rightarrow> string"

definition visualize_member_pointer_type :: "byte list \<Rightarrow> string result" where
  "visualize_member_pointer_type bs = bindE (data_word bs) (\<lambda>w. Inr (format_hex w))"

definition visualize_pointer_type :: "nat \<Rightarrow> visual_env \<Rightarrow> typed_data \<Rightarrow> string result" where
  "visualize_pointer_type n env td =
    bindE (data_word (td_data td)) (\<lambda>ptr.
      if ptr = 0 then Inr ''0x0''
      else
        bindE (get_die (td_type td)) (\<lambda>d.
        bindE (die_type (ve_units env) d) (\<lambda>pointee.
        bindE (is_char_type n (ve_units env) pointee) (\<lambda>is_char.
          if is_char
          then bindE (ve_read_string env ptr) (\<lambda>s. Inr ([char_of (34 :: nat)] @ s @ [char_of (34 :: nat)]))
          else Inr (format_hex ptr)))))"

definition visualize_signed :: "u64 \<Rightarrow> byte list \<Rightarrow> string result" where
  "visualize_signed sz bs =
    (if sz = 1 then bindE (data_word bs) (\<lambda>w :: 8 word. Inr (format_int (sint w)))
     else if sz = 2 then bindE (data_word bs) (\<lambda>w :: 16 word. Inr (format_int (sint w)))
     else if sz = 4 then bindE (data_word bs) (\<lambda>w :: 32 word. Inr (format_int (sint w)))
     else if sz = 8 then bindE (data_word bs) (\<lambda>w :: 64 word. Inr (format_int (sint w)))
     else Inl (Send ''Unsupported signed integer size!''))"

definition visualize_unsigned :: "u64 \<Rightarrow> byte list \<Rightarrow> string result" where
  "visualize_unsigned sz bs =
    (if sz = 1 then bindE (data_word bs) (\<lambda>w :: 8 word. Inr (format_nat 10 (unat w)))
     else if sz = 2 then bindE (data_word bs) (\<lambda>w :: 16 word. Inr (format_nat 10 (unat w)))
     else if sz = 4 then bindE (data_word bs) (\<lambda>w :: 32 word. Inr (format_nat 10 (unat w)))
     else if sz = 8 then bindE (data_word bs) (\<lambda>w :: 64 word. Inr (format_nat 10 (unat w)))
     else Inl (Send ''Unsupported unsigned integer size!''))"

definition visualize_bool :: "byte list \<Rightarrow> string result" where
  "visualize_bool bs =
    bindE (data_word bs) (\<lambda>w :: 8 word.
      if w = 1 then Inr ''true'' else if w = 0 then Inr ''false'' else Inl (Undefined ''invalid bool''))"

definition visualize_float :: "visual_env \<Rightarrow> string option \<Rightarrow> byte list \<Rightarrow> string result" where
  "visualize_float env nm bs =
    (if nm = Some ''float'' then bindE (data_word bs) (\<lambda>w. Inr (ve_float env w))
     else if nm = Some ''double'' then bindE (data_word bs) (\<lambda>w. Inr (ve_double env w))
     else if nm = Some ''long double'' then bindE (data_word bs) (\<lambda>w. Inr (ve_long_double env w))
     else Inl (Send ''Unsupported floating point type!''))"

definition visualize_base_type :: "nat \<Rightarrow> visual_env \<Rightarrow> typed_data \<Rightarrow> string result" where
  "visualize_base_type n env td =
    bindE (get_die (td_type td)) (\<lambda>d.
    bindE (die_int d DW_AT_encoding) (\<lambda>encoding.
      let e = unat encoding; bs = td_data td
      in if e = DW_ATE_boolean then visualize_bool bs
         else if e = DW_ATE_float then bindE (die_name n (ve_units env) d) (\<lambda>nm. visualize_float env nm bs)
         else if e = DW_ATE_signed then
           bindE (byte_size n (ve_units env) (td_type td)) (\<lambda>sz. visualize_signed sz bs)
         else if e = DW_ATE_unsigned then
           bindE (byte_size n (ve_units env) (td_type td)) (\<lambda>sz. visualize_unsigned sz bs)
         else if e = DW_ATE_signed_char then visualize_signed 1 bs
         else if e = DW_ATE_unsigned_char then visualize_unsigned 1 bs
         else if e = DW_ATE_UTF then Inl (Send ''DW_ATE_UTF is not implemented!'')
         else Inl (Send ''Unsupported encoding!'')))"

text \<open>
  The elements of an array, dimension by dimension from the back of the list; the visualiser of an
  element sees all the data from its start on.
\<close>

function visualize_subrange ::
  "(byte list \<Rightarrow> string result) \<Rightarrow> u64 result \<Rightarrow> u64 list \<Rightarrow> byte list \<Rightarrow> string result" where
  "visualize_subrange vis value_size dimensions bs =
    (if dimensions = [] then vis bs
     else
       let sz = last dimensions; inner = butlast dimensions
       in bindE value_size (\<lambda>vs.
          let sub_size = fold (\<lambda>x acc. acc * x) inner vs
          in bindE (foldE (\<lambda>i ret.
                let off = unat (word_of_nat i * sub_size)
                in if off > length bs then Inl outside_data
                   else bindE (visualize_subrange vis value_size inner (drop off bs)) (\<lambda>s.
                          Inr (ret @ s @ (if word_of_nat i \<noteq> sz - 1 then '', '' else []))))
              [0..<unat sz] ''['') (\<lambda>ret. Inr (ret @ '']''))))"
  by pat_completeness auto
termination by (relation "measure (\<lambda>(_, _, ds, _). length ds)") auto

declare visualize_subrange.simps [simp del]

text \<open>
  The text of an array and of a class, given the visualiser of their parts.
\<close>

definition visualize_array_type ::
  "nat \<Rightarrow> visual_env \<Rightarrow> (typed_data \<Rightarrow> nat \<Rightarrow> string result) \<Rightarrow> typed_data \<Rightarrow> string result" where
  "visualize_array_type n env vis td =
    bindE (get_die (td_type td)) (\<lambda>d.
    bindE (array_dimensions n (ve_units env) d) (\<lambda>dims.
    bindE (die_type (ve_units env) d) (\<lambda>value_type.
      visualize_subrange (\<lambda>bs. vis \<lparr>td_data = bs, td_type = value_type, td_address = None\<rparr> 0)
        (byte_size n (ve_units env) value_type) (rev dims) (td_data td))))"

definition visualize_class_type ::
  "nat \<Rightarrow> visual_env \<Rightarrow> (typed_data \<Rightarrow> nat \<Rightarrow> string result) \<Rightarrow> typed_data \<Rightarrow> nat \<Rightarrow> string result" where
  "visualize_class_type n env vis td depth =
    bindE (get_die (td_type td)) (\<lambda>d.
    bindE (for_children n (ve_units env)
      (\<lambda>child ret.
         bindE (is_data_member child) (\<lambda>is_member.
           if is_member then
             bindE (member_byte_offset child) (\<lambda>byte_offset.
             bindE (die_type (ve_units env) child) (\<lambda>subtype.
             bindE (byte_size n (ve_units env) subtype) (\<lambda>sz.
             bindE (data_slice (td_data td) byte_offset sz) (\<lambda>member_data.
             bindE (fixup_bitfield n (ve_units env) child
                      \<lparr>td_data = member_data, td_type = subtype, td_address = None\<rparr>) (\<lambda>member.
             bindE (vis member (depth + 1)) (\<lambda>member_str.
             bindE (die_name n (ve_units env) child) (\<lambda>nm.
               Inr (ret @ replicate (depth + 1) (char_of (9 :: nat)) @
                    (case nm of None \<Rightarrow> ''<unnamed>'' | Some s \<Rightarrow> s) @ '': '' @ member_str @ [char_of (10 :: nat)],
                    False))))))))
           else Inr (ret, False))) d (''{'' @ [char_of (10 :: nat)])) (\<lambda>ret.
      Inr (ret @ replicate depth (char_of (9 :: nat)) @ ''}'')))"

fun visualize :: "nat \<Rightarrow> visual_env \<Rightarrow> typed_data \<Rightarrow> nat \<Rightarrow> string result" where
  "visualize n env td depth =
    bindE (get_die (td_type td)) (\<lambda>d.
    bindE (die_tag d) (\<lambda>tag.
      if tag = DW_TAG_base_type then visualize_base_type n env td
      else if tag = DW_TAG_pointer_type then visualize_pointer_type n env td
      else if tag = DW_TAG_ptr_to_member_type then visualize_member_pointer_type (td_data td)
      else (case n of
        0 \<Rightarrow> if tag = DW_TAG_array_type \<or> class_tag tag \<or> tag = DW_TAG_enumeration_type \<or> tag = DW_TAG_typedef \<or>
                tag = DW_TAG_const_type \<or> tag = DW_TAG_volatile_type
             then Inl (No_return ''fuel'') else Inl (Send ''Unsupported type!'')
      | Suc m \<Rightarrow>
        if tag = DW_TAG_array_type then visualize_array_type n env (\<lambda>x. visualize m env x) td
        else if class_tag tag then visualize_class_type n env (\<lambda>x. visualize m env x) td depth
        else if tag = DW_TAG_enumeration_type \<or> tag = DW_TAG_typedef \<or> tag = DW_TAG_const_type \<or>
                tag = DW_TAG_volatile_type then
          bindE (die_type (ve_units env) d) (\<lambda>t.
            visualize m env \<lparr>td_data = td_data td, td_type = t, td_address = None\<rparr> 0)
        else Inl (Send ''Unsupported type!''))))"

declare visualize.simps [simp del]

definition parameter_types :: "nat \<Rightarrow> compile_unit list \<Rightarrow> die \<Rightarrow> gtype list result" where
  "parameter_types n units d =
    bindE (die_tag d) (\<lambda>tag.
      if tag \<noteq> DW_TAG_subprogram then Inr []
      else for_children n units
        (\<lambda>c ret. bindE (die_tag c) (\<lambda>t.
           if t = DW_TAG_formal_parameter
           then bindE (die_type units c) (\<lambda>ty. Inr (ret @ [ty], False)) else Inr (ret, False))) d [])"

section \<open>Facts\<close>

definition eightbytes_ok :: "eightbytes \<Rightarrow> bool" where
  "eightbytes_ok cs \<longleftrightarrow> (fst cs = pc_memory \<longleftrightarrow> snd cs = pc_memory) \<and> (snd cs = pc_x87up \<longrightarrow> fst cs = pc_x87)"

lemma cleanup_ok: "eightbytes_ok (cleanup_classes cs)"
  by (simp add: eightbytes_ok_def cleanup_classes_def)

lemma classify_class_ok: "classify_class_type n units t = Inr cs \<Longrightarrow> eightbytes_ok cs"
  by (subst (asm) classify_class_type.simps)
    (auto simp: bindE_Inr_iff cleanup_ok eightbytes_ok_def [of "(pc_memory, pc_memory)"] split: if_split_asm)

lemma base_classes_ok: "base_type_classes e = Inr cs \<Longrightarrow> eightbytes_ok cs"
  by (auto simp: base_type_classes_def Let_def eightbytes_ok_def split: if_split_asm)

lemma strip_Die: "strip n units tags t = Inr s \<Longrightarrow> \<exists>d tag. s = Die_type d \<and> die_tag d = Inr tag \<and> tag \<notin> set tags"
proof (induction n arbitrary: t)
  case 0
  then show ?case by (subst (asm) strip.simps) (cases t; auto simp: bindE_Inr_iff split: if_split_asm)
next
  case (Suc n)
  then show ?case by (subst (asm) (2) strip.simps) (cases t; auto simp: bindE_Inr_iff split: if_split_asm)
qed

text \<open>
  The classes of a type behind a typedef are not computed: the entry of the typedef has no members,
  though its size and the tests on it are those of the class.
\<close>

lemma typedef_class_unclassified:
  assumes "die_abbrev d = Some ab" "ab_tag ab = DW_TAG_typedef" "\<not> ab_has_children ab" "n = Suc m"
    and "is_non_trivial_for_calls n units (Die_type d) = Inr False" "byte_size n units (Die_type d) = Inr sz" "sz \<le> 16"
    and "has_unaligned_fields n units (Die_type d) = Inr False"
  shows "classify_class_type n units (Die_type d) = Inr (pc_no_class, pc_no_class)"
  using assms
  by (subst classify_class_type.simps)
    (simp add: die_tag_def die_abbrev_entry_def for_children_def cleanup_classes_def not_less)

text \<open>The tests on \<open>DW_AT_defaulted\<close> read the opposite of what its values mean.\<close>

lemma defaulted_inverted:
  assumes "die_contains child DW_AT_defaulted = Inr True" "die_int child DW_AT_defaulted = Inr v"
  shows "not_defaulted child = Inr (v \<noteq> 0)"
  using assms by (simp add: not_defaulted_def)

section \<open>Properties\<close>


text \<open>
  Comparing types is symmetric: in either order the comparison ends with the same answer, for
  two builtin types, a builtin type and one of the program, and two types of the program.
\<close>

lemma type_eq_symmetric: "type_eq n units a b = Inr r \<longleftrightarrow> type_eq n units b a = Inr r"
  by (cases a; cases b) (auto simp: type_eq_def bindE_Inr_iff)

text \<open>
  C36. Indexing an array: the element is the bytes from the index times the element size on, at
  the corresponding address, and an index at or past the number of whole elements is refused; the
  multiplication does not wrap where the index is accepted.
\<close>

theorem array_index_bounds:
  assumes t: "strip_cv_typedef n units (td_type td) = Inr (Die_type d)" "die_tag d = Inr DW_TAG_array_type"
      "die_type units d = Inr vt" "byte_size n units vt = Inr es"
    and len: "length (td_data td) < 2 ^ 64"
  shows "typed_index n units rm ix td =
    (if es \<noteq> 0 \<and> unat ix < length (td_data td) div unat es
     then Inr \<lparr>td_data = take (unat es) (drop (unat ix * unat es) (td_data td)), td_type = vt,
               td_address = map_option (\<lambda>a. a + ix * es) (td_address td)\<rparr>
     else Inl (Send ''Index out of range!''))"
proof (cases "es \<noteq> 0 \<and> unat ix < length (td_data td) div unat es")
  case True
  then have pos: "0 < unat es" by (simp add: unat_gt_0)
  have "Suc (unat ix) \<le> length (td_data td) div unat es" using True by simp
  then have "Suc (unat ix) * unat es \<le> length (td_data td)"
    using pos by (simp add: less_eq_div_iff_mult_less_eq)
  then have bound: "unat ix * unat es + unat es \<le> length (td_data td)" by simp
  then have u: "unat (ix * es) = unat ix * unat es" using len by (simp add: unat_mult_lem [THEN iffD1])
  have "ix < word_of_nat (length (td_data td)) div es"
    using True len by (simp add: word_less_nat_alt unat_div unat_of_nat)
  then show ?thesis
    using t True bound u by (simp add: typed_index_def Let_def data_slice_def not_le)
next
  case False
  then have "es = 0 \<or> ix \<ge> word_of_nat (length (td_data td)) div es"
    using len by (auto simp: word_le_nat_alt unat_div unat_of_nat)
  then show ?thesis using t False by (auto simp: typed_index_def Let_def)
qed

section \<open>Examples\<close>

text \<open>A unit with \<open>int\<close>, \<open>int[3]\<close>, a structure of two \<open>int\<close> and a typedef of it.\<close>

definition type_spec :: "nat \<Rightarrow> nat \<Rightarrow> attr_spec" where
  "type_spec a f = \<lparr>spec_attr = a, spec_form = f\<rparr>"

definition type_abbrevs :: "abbrev list" where
  "type_abbrevs =
    [\<lparr>ab_code = 1, ab_tag = DW_TAG_base_type, ab_has_children = False,
      ab_attr_specs = [type_spec DW_AT_byte_size DW_FORM_data1, type_spec DW_AT_encoding DW_FORM_data1]\<rparr>,
     \<lparr>ab_code = 2, ab_tag = DW_TAG_array_type, ab_has_children = True, ab_attr_specs = [type_spec DW_AT_type DW_FORM_ref1]\<rparr>,
     \<lparr>ab_code = 3, ab_tag = DW_TAG_subrange_type, ab_has_children = False,
      ab_attr_specs = [type_spec DW_AT_upper_bound DW_FORM_data1]\<rparr>,
     \<lparr>ab_code = 4, ab_tag = DW_TAG_structure_type, ab_has_children = True,
      ab_attr_specs = [type_spec DW_AT_byte_size DW_FORM_data1]\<rparr>,
     \<lparr>ab_code = 5, ab_tag = DW_TAG_member, ab_has_children = False,
      ab_attr_specs = [type_spec DW_AT_type DW_FORM_ref1, type_spec DW_AT_data_member_location DW_FORM_data1]\<rparr>,
     \<lparr>ab_code = 6, ab_tag = DW_TAG_typedef, ab_has_children = False, ab_attr_specs = [type_spec DW_AT_type DW_FORM_ref1]\<rparr>]"

definition type_elf :: elf where
  "type_elf = sample_dwarf_elf
    \<lparr>elf_map := concat (map encode_abbrev type_abbrevs) @ encode_abbrev null_abbrev @ unit_header 26 @
       [1, 4, 5, 2, 11, 3, 2, 0, 4, 8, 5, 11, 0, 5, 11, 4, 0, 6, 19],
     section_map := [''.debug_abbrev'' \<mapsto>
        \<lparr>sh_name = 0, sh_addr = 0, sh_offset = 0, sh_size = 51, sh_entsize = 0\<rparr>,
      ''.debug_info'' \<mapsto>
        \<lparr>sh_name = 0, sh_addr = 0, sh_offset = 51, sh_size = 30, sh_entsize = 0\<rparr>]\<rparr>"

definition type_cu :: compile_unit where
  "type_cu = \<lparr>cu_elf = type_elf, cu_begin = 51, cu_end = 81, cu_abbrev_offset = 0, cu_lines = None\<rparr>"

definition type_at :: "int \<Rightarrow> gtype" where
  "type_at off = (case parse_die type_cu (51 + off) of Inr d \<Rightarrow> Die_type d | Inl _ \<Rightarrow> Builtin_type bt_integer)"


theorem array_index_bounds_witness:
  "let td = \<lparr>td_data = [1, 0, 0, 0, 2, 0, 0, 0, 3, 0, 0, 0], td_type = type_at 14, td_address = Some 0x5000\<rparr>
   in (\<exists>vt. typed_index 3 [type_cu] (\<lambda>_ _. Inl (Send ''unmapped'')) 2 td =
        Inr \<lparr>td_data = [3, 0, 0, 0], td_type = vt, td_address = Some 0x5008\<rparr>) \<and>
      typed_index 3 [type_cu] (\<lambda>_ _. Inl (Send ''unmapped'')) 3 td = Inl (Send ''Index out of range!'')"
proof -
  let ?td = "\<lparr>td_data = [1, 0, 0, 0, 2, 0, 0, 0, 3, 0, 0, 0], td_type = type_at 14, td_address = Some 0x5000\<rparr>"
  have "is_from_dwarf (type_at 14)" by code_simp
  then obtain d where d: "type_at 14 = Die_type d" by (cases "type_at 14") auto
  have "type_tag (type_at 14) = Inr DW_TAG_array_type" by code_simp
  then have 2: "die_tag d = Inr DW_TAG_array_type" by (simp add: type_tag_def d)
  then have 1: "strip_cv_typedef 3 [type_cu] (td_type ?td) = Inr (Die_type d)"
    by (simp add: d strip_cv_typedef_def strip.simps)
  have "bindE (get_die (type_at 14)) (\<lambda>d. bindE (die_type [type_cu] d) (byte_size 3 [type_cu])) = Inr 4" by code_simp
  then obtain vt where 3: "die_type [type_cu] d = Inr vt" "byte_size 3 [type_cu] vt = Inr 4"
    by (auto simp: d bindE_Inr_iff)
  have len: "length (td_data ?td) < 2 ^ 64" by simp
  show ?thesis
    using array_index_bounds [OF 1 2 3 len, of "\<lambda>_ _. Inl (Send ''unmapped'')" 2]
      array_index_bounds [OF 1 2 3 len, of "\<lambda>_ _. Inl (Send ''unmapped'')" 3] by (simp add: Let_def)
qed

end
