(* ===== verification/Dwarf_Expression.thy ===== *)
theory Dwarf_Expression
  imports Dwarf_Info Registers "HOL-Library.Signed_Division"
begin

text \<open>
  \<open>src/dwarf.cpp\<close>, DWARF expressions and location lists: the stack machine of
  \<open>dwarf_expression::eval\<close>. The machine reads the memory of the process through a function
  argument. A backward \<open>DW_OP_skip\<close> or \<open>DW_OP_bra\<close> can loop and a frame base can refer to itself, so evaluation
  takes fuel. Popping an empty stack, dividing by zero and shifting by the width or more are
  undefined.
\<close>

section \<open>Results\<close>

datatype simple_location =
    address_result virt_addr
  | register_result u64
  | data_result int u64
  | literal_result u64
  | empty_result

record piece =
  pc_location :: simple_location
  pc_bit_size :: u64
  pc_offset :: u64

datatype dwarf_result = Simple simple_location | Pieces "piece list"

record dwarf_expression =
  ex_begin :: int
  ex_end :: int
  ex_in_frame_info :: bool

section \<open>The machine\<close>

text \<open>The state of \<open>eval\<close>; the back of the vector is the head of the list.\<close>

record eval_state =
  es_cur :: cursor
  es_stack :: "u64 list"
  es_recent :: "simple_location option"
  es_pieces :: "piece list"
  es_is_address :: bool

type_synonym memory_reader = "virt_addr \<Rightarrow> nat \<Rightarrow> byte list result"

definition empty_stack :: gsdb_error where
  "empty_stack = Undefined ''empty expression stack''"

definition push :: "u64 \<Rightarrow> eval_state \<Rightarrow> eval_state" where
  "push v st = st\<lparr>es_stack := v # es_stack st\<rparr>"

definition with_top :: "eval_state \<Rightarrow> (u64 \<Rightarrow> u64 list \<Rightarrow> eval_state result) \<Rightarrow> eval_state result" where
  "with_top st f = (case es_stack st of [] \<Rightarrow> Inl empty_stack | v # vs \<Rightarrow> f v vs)"

definition unop :: "(u64 \<Rightarrow> u64 result) \<Rightarrow> eval_state \<Rightarrow> eval_state result" where
  "unop f st = with_top st (\<lambda>v vs. bindE (f v) (\<lambda>r. Inr (st\<lparr>es_stack := r # vs\<rparr>)))"

definition binop :: "(u64 \<Rightarrow> u64 \<Rightarrow> u64 result) \<Rightarrow> eval_state \<Rightarrow> eval_state result" where
  "binop f st =
    (case es_stack st of
       rhs # lhs # vs \<Rightarrow> bindE (f lhs rhs) (\<lambda>r. Inr (st\<lparr>es_stack := r # vs\<rparr>))
     | _ \<Rightarrow> Inl empty_stack)"

definition relop :: "(int \<Rightarrow> int \<Rightarrow> bool) \<Rightarrow> eval_state \<Rightarrow> eval_state result" where
  "relop f = binop (\<lambda>lhs rhs. Inr (if f (sint lhs) (sint rhs) then 1 else 0))"

definition push_read :: "(u64 \<times> cursor) result \<Rightarrow> eval_state \<Rightarrow> eval_state result" where
  "push_read r st = bindE r (\<lambda>(v, c). Inr (push v (st\<lparr>es_cur := c\<rparr>)))"

definition read_dwarf_register :: "registers \<Rightarrow> int \<Rightarrow> u64 result" where
  "read_dwarf_register regs d =
    bindE (register_info_by_dwarf d) (\<lambda>info.
    bindE (registers_read regs info) (\<lambda>v.
      case v of V_u64 w \<Rightarrow> Inr w | _ \<Rightarrow> Inl (Std_exception ''bad_variant_access'')))"

text \<open>The conversion of a 64-bit operand to the \<open>std::int32_t\<close> parameter of \<open>register_info_by_dwarf\<close>.\<close>

definition dwarf_number :: "u64 \<Rightarrow> int" where
  "dwarf_number w = sint (ucast w :: u32)"

definition get_current_location :: "eval_state \<Rightarrow> simple_location \<times> eval_state" where
  "get_current_location st =
    (case es_stack st of
       [] \<Rightarrow> (case es_recent st of None \<Rightarrow> empty_result | Some l \<Rightarrow> l, st\<lparr>es_recent := None\<rparr>)
     | v # vs \<Rightarrow>
        if es_is_address st then (address_result v, st\<lparr>es_stack := vs\<rparr>)
        else (literal_result v, st\<lparr>es_stack := vs, es_is_address := True\<rparr>))"

definition shift_guard :: "(u64 \<Rightarrow> nat \<Rightarrow> u64) \<Rightarrow> u64 \<Rightarrow> u64 \<Rightarrow> u64 result" where
  "shift_guard f lhs rhs =
    (if unat rhs < 64 then Inr (f lhs (unat rhs)) else Inl (Undefined ''shift exceeds width''))"

definition op_mod :: "u64 \<Rightarrow> u64 \<Rightarrow> u64 result" where
  "op_mod lhs rhs = (if rhs = 0 then Inl (Undefined ''division by zero'') else Inr (lhs mod rhs))"

definition op_div :: "u64 \<Rightarrow> u64 \<Rightarrow> u64 result" where
  "op_div lhs rhs =
    (if rhs = 0 then Inl (Undefined ''division by zero'')
     else if sint lhs = - (2 ^ 63) \<and> sint rhs = - 1 then Inl (Undefined ''signed overflow'')
     else Inr (word_of_int (sint lhs sdiv sint rhs)))"

definition op_abs :: "u64 \<Rightarrow> u64 result" where
  "op_abs v = (if sint v = - (2 ^ 63) then Inl (Undefined ''signed overflow'')
               else Inr (word_of_int \<bar>sint v\<bar>))"

definition op_neg :: "u64 \<Rightarrow> u64 result" where
  "op_neg v = (if sint v = - (2 ^ 63) then Inl (Undefined ''signed overflow'') else Inr (- v))"

definition op_deref :: "memory_reader \<Rightarrow> u64 \<Rightarrow> u64 result" where
  "op_deref rm v = bindE (rm v 8) (\<lambda>bs. Inr (from_bytes bs))"

definition op_deref_size :: "memory_reader \<Rightarrow> nat \<Rightarrow> u64 \<Rightarrow> u64 result" where
  "op_deref_size rm n v =
    bindE (rm v n) (\<lambda>mem.
      if length mem \<le> 8 then Inr (from_bytes (mem @ replicate (8 - length mem) 0))
      else Inl (Undefined ''copy past the end of res''))"

section \<open>Opcodes\<close>

text \<open>The three opcode ranges before the switch.\<close>

definition eval_ranges :: "registers \<Rightarrow> bool \<Rightarrow> nat \<Rightarrow> eval_state \<Rightarrow> eval_state result" where
  "eval_ranges regs in_frame op st =
    (if DW_OP_lit0 \<le> op \<and> op \<le> DW_OP_lit31 then Inr (push (word_of_nat (op - DW_OP_lit0)) st)
     else if DW_OP_breg0 \<le> op \<and> op \<le> DW_OP_breg31 then
       bindE (read_dwarf_register regs (int (op - DW_OP_breg0))) (\<lambda>v.
       bindE (sleb128 (es_cur st)) (\<lambda>(off, c). Inr (push (v + off) (st\<lparr>es_cur := c\<rparr>))))
     else if DW_OP_reg0 \<le> op \<and> op \<le> DW_OP_reg31 then
       (if in_frame
        then bindE (read_dwarf_register regs (int (op - DW_OP_reg0))) (\<lambda>v. Inr (push v st))
        else Inr (st\<lparr>es_recent := Some (register_result (word_of_nat (op - DW_OP_reg0)))\<rparr>))
     else Inr st)"

definition eval_constants :: "elf \<Rightarrow> nat \<Rightarrow> eval_state \<Rightarrow> eval_state result option" where
  "eval_constants obj op st =
    (let c = es_cur st
     in if op = DW_OP_addr then
          Some (bindE (u64 c) (\<lambda>(a, c').
            bindE (to_virt_addr obj (mk_file_addr (elf_no obj) a)) (\<lambda>v. Inr (push v (st\<lparr>es_cur := c'\<rparr>)))))
        else if op = DW_OP_const1u then Some (push_read (bindE (u8 c) (\<lambda>(v, c'). Inr (ucast v, c'))) st)
        else if op = DW_OP_const1s then Some (push_read (s8 c) st)
        else if op = DW_OP_const2u then Some (push_read (bindE (u16 c) (\<lambda>(v, c'). Inr (ucast v, c'))) st)
        else if op = DW_OP_const2s then Some (push_read (s16 c) st)
        else if op = DW_OP_const4u then Some (push_read (bindE (u32 c) (\<lambda>(v, c'). Inr (ucast v, c'))) st)
        else if op = DW_OP_const4s then Some (push_read (s32 c) st)
        else if op = DW_OP_const8u then Some (push_read (u64 c) st)
        else if op = DW_OP_const8s then Some (push_read (s64 c) st)
        else if op = DW_OP_constu then Some (push_read (uleb128 c) st)
        else if op = DW_OP_consts then Some (push_read (sleb128 c) st)
        else None)"

definition eval_registers ::
  "registers \<Rightarrow> (unit \<Rightarrow> virt_addr result) \<Rightarrow> bool \<Rightarrow> nat \<Rightarrow> eval_state \<Rightarrow> eval_state result option" where
  "eval_registers regs frame_base in_frame op st =
    (let c = es_cur st
     in if op = DW_OP_bregx then
          Some (bindE (uleb128 c) (\<lambda>(r, c1).
            bindE (read_dwarf_register regs (dwarf_number r)) (\<lambda>v.
            bindE (sleb128 c1) (\<lambda>(off, c2). Inr (push (v + off) (st\<lparr>es_cur := c2\<rparr>))))))
        else if op = DW_OP_fbreg then
          Some (bindE (sleb128 c) (\<lambda>(off, c1).
            bindE (frame_base ()) (\<lambda>fb. Inr (push (fb + off) (st\<lparr>es_cur := c1\<rparr>)))))
        else if op = DW_OP_regx then
          Some (bindE (uleb128 c) (\<lambda>(r, c1).
            if in_frame
            then bindE (read_dwarf_register regs (dwarf_number r)) (\<lambda>v. Inr (push v (st\<lparr>es_cur := c1\<rparr>)))
            else Inr (st\<lparr>es_cur := c1, es_recent := Some (register_result r)\<rparr>)))
        else if op = DW_OP_call_frame_cfa then Some (Inr (push (reg_cfa regs) st))
        else None)"

definition eval_stack_ops :: "memory_reader \<Rightarrow> nat \<Rightarrow> eval_state \<Rightarrow> eval_state result option" where
  "eval_stack_ops rm op st =
    (let c = es_cur st; vs = es_stack st
     in if op = DW_OP_dup then Some (with_top st (\<lambda>v _. Inr (push v st)))
        else if op = DW_OP_drop then Some (with_top st (\<lambda>_ ws. Inr (st\<lparr>es_stack := ws\<rparr>)))
        else if op = DW_OP_pick then
          Some (bindE (u8 c) (\<lambda>(i, c1).
            if unat i < length vs then Inr (push (vs ! unat i) (st\<lparr>es_cur := c1\<rparr>)) else Inl empty_stack))
        else if op = DW_OP_over then
          Some (if 1 < length vs then Inr (push (vs ! 1) st) else Inl empty_stack)
        else if op = DW_OP_swap then
          Some (case vs of a # b # ws \<Rightarrow> Inr (st\<lparr>es_stack := b # a # ws\<rparr>) | _ \<Rightarrow> Inl empty_stack)
        else if op = DW_OP_rot then
          Some (case vs of a # b # d # ws \<Rightarrow> Inr (st\<lparr>es_stack := b # d # a # ws\<rparr>) | _ \<Rightarrow> Inl empty_stack)
        else if op = DW_OP_deref then Some (unop (op_deref rm) st)
        else if op = DW_OP_deref_size then
          Some (with_top st (\<lambda>_ _.
            bindE (u8 c) (\<lambda>(n, c1). unop (op_deref_size rm (unat n)) (st\<lparr>es_cur := c1\<rparr>))))
        else if op = DW_OP_xderef then Some (Inl (Send ''DW_OP_xderef not supported!''))
        else if op = DW_OP_xderef_size then Some (Inl (Send ''DW_OP_xderef_size not supported!''))
        else if op = DW_OP_push_object_address
          then Some (Inl (Send ''Unsupported opcode DW_OP_push_object_address!''))
        else if op = DW_OP_form_tls_address
          then Some (Inl (Send ''Unsupported opcode DW_OP_form_tls_address!''))
        else None)"

definition eval_arith :: "nat \<Rightarrow> eval_state \<Rightarrow> eval_state result option" where
  "eval_arith op st =
    (if op = DW_OP_minus then Some (binop (\<lambda>l r. Inr (l - r)) st)
     else if op = DW_OP_mod then Some (binop op_mod st)
     else if op = DW_OP_mul then Some (binop (\<lambda>l r. Inr (l * r)) st)
     else if op = DW_OP_and then Some (binop (\<lambda>l r. Inr (l AND r)) st)
     else if op = DW_OP_or then Some (binop (\<lambda>l r. Inr (l OR r)) st)
     else if op = DW_OP_plus then Some (binop (\<lambda>l r. Inr (l + r)) st)
     else if op = DW_OP_shl then Some (binop (shift_guard (\<lambda>l n. push_bit n l)) st)
     else if op = DW_OP_shr then Some (binop (shift_guard (\<lambda>l n. drop_bit n l)) st)
     else if op = DW_OP_shra then Some (binop (shift_guard (\<lambda>l n. signed_drop_bit n l)) st)
     else if op = DW_OP_xor then Some (binop (\<lambda>l r. Inr (l XOR r)) st)
     else if op = DW_OP_div then Some (binop op_div st)
     else if op = DW_OP_abs then Some (unop op_abs st)
     else if op = DW_OP_neg then Some (unop op_neg st)
     else if op = DW_OP_plus_uconst then
       Some (with_top st (\<lambda>_ _.
         bindE (uleb128 (es_cur st)) (\<lambda>(n, c). unop (\<lambda>v. Inr (v + n)) (st\<lparr>es_cur := c\<rparr>))))
     else if op = DW_OP_not then Some (unop (\<lambda>v. Inr (NOT v)) st)
     else if op = DW_OP_le then Some (relop (\<le>) st)
     else if op = DW_OP_ge then Some (relop (\<ge>) st)
     else if op = DW_OP_eq then Some (relop (=) st)
     else if op = DW_OP_lt then Some (relop (<) st)
     else if op = DW_OP_gt then Some (relop (>) st)
     else if op = DW_OP_ne then Some (relop (\<noteq>) st)
     else None)"

definition jump :: "eval_state \<Rightarrow> eval_state result" where
  "jump st = bindE (s16 (es_cur st)) (\<lambda>(off, c). Inr (st\<lparr>es_cur := cursor_add off c\<rparr>))"

definition add_piece :: "u64 \<Rightarrow> u64 \<Rightarrow> eval_state \<Rightarrow> eval_state" where
  "add_piece bits off st =
    (let (loc, st') = get_current_location st
     in st'\<lparr>es_pieces := es_pieces st' @ [\<lparr>pc_location = loc, pc_bit_size = bits, pc_offset = off\<rparr>]\<rparr>)"

definition eval_control :: "nat \<Rightarrow> eval_state \<Rightarrow> eval_state result option" where
  "eval_control op st =
    (let c = es_cur st
     in if op = DW_OP_skip then Some (jump st)
        else if op = DW_OP_bra then
          Some (with_top st (\<lambda>v ws.
            bindE (if v \<noteq> 0 then jump st else Inr st) (\<lambda>st'. Inr (st'\<lparr>es_stack := ws\<rparr>))))
        else if op = DW_OP_call2 then Some (Inl (Send ''Unsupported opcode DW_OP_call2!''))
        else if op = DW_OP_call4 then Some (Inl (Send ''Unsupported opcode DW_OP_call4!''))
        else if op = DW_OP_call_ref then Some (Inl (Send ''Unsupported opcode DW_OP_call_ref!''))
        else if op = DW_OP_implicit_value then
          Some (bindE (uleb128 c) (\<lambda>(len, c1).
            Inr (st\<lparr>es_cur := c1, es_recent := Some (data_result (cur_pos c1) len)\<rparr>)))
        else if op = DW_OP_stack_value then Some (Inr (st\<lparr>es_is_address := False\<rparr>))
        else if op = DW_OP_nop then Some (Inr st)
        else if op = DW_OP_piece then
          Some (bindE (uleb128 c) (\<lambda>(bytes, c1). Inr (add_piece (bytes * 8) 0 (st\<lparr>es_cur := c1\<rparr>))))
        else if op = DW_OP_bit_piece then
          Some (bindE (uleb128 c) (\<lambda>(bits, c1). bindE (uleb128 c1) (\<lambda>(off, c2).
            Inr (add_piece bits off (st\<lparr>es_cur := c2\<rparr>)))))
        else None)"

fun first_some :: "'a option list \<Rightarrow> 'a \<Rightarrow> 'a" where
  "first_some [] d = d"
| "first_some (Some x # xs) d = x"
| "first_some (None # xs) d = first_some xs d"

definition eval_step ::
  "elf \<Rightarrow> memory_reader \<Rightarrow> registers \<Rightarrow> (unit \<Rightarrow> virt_addr result) \<Rightarrow> bool \<Rightarrow> eval_state \<Rightarrow> eval_state result" where
  "eval_step obj rm regs frame_base in_frame st =
    bindE (u8 (es_cur st)) (\<lambda>(opcode, c).
      let op = unat opcode; st0 = st\<lparr>es_cur := c\<rparr>
      in bindE (eval_ranges regs in_frame op st0) (\<lambda>st1.
           first_some [eval_constants obj op st1, eval_registers regs frame_base in_frame op st1,
                       eval_stack_ops rm op st1, eval_arith op st1, eval_control op st1] (Inr st1)))"

fun eval_loop ::
  "nat \<Rightarrow> elf \<Rightarrow> memory_reader \<Rightarrow> registers \<Rightarrow> (unit \<Rightarrow> virt_addr result) \<Rightarrow> bool \<Rightarrow> eval_state \<Rightarrow>
     eval_state result" where
  "eval_loop n obj rm regs fb in_frame st =
    (if cursor_finished (es_cur st) then Inr st
     else (case n of
        0 \<Rightarrow> Inl (No_return ''fuel'')
      | Suc m \<Rightarrow> bindE (eval_step obj rm regs fb in_frame st) (eval_loop m obj rm regs fb in_frame)))"

declare eval_loop.simps [simp del]

definition eval_result :: "eval_state \<Rightarrow> dwarf_result" where
  "eval_result st =
    (if es_pieces st \<noteq> [] then Pieces (es_pieces st) else Simple (fst (get_current_location st)))"

section \<open>Frame bases and location lists\<close>

definition read_frame_base_result :: "dwarf_result \<Rightarrow> virt_addr result" where
  "read_frame_base_result loc =
    (case loc of
       Simple (address_result a) \<Rightarrow> Inr a
     | _ \<Rightarrow> Inl (Send ''Unsupported frame base location!''))"

definition as_expression :: "attr \<Rightarrow> bool \<Rightarrow> dwarf_expression result" where
  "as_expression a in_frame =
    bindE (uleb128 (at_cursor a)) (\<lambda>(len, c).
      Inr \<lparr>ex_begin = cur_pos c, ex_end = cur_pos c + sint len, ex_in_frame_info = in_frame\<rparr>)"

record location_list =
  ll_cu :: compile_unit
  ll_begin :: int
  ll_end :: int
  ll_in_frame_info :: bool

definition as_location_list :: "attr \<Rightarrow> bool \<Rightarrow> location_list result" where
  "as_location_list a in_frame =
    bindE (u32 (at_cursor a)) (\<lambda>(off, _).
      let (b, e) = get_section_contents (cu_elf (at_cu a)) ''.debug_loc''
      in Inr \<lparr>ll_cu = at_cu a, ll_begin = b + int (unat off), ll_end = e, ll_in_frame_info = in_frame\<rparr>)"

lemma remaining_advance: "remaining (advance k c) \<le> remaining c"
  by (simp add: remaining_def)

text \<open>
  The loop over the entries: base address selections, then the expression of the first entry whose
  range holds the pc; \<open>None\<close> at the end of the list.
\<close>

function location_entry :: "cursor \<Rightarrow> u64 \<Rightarrow> u64 \<Rightarrow> bool \<Rightarrow> dwarf_expression option result" where
  "location_entry cur base pc in_frame =
    bindE (u64 cur) (\<lambda>(first, c1).
    bindE (u64 c1) (\<lambda>(second, c2).
      if first = 0 \<and> second = 0 then Inr None
      else if first = NOT 0 then location_entry c2 second pc in_frame
      else
        bindE (u16 c2) (\<lambda>(len, c3).
          if pc \<ge> base + first \<and> pc < base + second
          then Inr (Some \<lparr>ex_begin = cur_pos c3, ex_end = cur_pos c3 + int (unat len),
                          ex_in_frame_info = in_frame\<rparr>)
          else location_entry (advance (unat len) c3) base pc in_frame)))"
  by pat_completeness auto
termination
proof (relation "measure (\<lambda>(c, _, _, _). remaining c)", goal_cases)
  case 1
  show ?case by simp
next
  case 2
  then show ?case by (auto dest!: u64_reader.remaining_decreases)
next
  case (3 cur base pc in_frame x1 first c1 x2 second c2 x3 len c3)
  then have "remaining c3 < remaining cur"
    by (auto dest!: u64_reader.remaining_decreases u16_reader.remaining_decreases)
  then have "remaining (advance (unat len) c3) < remaining cur"
    using remaining_advance [of "unat len" c3] by linarith
  then show ?case by simp
qed

declare location_entry.simps [simp del]

definition current_pc :: "elf \<Rightarrow> registers \<Rightarrow> file_addr result" where
  "current_pc obj regs = bindE (read_by_id_as_u64 regs id_rip) (\<lambda>pc. Inr (to_file_addr obj pc))"

text \<open>
  \<open>dwarf_expression::eval\<close>, and \<open>attr::as_evaluated_location\<close> for a frame base, which evaluates
  an expression or the matching entry of a location list. \<open>dw_eval\<close> bounds both the number of
  instructions and the nesting of frame bases by its fuel.
\<close>

definition evaluated_location ::
  "(dwarf_expression \<Rightarrow> dwarf_result result) \<Rightarrow> nat \<Rightarrow> dwarf \<Rightarrow> registers \<Rightarrow> attr \<Rightarrow> bool \<Rightarrow> dwarf_result result" where
  "evaluated_location ev n dw regs a in_frame =
    (if at_form a = DW_FORM_exprloc then bindE (as_expression a in_frame) ev
     else if at_form a = DW_FORM_sec_offset then
       bindE (as_location_list a in_frame) (\<lambda>ll.
       bindE (current_pc (dw_elf dw) regs) (\<lambda>pc.
       bindE (function_containing_address n dw pc) (\<lambda>_.
       bindE (bindE (cu_root (ll_cu ll)) (\<lambda>root. bindE (die_attr root DW_AT_low_pc) as_address)) (\<lambda>base.
       bindE (location_entry (cursor_over (elf_map (cu_elf (ll_cu ll))) (ll_begin ll) (ll_end ll))
                (fa_addr base) (fa_addr pc) (ll_in_frame_info ll)) (\<lambda>found.
         case found of None \<Rightarrow> Inr (Simple empty_result) | Some ex \<Rightarrow> ev ex)))))
     else Inl (Send ''Invalid location type!''))"

fun dw_eval ::
  "nat \<Rightarrow> dwarf \<Rightarrow> memory_reader \<Rightarrow> registers \<Rightarrow> bool \<Rightarrow> dwarf_expression \<Rightarrow> dwarf_result result" where
  "dw_eval n dw rm regs push_cfa ex =
    bindE (current_pc (dw_elf dw) regs) (\<lambda>pc.
    bindE (function_containing_address n dw pc) (\<lambda>func.
      let frame_base = (\<lambda>u :: unit.
            bindE (the_opt (Std_exception ''bad_optional_access'') func) (\<lambda>f.
            bindE (die_attr f DW_AT_frame_base) (\<lambda>a.
            case n of
              0 \<Rightarrow> Inl (No_return ''fuel'')
            | Suc m \<Rightarrow>
               bindE (evaluated_location (\<lambda>ex'. dw_eval m dw rm regs False ex') m dw regs a True)
                 read_frame_base_result)));
          st = \<lparr>es_cur = cursor_over (elf_map (dw_elf dw)) (ex_begin ex) (ex_end ex),
                es_stack = (if push_cfa then [reg_cfa regs] else []),
                es_recent = None, es_pieces = [], es_is_address = True\<rparr>
      in bindE (eval_loop n (dw_elf dw) rm regs frame_base (ex_in_frame_info ex) st)
           (\<lambda>st'. Inr (eval_result st'))))"

declare dw_eval.simps [simp del]

definition as_evaluated_location ::
  "nat \<Rightarrow> dwarf \<Rightarrow> memory_reader \<Rightarrow> registers \<Rightarrow> attr \<Rightarrow> bool \<Rightarrow> dwarf_result result" where
  "as_evaluated_location n dw rm regs a in_frame =
    evaluated_location (dw_eval n dw rm regs False) n dw regs a in_frame"

section \<open>Postfix code\<close>

text \<open>
  Expression trees and the postfix code a compiler emits for them, with their meaning given by
  recursion over the tree; the machine is compared with it below.
\<close>

datatype bop = B_minus | B_mod | B_mul | B_and | B_or | B_plus | B_shl | B_shr | B_xor | B_div | B_lt | B_eq

datatype uop = U_neg | U_not | U_abs | U_deref | U_uconst u64

datatype dexp = E_lit nat | E_constu u64 | E_breg nat int | E_cfa | E_bin bop dexp dexp | E_un uop dexp

fun bop_code :: "bop \<Rightarrow> byte" where
  "bop_code B_minus = word_of_nat DW_OP_minus" | "bop_code B_mod = word_of_nat DW_OP_mod"
| "bop_code B_mul = word_of_nat DW_OP_mul" | "bop_code B_and = word_of_nat DW_OP_and"
| "bop_code B_or = word_of_nat DW_OP_or" | "bop_code B_plus = word_of_nat DW_OP_plus"
| "bop_code B_shl = word_of_nat DW_OP_shl" | "bop_code B_shr = word_of_nat DW_OP_shr"
| "bop_code B_xor = word_of_nat DW_OP_xor" | "bop_code B_div = word_of_nat DW_OP_div"
| "bop_code B_lt = word_of_nat DW_OP_lt" | "bop_code B_eq = word_of_nat DW_OP_eq"

fun bop_fun :: "bop \<Rightarrow> u64 \<Rightarrow> u64 \<Rightarrow> u64 result" where
  "bop_fun B_minus l r = Inr (l - r)" | "bop_fun B_mod l r = op_mod l r"
| "bop_fun B_mul l r = Inr (l * r)" | "bop_fun B_and l r = Inr (l AND r)"
| "bop_fun B_or l r = Inr (l OR r)" | "bop_fun B_plus l r = Inr (l + r)"
| "bop_fun B_shl l r = shift_guard (\<lambda>l n. push_bit n l) l r"
| "bop_fun B_shr l r = shift_guard (\<lambda>l n. drop_bit n l) l r"
| "bop_fun B_xor l r = Inr (l XOR r)" | "bop_fun B_div l r = op_div l r"
| "bop_fun B_lt l r = Inr (if sint l < sint r then 1 else 0)"
| "bop_fun B_eq l r = Inr (if sint l = sint r then 1 else 0)"

fun uop_bytes :: "uop \<Rightarrow> byte list" where
  "uop_bytes U_neg = [word_of_nat DW_OP_neg]" | "uop_bytes U_not = [word_of_nat DW_OP_not]"
| "uop_bytes U_abs = [word_of_nat DW_OP_abs]" | "uop_bytes U_deref = [word_of_nat DW_OP_deref]"
| "uop_bytes (U_uconst k) = word_of_nat DW_OP_plus_uconst # uleb128_encode (unat k)"

fun uop_fun :: "memory_reader \<Rightarrow> uop \<Rightarrow> u64 \<Rightarrow> u64 result" where
  "uop_fun rm U_neg v = op_neg v" | "uop_fun rm U_not v = Inr (NOT v)"
| "uop_fun rm U_abs v = op_abs v" | "uop_fun rm U_deref v = op_deref rm v"
| "uop_fun rm (U_uconst k) v = Inr (v + k)"

fun compile :: "dexp \<Rightarrow> byte list" where
  "compile (E_lit k) = [word_of_nat (DW_OP_lit0 + k)]"
| "compile (E_constu k) = word_of_nat DW_OP_constu # uleb128_encode (unat k)"
| "compile (E_breg r off) = word_of_nat (DW_OP_breg0 + r) # sleb128_encode off"
| "compile E_cfa = [word_of_nat DW_OP_call_frame_cfa]"
| "compile (E_bin b l r) = compile l @ compile r @ [bop_code b]"
| "compile (E_un u e) = compile e @ uop_bytes u"

fun dexp_ok :: "dexp \<Rightarrow> bool" where
  "dexp_ok (E_lit k) \<longleftrightarrow> k < 32"
| "dexp_ok (E_breg r off) \<longleftrightarrow> r < 32 \<and> - (2 ^ 63) \<le> off \<and> off < 2 ^ 63"
| "dexp_ok (E_bin b l r) \<longleftrightarrow> dexp_ok l \<and> dexp_ok r"
| "dexp_ok (E_un u e) \<longleftrightarrow> dexp_ok e"
| "dexp_ok _ \<longleftrightarrow> True"

fun dexp_value :: "memory_reader \<Rightarrow> registers \<Rightarrow> dexp \<Rightarrow> u64 result" where
  "dexp_value rm regs (E_lit k) = Inr (word_of_nat k)"
| "dexp_value rm regs (E_constu k) = Inr k"
| "dexp_value rm regs (E_breg r off) = bindE (read_dwarf_register regs (int r)) (\<lambda>v. Inr (v + word_of_int off))"
| "dexp_value rm regs E_cfa = Inr (reg_cfa regs)"
| "dexp_value rm regs (E_bin b l r) =
    bindE (dexp_value rm regs l) (\<lambda>v. bindE (dexp_value rm regs r) (\<lambda>w. bop_fun b v w))"
| "dexp_value rm regs (E_un u e) = bindE (dexp_value rm regs e) (uop_fun rm u)"

fun dexp_size :: "dexp \<Rightarrow> nat" where
  "dexp_size (E_bin b l r) = dexp_size l + dexp_size r + 1"
| "dexp_size (E_un u e) = dexp_size e + 1"
| "dexp_size _ = 1"

lemmas eval_defs = eval_ranges_def eval_constants_def eval_registers_def eval_stack_ops_def
  eval_arith_def eval_control_def Let_def

definition moved :: "nat \<Rightarrow> eval_state \<Rightarrow> eval_state" where
  "moved k st = st\<lparr>es_cur := advance k (es_cur st)\<rparr>"

lemma moved_sel [simp]:
  "es_cur (moved k st) = advance k (es_cur st)" "es_stack (moved k st) = es_stack st"
  "moved j (moved k st) = moved (k + j) st" "moved j (push v st) = push v (moved j st)"
  by (simp_all add: moved_def push_def)

lemma eval_step_op:
  assumes "stands_before (es_cur st) (opcode # later) rest"
  shows "eval_step obj rm regs fb in_frame st =
    bindE (eval_ranges regs in_frame (unat opcode) (moved 1 st)) (\<lambda>st1.
      first_some [eval_constants obj (unat opcode) st1, eval_registers regs fb in_frame (unat opcode) st1,
        eval_stack_ops rm (unat opcode) st1, eval_arith (unat opcode) st1, eval_control (unat opcode) st1]
        (Inr st1))"
  using u8_next [OF assms] by (simp add: eval_step_def Let_def moved_def)

lemma eval_step_bop:
  assumes "stands_before (es_cur st) (bop_code b # later) rest" "es_stack st = w # v # vs"
    and "bop_fun b v w = Inr r"
  shows "eval_step obj rm regs fb in_frame st = Inr ((moved 1 st)\<lparr>es_stack := r # vs\<rparr>)"
  unfolding eval_step_op [OF assms(1)] using assms(2,3)
  by (cases b) (simp_all add: eval_defs binop_def relop_def)

lemma eval_step_uop:
  assumes "stands_before (es_cur st) (uop_bytes u @ later) rest" "es_stack st = v # vs"
    and "uop_fun rm u v = Inr r"
  shows "eval_step obj rm regs fb in_frame st = Inr ((moved (length (uop_bytes u)) st)\<lparr>es_stack := r # vs\<rparr>)"
proof (cases u)
  case (U_uconst k)
  have s: "stands_before (es_cur st) (word_of_nat DW_OP_plus_uconst # (uleb128_encode (unat k) @ later)) rest"
    using assms(1) U_uconst by simp
  have "unat k < 2 ^ 64" using unsigned_less [of k] by simp
  from uleb_code.decodes_then [OF this] u8_next [OF s]
  have "uleb128 (advance 1 (es_cur st)) = Inr (k, advance (Suc (length (uleb128_encode (unat k)))) (es_cur st))"
    by fastforce
  then show ?thesis
    unfolding eval_step_op [OF s] using assms(2,3) U_uconst
    by (simp add: eval_defs with_top_def unop_def moved_def)
qed (use assms in \<open>simp_all add: eval_step_op eval_defs unop_def with_top_def\<close>)

lemma eval_loop_step:
  assumes "cur_pos (es_cur st) < cur_end (es_cur st)" "eval_step obj rm regs fb in_frame st = Inr st'"
  shows "eval_loop (Suc n) obj rm regs fb in_frame st = eval_loop n obj rm regs fb in_frame st'"
  using assms by (subst eval_loop.simps) (simp add: cursor_finished_def)

lemma uop_bytes_nonempty: "uop_bytes u \<noteq> []"
  by (cases u) auto

lemma compile_nonempty: "0 < length (compile e)"
  by (cases e) (auto simp: uop_bytes_nonempty)

lemma dexp_size_pos: "0 < dexp_size e"
  by (cases e) auto

lemma eval_step_leaf:
  assumes "stands_before (es_cur st) (compile e @ later) rest" "dexp_ok e" "dexp_value rm regs e = Inr v"
    and "dexp_size e = 1"
  shows "eval_step obj rm regs fb in_frame st = Inr (push v (moved (length (compile e)) st))"
proof (cases e)
  case (E_lit k)
  then have k: "k < 32" and s: "stands_before (es_cur st) (word_of_nat (DW_OP_lit0 + k) # later) rest"
    using assms by auto
  have u: "unat (word_of_nat (DW_OP_lit0 + k) :: byte) = DW_OP_lit0 + k" using k by (intro unat_byte_of_nat) simp
  show ?thesis
    unfolding eval_step_op [OF s] u using E_lit k assms(3) by (simp add: eval_defs)
next
  case (E_constu k)
  then have s: "stands_before (es_cur st) (word_of_nat DW_OP_constu # (uleb128_encode (unat k) @ later)) rest"
    using assms(1) by simp
  have "unat k < 2 ^ 64" using unsigned_less [of k] by simp
  from uleb_code.decodes_then [OF this] u8_next [OF s]
  have "uleb128 (advance 1 (es_cur st)) = Inr (k, advance (Suc (length (uleb128_encode (unat k)))) (es_cur st))"
    by fastforce
  then show ?thesis
    unfolding eval_step_op [OF s] using E_constu assms(3)
    by (simp add: eval_defs push_read_def moved_def)
next
  case (E_breg r off)
  then have r: "r < 32" "- (2 ^ 63) \<le> off \<and> off < 2 ^ 63"
    and s: "stands_before (es_cur st) (word_of_nat (DW_OP_breg0 + r) # (sleb128_encode off @ later)) rest"
    using assms by auto
  have u: "unat (word_of_nat (DW_OP_breg0 + r) :: byte) = DW_OP_breg0 + r" using r by (intro unat_byte_of_nat) simp
  from sleb_code.decodes_then [OF r(2)] u8_next [OF s]
  have "sleb128 (advance 1 (es_cur st)) = Inr (word_of_int off, advance (Suc (length (sleb128_encode off))) (es_cur st))"
    by fastforce
  then show ?thesis
    unfolding eval_step_op [OF s] u using E_breg r assms(3)
    by (auto simp: eval_defs moved_def result_simps)
next
  case E_cfa
  then have s: "stands_before (es_cur st) (word_of_nat DW_OP_call_frame_cfa # later) rest"
    using assms(1) by simp
  show ?thesis unfolding eval_step_op [OF s] using E_cfa assms(3) by (simp add: eval_defs)
next
  case (E_bin b l r)
  then show ?thesis using assms(4) dexp_size_pos [of l] by simp
next
  case (E_un u x)
  then show ?thesis using assms(4) dexp_size_pos [of x] by simp
qed

text \<open>Running the code of a tree pushes its value and leaves the machine behind the code.\<close>

lemma eval_compiled:
  assumes "dexp_ok e" "dexp_value rm regs e = Inr v"
    and "stands_before (es_cur st) (compile e @ later) rest"
    and "cur_pos (es_cur st) + int (length (compile e)) \<le> cur_end (es_cur st)"
  shows "eval_loop (dexp_size e + n) obj rm regs fb in_frame st =
    eval_loop n obj rm regs fb in_frame (push v (moved (length (compile e)) st))"
  using assms
proof (induction e arbitrary: v st later n)
  case (E_bin b l r)
  from E_bin.prems(2) obtain x y where v: "dexp_value rm regs l = Inr x" "dexp_value rm regs r = Inr y"
    "bop_fun b x y = Inr v" by (auto simp: result_simps)
  let ?l = "length (compile l)" and ?r = "length (compile r)"
  have s1: "stands_before (es_cur st) (compile l @ (compile r @ bop_code b # later)) rest"
    using E_bin.prems(3) by simp
  have s2: "stands_before (advance ?l (es_cur st)) (compile r @ (bop_code b # later)) rest"
    using stands_before_advance [OF s1] .
  have s3: "stands_before (advance (?l + ?r) (es_cur st)) (bop_code b # later) rest"
    using stands_before_advance [OF s2] by simp
  have "eval_loop (dexp_size (E_bin b l r) + n) obj rm regs fb in_frame st =
      eval_loop (dexp_size l + (dexp_size r + Suc n)) obj rm regs fb in_frame st" by (simp add: add.assoc)
  also have "\<dots> = eval_loop (dexp_size r + Suc n) obj rm regs fb in_frame (push x (moved ?l st))"
    using E_bin.prems by (intro E_bin.IH(1) [OF _ v(1) s1]) auto
  also have "\<dots> = eval_loop (Suc n) obj rm regs fb in_frame (push y (moved ?r (push x (moved ?l st))))"
    using E_bin.prems s2 by (intro E_bin.IH(2) [OF _ v(2)]) (auto simp: push_def)
  also have "\<dots> = eval_loop n obj rm regs fb in_frame (push v (moved (length (compile (E_bin b l r))) st))"
  proof (rule eval_loop_step)
    let ?st = "push y (moved ?r (push x (moved ?l st)))"
    show "cur_pos (es_cur ?st) < cur_end (es_cur ?st)" using E_bin.prems(4) by (simp add: push_def)
    have "eval_step obj rm regs fb in_frame ?st = Inr ((moved 1 ?st)\<lparr>es_stack := v # es_stack st\<rparr>)"
      by (rule eval_step_bop [OF _ _ v(3)]) (use s3 in \<open>auto simp: push_def\<close>)
    then show "eval_step obj rm regs fb in_frame ?st = Inr (push v (moved (length (compile (E_bin b l r))) st))"
      by (simp add: push_def moved_def)
  qed
  finally show ?case .
next
  case (E_un u e)
  from E_un.prems(2) obtain x where v: "dexp_value rm regs e = Inr x" "uop_fun rm u x = Inr v"
    by (auto simp: result_simps)
  let ?l = "length (compile e)"
  have s1: "stands_before (es_cur st) (compile e @ (uop_bytes u @ later)) rest" using E_un.prems(3) by simp
  have s2: "stands_before (advance ?l (es_cur st)) (uop_bytes u @ later) rest"
    using stands_before_advance [OF s1] .
  have "eval_loop (dexp_size (E_un u e) + n) obj rm regs fb in_frame st =
      eval_loop (dexp_size e + Suc n) obj rm regs fb in_frame st" by simp
  also have "\<dots> = eval_loop (Suc n) obj rm regs fb in_frame (push x (moved ?l st))"
    using E_un.prems by (intro E_un.IH [OF _ v(1) s1]) auto
  also have "\<dots> = eval_loop n obj rm regs fb in_frame (push v (moved (length (compile (E_un u e))) st))"
  proof (rule eval_loop_step)
    let ?st = "push x (moved ?l st)"
    show "cur_pos (es_cur ?st) < cur_end (es_cur ?st)"
      using E_un.prems(4) uop_bytes_nonempty [of u] by (cases "uop_bytes u") (simp_all add: push_def)
    have "eval_step obj rm regs fb in_frame ?st = Inr ((moved (length (uop_bytes u)) ?st)\<lparr>es_stack := v # es_stack st\<rparr>)"
      by (rule eval_step_uop [OF _ _ v(2)]) (use s2 in \<open>auto simp: push_def\<close>)
    then show "eval_step obj rm regs fb in_frame ?st = Inr (push v (moved (length (compile (E_un u e))) st))"
      by (simp add: push_def moved_def)
  qed
  finally show ?case .
next
  case (E_lit k)
  show ?case
    using eval_loop_step [OF _ eval_step_leaf [OF E_lit.prems(3,1,2)]] E_lit.prems(4) compile_nonempty [of "E_lit k"]
    by simp
next
  case (E_constu k)
  show ?case
    using eval_loop_step [OF _ eval_step_leaf [OF E_constu.prems(3,1,2)]] E_constu.prems(4)
      compile_nonempty [of "E_constu k"] by simp
next
  case (E_breg r off)
  show ?case
    using eval_loop_step [OF _ eval_step_leaf [OF E_breg.prems(3,1,2)]] E_breg.prems(4)
      compile_nonempty [of "E_breg r off"] by simp
next
  case E_cfa
  show ?case
    using eval_loop_step [OF _ eval_step_leaf [OF E_cfa.prems(3,1,2)]] E_cfa.prems(4)
      compile_nonempty [of E_cfa] by simp
qed

section \<open>Operands left unread\<close>

text \<open>
  A branch that is not taken pops its condition but leaves its two-byte offset in the instruction
  stream, and \<open>DW_OP_implicit_value\<close> leaves its data there: the machine goes on executing them.
\<close>

lemma bra_not_taken:
  assumes "stands_before (es_cur st) (word_of_nat DW_OP_bra # later) rest" "es_stack st = 0 # vs"
  shows "eval_step obj rm regs fb in_frame st = Inr ((moved 1 st)\<lparr>es_stack := vs\<rparr>)"
  unfolding eval_step_op [OF assms(1)] using assms(2) by (simp add: eval_defs with_top_def)

lemma implicit_value_data_executed:
  assumes "stands_before (es_cur st) (word_of_nat DW_OP_implicit_value # (uleb128_encode (length data) @ data)) rest"
    and "length data < 2 ^ 63"
  shows "\<exists>st'. eval_step obj rm regs fb in_frame st = Inr st' \<and> stands_before (es_cur st') data rest"
proof -
  have n: "length data < 2 ^ 64" using assms(2) by simp
  from u8_next [OF assms(1)]
  have s: "stands_before (advance 1 (es_cur st)) (uleb128_encode (length data) @ data) rest" by simp
  from uleb_code.decodes_then [OF n s] show ?thesis
    unfolding eval_step_op [OF assms(1)] by (simp add: eval_defs)
qed

section \<open>Properties\<close>

text \<open>
  C9. The expression machine computes what the postfix code means: for every expression tree over
  literals, constants, registers with offset, the call frame address, memory reads and the
  arithmetic, bitwise, shift and comparison operators, whose value is defined, evaluating its code
  returns that value as an address, and as a literal when the code ends with
  \<open>DW_OP_stack_value\<close>; the number of operators is fuel enough.
\<close>

theorem expression_evaluates:
  assumes "dexp_ok e" "dexp_value rm regs e = Inr v"
    and "current_pc (dw_elf dw) regs = Inr pc" "function_containing_address n dw pc = Inr func"
    and "0 \<le> ex_begin ex" "Suc (dexp_size e) \<le> n"
    and "code \<in> {[], [word_of_nat DW_OP_stack_value]}"
    and "drop (nat (ex_begin ex)) (elf_map (dw_elf dw)) = compile e @ code @ rest"
    and "ex_end ex = ex_begin ex + int (length (compile e @ code))"
  shows "dw_eval n dw rm regs False ex =
    Inr (Simple (if code = [] then address_result v else literal_result v))"
proof -
  obtain m where m: "n = dexp_size e + Suc m" using assms(6) by (metis Suc_le_eq add_Suc_right less_iff_Suc_add)
  define st where "st = \<lparr>es_cur = cursor_over (elf_map (dw_elf dw)) (ex_begin ex) (ex_end ex),
     es_stack = [], es_recent = None, es_pieces = [], es_is_address = True\<rparr>"
  have st: "stands_before (es_cur st) (compile e @ code) rest"
    "cur_pos (es_cur st) + int (length (compile e @ code)) = cur_end (es_cur st)"
    using assms(5,8,9) by (simp_all add: st_def stands_before_def cursor_over_def unread_def)
  have run: "eval_loop n (dw_elf dw) rm regs fb (ex_in_frame_info ex) st =
      eval_loop (Suc m) (dw_elf dw) rm regs fb (ex_in_frame_info ex) (push v (moved (length (compile e)) st))" for fb
    unfolding m using st by (intro eval_compiled [OF assms(1,2), where later = code]) auto
  have "eval_loop (Suc m) (dw_elf dw) rm regs fb (ex_in_frame_info ex) (push v (moved (length (compile e)) st)) =
      Inr (if code = [] then push v (moved (length (compile e)) st)
           else (push v (moved (length (compile e @ code)) st))\<lparr>es_is_address := False\<rparr>)" for fb
  proof (cases "code = []")
    case True
    then show ?thesis using st(2) by (subst eval_loop.simps) (simp add: cursor_finished_def push_def)
  next
    case False
    then have c: "code = [word_of_nat DW_OP_stack_value]" using assms(7) by simp
    let ?st = "push v (moved (length (compile e)) st)"
    have "stands_before (es_cur ?st) (word_of_nat DW_OP_stack_value # []) rest"
      using stands_before_advance [OF st(1)] c by (simp add: push_def)
    from eval_step_op [OF this]
    have "eval_step (dw_elf dw) rm regs fb (ex_in_frame_info ex) ?st = Inr ((moved 1 ?st)\<lparr>es_is_address := False\<rparr>)"
      by (simp add: eval_defs)
    then have "eval_loop (Suc m) (dw_elf dw) rm regs fb (ex_in_frame_info ex) ?st =
        eval_loop m (dw_elf dw) rm regs fb (ex_in_frame_info ex) ((moved 1 ?st)\<lparr>es_is_address := False\<rparr>)"
      using st(2) c by (intro eval_loop_step) (auto simp: push_def)
    also have "\<dots> = Inr ((moved 1 ?st)\<lparr>es_is_address := False\<rparr>)"
      using st(2) c by (subst eval_loop.simps) (simp add: cursor_finished_def push_def)
    finally show ?thesis using False c by (simp add: push_def moved_def)
  qed
  with run show ?thesis
    unfolding dw_eval.simps [of n] using assms(3,4)
    by (simp add: Let_def flip: st_def) (auto simp: eval_result_def get_current_location_def push_def st_def moved_def)
qed

definition sample_dexp :: dexp where
  "sample_dexp = E_bin B_plus (E_lit 5) (E_un (U_uconst 300) (E_breg 7 (- 8)))"

definition sample_dwarf :: dwarf where
  "sample_dwarf = \<lparr>dw_elf = sample_dwarf_elf\<lparr>elf_map := compile sample_dexp @ [word_of_nat DW_OP_stack_value]\<rparr>,
     dw_units = [], dw_index = empty_index\<rparr>"

definition sample_expression :: dwarf_expression where
  "sample_expression = \<lparr>ex_begin = 0, ex_end = 8, ex_in_frame_info = False\<rparr>"

theorem expression_evaluates_witness:
  "\<forall>rm. dw_eval 9 sample_dwarf rm (new_registers 1) False sample_expression = Inr (Simple (literal_result 297))"
proof
  fix rm :: memory_reader
  have reg: "read_dwarf_register (new_registers 1) 7 = Inr 0" by code_simp
  have pc: "current_pc (dw_elf sample_dwarf) (new_registers 1) = Inr null_file_addr" by code_simp
  have func: "function_containing_address 9 sample_dwarf null_file_addr = Inr None"
    by (simp add: function_containing_address_def index_def sample_dwarf_def empty_index_def)
  have val: "dexp_value rm (new_registers 1) sample_dexp = Inr 297"
    by (simp add: sample_dexp_def reg)
  have len: "length (compile sample_dexp) = 7" by code_simp
  have "dw_eval 9 sample_dwarf rm (new_registers 1) False sample_expression =
      Inr (Simple (if [word_of_nat DW_OP_stack_value :: byte] = [] then address_result 297 else literal_result 297))"
    by (rule expression_evaluates [OF _ val pc func, where rest = "[]"])
      (simp_all add: sample_dexp_def sample_expression_def sample_dwarf_def len [unfolded sample_dexp_def, simplified])
  then show "dw_eval 9 sample_dwarf rm (new_registers 1) False sample_expression = Inr (Simple (literal_result 297))"
    by simp
qed

end
