(* ===== verification/Call_Frame.thy ===== *)
theory Call_Frame
  imports Dwarf_Expression
begin

text \<open>
  \<open>src/dwarf.cpp\<close>, call frame information: parsing of the CIEs and FDEs of \<open>.eh_frame\<close>, the binary search of the
  table in \<open>.eh_frame_hdr\<close>, the call frame instructions that compute the row of the unwind table for
  a program counter, and the rules that recover the registers of the caller. The cache of parsed
  CIEs is part of the state. A dereferenced empty \<open>optional\<close>, the back of an empty vector and signed
  overflow are undefined.
\<close>

section \<open>Entries\<close>

record common_information_entry =
  cie_length :: u32
  code_alignment_factor :: u64
  data_alignment_factor :: u64
  fde_has_augmentation :: bool
  fde_pointer_encoding :: byte
  cie_begin :: int
  cie_end :: int

record frame_description_entry =
  fde_length :: u32
  fde_cie :: common_information_entry
  initial_location :: file_addr
  address_range :: u64
  fde_begin :: int
  fde_end :: int

record eh_hdr =
  hdr_start :: int
  search_table :: int
  hdr_count :: u64
  hdr_encoding :: byte

text \<open>The key of the cache of CIEs is the offset cut to 32 bits.\<close>

record call_frame_information =
  cfi_dwarf :: dwarf
  cie_map :: "(u32 \<times> common_information_entry) list"
  cfi_eh_hdr :: eh_hdr

definition deref_optional :: "'a option \<Rightarrow> 'a result" where
  "deref_optional m = the_opt (Undefined ''empty optional dereferenced'') m"

text \<open>The loop over the augmentation string: the pointer encoding of the FDEs, and the rest skipped.\<close>

fun cie_augmentation :: "string \<Rightarrow> byte \<Rightarrow> cursor \<Rightarrow> (byte \<times> cursor) result" where
  "cie_augmentation [] enc cur = Inr (enc, cur)"
| "cie_augmentation (ch # chs) enc cur =
    (if ch = CHR ''z'' then bindE (uleb128 cur) (\<lambda>(_, c). cie_augmentation chs enc c)
     else if ch = CHR ''R'' then bindE (u8 cur) (\<lambda>(e, c). cie_augmentation chs e c)
     else if ch = CHR ''L'' then bindE (u8 cur) (\<lambda>(_, c). cie_augmentation chs enc c)
     else if ch = CHR ''P'' then
       bindE (u8 cur) (\<lambda>(e, c).
       bindE (parse_eh_frame_pointer_with_base c e 0) (\<lambda>(_, c'). cie_augmentation chs enc c'))
     else Inl (Send ''Invalid CIE augmentation!''))"

definition cie_address_sizes :: "byte \<Rightarrow> cursor \<Rightarrow> cursor result" where
  "cie_address_sizes version cur =
    (if version = 4 then
       bindE (u8 cur) (\<lambda>(address_size, c1).
       bindE (u8 c1) (\<lambda>(segment_size, c2).
         if address_size \<noteq> 8 then Inl (Send ''Invalid address size!'')
         else if segment_size \<noteq> 0 then Inl (Send ''Invalid segment size!'')
         else Inr c2))
     else Inr cur)"

definition parse_cie :: "cursor \<Rightarrow> common_information_entry result" where
  "parse_cie cur =
    bindE (u32 cur) (\<lambda>(l, c1).
    bindE (u32 c1) (\<lambda>(_, c2).
    bindE (u8 c2) (\<lambda>(version, c3).
      if \<not> (version = 1 \<or> version = 3 \<or> version = 4) then Inl (Send ''Invalid CIE version!'')
      else
        bindE (cursor_string c3) (\<lambda>(augmentation, c4).
          if augmentation \<noteq> [] \<and> hd augmentation \<noteq> CHR ''z'' then Inl (Send ''Invalid CIE augmentation!'')
          else
            bindE (cie_address_sizes version c4) (\<lambda>c5.
            bindE (uleb128 c5) (\<lambda>(caf, c6).
            bindE (sleb128 c6) (\<lambda>(daf, c7).
            bindE (if version = 1 then bindE (u8 c7) (\<lambda>(r, c). Inr (ucast r, c)) else uleb128 c7)
              (\<lambda>(_ :: u64, c8).
            bindE (cie_augmentation augmentation (word_of_nat DW_EH_PE_udata8 OR word_of_nat DW_EH_PE_absptr) c8)
              (\<lambda>(enc, c9).
              Inr \<lparr>cie_length = l + 4, code_alignment_factor = caf, data_alignment_factor = daf,
                   fde_has_augmentation = (augmentation \<noteq> []), fde_pointer_encoding = enc,
                   cie_begin = cur_pos c9, cie_end = cur_pos cur + int (unat (l + 4))\<rparr>))))))))) "

definition get_cie ::
  "file_offset \<Rightarrow> call_frame_information \<Rightarrow> (common_information_entry \<times> call_frame_information) result" where
  "get_cie at cfi =
    (let offset = (ucast (fo_off at) :: u32); obj = dw_elf (cfi_dwarf cfi)
     in case map_of (cie_map cfi) offset of
          Some cie \<Rightarrow> Inr (cie, cfi)
        | None \<Rightarrow>
            bindE (parse_cie (cursor_over (elf_map obj) (file_offset_as_data_pointer at)
                                (snd (get_section_contents obj ''.eh_frame'')))) (\<lambda>cie.
              Inr (cie, cfi\<lparr>cie_map := emplace offset cie (cie_map cfi)\<rparr>)))"

definition parse_fde ::
  "call_frame_information \<Rightarrow> cursor \<Rightarrow> (frame_description_entry \<times> call_frame_information) result" where
  "parse_fde cfi cur =
    (let obj = dw_elf (cfi_dwarf cfi)
     in bindE (u32 cur) (\<lambda>(l, c1).
        bindE (s32 c1) (\<lambda>(dist, c2).
        bindE (get_cie \<lparr>fo_elf = Some (elf_no obj),
                        fo_off = fo_off (data_pointer_as_file_offset obj (cur_pos c1)) - dist\<rparr> cfi) (\<lambda>(cie, cfi').
          let text_section_start =
            (case get_section_start_address obj ''.text'' of None \<Rightarrow> null_file_addr | Some a \<Rightarrow> a)
          in
          bindE (parse_eh_frame_pointer c2 (fde_pointer_encoding cie)
                   (fo_off (data_pointer_as_file_offset obj (cur_pos c2))) (fa_addr text_section_start) 0 0)
            (\<lambda>(loc, c3).
          bindE (parse_eh_frame_pointer_with_base c3 (fde_pointer_encoding cie) 0) (\<lambda>(range, c4).
          bindE (if fde_has_augmentation cie
                 then bindE (uleb128 c4) (\<lambda>(n, c). Inr (cursor_add n c)) else Inr c4) (\<lambda>c5.
            Inr (\<lparr>fde_length = l + 4, fde_cie = cie, initial_location = mk_file_addr (elf_no obj) loc,
                  address_range = range, fde_begin = cur_pos c5,
                  fde_end = cur_pos cur + int (unat (l + 4))\<rparr>, cfi'))))))))"

definition parse_eh_hdr :: "elf \<Rightarrow> eh_hdr result" where
  "parse_eh_hdr obj =
    bindE (deref_optional (get_section_start_address obj ''.eh_frame_hdr'')) (\<lambda>_.
    bindE (deref_optional (get_section_start_address obj ''.text'')) (\<lambda>_.
      let (b, e) = get_section_contents obj ''.eh_frame_hdr''; cur = cursor_over (elf_map obj) b e
      in bindE (u8 cur) (\<lambda>(version, c1).
         bindE (u8 c1) (\<lambda>(eh_frame_ptr_enc, c2).
         bindE (u8 c2) (\<lambda>(fde_count_enc, c3).
         bindE (u8 c3) (\<lambda>(table_enc, c4).
         bindE (parse_eh_frame_pointer_with_base c4 eh_frame_ptr_enc 0) (\<lambda>(_, c5).
         bindE (parse_eh_frame_pointer_with_base c5 fde_count_enc 0) (\<lambda>(fde_count, c6).
           Inr \<lparr>hdr_start = cur_pos cur, search_table = cur_pos c6, hdr_count = fde_count,
                hdr_encoding = table_enc\<rparr>))))))))"

text \<open>The call frame information of a file, built by the constructor of \<open>dwarf\<close>.\<close>

definition call_frame_information_new :: "dwarf \<Rightarrow> call_frame_information result" where
  "call_frame_information_new dw =
    bindE (parse_eh_hdr (dw_elf dw)) (\<lambda>hdr. Inr \<lparr>cfi_dwarf = dw, cie_map = [], cfi_eh_hdr = hdr\<rparr>)"

section \<open>The search table\<close>

text \<open>The pointer at offset \<open>off\<close> of the search table; \<open>rows\<close> is the size of the table.\<close>

definition eh_table_pointer :: "elf \<Rightarrow> eh_hdr \<Rightarrow> u64 \<Rightarrow> u64 \<Rightarrow> u64 \<Rightarrow> u64 result" where
  "eh_table_pointer obj hdr text rows off =
    (let cur = cursor_over (elf_map obj) (search_table hdr + sint off) (search_table hdr + sint rows)
     in bindE (parse_eh_frame_pointer cur (hdr_encoding hdr)
                 (fo_off (data_pointer_as_file_offset obj (cur_pos cur))) text
                 (fo_off (data_pointer_as_file_offset obj (hdr_start hdr))) 0) (\<lambda>(v, _). Inr v))"

text \<open>
  The loop of the binary search on \<open>std::size_t\<close> bounds. With no rows the upper bound starts at
  \<open>2^64 - 1\<close> and the midpoint can wrap, so the loop takes fuel.
\<close>

fun eh_hdr_search :: "nat \<Rightarrow> (u64 \<Rightarrow> u64 result) \<Rightarrow> u64 \<Rightarrow> u64 \<Rightarrow> u64 \<Rightarrow> u64 result" where
  "eh_hdr_search n entry a low high =
    (if low \<le> high then
       (case n of
          0 \<Rightarrow> Inl (No_return ''fuel'')
        | Suc m \<Rightarrow>
            let mid = (low + high) div 2
            in bindE (entry mid) (\<lambda>entry_address.
                 if entry_address < a then eh_hdr_search m entry a (mid + 1) high
                 else if entry_address > a then
                   (if mid = 0 then Inl (Send ''Address not found in eh_hdr!'')
                    else eh_hdr_search m entry a low (mid - 1))
                 else Inr mid))
     else Inr high)"

declare eh_hdr_search.simps [simp del]

definition eh_hdr_lookup :: "nat \<Rightarrow> elf \<Rightarrow> eh_hdr \<Rightarrow> file_addr \<Rightarrow> int result" where
  "eh_hdr_lookup n obj hdr address =
    (if fa_elf address \<noteq> Some (elf_no obj) then Inl (Undefined ''address of no object or of another one'')
     else
    bindE (deref_optional (get_section_start_address obj ''.text'')) (\<lambda>text.
    bindE (eh_frame_pointer_encoding_size (hdr_encoding hdr)) (\<lambda>encoding_size.
      let row_size = word_of_nat (encoding_size * 2); rows = hdr_count hdr * row_size;
          pointer = eh_table_pointer obj hdr (fa_addr text) rows
      in bindE (eh_hdr_search n (\<lambda>i. pointer (i * row_size)) (fa_addr address) 0 (hdr_count hdr - 1)) (\<lambda>high.
         bindE (pointer (high * row_size + word_of_nat encoding_size)) (\<lambda>off.
           Inr (file_offset_as_data_pointer \<lparr>fo_elf = Some (elf_no obj), fo_off = off\<rparr>))))))"

section \<open>Rules and rows\<close>

datatype cfa_rule_type = cfa_register_rule u32 u64 | cfa_expr_rule dwarf_expression

datatype rule =
    undefined_rule
  | same_rule
  | offset_rule u64
  | val_offset_rule u64
  | register_rule u32
  | expr_rule dwarf_expression
  | val_expr_rule dwarf_expression

type_synonym ruleset = "(u32 \<times> rule) list"

record unwind_context =
  uc_cur :: cursor
  uc_location :: file_addr
  cfa_rule :: cfa_rule_type
  cie_register_rules :: ruleset
  register_rules :: ruleset
  rule_stack :: "(ruleset \<times> cfa_rule_type) list"

definition mul_i64 :: "u64 \<Rightarrow> u64 \<Rightarrow> u64 result" where
  "mul_i64 x y =
    (if - (2 ^ 63) \<le> sint x * sint y \<and> sint x * sint y < 2 ^ 63 then Inr (x * y)
     else Inl (Undefined ''signed overflow''))"

text \<open>\<open>register_rules.emplace\<close>: a register that has a rule keeps it.\<close>

definition add_rule :: "u32 \<Rightarrow> rule \<Rightarrow> unwind_context \<Rightarrow> unwind_context" where
  "add_rule reg r ctx = ctx\<lparr>register_rules := emplace reg r (register_rules ctx)\<rparr>"

definition advance_location :: "u64 \<Rightarrow> unwind_context \<Rightarrow> unwind_context" where
  "advance_location off ctx = ctx\<lparr>uc_location := file_addr_add (uc_location ctx) off\<rparr>"

definition frame_expression :: "cursor \<Rightarrow> (dwarf_expression \<times> cursor) result" where
  "frame_expression cur =
    bindE (uleb128 cur) (\<lambda>(len, c).
      Inr (\<lparr>ex_begin = cur_pos c, ex_end = cur_pos c + sint len, ex_in_frame_info = True\<rparr>, cursor_add len c))"

definition restore_rule :: "u32 \<Rightarrow> unwind_context \<Rightarrow> unwind_context result" where
  "restore_rule reg ctx =
    bindE (map_at (cie_register_rules ctx) reg) (\<lambda>r. Inr (add_rule reg r ctx))"

section \<open>Call frame instructions\<close>

text \<open>The three instructions with an operand in the low six bits.\<close>

definition cfi_primary :: "common_information_entry \<Rightarrow> nat \<Rightarrow> u32 \<Rightarrow> unwind_context \<Rightarrow> unwind_context result" where
  "cfi_primary cie primary ext ctx =
    (if primary = DW_CFA_advance_loc then
       Inr (advance_location (ucast ext * code_alignment_factor cie) ctx)
     else if primary = DW_CFA_offset then
       bindE (uleb128 (uc_cur ctx)) (\<lambda>(v, c).
       bindE (mul_i64 v (data_alignment_factor cie)) (\<lambda>off.
         Inr (add_rule ext (offset_rule off) (ctx\<lparr>uc_cur := c\<rparr>))))
     else if primary = DW_CFA_restore then restore_rule ext ctx
     else Inr ctx)"

definition cfi_location ::
  "elf \<Rightarrow> frame_description_entry \<Rightarrow> u64 \<Rightarrow> nat \<Rightarrow> unwind_context \<Rightarrow> unwind_context result option" where
  "cfi_location obj fde text op ctx =
    (let cie = fde_cie fde; cur = uc_cur ctx;
         by_factor = (\<lambda>v c. Inr (advance_location (v * code_alignment_factor cie) (ctx\<lparr>uc_cur := c\<rparr>)))
     in if op = DW_CFA_set_loc then
          Some (bindE (parse_eh_frame_pointer cur (fde_pointer_encoding cie)
                         (fo_off (data_pointer_as_file_offset obj (cur_pos cur))) text
                         (fa_addr (case get_section_start_address obj ''.got.plt'' of
                            None \<Rightarrow> null_file_addr | Some a \<Rightarrow> a))
                         (fa_addr (initial_location fde))) (\<lambda>(loc, c).
            Inr (ctx\<lparr>uc_cur := c, uc_location := mk_file_addr (elf_no obj) loc\<rparr>)))
        else if op = DW_CFA_advance_loc1 then Some (bindE (u8 cur) (\<lambda>(v, c). by_factor (ucast v) c))
        else if op = DW_CFA_advance_loc2 then Some (bindE (u16 cur) (\<lambda>(v, c). by_factor (ucast v) c))
        else if op = DW_CFA_advance_loc4 then Some (bindE (u32 cur) (\<lambda>(v, c). by_factor (ucast v) c))
        else None)"

text \<open>\<open>std::get<cfa_register_rule>\<close> throws where the rule is an expression.\<close>

definition with_cfa_register :: "unwind_context \<Rightarrow> (u32 \<Rightarrow> u64 \<Rightarrow> cfa_rule_type) \<Rightarrow> unwind_context result" where
  "with_cfa_register ctx f =
    (case cfa_rule ctx of
       cfa_register_rule r off \<Rightarrow> Inr (ctx\<lparr>cfa_rule := f r off\<rparr>)
     | cfa_expr_rule _ \<Rightarrow> Inl (Std_exception ''bad_variant_access''))"

definition cfi_cfa ::
  "common_information_entry \<Rightarrow> nat \<Rightarrow> unwind_context \<Rightarrow> unwind_context result option" where
  "cfi_cfa cie op ctx =
    (let cur = uc_cur ctx; daf = data_alignment_factor cie
     in if op = DW_CFA_def_cfa then
          Some (bindE (uleb128 cur) (\<lambda>(r, c1). bindE (uleb128 c1) (\<lambda>(off, c2).
            Inr (ctx\<lparr>uc_cur := c2, cfa_rule := cfa_register_rule (ucast r) (ucast (ucast off :: u32))\<rparr>))))
        else if op = DW_CFA_def_cfa_sf then
          Some (bindE (uleb128 cur) (\<lambda>(r, c1). bindE (sleb128 c1) (\<lambda>(v, c2). bindE (mul_i64 v daf) (\<lambda>off.
            Inr (ctx\<lparr>uc_cur := c2, cfa_rule := cfa_register_rule (ucast r) off\<rparr>)))))
        else if op = DW_CFA_def_cfa_register then
          Some (bindE (uleb128 cur) (\<lambda>(r, c).
            with_cfa_register (ctx\<lparr>uc_cur := c\<rparr>) (\<lambda>_ off. cfa_register_rule (ucast r) off)))
        else if op = DW_CFA_def_cfa_offset then
          Some (bindE (uleb128 cur) (\<lambda>(off, c).
            with_cfa_register (ctx\<lparr>uc_cur := c\<rparr>) (\<lambda>r _. cfa_register_rule r off)))
        else if op = DW_CFA_def_cfa_offset_sf then
          Some (bindE (sleb128 cur) (\<lambda>(v, c). bindE (mul_i64 v daf) (\<lambda>off.
            with_cfa_register (ctx\<lparr>uc_cur := c\<rparr>) (\<lambda>r _. cfa_register_rule r off))))
        else if op = DW_CFA_def_cfa_expression then
          Some (bindE (frame_expression cur) (\<lambda>(ex, c). Inr (ctx\<lparr>uc_cur := c, cfa_rule := cfa_expr_rule ex\<rparr>)))
        else None)"

text \<open>The instructions that read a register number and give it a rule.\<close>

definition cfi_rule ::
  "common_information_entry \<Rightarrow> nat \<Rightarrow> cursor \<Rightarrow> (rule \<times> cursor) result option" where
  "cfi_rule cie op cur =
    (let daf = data_alignment_factor cie;
         scaled = (\<lambda>mk r. bindE r (\<lambda>(v, c). bindE (mul_i64 v daf) (\<lambda>off. Inr (mk off, c))))
     in if op = DW_CFA_undefined then Some (Inr (undefined_rule, cur))
        else if op = DW_CFA_same_value then Some (Inr (same_rule, cur))
        else if op = DW_CFA_offset_extended then Some (scaled offset_rule (uleb128 cur))
        else if op = DW_CFA_offset_extended_sf then Some (scaled offset_rule (sleb128 cur))
        else if op = DW_CFA_val_offset then Some (scaled val_offset_rule (uleb128 cur))
        else if op = DW_CFA_val_offset_sf then Some (scaled val_offset_rule (sleb128 cur))
        else if op = DW_CFA_register then Some (bindE (uleb128 cur) (\<lambda>(r, c). Inr (register_rule (ucast r), c)))
        else if op = DW_CFA_expression then
          Some (bindE (frame_expression cur) (\<lambda>(ex, c). Inr (val_expr_rule ex, c)))
        else if op = DW_CFA_val_expression then
          Some (bindE (frame_expression cur) (\<lambda>(ex, c). Inr (expr_rule ex, c)))
        else None)"

definition cfi_registers ::
  "common_information_entry \<Rightarrow> nat \<Rightarrow> unwind_context \<Rightarrow> unwind_context result option" where
  "cfi_registers cie op ctx =
    (if cfi_rule cie op (uc_cur ctx) \<noteq> None then
       Some (bindE (uleb128 (uc_cur ctx)) (\<lambda>(reg, c1).
         case cfi_rule cie op c1 of
           None \<Rightarrow> Inr ctx
         | Some r \<Rightarrow> bindE r (\<lambda>(rl, c2). Inr (add_rule (ucast reg) rl (ctx\<lparr>uc_cur := c2\<rparr>)))))
     else if op = DW_CFA_restore_extended then
       Some (bindE (uleb128 (uc_cur ctx)) (\<lambda>(reg, c). restore_rule (ucast reg) (ctx\<lparr>uc_cur := c\<rparr>)))
     else None)"

definition cfi_stack :: "nat \<Rightarrow> unwind_context \<Rightarrow> unwind_context result option" where
  "cfi_stack op ctx =
    (if op = DW_CFA_remember_state then
       Some (Inr (ctx\<lparr>rule_stack := (register_rules ctx, cfa_rule ctx) # rule_stack ctx\<rparr>))
     else if op = DW_CFA_restore_state then
       Some (case rule_stack ctx of
          [] \<Rightarrow> Inl (Undefined ''back of an empty vector'')
        | (rules, cfa) # stack \<Rightarrow> Inr (ctx\<lparr>register_rules := rules, cfa_rule := cfa, rule_stack := stack\<rparr>))
     else None)"

definition execute_cfi_instruction ::
  "elf \<Rightarrow> frame_description_entry \<Rightarrow> unwind_context \<Rightarrow> unwind_context result" where
  "execute_cfi_instruction obj fde ctx =
    bindE (deref_optional (get_section_start_address obj ''.text'')) (\<lambda>text.
    bindE (u8 (uc_cur ctx)) (\<lambda>(opcode, c).
      let primary_opcode = unat (opcode AND 0xc0); extended_opcode = unat (opcode AND 0x3f);
          cie = fde_cie fde; ctx0 = ctx\<lparr>uc_cur := c\<rparr>
      in if primary_opcode \<noteq> 0
         then cfi_primary cie primary_opcode (word_of_nat extended_opcode) ctx0
         else if extended_opcode \<noteq> 0
         then first_some [cfi_location obj fde (fa_addr text) extended_opcode ctx0,
                          cfi_cfa cie extended_opcode ctx0, cfi_registers cie extended_opcode ctx0,
                          cfi_stack extended_opcode ctx0] (Inr ctx0)
         else Inr ctx0))"

section \<open>Unwinding\<close>

text \<open>An expression that does not skip backwards reads at least one byte per instruction; one that does may loop, so
  the loops over instructions take fuel.\<close>

fun cfi_loop ::
  "nat \<Rightarrow> elf \<Rightarrow> frame_description_entry \<Rightarrow> (unwind_context \<Rightarrow> bool result) \<Rightarrow> unwind_context \<Rightarrow>
     unwind_context result" where
  "cfi_loop n obj fde continue ctx =
    bindE (if cursor_finished (uc_cur ctx) then Inr False else continue ctx) (\<lambda>go.
      if \<not> go then Inr ctx
      else (case n of
          0 \<Rightarrow> Inl (No_return ''fuel'')
        | Suc m \<Rightarrow> bindE (execute_cfi_instruction obj fde ctx) (cfi_loop m obj fde continue)))"

declare cfi_loop.simps [simp del]

definition dwexp_addr_result :: "dwarf_result \<Rightarrow> virt_addr result" where
  "dwexp_addr_result res =
    (case res of Simple (address_result a) \<Rightarrow> Inr a | _ \<Rightarrow> Inl (Std_exception ''bad_variant_access''))"

definition dwarf_register_info :: "u32 \<Rightarrow> register_info result" where
  "dwarf_register_info reg = register_info_by_dwarf (sint reg)"

definition unwind_cfa ::
  "nat \<Rightarrow> dwarf \<Rightarrow> memory_reader \<Rightarrow> cfa_rule_type \<Rightarrow> registers \<Rightarrow> virt_addr result" where
  "unwind_cfa n dw rm cfa old_regs =
    (case cfa of
       cfa_register_rule reg off \<Rightarrow>
         bindE (dwarf_register_info reg) (\<lambda>info.
         bindE (registers_read old_regs info) (\<lambda>v.
           case v of V_u64 w \<Rightarrow> Inr (w + off) | _ \<Rightarrow> Inl (Std_exception ''bad_variant_access'')))
     | cfa_expr_rule ex \<Rightarrow> bindE (dw_eval n dw rm old_regs False ex) dwexp_addr_result)"

definition execute_rule ::
  "nat \<Rightarrow> float_ops \<Rightarrow> dwarf \<Rightarrow> memory_reader \<Rightarrow> registers \<Rightarrow> virt_addr \<Rightarrow> (u32 \<times> rule) \<Rightarrow> registers \<Rightarrow>
     registers result" where
  "execute_rule n fo dw rm old_regs cfa = (\<lambda>(reg, r) unwound.
    bindE (dwarf_register_info reg) (\<lambda>info.
      case r of
        undefined_rule \<Rightarrow> undefine (ri_id info) unwound
      | same_rule \<Rightarrow> Inr unwound
      | register_rule other \<Rightarrow>
          bindE (dwarf_register_info other) (\<lambda>other_reg.
          bindE (registers_read old_regs other_reg) (\<lambda>v. registers_store fo info v unwound))
      | offset_rule off \<Rightarrow>
          bindE (rm (cfa + off) 8) (\<lambda>bs. registers_store fo info (V_u64 (from_bytes bs)) unwound)
      | val_offset_rule off \<Rightarrow> registers_store fo info (V_u64 (cfa + off)) unwound
      | expr_rule ex \<Rightarrow>
          bindE (bindE (dw_eval n dw rm old_regs True ex) dwexp_addr_result) (\<lambda>a.
          bindE (rm a 8) (\<lambda>bs. registers_store fo info (V_u64 (from_bytes bs)) unwound))
      | val_expr_rule ex \<Rightarrow>
          bindE (bindE (dw_eval n dw rm old_regs True ex) dwexp_addr_result) (\<lambda>a.
            registers_store fo info (V_u64 a) unwound)))"

text \<open>
  The unwound registers and the old ones, whose call frame address is set. The rules read only the
  old registers; the hash map is traversed in the order of insertion.
\<close>

definition execute_unwind_rules ::
  "nat \<Rightarrow> float_ops \<Rightarrow> dwarf \<Rightarrow> memory_reader \<Rightarrow> unwind_context \<Rightarrow> registers \<Rightarrow> (registers \<times> registers) result" where
  "execute_unwind_rules n fo dw rm ctx old_regs =
    bindE (unwind_cfa n dw rm (cfa_rule ctx) old_regs) (\<lambda>cfa.
      let old_regs' = old_regs\<lparr>reg_cfa := cfa\<rparr>
      in bindE (store_by_id fo id_rsp (V_u64 cfa) old_regs) (\<lambda>unwound.
         bindE (foldE (execute_rule n fo dw rm old_regs' cfa) (register_rules ctx) unwound) (\<lambda>unwound'.
           Inr (unwound', old_regs'))))"

definition unwind_context_new :: "cursor \<Rightarrow> unwind_context" where
  "unwind_context_new cur =
    \<lparr>uc_cur = cur, uc_location = null_file_addr, cfa_rule = cfa_register_rule 0 0,
     cie_register_rules = [], register_rules = [], rule_stack = []\<rparr>"

text \<open>The row of the unwind table for \<open>pc\<close>: the instructions of the CIE, then those of the FDE up to \<open>pc\<close>.\<close>

definition unwind_row :: "nat \<Rightarrow> elf \<Rightarrow> frame_description_entry \<Rightarrow> file_addr \<Rightarrow> unwind_context result" where
  "unwind_row n obj fde pc =
    (let cie = fde_cie fde; img = elf_map obj
     in bindE (cfi_loop n obj fde (\<lambda>_. Inr True)
                 (unwind_context_new (cursor_over img (cie_begin cie) (cie_end cie)))) (\<lambda>ctx.
        cfi_loop n obj fde (\<lambda>c. file_addr_leq (uc_location c) pc)
          (ctx\<lparr>cie_register_rules := register_rules ctx,
               uc_cur := cursor_over img (fde_begin fde) (fde_end fde),
               uc_location := initial_location fde\<rparr>)))"

text \<open>The context for the address: the entry that covers it, and the row its instructions compute.\<close>

definition unwind_start ::
  "nat \<Rightarrow> file_addr \<Rightarrow> call_frame_information \<Rightarrow> (unwind_context \<times> call_frame_information) result" where
  "unwind_start n pc cfi =
    (let obj = dw_elf (cfi_dwarf cfi)
     in bindE (eh_hdr_lookup n obj (cfi_eh_hdr cfi) pc) (\<lambda>fde_start.
        bindE (parse_fde cfi (cursor_over (elf_map obj) fde_start (snd (get_section_contents obj ''.eh_frame'')))) (\<lambda>(fde, cfi').
        bindE (file_addr_less pc (initial_location fde)) (\<lambda>before.
        bindE (file_addr_plus (initial_location fde) (address_range fde)) (\<lambda>fde_limit.
        bindE (file_addr_geq pc fde_limit) (\<lambda>behind.
          if before \<or> behind then Inl (Send ''No unwind information at PC!'')
          else bindE (unwind_row n obj fde pc) (\<lambda>ctx. Inr (ctx, cfi'))))))))"

definition unwind ::
  "nat \<Rightarrow> float_ops \<Rightarrow> memory_reader \<Rightarrow> file_addr \<Rightarrow> registers \<Rightarrow> call_frame_information \<Rightarrow>
     (registers \<times> registers \<times> call_frame_information) result" where
  "unwind n fo rm pc regs cfi =
    bindE (unwind_start n pc cfi) (\<lambda>(ctx, cfi').
    bindE (execute_unwind_rules n fo (cfi_dwarf cfi) rm ctx regs) (\<lambda>(unwound, regs').
      Inr (unwound, regs', cfi')))"

section \<open>The binary search\<close>

lemma mid_unat:
  fixes low high :: u64
  assumes "low \<le> high" "unat high < 2 ^ 63"
  shows "unat ((low + high) div 2) = (unat low + unat high) div 2"
proof -
  have "unat (low + high) = unat low + unat high"
    using assms by (subst unat_add_lem [THEN iffD1]) (auto simp: word_le_nat_alt)
  then show ?thesis by (simp add: unat_div)
qed

text \<open>
  The loop invariant: the rows below \<open>low\<close> begin below the address, the rows above \<open>high\<close> begin above it. The
  interval halves in every round, so \<open>n\<close> rounds are enough for \<open>2^n - 1\<close> rows.
\<close>

lemma eh_hdr_search_finds:
  assumes entry: "\<And>i. i < c \<Longrightarrow> entry (word_of_nat i) = Inr (E i)"
    and sorted: "\<And>i j. i < j \<Longrightarrow> j < c \<Longrightarrow> E i < E j"
    and c: "c < 2 ^ 63" and first: "0 < c" "E 0 \<le> a"
    and low: "\<And>i. i < unat low \<Longrightarrow> E i < a" and high: "unat high < c" "\<And>i. unat high < i \<Longrightarrow> i < c \<Longrightarrow> a < E i"
    and size: "unat high + 1 - unat low < 2 ^ n" and order: "unat low \<le> unat high + 1"
  shows "\<exists>j<c. eh_hdr_search n entry a low high = Inr (word_of_nat j) \<and> E j \<le> a \<and> (\<forall>i<c. j < i \<longrightarrow> a < E i)"
  using low high size order
proof (induction n arbitrary: low high)
  case 0
  then have gt: "unat high + 1 = unat low" by simp
  then have "\<not> low \<le> high" by (simp add: word_le_nat_alt)
  moreover have "E (unat high) < a" using gt 0(1) by simp
  ultimately show ?case
    using 0(2,3) by (subst eh_hdr_search.simps) (auto intro!: exI [of _ "unat high"])
next
  case (Suc n)
  show ?case
  proof (cases "low \<le> high")
    case False
    then have gt: "unat high + 1 = unat low" using Suc.prems(5) by (simp add: word_le_nat_alt)
    moreover have "E (unat high) < a" using gt Suc.prems(1) by simp
    ultimately show ?thesis
      using False Suc.prems(2,3) by (subst eh_hdr_search.simps) (auto intro!: exI [of _ "unat high"])
  next
    case le: True
    define mid where "mid = (low + high) div 2"
    have h63: "unat high < 2 ^ 63" using Suc.prems(2) c by simp
    have le': "unat low \<le> unat high" using le by (simp add: word_le_nat_alt)
    have m: "unat mid = (unat low + unat high) div 2"
      unfolding mid_def by (rule mid_unat [OF le h63])
    have mr: "unat low \<le> unat mid" "unat mid \<le> unat high" "unat mid < c"
      using m le' Suc.prems(2) by linarith+
    have size': "unat high + 1 - unat low < 2 * 2 ^ n" using Suc.prems(4) by simp
    have e: "entry mid = Inr (E (unat mid))" using entry [OF mr(3)] by simp
    have step: "eh_hdr_search (Suc n) entry a low high =
        (if E (unat mid) < a then eh_hdr_search n entry a (mid + 1) high
         else if E (unat mid) > a then
           (if mid = 0 then Inl (Send ''Address not found in eh_hdr!'') else eh_hdr_search n entry a low (mid - 1))
         else Inr mid)"
      using le e by (subst eh_hdr_search.simps) (simp add: Let_def flip: mid_def)
    consider (less) "E (unat mid) < a" | (greater) "a < E (unat mid)" | (equal) "E (unat mid) = a" by force
    then show ?thesis
    proof cases
      case less
      have "unat (mid + 1) = unat mid + 1"
        using mr(3) c by (simp add: unat_word_ariths)
      moreover have "E i < a" if "i < unat mid + 1" for i
        using less sorted [of i "unat mid"] mr(3) that by (cases "i = unat mid") auto
      ultimately show ?thesis
        using Suc.IH [of "mid + 1" high] Suc.prems(2-4) less m mr le' step by auto
    next
      case greater
      then have nz: "mid \<noteq> 0" using first by auto
      then have p: "unat (mid - 1) = unat mid - 1" "0 < unat mid" by (auto simp: unat_pred unat_gt_0)
      have "a < E i" if "unat mid - 1 < i" "i < c" for i
        using greater order.strict_trans [OF greater sorted [of "unat mid" i]] that p
        by (cases "i = unat mid") auto
      moreover have "unat (mid - 1) + 1 - unat low < 2 ^ n" "unat low \<le> unat (mid - 1) + 1" "unat (mid - 1) < c"
        using size' m mr p by linarith+
      ultimately have "\<exists>j<c. eh_hdr_search n entry a low (mid - 1) = Inr (word_of_nat j) \<and> E j \<le> a \<and>
          (\<forall>i<c. j < i \<longrightarrow> a < E i)"
        using Suc.prems(1) p(1) by (intro Suc.IH) auto
      moreover have "\<not> E (unat mid) < a" using greater by simp
      ultimately show ?thesis using greater nz step by simp
    next
      case equal
      then show ?thesis
        using step mr sorted [of "unat mid"] by (auto intro!: exI [of _ "unat mid"])
    qed
  qed
qed

section \<open>The table a call frame program describes\<close>

text \<open>
  The instructions compilers emit, their encoding, and the meaning the DWARF standard gives them on
  a row of the table: the location, the rule for the call frame address, the rules for the registers
  and the remembered states. A register rule replaces the one the register has.
\<close>

datatype cfi_insn =
    I_nop
  | I_advance nat
  | I_advance1 byte
  | I_advance2 u16
  | I_advance4 u32
  | I_offset nat nat
  | I_undefined nat
  | I_same nat
  | I_register nat nat
  | I_def_cfa nat nat
  | I_def_cfa_register nat
  | I_def_cfa_offset nat
  | I_remember
  | I_restore_state

record cfi_row =
  row_location :: u64
  row_cfa :: "u32 \<times> u64"
  row_rules :: "u32 \<rightharpoonup> rule"
  row_stack :: "((u32 \<rightharpoonup> rule) \<times> (u32 \<times> u64)) list"

fun encode_insn :: "cfi_insn \<Rightarrow> byte list" where
  "encode_insn I_nop = [0]"
| "encode_insn (I_advance d) = [word_of_nat (DW_CFA_advance_loc + d)]"
| "encode_insn (I_advance1 w) = word_of_nat DW_CFA_advance_loc1 # as_bytes w"
| "encode_insn (I_advance2 w) = word_of_nat DW_CFA_advance_loc2 # as_bytes w"
| "encode_insn (I_advance4 w) = word_of_nat DW_CFA_advance_loc4 # as_bytes w"
| "encode_insn (I_offset r n) = word_of_nat (DW_CFA_offset + r) # uleb128_encode n"
| "encode_insn (I_undefined r) = word_of_nat DW_CFA_undefined # uleb128_encode r"
| "encode_insn (I_same r) = word_of_nat DW_CFA_same_value # uleb128_encode r"
| "encode_insn (I_register r q) = word_of_nat DW_CFA_register # (uleb128_encode r @ uleb128_encode q)"
| "encode_insn (I_def_cfa r n) = word_of_nat DW_CFA_def_cfa # (uleb128_encode r @ uleb128_encode n)"
| "encode_insn (I_def_cfa_register r) = word_of_nat DW_CFA_def_cfa_register # uleb128_encode r"
| "encode_insn (I_def_cfa_offset n) = word_of_nat DW_CFA_def_cfa_offset # uleb128_encode n"
| "encode_insn I_remember = [word_of_nat DW_CFA_remember_state]"
| "encode_insn I_restore_state = [word_of_nat DW_CFA_restore_state]"

fun insn_ok :: "u64 \<Rightarrow> cfi_insn \<Rightarrow> bool" where
  "insn_ok daf (I_advance d) = (d < 64)"
| "insn_ok daf (I_offset r n) = (r < 64 \<and> n < 2 ^ 31 \<and> - 1024 \<le> sint daf \<and> sint daf \<le> 1024)"
| "insn_ok daf (I_undefined r) = (r < 2 ^ 32)"
| "insn_ok daf (I_same r) = (r < 2 ^ 32)"
| "insn_ok daf (I_register r q) = (r < 2 ^ 32 \<and> q < 2 ^ 32)"
| "insn_ok daf (I_def_cfa r n) = (r < 2 ^ 32 \<and> n < 2 ^ 32)"
| "insn_ok daf (I_def_cfa_register r) = (r < 2 ^ 32)"
| "insn_ok daf (I_def_cfa_offset n) = (n < 2 ^ 63)"
| "insn_ok daf _ = True"

definition set_rule :: "nat \<Rightarrow> rule \<Rightarrow> cfi_row \<Rightarrow> cfi_row option" where
  "set_rule r rl row = Some (row\<lparr>row_rules := (row_rules row)(word_of_nat r \<mapsto> rl)\<rparr>)"

fun row_step :: "u64 \<Rightarrow> u64 \<Rightarrow> cfi_insn \<Rightarrow> cfi_row \<Rightarrow> cfi_row option" where
  "row_step caf daf I_nop row = Some row"
| "row_step caf daf (I_advance d) row = Some (row\<lparr>row_location := row_location row + word_of_nat d * caf\<rparr>)"
| "row_step caf daf (I_advance1 w) row = Some (row\<lparr>row_location := row_location row + ucast w * caf\<rparr>)"
| "row_step caf daf (I_advance2 w) row = Some (row\<lparr>row_location := row_location row + ucast w * caf\<rparr>)"
| "row_step caf daf (I_advance4 w) row = Some (row\<lparr>row_location := row_location row + ucast w * caf\<rparr>)"
| "row_step caf daf (I_offset r n) row = set_rule r (offset_rule (word_of_nat n * daf)) row"
| "row_step caf daf (I_undefined r) row = set_rule r undefined_rule row"
| "row_step caf daf (I_same r) row = set_rule r same_rule row"
| "row_step caf daf (I_register r q) row = set_rule r (register_rule (word_of_nat q)) row"
| "row_step caf daf (I_def_cfa r n) row = Some (row\<lparr>row_cfa := (word_of_nat r, word_of_nat n)\<rparr>)"
| "row_step caf daf (I_def_cfa_register r) row = Some (row\<lparr>row_cfa := (word_of_nat r, snd (row_cfa row))\<rparr>)"
| "row_step caf daf (I_def_cfa_offset n) row = Some (row\<lparr>row_cfa := (fst (row_cfa row), word_of_nat n)\<rparr>)"
| "row_step caf daf I_remember row = Some (row\<lparr>row_stack := (row_rules row, row_cfa row) # row_stack row\<rparr>)"
| "row_step caf daf I_restore_state row =
    (case row_stack row of
       [] \<Rightarrow> None
     | (rules, cfa) # st \<Rightarrow> Some (row\<lparr>row_rules := rules, row_cfa := cfa, row_stack := st\<rparr>))"

text \<open>The row in force at \<open>pc\<close>: the instructions are executed until the location passes it.\<close>

fun row_run :: "u64 \<Rightarrow> u64 \<Rightarrow> (cfi_row \<Rightarrow> bool) \<Rightarrow> cfi_insn list \<Rightarrow> cfi_row \<Rightarrow> cfi_row option" where
  "row_run caf daf go [] row = Some row"
| "row_run caf daf go (i # is) row =
    (if go row then Option.bind (row_step caf daf i row) (row_run caf daf go is) else Some row)"

text \<open>The code keeps the first rule of a register; the two agree where no instruction changes a rule.\<close>

fun insn_target :: "cfi_insn \<Rightarrow> nat option" where
  "insn_target (I_offset r n) = Some r"
| "insn_target (I_undefined r) = Some r"
| "insn_target (I_same r) = Some r"
| "insn_target (I_register r q) = Some r"
| "insn_target _ = None"

definition rule_unchanged :: "u64 \<Rightarrow> u64 \<Rightarrow> cfi_insn \<Rightarrow> cfi_row \<Rightarrow> bool" where
  "rule_unchanged caf daf i row =
    (case insn_target i of
       None \<Rightarrow> True
     | Some r \<Rightarrow>
         (case row_rules row (word_of_nat r) of
            None \<Rightarrow> True
          | Some old \<Rightarrow> (case row_step caf daf i row of
               None \<Rightarrow> False | Some row' \<Rightarrow> row_rules row' (word_of_nat r) = Some old)))"

fun rules_unchanged :: "u64 \<Rightarrow> u64 \<Rightarrow> (cfi_row \<Rightarrow> bool) \<Rightarrow> cfi_insn list \<Rightarrow> cfi_row \<Rightarrow> bool" where
  "rules_unchanged caf daf go [] row = True"
| "rules_unchanged caf daf go (i # is) row =
    (go row \<longrightarrow> rule_unchanged caf daf i row \<and>
       (case row_step caf daf i row of None \<Rightarrow> True | Some row' \<Rightarrow> rules_unchanged caf daf go is row'))"

definition row_matches :: "unwind_context \<Rightarrow> cfi_row \<Rightarrow> bool" where
  "row_matches ctx row \<longleftrightarrow>
    fa_addr (uc_location ctx) = row_location row \<and>
    cfa_rule ctx = cfa_register_rule (fst (row_cfa row)) (snd (row_cfa row)) \<and>
    map_of (register_rules ctx) = row_rules row \<and>
    map (\<lambda>(rs, c). (map_of rs, c)) (rule_stack ctx) =
      map (\<lambda>(rs, c). (rs, cfa_register_rule (fst c) (snd c))) (row_stack row)"

text \<open>The effect of one instruction on the context of the code.\<close>

fun insn_effect :: "u64 \<Rightarrow> u64 \<Rightarrow> cfi_insn \<Rightarrow> unwind_context \<Rightarrow> unwind_context result" where
  "insn_effect caf daf I_nop ctx = Inr ctx"
| "insn_effect caf daf (I_advance d) ctx = Inr (advance_location (word_of_nat d * caf) ctx)"
| "insn_effect caf daf (I_advance1 w) ctx = Inr (advance_location (ucast w * caf) ctx)"
| "insn_effect caf daf (I_advance2 w) ctx = Inr (advance_location (ucast w * caf) ctx)"
| "insn_effect caf daf (I_advance4 w) ctx = Inr (advance_location (ucast w * caf) ctx)"
| "insn_effect caf daf (I_offset r n) ctx = Inr (add_rule (word_of_nat r) (offset_rule (word_of_nat n * daf)) ctx)"
| "insn_effect caf daf (I_undefined r) ctx = Inr (add_rule (word_of_nat r) undefined_rule ctx)"
| "insn_effect caf daf (I_same r) ctx = Inr (add_rule (word_of_nat r) same_rule ctx)"
| "insn_effect caf daf (I_register r q) ctx = Inr (add_rule (word_of_nat r) (register_rule (word_of_nat q)) ctx)"
| "insn_effect caf daf (I_def_cfa r n) ctx =
    Inr (ctx\<lparr>cfa_rule := cfa_register_rule (word_of_nat r) (word_of_nat n)\<rparr>)"
| "insn_effect caf daf (I_def_cfa_register r) ctx =
    with_cfa_register ctx (\<lambda>_ off. cfa_register_rule (word_of_nat r) off)"
| "insn_effect caf daf (I_def_cfa_offset n) ctx =
    with_cfa_register ctx (\<lambda>r _. cfa_register_rule r (word_of_nat n))"
| "insn_effect caf daf I_remember ctx =
    Inr (ctx\<lparr>rule_stack := (register_rules ctx, cfa_rule ctx) # rule_stack ctx\<rparr>)"
| "insn_effect caf daf I_restore_state ctx =
    (case rule_stack ctx of
       [] \<Rightarrow> Inl (Undefined ''back of an empty vector'')
     | (rules, cfa) # stack \<Rightarrow> Inr (ctx\<lparr>register_rules := rules, cfa_rule := cfa, rule_stack := stack\<rparr>))"

lemma execute_op:
  assumes "get_section_start_address obj ''.text'' = Some text"
    and "stands_before (uc_cur ctx) (b # later) rest"
  shows "execute_cfi_instruction obj fde ctx =
    (let primary = unat (b AND 0xc0); ext = unat (b AND 0x3f); cie = fde_cie fde;
         ctx0 = ctx\<lparr>uc_cur := advance 1 (uc_cur ctx)\<rparr>
     in if primary \<noteq> 0 then cfi_primary cie primary (word_of_nat ext) ctx0
        else if ext \<noteq> 0 then first_some [cfi_location obj fde (fa_addr text) ext ctx0, cfi_cfa cie ext ctx0,
          cfi_registers cie ext ctx0, cfi_stack ext ctx0] (Inr ctx0)
        else Inr ctx0)"
  using assms(1) u8_next [OF assms(2)] by (simp add: execute_cfi_instruction_def deref_optional_def Let_def)

lemma primary_bits:
  assumes "d < 64"
  shows "unat ((word_of_nat (64 + d) :: byte) AND 0xc0) = 64" "unat ((word_of_nat (64 + d) :: byte) AND 0x3f) = d"
    and "unat ((word_of_nat (128 + d) :: byte) AND 0xc0) = 128" "unat ((word_of_nat (128 + d) :: byte) AND 0x3f) = d"
proof -
  have "\<forall>d \<in> set [0..<64]. unat ((word_of_nat (64 + d) :: byte) AND 0xc0) = 64 \<and>
      unat ((word_of_nat (64 + d) :: byte) AND 0x3f) = d \<and>
      unat ((word_of_nat (128 + d) :: byte) AND 0xc0) = 128 \<and>
      unat ((word_of_nat (128 + d) :: byte) AND 0x3f) = d" by code_simp
  then show "unat ((word_of_nat (64 + d) :: byte) AND 0xc0) = 64" "unat ((word_of_nat (64 + d) :: byte) AND 0x3f) = d"
    "unat ((word_of_nat (128 + d) :: byte) AND 0xc0) = 128" "unat ((word_of_nat (128 + d) :: byte) AND 0x3f) = d"
    using assms by auto
qed

lemma ucast_small_nat:
  "n < 2 ^ 32 \<Longrightarrow> (ucast (word_of_nat n :: u64) :: u32) = word_of_nat n"
  "n < 2 ^ 32 \<Longrightarrow> (ucast (word_of_nat n :: u32) :: u64) = word_of_nat n"
  by (auto intro!: ucast_of_length)

lemma mul_i64_small:
  assumes "n < 2 ^ 31" "- 1024 \<le> sint daf" "sint daf \<le> 1024"
  shows "mul_i64 (word_of_nat n) daf = Inr (word_of_nat n * daf)"
proof -
  have s: "sint (word_of_nat n :: u64) = int n"
    using assms(1) signed_take_bit_int_eq_self [of 63 "int n"] by (simp add: signed_of_nat)
  have "\<bar>int n * sint daf\<bar> \<le> 2 ^ 31 * 1024"
    unfolding abs_mult using assms by (intro mult_mono) auto
  then have "- (2 ^ 63) \<le> int n * sint daf \<and> int n * sint daf < 2 ^ 63" by simp linarith
  then show ?thesis by (simp only: mul_i64_def s if_True simp_thms)
qed

text \<open>The operands behind an opcode.\<close>

lemma uleb_operand:
  assumes "stands_before c (b # (uleb128_encode n @ later)) rest" "n < 2 ^ 63"
  shows "uleb128 (advance 1 c) = Inr (word_of_nat n, advance (1 + length (uleb128_encode n)) c)"
    and "stands_before (advance (1 + length (uleb128_encode n)) c) later rest"
  using uleb_code.decodes_then [of n "advance 1 c" later rest] u8_next [OF assms(1)] assms(2) by auto

lemma fixed_operand:
  "stands_before c (b # (as_bytes (v :: byte) @ later)) rest \<Longrightarrow> u8 (advance 1 c) = Inr (v, advance (Suc (Suc 0)) c)"
  "stands_before c (b # (as_bytes (w :: u16) @ later)) rest \<Longrightarrow> u16 (advance 1 c) = Inr (w, advance 3 c)"
  "stands_before c (b # (as_bytes (x :: u32) @ later)) rest \<Longrightarrow> u32 (advance 1 c) = Inr (x, advance 5 c)"
  by (auto dest!: u8_next u8_code.decodes_then [OF TrueI] u16_code.decodes_then [OF TrueI]
        u32_code.decodes_then [OF TrueI])

lemmas cfi_defs = cfi_location_def cfi_cfa_def cfi_registers_def cfi_rule_def cfi_stack_def cfi_primary_def
  ucast_small_nat mul_i64_small primary_bits Let_def

lemma execute_encoded_two:
  assumes sec: "get_section_start_address obj ''.text'' = Some sec_text"
    and ok: "insn_ok daf i" and st: "stands_before (uc_cur ctx) (encode_insn i @ later) rest"
    and i: "i = I_register r q \<or> i = I_def_cfa r q"
  shows "execute_cfi_instruction obj fde ctx =
    insn_effect caf daf i (ctx\<lparr>uc_cur := advance (length (encode_insn i)) (uc_cur ctx)\<rparr>)"
proof -
  define b :: byte where "b = word_of_nat (if i = I_register r q then DW_CFA_register else DW_CFA_def_cfa)"
  have s: "stands_before (uc_cur ctx) (b # (uleb128_encode r @ uleb128_encode q @ later)) rest"
    using st i by (auto simp: b_def)
  have n: "r < 2 ^ 63" "q < 2 ^ 64" "r < 2 ^ 32" "q < 2 ^ 32" using ok i by auto
  note uleb_operand(1) [OF s n(1)] uleb_code.decodes_then [OF n(2) uleb_operand(2) [OF s n(1)]]
  then show ?thesis
    unfolding execute_op [OF sec s] using i n by (auto simp: b_def cfi_defs)
qed

lemma execute_encoded:
  assumes sec: "get_section_start_address obj ''.text'' = Some sec_text"
    and daf: "daf = data_alignment_factor (fde_cie fde)" "caf = code_alignment_factor (fde_cie fde)"
    and ok: "insn_ok daf i" and st: "stands_before (uc_cur ctx) (encode_insn i @ later) rest"
  shows "execute_cfi_instruction obj fde ctx =
    insn_effect caf daf i (ctx\<lparr>uc_cur := advance (length (encode_insn i)) (uc_cur ctx)\<rparr>)"
proof (cases i)
  case (I_register r q)
  then show ?thesis using execute_encoded_two [OF sec ok st] by blast
next
  case (I_def_cfa r q)
  then show ?thesis using execute_encoded_two [OF sec ok st] by blast
next
  case (I_advance d)
  then have s: "stands_before (uc_cur ctx) (word_of_nat (DW_CFA_advance_loc + d) # later) rest" and d: "d < 64"
    using st ok by simp_all
  show ?thesis unfolding execute_op [OF sec s] Let_def primary_bits [OF d]
    using I_advance d daf by (simp add: cfi_defs)
next
  case (I_offset r n)
  then have s: "stands_before (uc_cur ctx) (word_of_nat (DW_CFA_offset + r) # (uleb128_encode n @ later)) rest"
    and r: "r < 64" "n < 2 ^ 63" using st ok by simp_all
  show ?thesis unfolding execute_op [OF sec s] Let_def primary_bits [OF r(1)]
    using I_offset ok daf uleb_operand(1) [OF s r(2)] by (simp add: cfi_defs)
qed (use st ok daf execute_op [OF sec] fixed_operand [of "uc_cur ctx" _ _ later rest]
       uleb_operand(1) [of "uc_cur ctx" _ _ later rest] in \<open>simp_all add: cfi_defs\<close>)

lemma map_of_emplace:
  "map_of m k = None \<or> map_of m k = Some v \<Longrightarrow> map_of (emplace k v m) = (map_of m)(k \<mapsto> v)"
  by (rule ext) (auto simp: emplace_lookup)

lemma insn_effect_matches:
  assumes m: "row_matches ctx row" and step: "row_step caf daf i row = Some row'"
    and un: "rule_unchanged caf daf i row"
  shows "\<exists>ctx'. insn_effect caf daf i (ctx\<lparr>uc_cur := c\<rparr>) = Inr ctx' \<and> row_matches ctx' row' \<and> uc_cur ctx' = c \<and>
    fa_elf (uc_location ctx') = fa_elf (uc_location ctx)"
proof (cases "insn_target i")
  case None
  then show ?thesis
    using m step
    by (cases i) (auto simp: row_matches_def advance_location_def file_addr_add_def with_cfa_register_def
        split: list.splits)
next
  case (Some r)
  then obtain rl where rl: "row_step caf daf i row = set_rule r rl row"
    "insn_effect caf daf i (ctx\<lparr>uc_cur := c\<rparr>) = Inr (add_rule (word_of_nat r) rl (ctx\<lparr>uc_cur := c\<rparr>))"
    by (cases i) auto
  then have "row_rules row (word_of_nat r) = None \<or> row_rules row (word_of_nat r) = Some rl"
    using un Some by (auto simp: rule_unchanged_def set_rule_def split: option.splits)
  then show ?thesis
    using rl m step by (auto simp: row_matches_def add_rule_def set_rule_def map_of_emplace)
qed

lemma cfi_loop_run:
  assumes sec: "get_section_start_address obj ''.text'' = Some sec_text"
    and f: "daf = data_alignment_factor (fde_cie fde)" "caf = code_alignment_factor (fde_cie fde)"
    and cont: "\<And>ctx row. row_matches ctx row \<Longrightarrow> fa_elf (uc_location ctx) = el \<Longrightarrow> continue ctx = Inr (go row)"
    and "\<forall>i \<in> set is. insn_ok daf i" "stands_before (uc_cur ctx) (concat (map encode_insn is)) rest"
    and "cur_pos (uc_cur ctx) + int (length (concat (map encode_insn is))) = cur_end (uc_cur ctx)"
    and "row_matches ctx row" "row_run caf daf go is row = Some row'" "rules_unchanged caf daf go is row"
    and "fa_elf (uc_location ctx) = el" "length is \<le> n"
  shows "\<exists>ctx'. cfi_loop n obj fde continue ctx = Inr ctx' \<and> row_matches ctx' row'"
  using assms(5-)
proof (induction "is" arbitrary: ctx row n)
  case Nil
  then show ?case by (subst cfi_loop.simps) (simp add: cursor_finished_def)
next
  case (Cons i "is")
  have pos: "0 < length (encode_insn i)" by (cases i) simp_all
  have nf: "\<not> cursor_finished (uc_cur ctx)" using Cons.prems(3) pos
    by (simp only: cursor_finished_def list.map concat.simps length_append of_nat_add)
  obtain m where n: "n = Suc m" using Cons.prems(8) by (cases n) auto
  have go: "continue ctx = Inr (go row)" using cont Cons.prems(4,7) by blast
  show ?case
  proof (cases "go row")
    case False
    then show ?thesis using nf go Cons.prems(4,5) by (subst cfi_loop.simps) simp
  next
    case True
    then obtain row1 where r1: "row_step caf daf i row = Some row1" "row_run caf daf go is row1 = Some row'"
      using Cons.prems(5) by (auto simp: bind_eq_Some_conv)
    let ?c = "advance (length (encode_insn i)) (uc_cur ctx)"
    have st: "stands_before (uc_cur ctx) (encode_insn i @ concat (map encode_insn is)) rest"
      using Cons.prems(2) by simp
    have "execute_cfi_instruction obj fde ctx = insn_effect caf daf i (ctx\<lparr>uc_cur := ?c\<rparr>)"
      using execute_encoded [OF sec f _ st] Cons.prems(1) by simp
    then obtain ctx1 where c1: "execute_cfi_instruction obj fde ctx = Inr ctx1" "row_matches ctx1 row1"
        "uc_cur ctx1 = ?c" "fa_elf (uc_location ctx1) = fa_elf (uc_location ctx)"
      using insn_effect_matches [OF Cons.prems(4) r1(1), of ?c] Cons.prems(6) True by auto
    have "\<exists>ctx'. cfi_loop m obj fde continue ctx1 = Inr ctx' \<and> row_matches ctx' row'"
      using Cons.prems c1 r1 True n stands_before_advance [OF st] by (intro Cons.IH) auto
    then show ?thesis using nf go True c1(1) n by (subst cfi_loop.simps) simp
  qed
qed

definition cfi_code :: "elf \<Rightarrow> int \<Rightarrow> int \<Rightarrow> cfi_insn list \<Rightarrow> bool" where
  "cfi_code obj b e is \<longleftrightarrow>
    (let code = concat (map encode_insn is)
     in 0 \<le> b \<and> e = b + int (length code) \<and> take (length code) (drop (nat b) (elf_map obj)) = code)"

lemma cfi_code_stands:
  assumes "cfi_code obj b e is"
  obtains rest where "stands_before (cursor_over (elf_map obj) b e) (concat (map encode_insn is)) rest"
  using assms append_take_drop_id [of "length (concat (map encode_insn is))" "drop (nat b) (elf_map obj)"]
  by (auto simp: cfi_code_def stands_before_def cursor_over_def unread_def Let_def) metis

definition initial_row :: cfi_row where
  "initial_row = \<lparr>row_location = 0, row_cfa = (0, 0), row_rules = Map.empty, row_stack = []\<rparr>"

definition at_or_before :: "u64 \<Rightarrow> cfi_row \<Rightarrow> bool" where
  "at_or_before pc row \<longleftrightarrow> row_location row \<le> pc"

text \<open>The row the standard gives for \<open>pc\<close>, from the instructions of the CIE and of the FDE.\<close>

definition table_row :: "u64 \<Rightarrow> u64 \<Rightarrow> cfi_insn list \<Rightarrow> cfi_insn list \<Rightarrow> u64 \<Rightarrow> u64 \<Rightarrow> cfi_row option" where
  "table_row caf daf ci fi start pc =
    Option.bind (row_run caf daf (\<lambda>_. True) ci initial_row) (\<lambda>row.
      row_run caf daf (at_or_before pc) fi (row\<lparr>row_location := start\<rparr>))"

definition table_unchanged :: "u64 \<Rightarrow> u64 \<Rightarrow> cfi_insn list \<Rightarrow> cfi_insn list \<Rightarrow> u64 \<Rightarrow> u64 \<Rightarrow> bool" where
  "table_unchanged caf daf ci fi start pc \<longleftrightarrow>
    rules_unchanged caf daf (\<lambda>_. True) ci initial_row \<and>
    (case row_run caf daf (\<lambda>_. True) ci initial_row of
       None \<Rightarrow> True
     | Some row \<Rightarrow> rules_unchanged caf daf (at_or_before pc) fi (row\<lparr>row_location := start\<rparr>))"

section \<open>The general-purpose registers of a frame\<close>

text \<open>
  The registers with DWARF numbers 0 to 16 lie in separate 64-bit slots: storing one changes no
  other.
\<close>

lemma gpr_dwarf:
  "list_all (\<lambda>d. case register_info_by_dwarf (int d) of
       Inl _ \<Rightarrow> False
     | Inr r \<Rightarrow> ri_id r = d \<and> ri_size r = 8 \<and> ri_format r = fmt_uint) [0..<17]"
  by code_simp

lemma gpr_offsets:
  "map (\<lambda>d. ri_offset (g_register_infos ! d)) [0..<17] =
     [80, 96, 88, 40, 104, 112, 32, 152, 72, 64, 56, 48, 24, 16, 8, 0, 128]"
  by code_simp

lemma gpr_info:
  assumes "d < 17"
  shows "register_info_by_dwarf (int d) = Inr (g_register_infos ! d)" "ri_id (g_register_infos ! d) = d"
    and "ri_size (g_register_infos ! d) = 8" "ri_format (g_register_infos ! d) = fmt_uint"
    and "register_info_ok (g_register_infos ! d)"
proof -
  from gpr_dwarf assms obtain r where r: "register_info_by_dwarf (int d) = Inr r" "ri_id r = d"
    "ri_size r = 8" "ri_format r = fmt_uint"
    by (cases "register_info_by_dwarf (int d)") (auto simp: list_all_iff split: sum.splits)
  then have "r \<in> set g_register_infos"
    by (auto simp: register_info_by_dwarf_def register_info_by_def find_Some_iff result_simps)
  then have "r = g_register_infos ! d" using r(2) g_nth_id by (auto simp: in_set_conv_nth g_length)
  then show "register_info_by_dwarf (int d) = Inr (g_register_infos ! d)" "ri_id (g_register_infos ! d) = d"
    "ri_size (g_register_infos ! d) = 8" "ri_format (g_register_infos ! d) = fmt_uint"
    using r by simp_all
  show "register_info_ok (g_register_infos ! d)" using g_nth_ok assms by simp
qed

lemma gpr_disjoint:
  assumes "d < 17" "e < 17" "d \<noteq> e"
  shows "ri_offset (g_register_infos ! e) + 8 \<le> ri_offset (g_register_infos ! d) \<or>
    ri_offset (g_register_infos ! d) + 8 \<le> ri_offset (g_register_infos ! e)"
proof -
  let ?os = "map (\<lambda>d. ri_offset (g_register_infos ! d)) [0..<17]"
  have n: "ri_offset (g_register_infos ! d) = ?os ! d" "ri_offset (g_register_infos ! e) = ?os ! e"
    using assms by simp_all
  have os: "distinct ?os" "\<forall>x \<in> set ?os. x mod 8 = 0" unfolding gpr_offsets by simp_all
  have "?os ! d \<noteq> ?os ! e" using nth_eq_iff_index_eq [OF os(1), of d e] assms by simp
  moreover have "?os ! d mod 8 = 0" "?os ! e mod 8 = 0" using os(2) assms by auto
  ultimately show ?thesis unfolding n by presburger
qed

definition frame_registers :: "registers \<Rightarrow> bool" where
  "frame_registers regs \<longleftrightarrow> length (reg_data regs) = user_size \<and> reg_undefined regs = []"

lemma gpr_read:
  assumes "d < 17" "frame_registers regs"
  shows "read_dwarf_register regs (int d) =
    Inr (from_bytes (take 8 (drop (ri_offset (g_register_infos ! d)) (reg_data regs))))"
  using assms gpr_info [of d]
  by (auto simp: read_dwarf_register_def registers_read_def is_undefined_def frame_registers_def reg_map_def
      user_field_def register_info_ok_def from_bytes_def)

lemma gpr_store:
  assumes d: "d < 17" and regs: "frame_registers regs"
  shows "\<exists>regs'. registers_store fo (g_register_infos ! d) (V_u64 w) regs = Inr regs' \<and> frame_registers regs' \<and>
    reg_cfa regs' = reg_cfa regs \<and> reg_tid regs' = reg_tid regs \<and>
    (\<forall>e<17. read_dwarf_register regs' (int e) = (if e = d then Inr w else read_dwarf_register regs (int e)))"
proof -
  let ?i = "g_register_infos ! d"
  have len: "length (reg_data regs) = user_size" using regs by (simp add: frame_registers_def)
  have b: "ri_offset ?i + 8 \<le> length (reg_data regs)"
    using gpr_info(3,5) [OF d] len by (simp add: register_info_ok_def)
  let ?r = "regs\<lparr>reg_data := splice (ri_offset ?i) (as_bytes w) (reg_data regs)\<rparr>"
  have st: "registers_store fo ?i (V_u64 w) regs = Inr ?r"
    using gpr_info [OF d] by (simp add: register_store_eq [OF _ len] take_to_byte128)
  have fr: "frame_registers ?r" using regs b by (simp add: frame_registers_def)
  have "read_dwarf_register ?r (int e) = (if e = d then Inr w else read_dwarf_register regs (int e))" if e: "e < 17" for e
  proof (cases "e = d")
    case True
    then show ?thesis using gpr_read [OF d fr] b by (simp add: drop_splice from_as_bytes_exact)
  next
    case False
    let ?o = "ri_offset (g_register_infos ! e)"
    have "?o + 8 \<le> length (reg_data regs)"
      using gpr_info(3,5) [OF e] len by (simp add: register_info_ok_def)
    then have "take 8 (drop ?o (reg_data ?r)) = take 8 (drop ?o (reg_data regs))"
      using gpr_disjoint [OF e d False] b by (intro nth_equalityI) (auto simp: splice_nth_out)
    then show ?thesis using False gpr_read [OF e fr] gpr_read [OF e regs] by simp
  qed
  then show ?thesis using st fr by auto
qed

lemma dwarf_register_info_gpr:
  assumes "d < 17"
  shows "dwarf_register_info (word_of_nat d) = Inr (g_register_infos ! d)"
proof -
  have "sint (word_of_nat d :: u32) = int d"
    using assms signed_take_bit_int_eq_self [of 31 "int d"] by (simp add: signed_of_nat)
  then show ?thesis using gpr_info [OF assms] by (simp add: dwarf_register_info_def)
qed

lemma fold_saved:
  assumes "frame_registers unw" "\<forall>(d, off, w) \<in> set saved. d < 17 \<and> rm (cfa + off) 8 = Inr (as_bytes w)"
    and "distinct (map fst saved)"
  shows "\<exists>unw'. foldE (execute_rule n fo dw rm old cfa)
      (map (\<lambda>(d, off, w). (word_of_nat d, offset_rule off)) saved) unw = Inr unw' \<and> frame_registers unw' \<and>
    (\<forall>(d, off, w) \<in> set saved. read_dwarf_register unw' (int d) = Inr w) \<and>
    (\<forall>e<17. e \<notin> fst ` set saved \<longrightarrow> read_dwarf_register unw' (int e) = read_dwarf_register unw (int e))"
  using assms
proof (induction saved arbitrary: unw)
  case (Cons x saved)
  obtain d off w where x: "x = (d, off, w)" by (cases x)
  then have d: "d < 17" "rm (cfa + off) 8 = Inr (as_bytes w)" using Cons.prems(2) by auto
  from gpr_store [OF d(1) Cons.prems(1), of fo w] obtain unw1 where u:
    "registers_store fo (g_register_infos ! d) (V_u64 w) unw = Inr unw1" "frame_registers unw1"
    "\<forall>e<17. read_dwarf_register unw1 (int e) = (if e = d then Inr w else read_dwarf_register unw (int e))" by auto
  from Cons.IH [OF u(2)] Cons.prems obtain unw2 where v:
    "foldE (execute_rule n fo dw rm old cfa) (map (\<lambda>(d, off, w). (word_of_nat d, offset_rule off)) saved) unw1 = Inr unw2"
    "frame_registers unw2" "\<forall>(d, off, w) \<in> set saved. read_dwarf_register unw2 (int d) = Inr w"
    "\<forall>e<17. e \<notin> fst ` set saved \<longrightarrow> read_dwarf_register unw2 (int e) = read_dwarf_register unw1 (int e)" by auto
  have "d \<notin> fst ` set saved" using Cons.prems(3) x by auto
  moreover have "execute_rule n fo dw rm old cfa (word_of_nat d, offset_rule off) unw = Inr unw1"
    using u(1) d by (simp add: execute_rule_def dwarf_register_info_gpr from_as_bytes_exact)
  ultimately show ?case using v u(3) x d(1) by auto
qed simp

section \<open>Where the code departs from the standard\<close>

text \<open>A second rule for a register has no effect, and neither has restoring its initial rule.\<close>

lemma second_rule_ignored: "map_of (register_rules ctx) reg = Some old \<Longrightarrow> add_rule reg new ctx = ctx"
  by (simp add: add_rule_def emplace_def)

lemma restore_ignored:
  "map_of (register_rules ctx) reg = Some old \<Longrightarrow> map_of (cie_register_rules ctx) reg = Some new \<Longrightarrow>
     restore_rule reg ctx = Inr ctx"
  by (simp add: restore_rule_def map_at_def second_rule_ignored)

text \<open>\<open>DW_CFA_expression\<close> makes the value rule and \<open>DW_CFA_val_expression\<close> the memory rule.\<close>

lemma expression_rules_swapped:
  assumes "frame_expression cur = Inr (ex, c)"
  shows "cfi_rule cie DW_CFA_expression cur = Some (Inr (val_expr_rule ex, c))"
    and "cfi_rule cie DW_CFA_val_expression cur = Some (Inr (expr_rule ex, c))"
  using assms by (simp_all add: cfi_rule_def Let_def)

section \<open>Properties\<close>


definition sample_cie_code :: "cfi_insn list" where
  "sample_cie_code = [I_def_cfa 7 8, I_offset 16 1, I_nop]"

definition sample_fde_code :: "cfi_insn list" where
  "sample_fde_code =
    [I_advance 1, I_def_cfa_offset 16, I_offset 6 2, I_advance 3, I_def_cfa_register 6, I_advance 20, I_def_cfa 7 8]"

definition sample_cfi_elf :: elf where
  "sample_cfi_elf = sample_dwarf_elf\<lparr>elf_map := concat (map encode_insn (sample_cie_code @ sample_fde_code)),
     section_map := [''.text'' \<mapsto> \<lparr>sh_name = 0, sh_addr = 0x1000, sh_offset = 0, sh_size = 0x100, sh_entsize = 0\<rparr>]\<rparr>"

definition sample_cie :: common_information_entry where
  "sample_cie = \<lparr>cie_length = 0, code_alignment_factor = 1, data_alignment_factor = - 8,
     fde_has_augmentation = False, fde_pointer_encoding = 0, cie_begin = 0, cie_end = 6\<rparr>"

definition sample_fde :: frame_description_entry where
  "sample_fde = \<lparr>fde_length = 0, fde_cie = sample_cie,
     initial_location = mk_file_addr (elf_no sample_cfi_elf) 0x1000, address_range = 0x40,
     fde_begin = 6, fde_end = 18\<rparr>"


text \<open>
  C19. Recovering the caller's registers: with a call frame address given by a register and an offset
  and callee-saved registers stored at offsets from it, the unwound stack pointer is that address,
  every saved register (the return address included) has the value stored in memory for it, the other
  general-purpose registers keep their values, and the frame remembers the call frame address.
\<close>

theorem unwind_rules_recover:
  assumes "frame_registers regs" "b < 17" "cfa_rule ctx = cfa_register_rule (word_of_nat b) off"
    and "read_dwarf_register regs (int b) = Inr v" "cfa = v + off"
    and "register_rules ctx = map (\<lambda>(d, o', w). (word_of_nat d, offset_rule o')) saved"
    and "distinct (map fst saved)" "7 \<notin> fst ` set saved"
    and "\<forall>(d, o', w) \<in> set saved. d < 17 \<and> rm (cfa + o') 8 = Inr (as_bytes w)"
  shows "\<exists>unwound. execute_unwind_rules n fo dw rm ctx regs = Inr (unwound, regs\<lparr>reg_cfa := cfa\<rparr>) \<and>
    read_dwarf_register unwound 7 = Inr cfa \<and>
    (\<forall>(d, o', w) \<in> set saved. read_dwarf_register unwound (int d) = Inr w) \<and>
    (\<forall>e<17. e \<noteq> 7 \<and> e \<notin> fst ` set saved \<longrightarrow>
       read_dwarf_register unwound (int e) = read_dwarf_register regs (int e))"
proof -
  have rd: "registers_read regs (g_register_infos ! b) = Inr (V_u64 v)"
  proof -
    obtain x where x: "registers_read regs (g_register_infos ! b) = Inr x"
      "(case x of V_u64 w \<Rightarrow> Inr w | _ \<Rightarrow> Inl (Std_exception ''bad_variant_access'')) = Inr v"
      using assms(4) gpr_info [OF assms(2)] by (auto simp: read_dwarf_register_def result_simps)
    then show ?thesis by (cases x) simp_all
  qed
  have cfa: "unwind_cfa n dw rm (cfa_rule ctx) regs = Inr cfa"
    using rd assms(3,5) dwarf_register_info_gpr [OF assms(2)] by (simp add: unwind_cfa_def)
  have seven: "(7 :: nat) < 17" by simp
  from gpr_store [OF seven assms(1), of fo cfa] obtain unw where u:
    "registers_store fo (g_register_infos ! 7) (V_u64 cfa) regs = Inr unw" "frame_registers unw"
    "\<forall>e<17. read_dwarf_register unw (int e) = (if e = 7 then Inr cfa else read_dwarf_register regs (int e))" by auto
  from fold_saved [of unw saved rm cfa n fo dw "regs\<lparr>reg_cfa := cfa\<rparr>", OF u(2) assms(9,7)] obtain unw' where f:
    "foldE (execute_rule n fo dw rm (regs\<lparr>reg_cfa := cfa\<rparr>) cfa) (register_rules ctx) unw = Inr unw'"
    "\<forall>(d, o', w) \<in> set saved. read_dwarf_register unw' (int d) = Inr w"
    "\<forall>e<17. e \<notin> fst ` set saved \<longrightarrow> read_dwarf_register unw' (int e) = read_dwarf_register unw (int e)"
    unfolding assms(6) by blast
  have "read_dwarf_register unw' 7 = Inr cfa"
    using f(3) [rule_format, OF seven assms(8)] u(3) [rule_format, OF seven] by simp
  moreover have "execute_unwind_rules n fo dw rm ctx regs = Inr (unw', regs\<lparr>reg_cfa := cfa\<rparr>)"
    using cfa u(1) f(1) by (simp add: execute_unwind_rules_def store_by_id_def id_rsp_def Let_def)
  ultimately show ?thesis using f(2,3) u(3) by auto
qed

text \<open>A stack with the saved frame pointer at 0x7000 and the return address at 0x7008.\<close>

definition sample_stack :: memory_reader where
  "sample_stack a n = (if n = 8 then Inr (as_bytes (if a = 0x7008 then 0x401234 else if a = 0x7000 then 0x7100 else 0 :: u64))
                       else Inl (Send ''unmapped''))"

definition sample_context :: unwind_context where
  "sample_context = (unwind_context_new (cursor_over [] 0 0))\<lparr>cfa_rule := cfa_register_rule 6 0x7010,
     register_rules := [(16, offset_rule (- 8)), (6, offset_rule (- 16))]\<rparr>"

theorem unwind_rules_recover_witness:
  "\<forall>fo. \<exists>unwound. execute_unwind_rules 0 fo sample_dwarf sample_stack sample_context (new_registers 1) =
       Inr (unwound, (new_registers 1)\<lparr>reg_cfa := 0x7010\<rparr>) \<and>
     read_dwarf_register unwound 7 = Inr 0x7010 \<and> read_dwarf_register unwound 16 = Inr 0x401234 \<and>
     read_dwarf_register unwound 6 = Inr 0x7100"
proof
  fix fo :: float_ops
  let ?saved = "[(16, - 8, 0x401234), (6, - 16, 0x7100)] :: (nat \<times> u64 \<times> u64) list"
  have "read_dwarf_register (new_registers 1) (int 6) = Inr 0"
    using gpr_read [of 6 "new_registers 1"]
    by (simp add: frame_registers_def new_registers_def from_bytes_def le_nat_zeros)
  from unwind_rules_recover [of "new_registers 1" 6 sample_context "0x7010" 0 "0x7010" ?saved sample_stack 0 fo sample_dwarf, OF _ _ _ this]
  show "\<exists>unwound. execute_unwind_rules 0 fo sample_dwarf sample_stack sample_context (new_registers 1) =
       Inr (unwound, (new_registers 1)\<lparr>reg_cfa := 0x7010\<rparr>) \<and>
     read_dwarf_register unwound 7 = Inr 0x7010 \<and> read_dwarf_register unwound 16 = Inr 0x401234 \<and>
     read_dwarf_register unwound 6 = Inr 0x7100"
    by (auto simp: frame_registers_def new_registers_def sample_context_def sample_stack_def)
qed

text \<open>The rows of the search table: where row \<open>i\<close> begins and the offset of its FDE.\<close>

definition eh_table_rows :: "elf \<Rightarrow> eh_hdr \<Rightarrow> u64 \<Rightarrow> nat \<Rightarrow> (u64 \<times> u64) list \<Rightarrow> bool" where
  "eh_table_rows obj hdr sec sz rows \<longleftrightarrow>
    unat (hdr_count hdr) = length rows \<and> length rows < 2 ^ 63 \<and>
    (\<forall>i<length rows.
       let row = word_of_nat (sz * 2); pointer = eh_table_pointer obj hdr sec (hdr_count hdr * row)
       in pointer (word_of_nat i * row) = Inr (fst (rows ! i)) \<and>
          pointer (word_of_nat i * row + word_of_nat sz) = Inr (snd (rows ! i)))"

text \<open>
  C20. Finding the FDE of an address: in a table whose rows are ordered by the address they begin at,
  the binary search ends after at most 63 rounds at the last row that begins at or before the address, and the
  lookup returns the FDE pointer of that row.
\<close>

theorem eh_hdr_lookup_correct:
  assumes "fa_elf pc = Some (elf_no obj)" "get_section_start_address obj ''.text'' = Some sec"
    and "eh_frame_pointer_encoding_size (hdr_encoding hdr) = Inr sz"
    and "eh_table_rows obj hdr (fa_addr sec) sz rows" "sorted_wrt (<) (map fst rows)"
    and "rows \<noteq> []" "fst (hd rows) \<le> fa_addr pc"
  shows "\<exists>j<length rows. eh_hdr_lookup 63 obj hdr pc = Inr (sint (snd (rows ! j))) \<and>
    fst (rows ! j) \<le> fa_addr pc \<and> (\<forall>i<length rows. j < i \<longrightarrow> fa_addr pc < fst (rows ! i))"
proof -
  let ?row = "word_of_nat (sz * 2) :: u64"
  let ?p = "eh_table_pointer obj hdr (fa_addr sec) (hdr_count hdr * ?row)"
  have c: "unat (hdr_count hdr) = length rows" "length rows < 2 ^ 63" using assms(4) by (auto simp: eh_table_rows_def)
  have "hdr_count hdr \<noteq> 0" using c(1) assms(6) by auto
  then have h: "unat (hdr_count hdr - 1) = length rows - 1" using c(1) by (simp add: unat_pred)
  have p: "?p (word_of_nat i * ?row) = Inr (fst (rows ! i))"
    "?p (word_of_nat i * ?row + word_of_nat sz) = Inr (snd (rows ! i))" if "i < length rows" for i
    using assms(4) that by (auto simp: eh_table_rows_def Let_def)
  have "\<exists>j<length rows. eh_hdr_search 63 (\<lambda>i. ?p (i * ?row)) (fa_addr pc) 0 (hdr_count hdr - 1) = Inr (word_of_nat j) \<and>
      fst (rows ! j) \<le> fa_addr pc \<and> (\<forall>i<length rows. j < i \<longrightarrow> fa_addr pc < fst (rows ! i))"
    using p(1) assms(5-7) c(2) h
    by (intro eh_hdr_search_finds) (auto simp: sorted_wrt_iff_nth_less hd_conv_nth)
  then show ?thesis
    using assms(1-3) p(2) by (auto simp: eh_hdr_lookup_def deref_optional_def file_offset_as_data_pointer_def Let_def)
qed

definition sample_rows :: "(u64 \<times> u64) list" where
  "sample_rows = [(0x1000, 0x40), (0x1040, 0x60), (0x10f0, 0x90)]"

definition sample_hdr :: eh_hdr where
  "sample_hdr = \<lparr>hdr_start = 0, search_table = 0, hdr_count = 3, hdr_encoding = 3\<rparr>"

definition sample_hdr_elf :: elf where
  "sample_hdr_elf = sample_cfi_elf\<lparr>elf_map :=
     concat (map (\<lambda>(a, f). as_bytes (ucast a :: u32) @ as_bytes (ucast f :: u32)) sample_rows)\<rparr>"

lemma sample_table:
  "list_all (\<lambda>i. let pointer = eh_table_pointer sample_hdr_elf sample_hdr 0x1000 24
     in pointer (word_of_nat i * 8) = Inr (fst (sample_rows ! i)) \<and>
        pointer (word_of_nat i * 8 + 4) = Inr (snd (sample_rows ! i))) [0..<3]"
  by code_simp

theorem eh_hdr_lookup_correct_witness:
  "eh_hdr_lookup 63 sample_hdr_elf sample_hdr (mk_file_addr (elf_no sample_hdr_elf) 0x1052) = Inr 0x60"
proof -
  let ?pc = "mk_file_addr (elf_no sample_hdr_elf) 0x1052"
  have sec: "get_section_start_address sample_hdr_elf ''.text'' = Some (mk_file_addr (elf_no sample_hdr_elf) 0x1000)"
    by (simp add: get_section_start_address_def get_section_def sample_hdr_elf_def sample_cfi_elf_def)
  have sz: "eh_frame_pointer_encoding_size (hdr_encoding sample_hdr) = Inr 4" by code_simp
  have rows: "eh_table_rows sample_hdr_elf sample_hdr 0x1000 4 sample_rows"
    using sample_table by (auto simp: eh_table_rows_def sample_hdr_def sample_rows_def list_all_iff Let_def)
  have len: "length sample_rows = 3" and ord: "sorted_wrt (<) (map fst sample_rows)" "sample_rows \<noteq> []"
      "fst (hd sample_rows) \<le> 0x1052" by (simp_all add: sample_rows_def)
  obtain j where j: "j < 3" "eh_hdr_lookup 63 sample_hdr_elf sample_hdr ?pc = Inr (sint (snd (sample_rows ! j)))"
      "fst (sample_rows ! j) \<le> 0x1052" "\<forall>i<3. j < i \<longrightarrow> 0x1052 < fst (sample_rows ! i)"
    using eh_hdr_lookup_correct [of ?pc sample_hdr_elf _ sample_hdr 4 sample_rows, OF _ sec sz] rows ord
    unfolding len by (auto simp: mk_file_addr_def)
  have "j = 1" using j(1,3) j(4) [rule_format, of 1] by (auto simp: sample_rows_def less_Suc_eq numeral_3_eq_3 split: if_splits)
  then show ?thesis using j(2) by (simp add: sample_rows_def)
qed

end
