(* ===== verification/Target_State.thy ===== *)
theory Target_State
  imports Process_Setup Types Call_Frame
begin

text \<open>
  The state of \<open>gsdb::target\<close> (\<open>include/libgsdb/target.hpp\<close>), of its breakpoints
  (\<open>include/libgsdb/breakpoint.hpp\<close>) and of the stacks of its threads (\<open>include/libgsdb/stack.hpp\<close>). The
  target owns the process and the process points back to it; here the target is the
  \<open>p_target\<close> of the process, and an operation of the target is an operation on the process.
  Objects that others point to carry a key: the number of an ELF object, the address of a
  breakpoint site, the key of a breakpoint.
\<close>

section \<open>Objects with their debug information\<close>

text \<open>An \<open>elf\<close> owns its \<open>dwarf\<close>, which owns its call frame information.\<close>

record object_file =
  of_elf :: elf
  of_dwarf :: dwarf
  of_cfi :: call_frame_information

definition object_open ::
  "(string \<Rightarrow> string option) \<Rightarrow> elf_id \<Rightarrow> string \<Rightarrow> byte list \<Rightarrow> object_file result" where
  "object_open demangle no path img =
    bindE (elf_construct demangle no path img) (\<lambda>e.
    bindE (parse_compile_units e) (\<lambda>units.
      let dw = \<lparr>dw_elf = e, dw_units = units, dw_index = empty_index\<rparr>
      in bindE (call_frame_information_new dw) (\<lambda>cfi. Inr \<lparr>of_elf = e, of_dwarf = dw, of_cfi = cfi\<rparr>)))"

text \<open>
  \<open>elf::elf\<close> on a path: the file is mapped, and unmapped again where the rest of the constructor throws.
\<close>

definition elf_new :: "'k files \<Rightarrow> (string \<Rightarrow> string option) \<Rightarrow> elf_id \<Rightarrow> string \<Rightarrow> ('k, object_file) prog" where
  "elf_new F demangle no path =
    bindS (mapped_file_new F path) (\<lambda>m.
      catchS (liftS (object_open demangle no path (mf_data m)))
        (\<lambda>e. if is_exception e then thenS (modifyS (mapped_file_destroy F m)) (throwS e) else throwS e))"

definition object_loaded :: "virt_addr \<Rightarrow> object_file \<Rightarrow> object_file" where
  "object_loaded address f =
    (let e = notify_loaded address (of_elf f); dw = (of_dwarf f)\<lparr>dw_elf := e\<rparr>
     in \<lparr>of_elf = e, of_dwarf = dw, of_cfi = (of_cfi f)\<lparr>cfi_dwarf := dw\<rparr>\<rparr>)"

section \<open>Stacks\<close>

record stack_frame =
  sf_regs :: registers
  sf_report_address :: virt_addr
  sf_func_die :: die
  sf_inlined :: bool
  sf_location :: "line_file option \<times> u64"

record stack =
  sk_tid :: pid
  sk_inline_height :: u32
  sk_frames :: "stack_frame list"
  sk_current_frame :: u64

definition new_stack :: "pid \<Rightarrow> stack" where
  "new_stack tid = \<lparr>sk_tid = tid, sk_inline_height = 0, sk_frames = [], sk_current_frame = 0\<rparr>"

definition simulate_inlined_step_in :: "stack \<Rightarrow> stack" where
  "simulate_inlined_step_in s =
    (let h = sk_inline_height s - 1 in s\<lparr>sk_inline_height := h, sk_current_frame := ucast h\<rparr>)"

definition stack_up :: "stack \<Rightarrow> stack" where
  "stack_up s = s\<lparr>sk_current_frame := sk_current_frame s + 1\<rparr>"

definition stack_down :: "stack \<Rightarrow> stack" where
  "stack_down s = s\<lparr>sk_current_frame := sk_current_frame s - 1\<rparr>"

definition has_frames :: "stack \<Rightarrow> bool" where
  "has_frames s \<longleftrightarrow> sk_frames s \<noteq> []"

definition no_frame :: gsdb_error where
  "no_frame = Undefined ''frame outside the stack''"

text \<open>The frames the debugger shows: the ones before are inlined and not yet entered.\<close>

definition visible_frames :: "stack \<Rightarrow> stack_frame list result" where
  "visible_frames s =
    (if unat (sk_inline_height s) \<le> length (sk_frames s) then Inr (drop (unat (sk_inline_height s)) (sk_frames s))
     else Inl no_frame)"

definition frame_at :: "u64 \<Rightarrow> stack_frame list \<Rightarrow> stack_frame result" where
  "frame_at i frames = (if unat i < length frames then Inr (frames ! unat i) else Inl no_frame)"

definition current_frame :: "stack \<Rightarrow> stack_frame result" where
  "current_frame s = frame_at (sk_current_frame s) (sk_frames s)"

definition current_frame_index :: "stack \<Rightarrow> u64" where
  "current_frame_index s = sk_current_frame s - ucast (sk_inline_height s)"

definition stack_regs :: "stack \<Rightarrow> registers result" where
  "stack_regs s = bindE (current_frame s) (\<lambda>f. Inr (sf_regs f))"

definition stack_pc :: "stack \<Rightarrow> virt_addr result" where
  "stack_pc s = bindE (stack_regs s) (\<lambda>regs. read_by_id_as_u64 regs id_rip)"

section \<open>Breakpoints and the target\<close>

text \<open>
  The three classes of breakpoints, and the callbacks the code installs: the one at the entry point,
  the one of the dynamic linker, and the one that only returns false while a function is called.
\<close>

datatype breakpoint_kind =
    function_breakpoint string
  | line_breakpoint string u64
  | address_breakpoint virt_addr

datatype hit_handler = on_entry | on_dynamic_linker | on_call_return

record breakpoint =
  b_key :: nat
  b_id :: int
  b_kind :: breakpoint_kind
  b_enabled :: bool
  b_hardware :: bool
  b_internal :: bool
  b_sites :: "virt_addr list"
  b_next_site_id :: int
  b_on_hit :: "hit_handler option"

record target =
  t_breakpoints :: "breakpoint list"
  t_rendezvous :: virt_addr
  t_objects :: "object_file list"
  t_main_elf :: elf_id
  t_threads :: "(pid \<times> stack) list"
  t_results :: "typed_data list"
  t_next_key :: nat
  t_breakpoint_id :: int

type_synonym ('k, 'a) target_op = "('k, target, 'a) process_op"

section \<open>The world around the debugger\<close>

record 'k env =
  env_kernel :: "'k kernel"
  env_system :: "'k system"
  env_float :: float_ops
  env_demangle :: "string \<Rightarrow> string option"
  env_temp_dir :: string
  env_decode :: "u64 \<Rightarrow> byte list \<Rightarrow> (nat \<times> string) option"
  env_from_chars_double :: "u64 float_chars"
  env_lifecycle_callback :: "stop_reason \<Rightarrow> ('k, unit) target_op"

section \<open>Access\<close>

definition on_files :: "'k env \<Rightarrow> ('k files \<Rightarrow> ('k, 'a) prog) \<Rightarrow> ('k, 'a) target_op" where
  "on_files E m = zoomS p_kernel (\<lambda>k p. p\<lparr>p_kernel := k\<rparr>) (m (sys_files (env_system E)))"

definition get_target :: "('k, target) target_op" where
  "get_target = bindS (getS p_target) (\<lambda>t. liftS (the_opt (Undefined ''no target'') t))"

definition modify_target :: "(target \<Rightarrow> target) \<Rightarrow> ('k, unit) target_op" where
  "modify_target f = modifyS (\<lambda>p. p\<lparr>p_target := map_option f (p_target p)\<rparr>)"

definition elves :: "target \<Rightarrow> elf_collection" where
  "elves t = map of_elf (t_objects t)"

definition find_object :: "target \<Rightarrow> elf_id \<Rightarrow> object_file result" where
  "find_object t i =
    the_opt (Undefined ''no such object'') (List.find (\<lambda>f. elf_no (of_elf f) = i) (t_objects t))"

definition replace_object :: "object_file \<Rightarrow> target \<Rightarrow> target" where
  "replace_object f t =
    t\<lparr>t_objects := map (\<lambda>g. if elf_no (of_elf g) = elf_no (of_elf f) then f else g) (t_objects t)\<rparr>"

text \<open>\<open>elf_file()->get_dwarf()\<close> of an address, and of the unit of an entry.\<close>

definition dwarf_at :: "target \<Rightarrow> file_addr \<Rightarrow> dwarf result" where
  "dwarf_at t a =
    bindE (the_opt (Undefined ''null elf dereferenced'') (fa_elf a)) (\<lambda>i.
    bindE (find_object t i) (\<lambda>f. Inr (of_dwarf f)))"

definition dwarf_of_die :: "target \<Rightarrow> die \<Rightarrow> dwarf result" where
  "dwarf_of_die t d = bindE (find_object t (elf_no (cu_elf (die_cu d)))) (\<lambda>f. Inr (of_dwarf f))"

definition target_virt_addr :: "target \<Rightarrow> file_addr \<Rightarrow> virt_addr result" where
  "target_virt_addr t a =
    (case fa_elf a of
       None \<Rightarrow> Inl (Terminate ''to_virt_addr called on NULL address'')
     | Some i \<Rightarrow> bindE (find_object t i) (\<lambda>f. to_virt_addr (of_elf f) a))"

definition target_reader :: "'k kernel \<Rightarrow> ('k, target) process \<Rightarrow> memory_reader" where
  "target_reader K p a n = read_memory K (p_pid p) a n (p_kernel p)"

definition get_pc_file_address :: "pid option \<Rightarrow> ('k, file_addr) target_op" where
  "get_pc_file_address otid =
    bindS (get_pc otid) (\<lambda>pc. bindS get_target (\<lambda>t. retS (to_file_addr_in (elves t) pc)))"

definition get_stack :: "pid \<Rightarrow> ('k, stack) target_op" where
  "get_stack tid = bindS get_target (\<lambda>t. liftS (map_at (t_threads t) tid))"

definition put_stack :: "stack \<Rightarrow> target \<Rightarrow> target" where
  "put_stack s t =
    t\<lparr>t_threads := map (\<lambda>(i, x). if i = sk_tid s then (i, s) else (i, x)) (t_threads t)\<rparr>"

end
