(* ===== verification/Stack_Unwind.thy ===== *)
theory Stack_Unwind
  imports Target_State
begin

text \<open>
  \<open>src/stack.cpp\<close>: the frames of a thread, recomputed whenever it stops. One physical frame gives a
  frame for each function inlined at its program counter, innermost first; the call frame
  information of the object then leads to the caller. The loop ends where the program counter
  leaves the known objects, so it takes fuel.
\<close>

section \<open>Inline frames\<close>

definition inline_stack_at_pc :: "nat \<Rightarrow> pid \<Rightarrow> ('k, die list) target_op" where
  "inline_stack_at_pc n tid =
    bindS (get_pc_file_address (Some tid)) (\<lambda>pc.
      if fa_elf pc = None then retS []
      else bindS get_target (\<lambda>t. liftS (bindE (dwarf_at t pc) (\<lambda>dw. inline_stack_at_address n dw pc))))"

text \<open>
  The number of entries, from the innermost one outwards, whose code begins at the address; the
  count reached stays where an entry has no address.
\<close>

fun count_at_start :: "file_addr \<Rightarrow> die list \<Rightarrow> u32 \<times> unit result" where
  "count_at_start pc [] = (0, Inr ())"
| "count_at_start pc (d # ds) =
    (case die_low_pc d of
       Inl e \<Rightarrow> (0, Inl e)
     | Inr low \<Rightarrow>
         if file_addr_eq low pc then (case count_at_start pc ds of (h, r) \<Rightarrow> (h + 1, r)) else (0, Inr ()))"

definition set_inline_height :: "pid \<Rightarrow> u32 \<Rightarrow> target \<Rightarrow> target" where
  "set_inline_height tid h t =
    t\<lparr>t_threads := map (\<lambda>(i, s). if i = tid then (i, s\<lparr>sk_inline_height := h\<rparr>) else (i, s)) (t_threads t)\<rparr>"

text \<open>The comparison uses the program counter of the current thread, whatever the thread of the stack.\<close>

definition reset_inline_height :: "nat \<Rightarrow> pid \<Rightarrow> ('k, unit) target_op" where
  "reset_inline_height n tid =
    bindS (inline_stack_at_pc n tid) (\<lambda>inlined.
    thenS (modify_target (set_inline_height tid 0))
    (bindS (get_pc_file_address None) (\<lambda>pc.
       case count_at_start pc (rev inlined) of
         (h, r) \<Rightarrow> thenS (modify_target (set_inline_height tid h)) (liftS r))))"

section \<open>Frames\<close>

text \<open>The source location of an iterator; the end iterator has the row the machine starts with.\<close>

definition iterator_location :: "line_iter option \<Rightarrow> line_file option \<times> u64" where
  "iterator_location it =
    (case it of None \<Rightarrow> (None, 1) | Some i \<Rightarrow> (le_file_entry (li_current i), le_line (li_current i)))"

definition create_base_frame ::
  "target \<Rightarrow> registers \<Rightarrow> die list \<Rightarrow> file_addr \<Rightarrow> bool \<Rightarrow> stack_frame result" where
  "create_base_frame t regs inline_stack pc inlined =
    bindE (target_virt_addr t pc) (\<lambda>own_pc.
    bindE (dwarf_at t pc) (\<lambda>dw.
    bindE (line_entry_at_address dw pc) (\<lambda>line_entry.
    bindE (case line_entry of
             None \<Rightarrow> Inr own_pc
           | Some it \<Rightarrow> target_virt_addr t (le_address (li_current it))) (\<lambda>backtrace_pc.
      Inr \<lparr>sf_regs = regs, sf_report_address = backtrace_pc, sf_func_die = last inline_stack,
           sf_inlined = inlined, sf_location = iterator_location line_entry\<rparr>))))"

text \<open>
  The frames of the callers an inlined function was inlined into: \<open>prev\<close> is the entry of the frame before,
  and only the outermost one is a function of its own. The frames pushed before a failure stay.
\<close>

fun create_inline_stack_frames ::
  "target \<Rightarrow> registers \<Rightarrow> die \<Rightarrow> die list \<Rightarrow> stack_frame list \<times> unit result" where
  "create_inline_stack_frames t regs prev [] = ([], Inr ())"
| "create_inline_stack_frames t regs prev (d # ds) =
    (case bindE (bindE (die_low_pc prev) (target_virt_addr t)) (\<lambda>a.
          bindE (die_location prev) (\<lambda>(f, l). Inr (a, f, l))) of
       Inl e \<Rightarrow> ([], Inl e)
     | Inr (inlined_pc, f, l) \<Rightarrow>
         (case create_inline_stack_frames t regs d ds of
            (frames, r) \<Rightarrow>
              (\<lparr>sf_regs = regs, sf_report_address = inlined_pc, sf_func_die = d, sf_inlined = ds \<noteq> [],
                sf_location = (Some f, l)\<rparr> # frames, r)))"

text \<open>The frames of one physical frame, from the entries at its program counter, outermost first.\<close>

definition physical_frames ::
  "target \<Rightarrow> registers \<Rightarrow> die list \<Rightarrow> file_addr \<Rightarrow> stack_frame list \<times> unit result" where
  "physical_frames t regs inline_stack pc =
    (case create_base_frame t regs inline_stack pc (length inline_stack > 1) of
       Inl e \<Rightarrow> ([], Inl e)
     | Inr base \<Rightarrow>
         if length inline_stack > 1
         then (case create_inline_stack_frames t regs (last inline_stack) (tl (rev inline_stack)) of
                 (outer, r) \<Rightarrow> (base # outer, r))
         else ([base], Inr ()))"

section \<open>Unwinding\<close>

definition set_frame_regs :: "registers \<Rightarrow> stack_frame list \<Rightarrow> stack_frame list" where
  "set_frame_regs regs frames = butlast frames @ [(last frames)\<lparr>sf_regs := regs\<rparr>]"

text \<open>
  The call frame information of the object leads to the registers of the caller. The registers
  of the frame itself get their call frame address, also where a later rule fails.
\<close>

definition with_frame_address ::
  "nat \<Rightarrow> memory_reader \<Rightarrow> call_frame_information \<Rightarrow> file_addr \<Rightarrow> registers \<Rightarrow> registers" where
  "with_frame_address n rm cfi pc regs =
    (case bindE (unwind_start n pc cfi) (\<lambda>(ctx, _). unwind_cfa n (cfi_dwarf cfi) rm (cfa_rule ctx) regs) of
       Inl _ \<Rightarrow> regs
     | Inr cfa \<Rightarrow> regs\<lparr>reg_cfa := cfa\<rparr>)"

definition unwind_once ::
  "nat \<Rightarrow> float_ops \<Rightarrow> memory_reader \<Rightarrow> call_frame_information \<Rightarrow> file_addr \<Rightarrow> registers \<Rightarrow>
     (registers \<times> virt_addr \<times> call_frame_information) result" where
  "unwind_once n fo rm cfi pc regs =
    bindE (unwind n fo rm pc regs cfi) (\<lambda>(unwound, _, cfi').
    bindE (read_by_id_as_u64 unwound id_rip) (\<lambda>rip. Inr (unwound, rip - 1, cfi')))"

text \<open>
  The loop over physical frames; \<open>frames\<close> are the ones found so far. A failed unwinding ends the loop,
  any other failure is passed on, and the frames stay in both cases.
\<close>

fun unwind_loop ::
  "nat \<Rightarrow> nat \<Rightarrow> float_ops \<Rightarrow> memory_reader \<Rightarrow> target \<Rightarrow> virt_addr \<Rightarrow> file_addr \<Rightarrow> registers \<Rightarrow> stack_frame list \<Rightarrow>
     stack_frame list \<times> target \<times> unit result" where
  "unwind_loop m n fo rm t virt_pc file_pc regs frames =
    (if virt_pc = 0 \<or> fa_elf file_pc = None then (frames, t, Inr ())
     else case m of
       0 \<Rightarrow> (frames, t, Inl (No_return ''fuel''))
     | Suc k \<Rightarrow>
        (case bindE (find_object t (the (fa_elf file_pc)))
                (\<lambda>f. bindE (inline_stack_at_address n (of_dwarf f) file_pc) (\<lambda>ds. Inr (f, ds))) of
           Inl e \<Rightarrow> (frames, t, Inl e)
         | Inr (f, inline_stack) \<Rightarrow>
            if inline_stack = [] then (frames, t, Inr ())
            else (case physical_frames t regs inline_stack file_pc of
               (new, Inl e) \<Rightarrow> (frames @ new, t, Inl e)
             | (new, Inr _) \<Rightarrow>
                let new' = set_frame_regs (with_frame_address n rm (of_cfi f) file_pc (sf_regs (last new))) new
                in (case unwind_once n fo rm (of_cfi f) file_pc (sf_regs (last new)) of
                      Inl e \<Rightarrow> (frames @ new', t, if is_exception e then Inr () else Inl e)
                    | Inr (regs', virt_pc', cfi') \<Rightarrow>
                        let t' = replace_object (f\<lparr>of_cfi := cfi'\<rparr>) t
                        in unwind_loop k n fo rm t' virt_pc' (to_file_addr_in (elves t') virt_pc') regs'
                             (frames @ new')))))"

declare unwind_loop.simps [simp del]

definition set_current_frame :: "stack \<Rightarrow> stack" where
  "set_current_frame s = s\<lparr>sk_current_frame := ucast (sk_inline_height s)\<rparr>"

definition stack_unwind :: "nat \<Rightarrow> 'k env \<Rightarrow> pid \<Rightarrow> ('k, unit) target_op" where
  "stack_unwind n E tid =
    thenS (reset_inline_height n tid)
    (bindS (get_stack tid) (\<lambda>s.
     thenS (modify_target (put_stack (set_current_frame s)))
     (bindS (get_pc (Some tid)) (\<lambda>virt_pc.
      bindS (get_pc_file_address (Some tid)) (\<lambda>file_pc.
      bindS (getS (get_registers (Some tid))) (\<lambda>r.
      bindS (liftS r) (\<lambda>regs.
      bindS get_target (\<lambda>t.
      bindS (getS (target_reader (env_kernel E))) (\<lambda>rm.
        case unwind_loop n n (env_float E) rm t virt_pc file_pc regs [] of
          (frames, t', res) \<Rightarrow>
            thenS (modify_target (\<lambda>_. put_stack ((set_current_frame s)\<lparr>sk_frames := frames\<rparr>) t'))
              (liftS res))))))))))"

end
