(* ===== verification/Breakpoints.thy ===== *)
theory Breakpoints
  imports Stack_Unwind
begin

text \<open>
  \<open>src/breakpoint.cpp\<close>, \<open>include/libgsdb/breakpoint.hpp\<close> and the part of \<open>src/target.cpp\<close> that creates breakpoints
  and follows the dynamic linker: a breakpoint on a function, a source line or an address resolves to
  breakpoint sites, again whenever a library is loaded. A breakpoint refers to its sites by their
  addresses, which are unique in the collection of the process.
\<close>

section \<open>Sites of a breakpoint\<close>

type_synonym ('k, 'a) breakpoint_op = "(breakpoint \<times> ('k, target) process, 'a) prog"

definition on_process :: "('k, 'a) target_op \<Rightarrow> ('k, 'a) breakpoint_op" where
  "on_process m = zoomS snd (\<lambda>p (b, _). (b, p)) m"

definition modify_breakpoint :: "(breakpoint \<Rightarrow> breakpoint) \<Rightarrow> ('k, unit) breakpoint_op" where
  "modify_breakpoint f = modifyS (\<lambda>(b, p). (f b, p))"

definition bp_at :: "breakpoint \<Rightarrow> virt_addr \<Rightarrow> bool" where
  "bp_at b a \<longleftrightarrow> a \<in> set (b_sites b)"

definition bp_in_range :: "breakpoint \<Rightarrow> virt_addr \<Rightarrow> virt_addr \<Rightarrow> bool" where
  "bp_in_range b low high \<longleftrightarrow> filter (\<lambda>a. a \<ge> low \<and> high > a) (b_sites b) \<noteq> []"

definition breakpoint_enable :: "'k env \<Rightarrow> ('k, unit) breakpoint_op" where
  "breakpoint_enable E =
    thenS (modify_breakpoint (\<lambda>b. b\<lparr>b_enabled := True\<rparr>))
      (bindS (getS (\<lambda>(b, _). b_sites b))
         (forS (\<lambda>a. on_process (site_enable (env_kernel E) (env_float E) a))))"

definition breakpoint_disable :: "'k env \<Rightarrow> ('k, unit) breakpoint_op" where
  "breakpoint_disable E =
    thenS (modify_breakpoint (\<lambda>b. b\<lparr>b_enabled := False\<rparr>))
      (bindS (getS (\<lambda>(b, _). b_sites b))
         (forS (\<lambda>a. on_process (site_disable (env_kernel E) (env_float E) a))))"

text \<open>The body the three resolutions share: a new site, pushed and enabled if the breakpoint is.\<close>

definition add_site :: "'k env \<Rightarrow> virt_addr \<Rightarrow> ('k, unit) breakpoint_op" where
  "add_site E a =
    bindS (getS fst) (\<lambda>b.
    thenS (modify_breakpoint (\<lambda>b. b\<lparr>b_next_site_id := b_next_site_id b + 1\<rparr>))
    (bindS (on_process (create_breakpoint_site_for (b_key b) (b_next_site_id b) a (b_hardware b) (b_internal b))) (\<lambda>_.
     thenS (modify_breakpoint (\<lambda>b. b\<lparr>b_sites := b_sites b @ [a]\<rparr>))
       (if b_enabled b then on_process (site_enable (env_kernel E) (env_float E) a) else retS ()))))"

definition add_site_once :: "'k env \<Rightarrow> virt_addr \<Rightarrow> ('k, unit) breakpoint_op" where
  "add_site_once E a = bindS (getS fst) (\<lambda>b. if bp_at b a then retS () else add_site E a)"

section \<open>Looking up functions and lines\<close>

text \<open>\<open>elves_.for_each\<close>: the entries of an object, or its symbols where it has no entry of the name.\<close>

definition find_functions_in ::
  "nat \<Rightarrow> string \<Rightarrow> object_file \<Rightarrow> die list \<times> (elf_id \<times> elf64_sym) list \<Rightarrow>
     (die list \<times> (elf_id \<times> elf64_sym) list) result" where
  "find_functions_in n nm f = (\<lambda>(dies, syms).
    bindE (find_functions n (of_dwarf f) nm) (\<lambda>found.
      Inr (if found = [] then (dies, syms @ map (\<lambda>s. (elf_no (of_elf f), s)) (get_symbols_by_name (of_elf f) nm))
           else (dies @ found, syms))))"

definition target_find_functions ::
  "nat \<Rightarrow> target \<Rightarrow> string \<Rightarrow> (die list \<times> (elf_id \<times> elf64_sym) list) result" where
  "target_find_functions n t nm = foldE (find_functions_in n nm) (t_objects t) ([], [])"

text \<open>The lines of a unit; a unit without a line table has none to dereference.\<close>

definition unit_lines :: "compile_unit \<Rightarrow> line_table result" where
  "unit_lines cu = the_opt (Undefined ''null line table dereferenced'') (cu_lines cu)"

definition target_lines_by_line ::
  "target \<Rightarrow> string \<Rightarrow> u64 \<Rightarrow> (compile_unit \<times> line_iter) list result" where
  "target_lines_by_line t path line =
    foldE (\<lambda>f entries.
      foldE (\<lambda>cu entries.
        bindE (unit_lines cu) (\<lambda>lt.
        bindE (get_entries_by_line cu lt path line) (\<lambda>its. Inr (entries @ map (Pair cu) its))))
        (dw_units (of_dwarf f)) entries) (t_objects t) []"

section \<open>Resolution\<close>

text \<open>The address behind the prologue of a function: the row after the one its code begins in.\<close>

definition after_prologue :: "die \<Rightarrow> file_addr result" where
  "after_prologue d =
    bindE (unit_lines (die_cu d)) (\<lambda>lt.
    bindE (die_low_pc d) (\<lambda>low.
    bindE (get_entry_by_address (die_cu d) lt low) (\<lambda>it.
      case it of
        None \<Rightarrow> Inl (Undefined ''end iterator incremented'')
      | Some i \<Rightarrow> bindE (line_next (die_cu d) i) (\<lambda>i'. Inr (le_address (li_current i'))))))"

definition function_address :: "die \<Rightarrow> file_addr result" where
  "function_address d =
    bindE (die_tag d) (\<lambda>tag. if tag = DW_TAG_inlined_subroutine then die_low_pc d else after_prologue d)"

definition has_code :: "die \<Rightarrow> bool result" where
  "has_code d =
    bindE (die_contains d DW_AT_low_pc) (\<lambda>low. if low then Inr True else die_contains d DW_AT_ranges)"

definition resolve_function_die :: "'k env \<Rightarrow> die \<Rightarrow> ('k, unit) breakpoint_op" where
  "resolve_function_die E d =
    bindS (liftS (has_code d)) (\<lambda>code.
      if code then
        bindS (liftS (function_address d)) (\<lambda>addr.
        bindS (on_process get_target) (\<lambda>t.
        bindS (liftS (target_virt_addr t addr)) (\<lambda>load_address. add_site_once E load_address)))
      else retS ())"

definition resolve_function_symbol :: "'k env \<Rightarrow> elf_id \<times> elf64_sym \<Rightarrow> ('k, unit) breakpoint_op" where
  "resolve_function_symbol E fsym =
    bindS (on_process get_target) (\<lambda>t.
    bindS (liftS (target_virt_addr t (mk_file_addr (fst fsym) (st_value (snd fsym))))) (\<lambda>load_address.
      add_site_once E load_address))"

text \<open>A line at the start of a function that is not inlined: the row after it.\<close>

definition should_skip_prologue :: "file_addr \<Rightarrow> die list \<Rightarrow> bool result" where
  "should_skip_prologue a stk =
    (case stk of
       [d] \<Rightarrow>
         bindE (die_contains d DW_AT_ranges) (\<lambda>ranges.
         bindE (if ranges then Inr True else die_contains d DW_AT_low_pc) (\<lambda>code.
           if code then bindE (die_low_pc d) (\<lambda>low. Inr (file_addr_eq low a)) else Inr False))
     | _ \<Rightarrow> Inr False)"

definition resolve_line_entry :: "nat \<Rightarrow> 'k env \<Rightarrow> compile_unit \<times> line_iter \<Rightarrow> ('k, unit) breakpoint_op" where
  "resolve_line_entry n E entry =
    (case entry of (cu, it) \<Rightarrow>
      bindS (on_process get_target) (\<lambda>t.
      let a = le_address (li_current it)
      in bindS (liftS (bindE (dwarf_at t a) (\<lambda>dw. inline_stack_at_address n dw a))) (\<lambda>stk.
         bindS (liftS (should_skip_prologue a stk)) (\<lambda>skip.
         bindS (liftS (if skip then line_next cu it else Inr it)) (\<lambda>it'.
         bindS (liftS (target_virt_addr t (le_address (li_current it')))) (\<lambda>load_address.
           add_site_once E load_address))))))"

definition resolve :: "nat \<Rightarrow> 'k env \<Rightarrow> ('k, unit) breakpoint_op" where
  "resolve n E =
    bindS (getS fst) (\<lambda>b.
      case b_kind b of
        address_breakpoint a \<Rightarrow> if b_sites b = [] then add_site E a else retS ()
      | function_breakpoint nm \<Rightarrow>
          bindS (on_process get_target) (\<lambda>t.
          bindS (liftS (target_find_functions n t nm)) (\<lambda>(dies, syms).
            thenS (forS (resolve_function_die E) dies) (forS (resolve_function_symbol E) syms)))
      | line_breakpoint file line \<Rightarrow>
          bindS (on_process get_target) (\<lambda>t.
          bindS (liftS (target_lines_by_line t file line)) (\<lambda>entries. forS (resolve_line_entry n E) entries)))"

section \<open>Creation\<close>

text \<open>An operation on the breakpoint of a key, in the collection of the target.\<close>

definition put_breakpoint :: "breakpoint \<Rightarrow> target \<Rightarrow> target" where
  "put_breakpoint b t = t\<lparr>t_breakpoints := map (\<lambda>c. if b_key c = b_key b then b else c) (t_breakpoints t)\<rparr>"

definition on_breakpoint :: "nat \<Rightarrow> ('k, 'a) breakpoint_op \<Rightarrow> ('k, 'a) target_op" where
  "on_breakpoint key m =
    bindS get_target (\<lambda>t.
      case List.find (\<lambda>b. b_key b = key) (t_breakpoints t) of
        None \<Rightarrow> throwS (Undefined ''dangling breakpoint'')
      | Some b \<Rightarrow> (\<lambda>p. case m (b, p) of
          (r, (b', p')) \<Rightarrow> (r, p'\<lparr>p_target := map_option (put_breakpoint b') (p_target p')\<rparr>)))"

definition breakpoint_new :: "breakpoint_kind \<Rightarrow> bool \<Rightarrow> bool \<Rightarrow> ('k, breakpoint) target_op" where
  "breakpoint_new kind hardware internal =
    bindS get_target (\<lambda>t.
      let i = (if internal then - 1 else t_breakpoint_id t + 1)
      in thenS (modify_target (\<lambda>t. t\<lparr>t_next_key := t_next_key t + 1,
                  t_breakpoint_id := (if internal then t_breakpoint_id t else i)\<rparr>))
           (retS \<lparr>b_key = t_next_key t, b_id = i, b_kind = kind, b_enabled = False, b_hardware = hardware,
                  b_internal = internal, b_sites = [], b_next_site_id = 1, b_on_hit = None\<rparr>))"

text \<open>
  The constructor resolves before the breakpoint is in the collection; where that fails the object is
  gone and the sites it made stay.
\<close>

definition create_breakpoint :: "nat \<Rightarrow> 'k env \<Rightarrow> breakpoint_kind \<Rightarrow> bool \<Rightarrow> bool \<Rightarrow> ('k, nat) target_op" where
  "create_breakpoint n E kind hardware internal =
    bindS (breakpoint_new kind hardware internal) (\<lambda>b p.
      case resolve n E (b, p) of
        (Inl e, (_, p')) \<Rightarrow> (Inl e, p')
      | (Inr _, (b', p')) \<Rightarrow>
          (Inr (b_key b), p'\<lparr>p_target := map_option (\<lambda>t. t\<lparr>t_breakpoints := sc_push b' (t_breakpoints t)\<rparr>) (p_target p')\<rparr>))"

definition create_address_breakpoint :: "nat \<Rightarrow> 'k env \<Rightarrow> virt_addr \<Rightarrow> bool \<Rightarrow> bool \<Rightarrow> ('k, nat) target_op" where
  "create_address_breakpoint n E a = create_breakpoint n E (address_breakpoint a)"

definition create_function_breakpoint :: "nat \<Rightarrow> 'k env \<Rightarrow> string \<Rightarrow> bool \<Rightarrow> bool \<Rightarrow> ('k, nat) target_op" where
  "create_function_breakpoint n E nm = create_breakpoint n E (function_breakpoint nm)"

definition create_line_breakpoint :: "nat \<Rightarrow> 'k env \<Rightarrow> string \<Rightarrow> u64 \<Rightarrow> bool \<Rightarrow> bool \<Rightarrow> ('k, nat) target_op" where
  "create_line_breakpoint n E file line = create_breakpoint n E (line_breakpoint file line)"

definition install_hit_handler :: "hit_handler \<Rightarrow> ('k, unit) breakpoint_op" where
  "install_hit_handler h = modify_breakpoint (\<lambda>b. b\<lparr>b_on_hit := Some h\<rparr>)"

section \<open>The dynamic linker\<close>

text \<open>\<open>struct r_debug\<close> and \<open>struct link_map\<close>, 40 bytes each.\<close>

record r_debug =
  r_map :: u64
  r_brk :: u64

record link_map =
  l_addr :: u64
  l_name :: u64
  l_next :: u64

definition decode_r_debug :: "byte list \<Rightarrow> r_debug" where
  "decode_r_debug bs = \<lparr>r_map = field bs 8, r_brk = field bs 16\<rparr>"

definition decode_link_map :: "byte list \<Rightarrow> link_map" where
  "decode_link_map bs = \<lparr>l_addr = field bs 0, l_name = field bs 8, l_next = field bs 24\<rparr>"

definition read_dynamic_linker_rendezvous :: "'k env \<Rightarrow> ('k, r_debug option) target_op" where
  "read_dynamic_linker_rendezvous E =
    bindS get_target (\<lambda>t.
      if t_rendezvous t \<noteq> 0 then
        bindS (process_memory (env_kernel E) (t_rendezvous t) 40) (\<lambda>bs. retS (Some (decode_r_debug bs)))
      else retS None)"

definition dump_vdso :: "'k env \<Rightarrow> virt_addr \<Rightarrow> ('k, string) target_op" where
  "dump_vdso E address =
    bindS (process_memory (env_kernel E) address 64) (\<lambda>hdr.
      let h = decode_ehdr hdr; vdso_size = e_shoff h + ucast (e_shentsize h) * ucast (e_shnum h)
      in bindS (process_memory (env_kernel E) address (unat vdso_size)) (\<lambda>bs.
           let path = env_temp_dir E @ ''/linux-vdso.so.1''
           in thenS (on_files E (\<lambda>F. modifyS (f_save F path bs))) (retS path)))"

definition vdso_name :: string where
  "vdso_name = ''linux-vdso.so.1''"

definition add_object :: "'k env \<Rightarrow> string \<Rightarrow> virt_addr \<Rightarrow> ('k, unit) target_op" where
  "add_object E path bias =
    bindS get_target (\<lambda>t.
    bindS (on_files E (\<lambda>F. elf_new F (env_demangle E) (length (t_objects t)) path)) (\<lambda>f.
      modify_target (\<lambda>t. t\<lparr>t_objects := t_objects t @ [object_loaded bias f]\<rparr>)))"

definition load_library :: "'k env \<Rightarrow> string \<Rightarrow> virt_addr \<Rightarrow> ('k, unit) target_op" where
  "load_library E nm bias =
    bindS get_target (\<lambda>t.
      let found = (if nm = vdso_name then get_elf_by_filename (elves t) nm else get_elf_by_path (elves t) nm)
      in case found of
           Some _ \<Rightarrow> retS ()
         | None \<Rightarrow>
             if nm = vdso_name then
               bindS (dump_vdso E bias) (\<lambda>path. add_object E path bias)
             else add_object E nm bias)"

definition resolve_all :: "nat \<Rightarrow> 'k env \<Rightarrow> ('k, unit) target_op" where
  "resolve_all n E =
    bindS get_target (\<lambda>t. forS (\<lambda>b. on_breakpoint (b_key b) (resolve n E)) (t_breakpoints t))"

text \<open>The list of loaded objects, whose length only the inferior bounds.\<close>

fun follow_link_map :: "nat \<Rightarrow> nat \<Rightarrow> 'k env \<Rightarrow> u64 \<Rightarrow> ('k, unit) target_op" where
  "follow_link_map m n E entry_ptr =
    (if entry_ptr = 0 then retS ()
     else case m of
       0 \<Rightarrow> throwS (No_return ''fuel'')
     | Suc k \<Rightarrow>
         bindS (process_memory (env_kernel E) entry_ptr 40) (\<lambda>bs.
         let entry = decode_link_map bs
         in bindS (process_memory (env_kernel E) (l_name entry) 4096) (\<lambda>name_bytes.
            bindS (liftS (c_string name_bytes 0)) (\<lambda>nm.
              if nm = [] then follow_link_map k n E (l_next entry)
              else thenS (load_library E nm (l_addr entry))
                   (thenS (resolve_all n E) (follow_link_map k n E (l_next entry)))))))"

declare follow_link_map.simps [simp del]

definition reload_dynamic_libraries :: "nat \<Rightarrow> 'k env \<Rightarrow> ('k, unit) target_op" where
  "reload_dynamic_libraries n E =
    bindS (read_dynamic_linker_rendezvous E) (\<lambda>debug.
      case debug of None \<Rightarrow> retS () | Some d \<Rightarrow> follow_link_map n n E (r_map d))"

definition DT_DEBUG :: u64 where "DT_DEBUG = 21"

text \<open>The entries of the dynamic section, 16 bytes each: a tag and a value.\<close>

definition dynamic_entries :: "byte list \<Rightarrow> (u64 \<times> u64) list result" where
  "dynamic_entries bs =
    (if length bs mod 16 \<noteq> 0 then Inl (Undefined ''copy past the entries'')
     else Inr (map (\<lambda>i. (field bs (16 * i), field bs (16 * i + 8))) [0..<length bs div 16]))"

definition set_rendezvous :: "nat \<Rightarrow> 'k env \<Rightarrow> virt_addr \<Rightarrow> ('k, unit) target_op" where
  "set_rendezvous n E a =
    thenS (modify_target (\<lambda>t. t\<lparr>t_rendezvous := a\<rparr>))
    (thenS (reload_dynamic_libraries n E)
    (bindS (read_dynamic_linker_rendezvous E) (\<lambda>debug_info.
       case debug_info of
         None \<Rightarrow> throwS (Send ''Empty debug info!'')
       | Some d \<Rightarrow>
           bindS (create_address_breakpoint n E (r_brk d) False True) (\<lambda>key.
           thenS (on_breakpoint key (install_hit_handler on_dynamic_linker))
             (on_breakpoint key (breakpoint_enable E))))))"

definition resolve_dynamic_linker_rendezvous :: "nat \<Rightarrow> 'k env \<Rightarrow> ('k, unit) target_op" where
  "resolve_dynamic_linker_rendezvous n E =
    bindS get_target (\<lambda>t.
      if t_rendezvous t \<noteq> 0 then retS ()
      else
        bindS (liftS (find_object t (t_main_elf t))) (\<lambda>f.
          case get_section (of_elf f) ''.dynamic'' of
            None \<Rightarrow> retS ()
          | Some sec \<Rightarrow>
              bindS (liftS (target_virt_addr t (mk_file_addr (t_main_elf t) (sh_addr sec)))) (\<lambda>start.
              bindS (process_memory (env_kernel E) start (unat (sh_size sec))) (\<lambda>bs.
              bindS (liftS (dynamic_entries bs))
                (forS (\<lambda>(tag, ptr). if tag = DT_DEBUG then set_rendezvous n E ptr else retS ()))))))"

text \<open>What happens when a breakpoint is hit; true asks the process to go on.\<close>

definition notify_hit :: "nat \<Rightarrow> 'k env \<Rightarrow> nat \<Rightarrow> ('k, bool) target_op" where
  "notify_hit n E key =
    bindS get_target (\<lambda>t.
      case List.find (\<lambda>b. b_key b = key) (t_breakpoints t) of
        None \<Rightarrow> throwS (Undefined ''dangling breakpoint'')
      | Some b \<Rightarrow>
          (case b_on_hit b of
             None \<Rightarrow> retS False
           | Some on_entry \<Rightarrow> thenS (resolve_dynamic_linker_rendezvous n E) (retS True)
           | Some on_dynamic_linker \<Rightarrow> thenS (reload_dynamic_libraries n E) (retS True)
           | Some on_call_return \<Rightarrow> retS False))"

end
