(* ===== verification/Target.thy ===== *)
theory Target
  imports Breakpoints
begin

text \<open>
  \<open>src/target.cpp\<close>: launching and attaching with the symbolic level on top, the notifications of the
  process, and stepping by source lines. The notifications close the loop of the process:
  they are the hooks its waiting takes. Stepping repeats until the line changes, so it takes fuel;
  the disassembler behind \<open>disassemble\<close> is a parameter.
\<close>

section \<open>Notifications\<close>

definition notify_stop :: "nat \<Rightarrow> 'k env \<Rightarrow> stop_reason \<Rightarrow> ('k, unit) target_op" where
  "notify_stop n E reason =
    catchS (bindS (get_stack (sr_tid reason)) (\<lambda>_. stack_unwind n E (sr_tid reason)))
      (\<lambda>e. if is_exception e then retS () else throwS e)"

definition notify_thread_lifecycle_event :: "stop_reason \<Rightarrow> ('k, unit) target_op" where
  "notify_thread_lifecycle_event reason =
    (let tid = sr_tid reason
     in if sr_reason reason = stopped then
          thenS (modifyS (\<lambda>p. p\<lparr>p_threads := emplace tid (new_thread 0) (p_threads p)\<rparr>))
            (modify_target (\<lambda>t. t\<lparr>t_threads := emplace tid (new_stack tid) (t_threads t)\<rparr>))
        else modify_target (\<lambda>t. t\<lparr>t_threads := filter (\<lambda>(i, _). i \<noteq> tid) (t_threads t)\<rparr>))"

definition target_hooks :: "nat \<Rightarrow> 'k env \<Rightarrow> ('k, target) hooks" where
  "target_hooks n E =
    \<lparr>h_lifecycle_callback = env_lifecycle_callback E, h_notify_hit = notify_hit n E,
     h_notify_stop = notify_stop n E, h_notify_thread_lifecycle_event = notify_thread_lifecycle_event\<rparr>"

definition target_wait :: "nat \<Rightarrow> 'k env \<Rightarrow> pid \<Rightarrow> ('k, stop_reason) target_op" where
  "target_wait n E tid = wait_on_signal n (target_hooks n E) (env_kernel E) (env_float E) tid"

definition target_step_instruction :: "nat \<Rightarrow> 'k env \<Rightarrow> pid \<Rightarrow> ('k, stop_reason) target_op" where
  "target_step_instruction n E tid =
    step_instruction n (target_hooks n E) (env_kernel E) (env_float E) (Some tid)"

section \<open>Launching and attaching\<close>

definition AT_ENTRY :: int where "AT_ENTRY = 9"

text \<open>\<open>auxv[AT_ENTRY]\<close>: a missing key is inserted with the value 0.\<close>

definition entry_point :: "'k env \<Rightarrow> ('k, virt_addr) target_op" where
  "entry_point E =
    bindS (get_auxv (env_system E)) (\<lambda>auxv. retS (case map_of auxv AT_ENTRY of None \<Rightarrow> 0 | Some a \<Rightarrow> a))"

definition create_loaded_elf :: "'k env \<Rightarrow> string \<Rightarrow> ('k, object_file) target_op" where
  "create_loaded_elf E path =
    bindS (entry_point E) (\<lambda>entry.
    bindS (on_files E (\<lambda>F. elf_new F (env_demangle E) 0 path)) (\<lambda>f.
      retS (object_loaded (entry - e_entry (elf_header (of_elf f))) f)))"

definition new_target :: "object_file \<Rightarrow> ('k, target) process \<Rightarrow> target" where
  "new_target f p =
    \<lparr>t_breakpoints = [], t_rendezvous = 0, t_objects = [f], t_main_elf = elf_no (of_elf f),
     t_threads = map (\<lambda>tid. (tid, new_stack tid)) (thread_ids p), t_results = [], t_next_key = 0, t_breakpoint_id = 0\<rparr>"

text \<open>\<open>process::launch\<close> and \<open>process::attach\<close> ran before; no hook runs while the process has no target.\<close>

definition set_target :: "object_file \<Rightarrow> ('k, unit) target_op" where
  "set_target f = modifyS (\<lambda>p. p\<lparr>p_target := Some (new_target f p)\<rparr>)"

definition target_launch :: "nat \<Rightarrow> 'k env \<Rightarrow> string \<Rightarrow> ('k, unit) target_op" where
  "target_launch n E path =
    bindS (create_loaded_elf E path) (\<lambda>f.
    thenS (set_target f)
    (bindS (entry_point E) (\<lambda>entry.
     bindS (create_address_breakpoint n E entry False True) (\<lambda>key.
     thenS (on_breakpoint key (install_hit_handler on_entry)) (on_breakpoint key (breakpoint_enable E))))))"

definition target_attach :: "nat \<Rightarrow> 'k env \<Rightarrow> ('k, unit) target_op" where
  "target_attach n E =
    bindS (getS p_pid) (\<lambda>pid.
    bindS (create_loaded_elf E (''/proc/'' @ format_int pid @ ''/exe'')) (\<lambda>f.
    thenS (set_target f) (resolve_dynamic_linker_rendezvous n E)))"

section \<open>Positions in the source\<close>

text \<open>
  The iterator for the program counter, with the unit it belongs to; iterators are compared by
  their positions, pointers into the object the unit is in.
\<close>

definition line_entry_at_pc :: "pid \<Rightarrow> ('k, (compile_unit \<times> line_iter) option) target_op" where
  "line_entry_at_pc tid =
    bindS (get_pc_file_address (Some tid)) (\<lambda>pc.
      if fa_elf pc = None then retS None
      else bindS get_target (\<lambda>t.
        liftS (bindE (dwarf_at t pc) (\<lambda>dw.
               bindE (compile_unit_containing_address dw pc) (\<lambda>found.
                 case found of
                   None \<Rightarrow> Inr None
                 | Some cu \<Rightarrow>
                     bindE (unit_lines cu) (\<lambda>lt.
                     bindE (get_entry_by_address cu lt pc) (\<lambda>it. Inr (map_option (Pair cu) it))))))))"

definition iterator_pos :: "(compile_unit \<times> line_iter) option \<Rightarrow> (elf_id \<times> int) option" where
  "iterator_pos it =
    (case it of None \<Rightarrow> None | Some (cu, i) \<Rightarrow> map_option (Pair (elf_no (cu_elf cu))) (li_pos i))"

definition at_end_sequence :: "(compile_unit \<times> line_iter) option \<Rightarrow> bool" where
  "at_end_sequence it = (case it of None \<Rightarrow> False | Some (_, i) \<Rightarrow> le_end_sequence (li_current i))"

text \<open>The condition the two stepping loops repeat on.\<close>

definition same_line :: "(compile_unit \<times> line_iter) option \<Rightarrow> (compile_unit \<times> line_iter) option \<Rightarrow> bool" where
  "same_line orig it \<longleftrightarrow>
    (iterator_pos it = iterator_pos orig \<or> at_end_sequence it) \<and> iterator_pos it \<noteq> None"

definition function_name_at_address :: "nat \<Rightarrow> target \<Rightarrow> virt_addr \<Rightarrow> string result" where
  "function_name_at_address n t address =
    (let a = to_file_addr_in (elves t) address
     in case fa_elf a of
          None \<Rightarrow> Inr []
        | Some i \<Rightarrow>
            bindE (find_object t i) (\<lambda>f.
            bindE (function_containing_address n (of_dwarf f) a) (\<lambda>func.
            bindE (case func of None \<Rightarrow> Inr None | Some d \<Rightarrow> die_name n (dw_units (of_dwarf f)) d) (\<lambda>nm.
            bindE (case nm of
                     Some s \<Rightarrow> Inr s
                   | None \<Rightarrow>
                       (case get_symbol_containing_file_addr (of_elf f) a of
                          None \<Rightarrow> Inr []
                        | Some fsym \<Rightarrow>
                            if st_type fsym = 2 then get_string (of_elf f) (unat (st_name fsym)) else Inr []))
              (\<lambda>func_name.
                 Inr (if func_name \<noteq> [] then path_filename (elf_path (of_elf f)) @ ''`'' @ func_name else []))))))"

section \<open>Running to an address\<close>

text \<open>\<open>thread.state->reason = reason\<close>, through the reference kept since the start of the call.\<close>

definition set_stop_reason :: "gsdb_error \<Rightarrow> pid \<Rightarrow> stop_reason \<Rightarrow> ('k, unit) target_op" where
  "set_stop_reason missing tid reason =
    bindS get_target (\<lambda>t.
      case map_of (t_threads t) tid of
        None \<Rightarrow> throwS missing
      | Some _ \<Rightarrow> modifyS (update_thread tid (\<lambda>s. s\<lparr>ts_reason := reason\<rparr>)))"

definition dangling_thread :: gsdb_error where
  "dangling_thread = Undefined ''reference to an erased thread''"

definition step_reason :: "pid \<Rightarrow> stop_reason" where
  "step_reason tid =
    \<lparr>sr_reason = stopped, sr_info = SIGTRAP, sr_trap = Some single_step, sr_syscall = None, sr_tid = tid\<rparr>"

definition run_until_address :: "nat \<Rightarrow> 'k env \<Rightarrow> virt_addr \<Rightarrow> pid \<Rightarrow> ('k, stop_reason) target_op" where
  "run_until_address n E address tid =
    bindS (getS (\<lambda>p. sc_contains_address site_at address (p_sites p))) (\<lambda>present.
    thenS (if present then retS ()
           else bindS (create_breakpoint_site address False True) (\<lambda>_. site_enable (env_kernel E) (env_float E) address))
    (thenS (resume (env_kernel E) (env_float E) (Some tid))
    (bindS (target_wait n E tid) (\<lambda>reason.
     bindS (if is_breakpoint reason then
              bindS (get_pc (Some tid)) (\<lambda>pc.
                retS (if pc = address then reason\<lparr>sr_trap := Some single_step\<rparr> else reason))
            else retS reason) (\<lambda>reason'.
     thenS (if present then retS () else remove_site (env_kernel E) (env_float E) address)
     (thenS (set_stop_reason no_thread tid reason')
       (retS reason')))))))"

section \<open>Stepping in\<close>

fun step_in_loop ::
  "nat \<Rightarrow> nat \<Rightarrow> 'k env \<Rightarrow> pid \<Rightarrow> (compile_unit \<times> line_iter) option \<Rightarrow> ('k, stop_reason option) target_op" where
  "step_in_loop 0 n E tid orig_line = throwS (No_return ''fuel'')"
| "step_in_loop (Suc m) n E tid orig_line =
    bindS (target_step_instruction n E tid) (\<lambda>reason.
      if \<not> is_step reason then retS (Some reason)
      else bindS (line_entry_at_pc tid) (\<lambda>it.
        if same_line orig_line it then step_in_loop m n E tid orig_line else retS None))"

text \<open>The address behind the prologue, where the new line begins a function.\<close>

definition prologue_end :: "nat \<Rightarrow> pid \<Rightarrow> ('k, virt_addr option) target_op" where
  "prologue_end n tid =
    bindS (get_pc_file_address (Some tid)) (\<lambda>pc.
      if fa_elf pc = None then retS None
      else bindS get_target (\<lambda>t.
        bindS (liftS (bindE (dwarf_at t pc) (\<lambda>dw. function_containing_address n dw pc))) (\<lambda>func.
          case func of
            None \<Rightarrow> retS None
          | Some d \<Rightarrow>
              bindS (liftS (die_low_pc d)) (\<lambda>low.
                if \<not> file_addr_eq low pc then retS None
                else bindS (line_entry_at_pc tid) (\<lambda>line.
                  if iterator_pos line = None then retS None
                  else case line of
                    None \<Rightarrow> retS None
                  | Some (cu, it) \<Rightarrow>
                      bindS (liftS (line_next cu it)) (\<lambda>it'.
                      bindS (liftS (target_virt_addr t (le_address (li_current it')))) (\<lambda>a. retS (Some a))))))))"

definition step_in :: "nat \<Rightarrow> 'k env \<Rightarrow> pid option \<Rightarrow> ('k, stop_reason) target_op" where
  "step_in n E otid =
    bindS (getS (\<lambda>p. value_or otid (p_current p))) (\<lambda>tid.
    bindS (get_stack tid) (\<lambda>s.
      if sk_inline_height s > 0 then
        thenS (modify_target (put_stack (simulate_inlined_step_in s)))
        (thenS (set_stop_reason dangling_thread tid (step_reason tid)) (retS (step_reason tid)))
      else
        bindS (line_entry_at_pc tid) (\<lambda>orig_line.
        bindS (step_in_loop n n E tid orig_line) (\<lambda>other.
          case other of
            Some reason \<Rightarrow> thenS (set_stop_reason dangling_thread tid reason) (retS reason)
          | None \<Rightarrow>
              bindS (prologue_end n tid) (\<lambda>behind.
                case behind of
                  Some a \<Rightarrow> run_until_address n E a tid
                | None \<Rightarrow>
                    thenS (set_stop_reason dangling_thread tid (step_reason tid)) (retS (step_reason tid)))))))"

section \<open>Stepping over\<close>

record instruction =
  in_address :: virt_addr
  in_text :: string

text \<open>\<open>disassembler::disassemble\<close>: the decoder runs once more than the instructions asked for.\<close>

fun decode_instructions :: "'k env \<Rightarrow> nat \<Rightarrow> virt_addr \<Rightarrow> byte list \<Rightarrow> instruction list" where
  "decode_instructions E 0 address code = []"
| "decode_instructions E (Suc n) address code =
    (case env_decode E address code of
       None \<Rightarrow> []
     | Some (len, txt) \<Rightarrow>
         \<lparr>in_address = address, in_text = txt\<rparr> #
           decode_instructions E n (address + word_of_nat len) (drop len code))"

definition disassemble :: "'k env \<Rightarrow> nat \<Rightarrow> virt_addr option \<Rightarrow> ('k, instruction list) target_op" where
  "disassemble E n address =
    bindS (case address of None \<Rightarrow> get_pc None | Some a \<Rightarrow> retS a) (\<lambda>a.
    bindS (read_memory_without_traps (env_kernel E) a (n * 15 mod 2 ^ 64)) (\<lambda>code.
      retS (decode_instructions E n a code)))"

definition starts_with :: "string \<Rightarrow> string \<Rightarrow> bool" where
  "starts_with prefix s \<longleftrightarrow> take (length prefix) s = prefix"

text \<open>
  One round of the loop: over the code of an inlined function, over a called function, or over one
  instruction. The second component is true where the loop ends with this reason.
\<close>

definition run_over :: "nat \<Rightarrow> 'k env \<Rightarrow> pid \<Rightarrow> virt_addr \<Rightarrow> ('k, stop_reason \<times> bool) target_op" where
  "run_over n E tid return_address =
    bindS (run_until_address n E return_address tid) (\<lambda>reason.
      if \<not> is_step reason then retS (reason, True)
      else bindS (get_pc (Some tid)) (\<lambda>pc. retS (reason, pc \<noteq> return_address)))"

definition step_over_round :: "nat \<Rightarrow> 'k env \<Rightarrow> pid \<Rightarrow> ('k, stop_reason \<times> bool) target_op" where
  "step_over_round n E tid =
    bindS get_target (\<lambda>t.
    bindS (inline_stack_at_pc n tid) (\<lambda>inline_stack.
    bindS (liftS (the_opt dangling_thread (map_of (t_threads t) tid))) (\<lambda>s.
      if sk_inline_height s > 0 then
        (let i = length inline_stack - unat (sk_inline_height s)
         in if unat (sk_inline_height s) > length inline_stack then throwS no_frame
            else bindS (liftS (bindE (die_high_pc (inline_stack ! i)) (target_virt_addr t))) (run_over n E tid))
      else
        bindS (get_pc (Some tid)) (\<lambda>pc.
        bindS (disassemble E 2 (Some pc)) (\<lambda>instructions.
          case instructions of
            [] \<Rightarrow> throwS (Undefined ''no instruction decoded'')
          | i # is \<Rightarrow>
              if starts_with ''call'' (in_text i) then
                (case is of
                   [] \<Rightarrow> throwS (Undefined ''no instruction decoded'')
                 | following # _ \<Rightarrow> run_over n E tid (in_address following))
              else bindS (target_step_instruction n E tid) (\<lambda>reason. retS (reason, \<not> is_step reason)))))))"

fun step_over_loop ::
  "nat \<Rightarrow> nat \<Rightarrow> 'k env \<Rightarrow> pid \<Rightarrow> (compile_unit \<times> line_iter) option \<Rightarrow> ('k, stop_reason) target_op" where
  "step_over_loop 0 n E tid orig_line = throwS (No_return ''fuel'')"
| "step_over_loop (Suc m) n E tid orig_line =
    bindS (step_over_round n E tid) (\<lambda>(reason, ended).
      if ended then retS reason
      else bindS (line_entry_at_pc tid) (\<lambda>it.
        if same_line orig_line it then step_over_loop m n E tid orig_line else retS reason))"

definition step_over :: "nat \<Rightarrow> 'k env \<Rightarrow> pid option \<Rightarrow> ('k, stop_reason) target_op" where
  "step_over n E otid =
    bindS (getS (\<lambda>p. value_or otid (p_current p))) (\<lambda>tid.
    bindS (get_stack tid) (\<lambda>_.
    bindS (line_entry_at_pc tid) (\<lambda>orig_line.
    bindS (step_over_loop n n E tid orig_line) (\<lambda>reason.
      thenS (set_stop_reason dangling_thread tid reason) (retS reason)))))"

section \<open>Stepping out\<close>

definition frame_count :: "pid \<Rightarrow> ('k, nat) target_op" where
  "frame_count tid =
    bindS get_target (\<lambda>t.
    bindS (liftS (the_opt dangling_thread (map_of (t_threads t) tid))) (\<lambda>s.
    bindS (liftS (visible_frames s)) (\<lambda>fs. retS (length fs))))"

fun step_out_loop :: "nat \<Rightarrow> nat \<Rightarrow> 'k env \<Rightarrow> pid \<Rightarrow> virt_addr \<Rightarrow> nat \<Rightarrow> stop_reason \<Rightarrow> ('k, stop_reason) target_op" where
  "step_out_loop m n E tid return_address frames reason =
    bindS (frame_count tid) (\<lambda>now.
      if now \<ge> frames then
        (case m of
           0 \<Rightarrow> throwS (No_return ''fuel'')
         | Suc k \<Rightarrow>
             bindS (run_until_address n E return_address tid) (\<lambda>reason'.
               if \<not> is_breakpoint reason' then retS reason'
               else bindS (get_pc None) (\<lambda>pc.
                 if pc \<noteq> return_address then retS reason'
                 else step_out_loop k n E tid return_address frames reason')))
      else retS reason)"

declare step_out_loop.simps [simp del]

definition step_out :: "nat \<Rightarrow> 'k env \<Rightarrow> pid option \<Rightarrow> ('k, stop_reason) target_op" where
  "step_out n E otid =
    bindS (getS (\<lambda>p. value_or otid (p_current p))) (\<lambda>tid.
    bindS (get_stack tid) (\<lambda>s.
    bindS (inline_stack_at_pc n tid) (\<lambda>inline_stack.
    bindS get_target (\<lambda>t.
      if length inline_stack > 1 \<and> unat (sk_inline_height s) < length inline_stack - 1 then
        bindS (liftS (bindE (die_high_pc (inline_stack ! (length inline_stack - unat (sk_inline_height s) - 1)))
                       (target_virt_addr t))) (\<lambda>return_address. run_until_address n E return_address tid)
      else
        bindS (liftS (bindE (visible_frames s) (frame_at (current_frame_index s + 1)))) (\<lambda>caller.
        bindS (liftS (read_by_id_as_u64 (sf_regs caller) id_rip)) (\<lambda>return_address.
        bindS (frame_count tid) (\<lambda>frames.
          step_out_loop n n E tid return_address frames empty_stop_reason)))))))"

end
