(* ===== verification/Variables.thy ===== *)
theory Variables
  imports Target
begin

text \<open>
  The part of \<open>src/target.cpp\<close> that reads variables: the bytes at a DWARF location, in one place or in
  pieces, the search for a variable, the numbered results of earlier calls, and names with
  member and element accesses.
\<close>

definition all_units :: "target \<Rightarrow> compile_unit list" where
  "all_units t = concat (map (\<lambda>f. dw_units (of_dwarf f)) (t_objects t))"

section \<open>Location data\<close>

fun reg_value_bytes :: "reg_value \<Rightarrow> byte list" where
  "reg_value_bytes (V_u8 w) = as_bytes w" | "reg_value_bytes (V_i8 w) = as_bytes w"
| "reg_value_bytes (V_u16 w) = as_bytes w" | "reg_value_bytes (V_i16 w) = as_bytes w"
| "reg_value_bytes (V_u32 w) = as_bytes w" | "reg_value_bytes (V_i32 w) = as_bytes w"
| "reg_value_bytes (V_u64 w) = as_bytes w" | "reg_value_bytes (V_i64 w) = as_bytes w"
| "reg_value_bytes (V_float w) = as_bytes w" | "reg_value_bytes (V_double w) = as_bytes w"
| "reg_value_bytes (V_long_double w) = as_bytes w"
| "reg_value_bytes (V_byte64 w) = as_bytes w" | "reg_value_bytes (V_byte128 w) = as_bytes w"

text \<open>
  The bytes of one location. The registers are those of the selected frame, \<open>img\<close> is the image that the
  data of the expression point into.
\<close>

definition read_simple_location ::
  "memory_reader \<Rightarrow> registers result \<Rightarrow> byte list \<Rightarrow> simple_location \<Rightarrow> u64 \<Rightarrow> byte list result" where
  "read_simple_location rm regs img loc sz =
    (case loc of
       register_result reg \<Rightarrow>
         bindE (register_info_by_dwarf (dwarf_number reg)) (\<lambda>info.
         bindE regs (\<lambda>r.
         bindE (registers_read r info) (\<lambda>v. Inr (reg_value_bytes v))))
     | address_result a \<Rightarrow> rm a (unat sz)
     | data_result pos len \<Rightarrow> slice img (nat pos) (unat len)
     | literal_result v \<Rightarrow>
         Inr (take (unat sz) (as_bytes v) @ replicate (unat sz - 8) 0)
     | empty_result \<Rightarrow> Inl (Send ''Invalid location type!''))"

text \<open>One piece: whole bytes are copied, anything else bit by bit.\<close>

definition place_piece :: "piece \<Rightarrow> byte list \<Rightarrow> u64 \<Rightarrow> byte list \<Rightarrow> byte list result" where
  "place_piece pc piece_data off bs =
    (if unat ((off + pc_bit_size pc + 7) div 8) > length bs then
       Inl (Send ''Location pieces exceed the variable's size!'')
     else if off mod 8 = 0 \<and> pc_offset pc = 0 \<and> pc_bit_size pc mod 8 = 0 then
       (let k = min (unat (pc_bit_size pc div 8)) (length piece_data); start = unat (off div 8)
        in if start + k \<le> length bs then Inr (splice start (take k piece_data) bs)
           else Inl (Undefined ''copy outside the data''))
     else memcpy_bits bs (ucast off) piece_data (ucast (pc_offset pc)) (ucast (pc_bit_size pc)))"

fun read_pieces ::
  "(simple_location \<Rightarrow> u64 \<Rightarrow> byte list result) \<Rightarrow> piece list \<Rightarrow> u64 \<Rightarrow> byte list \<Rightarrow> byte list result" where
  "read_pieces rd [] off bs = Inr bs"
| "read_pieces rd (pc # pcs) off bs =
    bindE (rd (pc_location pc) ((pc_offset pc + pc_bit_size pc + 7) div 8)) (\<lambda>piece_data.
    bindE (place_piece pc piece_data off bs) (\<lambda>bs'.
      read_pieces rd pcs (off + pc_bit_size pc) bs'))"

definition read_location_data ::
  "memory_reader \<Rightarrow> registers result \<Rightarrow> byte list \<Rightarrow> dwarf_result \<Rightarrow> u64 \<Rightarrow> byte list result" where
  "read_location_data rm regs img loc sz =
    (case loc of
       Simple l \<Rightarrow> read_simple_location rm regs img l sz
     | Pieces pcs \<Rightarrow> read_pieces (read_simple_location rm regs img) pcs 0 (replicate (unat sz) 0))"

section \<open>Variables\<close>

text \<open>A local variable in scope, else the global one of the last object that has one.\<close>

definition find_variable :: "nat \<Rightarrow> target \<Rightarrow> string \<Rightarrow> file_addr \<Rightarrow> die option result" where
  "find_variable n t nm pc =
    bindE (dwarf_at t pc) (\<lambda>dw.
    bindE (find_local_variable n dw nm pc) (\<lambda>found.
      case found of
        Some d \<Rightarrow> Inr (Some d)
      | None \<Rightarrow>
          foldE (\<lambda>f global. bindE (find_global_variable n (of_dwarf f) nm) (\<lambda>v.
                   Inr (case v of Some d \<Rightarrow> Some d | None \<Rightarrow> global))) (t_objects t) None))"

text \<open>A numbered result is read again, since the inferior may have changed it.\<close>

definition get_expression_result :: "nat \<Rightarrow> 'k env \<Rightarrow> u64 \<Rightarrow> ('k, typed_data) target_op" where
  "get_expression_result n E i =
    bindS get_target (\<lambda>t.
      if unat i \<ge> length (t_results t) then throwS (Send ''index out of bounds!'')
      else let res = t_results t ! unat i
           in case td_address res of
                None \<Rightarrow> throwS (Send ''Empty expression result!'')
              | Some a \<Rightarrow>
                  bindS (liftS (byte_size n (all_units t) (td_type res))) (\<lambda>sz.
                  bindS (process_memory (env_kernel E) a (unat sz)) (\<lambda>bs.
                    let res' = \<lparr>td_data = bs, td_type = td_type res, td_address = Some a\<rparr>
                    in thenS (modify_target (\<lambda>t. t\<lparr>t_results := (t_results t)[unat i := res']\<rparr>)) (retS res'))))"

text \<open>The address of a variable that is in memory in one place.\<close>

definition location_address :: "dwarf_result \<Rightarrow> virt_addr option" where
  "location_address loc = (case loc of Simple (address_result a) \<Rightarrow> Some a | _ \<Rightarrow> None)"

definition selected_registers :: "pid \<Rightarrow> target \<Rightarrow> registers result" where
  "selected_registers tid t = bindE (map_at (t_threads t) tid) stack_regs"

definition read_variable :: "nat \<Rightarrow> 'k env \<Rightarrow> die \<Rightarrow> ('k, typed_data) target_op" where
  "read_variable n E var =
    bindS get_target (\<lambda>t.
    bindS (getS (\<lambda>p. (p_current p, target_reader (env_kernel E) p))) (\<lambda>(tid, rm).
      liftS (
        bindE (die_type (all_units t) var) (\<lambda>var_type.
        bindE (dwarf_of_die t var) (\<lambda>dw.
        bindE (die_attr var DW_AT_location) (\<lambda>a.
        bindE (selected_registers tid t) (\<lambda>regs.
        bindE (as_evaluated_location n dw rm regs a False) (\<lambda>loc.
        bindE (byte_size n (all_units t) var_type) (\<lambda>sz.
        bindE (read_location_data rm (selected_registers tid t) (elf_map (dw_elf dw)) loc sz) (\<lambda>bs.
          Inr \<lparr>td_data = bs, td_type = var_type, td_address = location_address loc\<rparr>))))))))))"

definition get_initial_variable_data :: "nat \<Rightarrow> 'k env \<Rightarrow> string \<Rightarrow> file_addr \<Rightarrow> ('k, typed_data) target_op" where
  "get_initial_variable_data n E nm pc =
    (if nm \<noteq> [] \<and> hd nm = CHR ''$'' then
       (case to_integral_unsigned 10 (tl nm) of
          None \<Rightarrow> throwS (Send ''Invalid expression result index'')
        | Some i \<Rightarrow> get_expression_result n E i)
     else
       bindS get_target (\<lambda>t.
       bindS (liftS (find_variable n t nm pc)) (\<lambda>var.
         case var of
           None \<Rightarrow> throwS (Send ''Variable not found!'')
         | Some d \<Rightarrow> read_variable n E d)))"

section \<open>Names with accesses\<close>

text \<open>\<open>std::string::find_first_of\<close>; no position is the length of the text.\<close>

definition find_first_of :: "char list \<Rightarrow> string \<Rightarrow> nat" where
  "find_first_of cs s = length (takeWhile (\<lambda>c. c \<notin> set cs) s)"

text \<open>The functions of a class that are members of each object and have the name.\<close>

definition member_functions :: "nat \<Rightarrow> compile_unit list \<Rightarrow> string \<Rightarrow> die \<Rightarrow> die list result" where
  "member_functions n units member_name d =
    for_children n units
      (\<lambda>child funcs.
         bindE (die_tag child) (\<lambda>tag.
           if tag \<noteq> DW_TAG_subprogram then Inr (funcs, False)
           else
             bindE (die_contains child DW_AT_object_pointer) (\<lambda>has.
               if \<not> has then Inr (funcs, False)
               else bindE (die_name n units child) (\<lambda>nm.
                 Inr (if nm = Some member_name then funcs @ [child] else funcs, False))))) d []"

text \<open>
  The loop over the accesses: \<open>nm\<close> is the text from the operator on. A member ends at the next
  operator; the result is the data read, or the functions of a member that is called.
\<close>

function access_members ::
    "nat \<Rightarrow> compile_unit list \<Rightarrow> memory_reader \<Rightarrow> string \<Rightarrow> typed_data \<Rightarrow> (typed_data \<times> die list) result"
  and access_member ::
    "nat \<Rightarrow> compile_unit list \<Rightarrow> memory_reader \<Rightarrow> string \<Rightarrow> typed_data \<Rightarrow> (typed_data \<times> die list) result" where
  "access_members n units rm nm data =
    (case nm of
       [] \<Rightarrow> Inr (data, [])
     | op # rest \<Rightarrow>
         if op = CHR ''-'' then
           (case rest of
              [] \<Rightarrow> Inl (Send ''Invalid operator!'')
            | c # rest' \<Rightarrow>
                if c \<noteq> CHR ''>'' then Inl (Send ''Invalid operator!'')
                else bindE (deref_pointer n units rm data) (\<lambda>data'. access_member n units rm rest' data'))
         else if op = CHR ''.'' then access_member n units rm rest data
         else if op = CHR ''['' then
           (let int_end = find_first_of '']'' rest
            in if int_end \<ge> length rest then Inl (Send ''Invalid []!'')
               else case to_integral_unsigned 10 (take int_end rest) of
                 None \<Rightarrow> Inl (Send ''Invalid index!'')
               | Some ix \<Rightarrow>
                   bindE (typed_index n units rm ix data) (\<lambda>data'.
                     let after = drop (Suc int_end) rest
                     in access_members n units rm (drop (find_first_of ''.-[('' after) after) data'))
         else Inl (Send (''Unexpected '' @ [char_of (39 :: nat), op, char_of (39 :: nat)] @ '' in variable name!'')))"
| "access_member n units rm rest data =
    (let k = find_first_of ''.-[(,'' rest; member_name = take k rest
     in if k < length rest \<and> rest ! k = CHR ''('' then
          bindE (strip_cvref_typedef n units (td_type data)) (\<lambda>stripped.
          bindE (get_die stripped) (\<lambda>d.
          bindE (member_functions n units member_name d) (\<lambda>funcs.
            if funcs = [] then Inl (Send ''No such member function!'') else Inr (data, funcs))))
        else
          bindE (read_member n units member_name data) (\<lambda>data'.
            access_members n units rm (drop (find_first_of ''.-[('' rest) rest) data'))"
  by pat_completeness auto
termination
  by (relation "measure (\<lambda>x. case x of Inl (_, _, _, nm, _) \<Rightarrow> 2 * length nm | Inr (_, _, _, rest, _) \<Rightarrow> 2 * length rest + 1)") auto

declare access_members.simps [simp del]
declare access_member.simps [simp del]

definition resolve_indirect_name ::
  "nat \<Rightarrow> 'k env \<Rightarrow> string \<Rightarrow> file_addr \<Rightarrow> ('k, typed_data option \<times> die list) target_op" where
  "resolve_indirect_name n E nm pc =
    (let op_pos = find_first_of ''.-[('' nm
     in bindS get_target (\<lambda>t.
        if op_pos < length nm \<and> nm ! op_pos = CHR ''('' then
          bindS (liftS (target_find_functions n t (take op_pos nm))) (\<lambda>(dies, _). retS (None, dies))
        else
          bindS (liftS (dwarf_at t pc)) (\<lambda>_.
          bindS (get_initial_variable_data n E (take op_pos nm) pc) (\<lambda>data.
          bindS (getS (target_reader (env_kernel E))) (\<lambda>rm.
          bindS (liftS (access_members n (all_units t) rm (drop op_pos nm) data)) (\<lambda>(data', funcs).
            retS (Some data', funcs)))))))"

end
