(* ===== verification/Inferior_Calls.thy ===== *)
theory Inferior_Calls
  imports Variables
begin

text \<open>
  Calls of functions of the inferior (\<open>src/target.cpp\<close>): parsing the arguments of a call, choosing the
  overload, passing the arguments by the System V calling convention, running the call with a
  breakpoint at the entry point as its return address, and reading the value it returns.
\<close>

section \<open>Memory of the inferior\<close>

definition id_st0 :: register_id where "id_st0 = 85"

text \<open>The breakpoint at the entry point stops a call that returns there.\<close>

definition catch_return :: "virt_addr \<Rightarrow> ('k, unit) target_op" where
  "catch_return entry =
    bindS get_target (\<lambda>t.
    bindS (liftS (sc_get_by_address bp_at entry (t_breakpoints t))) (\<lambda>b.
      on_breakpoint (b_key b) (install_hit_handler on_call_return)))"

definition target_inferior_call ::
  "nat \<Rightarrow> 'k env \<Rightarrow> virt_addr \<Rightarrow> virt_addr \<Rightarrow> registers \<Rightarrow> pid option \<Rightarrow> ('k, registers) target_op" where
  "target_inferior_call n E = inferior_call n (target_hooks n E) (env_kernel E) (env_float E)"

definition inferior_malloc :: "nat \<Rightarrow> 'k env \<Rightarrow> u64 \<Rightarrow> ('k, virt_addr) target_op" where
  "inferior_malloc n E sz =
    bindS (getS (get_registers None)) (\<lambda>r.
    bindS (liftS r) (\<lambda>saved_regs.
    bindS get_target (\<lambda>t.
    bindS (liftS (target_find_functions n t ''malloc'')) (\<lambda>(_, malloc_funcs).
      case List.find (\<lambda>(_, s). st_value s \<noteq> 0) malloc_funcs of
        None \<Rightarrow> throwS (Send ''malloc not found!'')
      | Some (obj, s) \<Rightarrow>
          bindS (liftS (target_virt_addr t (mk_file_addr obj (st_value s)))) (\<lambda>call_addr.
          bindS (entry_point E) (\<lambda>entry.
          thenS (catch_return entry)
          (bindS (getS p_current) (\<lambda>tid.
           thenS (write_thread_register (env_kernel E) (env_float E) tid id_rdi (V_u64 sz))
           (bindS (target_inferior_call n E call_addr entry saved_regs None) (\<lambda>new_regs.
            liftS (read_by_id_as_u64 new_regs id_rax)))))))))))"

section \<open>Arguments\<close>

definition is_decimal_digit :: "char \<Rightarrow> bool" where
  "is_decimal_digit c \<longleftrightarrow> c \<in> set ''0123456789''"

definition builtin_data :: "byte list \<Rightarrow> builtin_type \<Rightarrow> typed_data" where
  "builtin_data bs b = \<lparr>td_data = bs, td_type = Builtin_type b, td_address = None\<rparr>"

definition quote_char :: char where "quote_char = char_of (34 :: nat)"

definition tick_char :: char where "tick_char = char_of (39 :: nat)"

definition parse_number :: "'k env \<Rightarrow> string \<Rightarrow> typed_data result" where
  "parse_number E arg =
    (if CHR ''.'' \<in> set arg then
       bindE (to_float (env_from_chars_double E) arg) (\<lambda>value.
         case value of
           None \<Rightarrow> Inl (Send ''Invalid floating point literal!'')
         | Some v \<Rightarrow> Inr (builtin_data (to_byte_vec v) bt_floating_point))
     else
       (case to_integral_signed 10 arg of
          None \<Rightarrow> Inl (Send ''Invalid integer literal!'')
        | Some v \<Rightarrow> Inr (builtin_data (to_byte_vec (v :: u64)) bt_integer)))"

definition parse_argument :: "nat \<Rightarrow> 'k env \<Rightarrow> pid \<Rightarrow> string \<Rightarrow> ('k, typed_data) target_op" where
  "parse_argument n E tid arg =
    (if arg = [] then throwS (Send ''Empty argument!'')
     else if length arg > 2 \<and> hd arg = quote_char \<and> last arg = quote_char then
       bindS (inferior_malloc n E (word_of_nat (length arg - 1))) (\<lambda>ptr.
       thenS (process_write_memory (env_kernel E) ptr (string_bytes (butlast (tl arg)) @ [0]))
         (retS (builtin_data (to_byte_vec ptr) bt_string)))
     else if arg = ''true'' \<or> arg = ''false'' then
       retS (builtin_data (to_byte_vec (if arg = ''true'' then 1 else 0 :: byte)) bt_boolean)
     else if hd arg = tick_char then
       (if length arg \<noteq> 3 \<or> arg ! 2 \<noteq> tick_char then throwS (Send ''Invalid character literal!'')
        else retS (builtin_data (string_bytes [arg ! 1]) bt_character))
     else if hd arg = CHR ''-'' \<or> is_decimal_digit (hd arg) then liftS (parse_number E arg)
     else
       bindS (get_pc_file_address (Some tid)) (\<lambda>pc.
       bindS (resolve_indirect_name n E arg pc) (\<lambda>(variable, funcs).
         if funcs \<noteq> [] then throwS (Send ''Nested function calls not supported!'')
         else case variable of
           None \<Rightarrow> throwS (Send ''Unable to resolve variable!'')
         | Some v \<Rightarrow> retS v)))"

text \<open>
  Positions in the argument text are 64-bit; \<open>npos\<close> is the largest. Without a closing parenthesis the position
  wraps to the start, and the loop is left by the error of the text it parses there.
\<close>

definition npos :: u64 where "npos = - 1"

definition find_char :: "char \<Rightarrow> string \<Rightarrow> u64 \<Rightarrow> u64" where
  "find_char c s from =
    (case List.find (\<lambda>i. s ! i = c) [unat from..<length s] of None \<Rightarrow> npos | Some i \<Rightarrow> word_of_nat i)"

definition substr :: "string \<Rightarrow> u64 \<Rightarrow> u64 \<Rightarrow> string result" where
  "substr s from len =
    (if unat from > length s then Inl (Std_exception ''out_of_range'') else Inr (take (unat len) (drop (unat from) s)))"

fun parse_arguments ::
  "nat \<Rightarrow> nat \<Rightarrow> 'k env \<Rightarrow> pid \<Rightarrow> string \<Rightarrow> u64 \<Rightarrow> u64 \<Rightarrow> typed_data list \<Rightarrow> ('k, typed_data list) target_op" where
  "parse_arguments m n E tid arg_string args_start args_end args =
    (if args_start < args_end then
       (case m of
          0 \<Rightarrow> throwS (No_return ''fuel'')
        | Suc k \<Rightarrow>
            let c = find_char CHR '','' arg_string args_start; comma_pos = (if c = npos then args_end else c)
            in bindS (liftS (substr arg_string args_start (comma_pos - args_start))) (\<lambda>arg_expr.
               bindS (parse_argument n E tid arg_expr) (\<lambda>arg.
                 parse_arguments k n E tid arg_string (comma_pos + 1) args_end (args @ [arg]))))
     else retS args)"

declare parse_arguments.simps [simp del]

text \<open>The pointer to the object of a member function: its address, or that of a copy on the stack.\<close>

definition object_pointer :: "nat \<Rightarrow> 'k env \<Rightarrow> pid \<Rightarrow> typed_data \<Rightarrow> ('k, byte list) target_op" where
  "object_pointer n E tid obj =
    (case td_address obj of
       Some a \<Rightarrow> retS (to_byte_vec a)
     | None \<Rightarrow>
         bindS (read_register (Some tid) id_rsp) (\<lambda>rsp0.
         bindS get_target (\<lambda>t.
         bindS (liftS (byte_size n (all_units t) (td_type obj))) (\<lambda>sz.
           let rsp = rsp0 - sz
           in thenS (process_write_memory (env_kernel E) rsp (td_data obj))
              (thenS (write_thread_register (env_kernel E) (env_float E) tid id_rsp (V_u64 rsp))
                (retS (to_byte_vec rsp)))))))"

definition object_argument ::
  "nat \<Rightarrow> 'k env \<Rightarrow> pid \<Rightarrow> die list \<Rightarrow> typed_data \<Rightarrow> ('k, typed_data) target_op" where
  "object_argument n E tid funcs obj =
    bindS (object_pointer n E tid obj) (\<lambda>data.
    bindS get_target (\<lambda>t.
      case funcs of
        [] \<Rightarrow> throwS (Undefined ''no function'')
      | f # _ \<Rightarrow>
          liftS (bindE (bindE (die_attr f DW_AT_object_pointer) (as_reference (all_units t))) (\<lambda>obj_ptr_die.
                 bindE (die_type (all_units t) obj_ptr_die) (\<lambda>this_type.
                   Inr \<lparr>td_data = data, td_type = this_type, td_address = None\<rparr>)))))"

definition collect_arguments ::
  "nat \<Rightarrow> 'k env \<Rightarrow> pid \<Rightarrow> string \<Rightarrow> die list \<Rightarrow> typed_data option \<Rightarrow> ('k, typed_data list) target_op" where
  "collect_arguments n E tid arg_string funcs obj =
    bindS (case obj of None \<Rightarrow> retS [] | Some x \<Rightarrow> bindS (object_argument n E tid funcs x) (\<lambda>a. retS [a])) (\<lambda>args.
      parse_arguments n n E tid arg_string 1 (find_char CHR '')'' arg_string 0) args)"

section \<open>Overloads\<close>

fun arguments_match :: "nat \<Rightarrow> compile_unit list \<Rightarrow> gtype list \<Rightarrow> typed_data list \<Rightarrow> bool result" where
  "arguments_match n units (p # ps) (a # as) =
    bindE (type_eq n units p (td_type a)) (\<lambda>same. if same then arguments_match n units ps as else Inr False)"
| "arguments_match n units _ _ = Inr True"

definition function_matches :: "nat \<Rightarrow> compile_unit list \<Rightarrow> typed_data list \<Rightarrow> die \<Rightarrow> bool result" where
  "function_matches n units args func =
    bindE (parameter_types n units func) (\<lambda>params.
      if length args = length params then arguments_match n units params args else Inr False)"

fun resolve_overload_in ::
  "nat \<Rightarrow> compile_unit list \<Rightarrow> typed_data list \<Rightarrow> die list \<Rightarrow> die option \<Rightarrow> die option result" where
  "resolve_overload_in n units args [] found = Inr found"
| "resolve_overload_in n units args (f # fs) found =
    bindE (function_matches n units args f) (\<lambda>matched.
      if matched then
        (if found \<noteq> None then Inl (Send ''Ambiguous function call!'')
         else resolve_overload_in n units args fs (Some f))
      else resolve_overload_in n units args fs found)"

definition resolve_overload :: "nat \<Rightarrow> compile_unit list \<Rightarrow> die list \<Rightarrow> typed_data list \<Rightarrow> die result" where
  "resolve_overload n units funcs args =
    bindE (resolve_overload_in n units args funcs None) (\<lambda>found.
      the_opt (Send ''No matching function!'') found)"

section \<open>Passing arguments\<close>

definition int_regs :: "register_id list" where
  "int_regs = [id_rdi, id_rsi, id_rdx, id_rcx, id_r8, id_r9]"

definition sse_regs :: "register_id list" where
  "sse_regs = map (\<lambda>i. id_xmm0 + i) [0..<8]"

definition round_up_to_eightbyte :: "u64 \<Rightarrow> u64" where
  "round_up_to_eightbyte sz = (sz + 7) AND NOT 7"

text \<open>The value of a reference parameter: the address of the argument, or of a copy on the stack.\<close>

definition spill_reference ::
  "nat \<Rightarrow> 'k env \<Rightarrow> compile_unit list \<Rightarrow> gtype \<Rightarrow> typed_data \<Rightarrow> u64 \<Rightarrow> ('k, typed_data \<times> u64) target_op" where
  "spill_reference n E units param arg rsp =
    bindS (liftS (get_parameter_classes n units param)) (\<lambda>_.
    bindS (liftS (is_reference_type n units param)) (\<lambda>is_ref.
      if \<not> is_ref then retS (arg, rsp)
      else case td_address arg of
        Some a \<Rightarrow> retS (builtin_data (to_byte_vec a) bt_integer, rsp)
      | None \<Rightarrow>
          bindS (liftS (byte_size n units (td_type arg))) (\<lambda>sz.
          bindS (liftS (alignment n units (td_type arg))) (\<lambda>al.
            let rsp' = (rsp - sz) AND NOT (al - 1)
            in thenS (process_write_memory (env_kernel E) rsp' (td_data arg))
                 (retS (builtin_data (to_byte_vec rsp') bt_integer, rsp'))))))"

fun spill_references ::
  "nat \<Rightarrow> 'k env \<Rightarrow> compile_unit list \<Rightarrow> gtype list \<Rightarrow> typed_data list \<Rightarrow> u64 \<Rightarrow> ('k, typed_data list \<times> u64) target_op" where
  "spill_references n E units [] args rsp = retS (args, rsp)"
| "spill_references n E units (p # ps) [] rsp = throwS (Undefined ''missing argument'')"
| "spill_references n E units (p # ps) (a # as) rsp =
    bindS (spill_reference n E units p a rsp) (\<lambda>(a', rsp').
    bindS (spill_references n E units ps as rsp') (\<lambda>(as', rsp''). retS (a' # as', rsp'')))"

text \<open>The register for one eightbyte of an argument, and the registers used after it.\<close>

definition chunk_register :: "eightbytes \<Rightarrow> nat \<Rightarrow> nat \<times> nat \<Rightarrow> (register_id option \<times> nat \<times> nat) result" where
  "chunk_register classes k used =
    (if k \<ge> 2 then Inl (Undefined ''eightbyte index out of range'')
     else case (if k = 0 then fst classes else snd classes) of
       pc_integer \<Rightarrow>
         if fst used < length int_regs then Inr (Some (int_regs ! fst used), fst used + 1, snd used)
         else Inl (Undefined ''register index out of range'')
     | pc_sse \<Rightarrow>
         if snd used < length sse_regs then Inr (Some (sse_regs ! snd used), fst used, snd used + 1)
         else Inl (Undefined ''register index out of range'')
     | pc_no_class \<Rightarrow> Inr (None, used)
     | _ \<Rightarrow> Inl (Send ''Unsupported parameter class!''))"

definition chunk_data :: "byte list \<Rightarrow> nat \<Rightarrow> u64" where
  "chunk_data bs k = from_bytes (take 8 (drop (8 * k) bs) @ replicate 8 0)"

fun pass_in_registers ::
  "'k env \<Rightarrow> pid \<Rightarrow> eightbytes \<Rightarrow> byte list \<Rightarrow> nat list \<Rightarrow> nat \<times> nat \<Rightarrow> ('k, nat \<times> nat) target_op" where
  "pass_in_registers E tid classes bs [] used = retS used"
| "pass_in_registers E tid classes bs (k # ks) used =
    bindS (liftS (chunk_register classes k used)) (\<lambda>(reg, used').
    thenS (case reg of
             None \<Rightarrow> retS ()
           | Some i \<Rightarrow> write_thread_register (env_kernel E) (env_float E) tid i (V_byte64 (chunk_data bs k)))
      (pass_in_registers E tid classes bs ks used'))"

definition count_class :: "parameter_class \<Rightarrow> eightbytes \<Rightarrow> nat" where
  "count_class c classes = length (filter (\<lambda>x. x = c) [fst classes, snd classes])"

definition on_stack :: "eightbytes \<Rightarrow> nat \<times> nat \<Rightarrow> bool" where
  "on_stack classes used \<longleftrightarrow>
    fst used + count_class pc_integer classes > length int_regs \<or>
    snd used + count_class pc_sse classes > length sse_regs \<or>
    count_class pc_integer classes = 0 \<and> count_class pc_sse classes = 0"

text \<open>The loop over the parameters: arguments left over go to the stack, with the room they take there.\<close>

fun pass_arguments ::
  "nat \<Rightarrow> 'k env \<Rightarrow> compile_unit list \<Rightarrow> pid \<Rightarrow> gtype list \<Rightarrow> typed_data list \<Rightarrow> nat \<times> nat \<Rightarrow> (byte list \<times> u64) list \<Rightarrow>
     ('k, (nat \<times> nat) \<times> (byte list \<times> u64) list) target_op" where
  "pass_arguments n E units tid [] args used stack_args = retS (used, stack_args)"
| "pass_arguments n E units tid (p # ps) [] used stack_args = throwS (Undefined ''missing argument'')"
| "pass_arguments n E units tid (p # ps) (a # as) used stack_args =
    bindS (liftS (get_parameter_classes n units p)) (\<lambda>classes.
    bindS (liftS (byte_size n units p)) (\<lambda>sz.
      if on_stack classes used then
        pass_arguments n E units tid ps as used (stack_args @ [(td_data a, round_up_to_eightbyte sz)])
      else
        bindS (pass_in_registers E tid classes (td_data a) [0..<(unat sz + 7) div 8] used) (\<lambda>used'.
          pass_arguments n E units tid ps as used' stack_args)))"

fun write_stack_arguments :: "'k env \<Rightarrow> u64 \<Rightarrow> (byte list \<times> u64) list \<Rightarrow> ('k, unit) target_op" where
  "write_stack_arguments E pos [] = retS ()"
| "write_stack_arguments E pos ((bs, sz) # rest) =
    thenS (process_write_memory (env_kernel E) pos bs) (write_stack_arguments E (pos + sz) rest)"

text \<open>The stack pointer below the arguments, aligned to 16 bytes.\<close>

definition stack_arguments_start :: "u64 \<Rightarrow> (byte list \<times> u64) list \<Rightarrow> u64" where
  "stack_arguments_start rsp stack_args = (fold (\<lambda>(_, sz) r. r - sz) stack_args rsp) AND NOT 0xf"

definition pass_return_slot ::
  "nat \<Rightarrow> 'k env \<Rightarrow> compile_unit list \<Rightarrow> pid \<Rightarrow> die \<Rightarrow> virt_addr option \<Rightarrow> ('k, nat) target_op" where
  "pass_return_slot n E units tid func return_slot =
    bindS (liftS (die_contains func DW_AT_type)) (\<lambda>has_type.
      if \<not> has_type then retS 0
      else
        bindS (liftS (bindE (die_type units func) (get_parameter_classes n units))) (\<lambda>ret_classes.
          if fst ret_classes \<noteq> pc_memory then retS 0
          else case return_slot of
            None \<Rightarrow> throwS (Send ''Empty return slot!'')
          | Some a \<Rightarrow>
              thenS (write_thread_register (env_kernel E) (env_float E) tid (int_regs ! 0) (V_u64 a)) (retS 1)))"

definition setup_arguments ::
  "nat \<Rightarrow> 'k env \<Rightarrow> pid \<Rightarrow> die \<Rightarrow> typed_data list \<Rightarrow> virt_addr option \<Rightarrow> ('k, unit) target_op" where
  "setup_arguments n E tid func args return_slot =
    bindS get_target (\<lambda>t.
    let units = all_units t
    in bindS (read_register (Some tid) id_rsp) (\<lambda>rsp0.
       bindS (pass_return_slot n E units tid func return_slot) (\<lambda>first.
       bindS (liftS (parameter_types n units func)) (\<lambda>params.
       bindS (spill_references n E units params args rsp0) (\<lambda>(args', rsp1).
       bindS (pass_arguments n E units tid params args' (first, 0) []) (\<lambda>(used, stack_args).
         let rsp = stack_arguments_start rsp1 stack_args
         in thenS (write_stack_arguments E rsp stack_args)
            (thenS (write_thread_register (env_kernel E) (env_float E) tid id_rax (V_u64 (word_of_nat (snd used))))
              (write_thread_register (env_kernel E) (env_float E) tid id_rsp (V_u64 rsp)))))))))"

section \<open>The value returned\<close>

definition read_long_double :: "registers \<Rightarrow> u128 result" where
  "read_long_double regs =
    bindE (register_info_by_id id_st0) (\<lambda>info.
    bindE (registers_read regs info) (\<lambda>v.
      case v of V_long_double w \<Rightarrow> Inr w | _ \<Rightarrow> Inl (Std_exception ''bad_variant_access'')))"

definition read_byte128 :: "registers \<Rightarrow> register_id \<Rightarrow> u128 result" where
  "read_byte128 regs i =
    bindE (register_info_by_id i) (\<lambda>info.
    bindE (registers_read regs info) (\<lambda>v.
      case v of V_byte128 w \<Rightarrow> Inr w | _ \<Rightarrow> Inl (Std_exception ''bad_variant_access'')))"

text \<open>The loop over the two classes: an SSE eightbyte replaces what was collected before it.\<close>

fun collect_return_value ::
  "'k env \<Rightarrow> virt_addr \<Rightarrow> registers \<Rightarrow> parameter_class list \<Rightarrow> bool \<Rightarrow> bool \<Rightarrow> byte list \<Rightarrow> ('k, byte list) target_op" where
  "collect_return_value E return_slot regs [] used_int used_sse val = retS val"
| "collect_return_value E return_slot regs (c # cs) used_int used_sse val =
    (if c = pc_integer then
       bindS (liftS (read_by_id_as_u64 regs (if used_int then id_rdx else id_rax))) (\<lambda>data.
         collect_return_value E return_slot regs cs True used_sse (val @ to_byte_vec data))
     else if c = pc_sse then
       bindS (liftS (read_byte128 regs (if used_sse then id_xmm0 + 1 else id_xmm0))) (\<lambda>data.
       thenS (process_write_memory (env_kernel E) return_slot (as_bytes data))
         (collect_return_value E return_slot regs cs used_int True (as_bytes data)))
     else if c \<noteq> pc_no_class then throwS (Send ''Unsupported return type!'')
     else collect_return_value E return_slot regs cs used_int used_sse val)"

definition read_return_value ::
  "nat \<Rightarrow> 'k env \<Rightarrow> die \<Rightarrow> virt_addr \<Rightarrow> registers \<Rightarrow> ('k, typed_data) target_op" where
  "read_return_value n E func return_slot regs =
    bindS get_target (\<lambda>t.
    bindS (liftS (die_type (all_units t) func)) (\<lambda>ret_type.
    bindS (liftS (get_parameter_classes n (all_units t) ret_type)) (\<lambda>ret_classes.
      let typed = (\<lambda>bs. \<lparr>td_data = bs, td_type = ret_type, td_address = Some return_slot\<rparr>)
      in if fst ret_classes = pc_memory then
           bindS (liftS (byte_size n (all_units t) ret_type)) (\<lambda>sz.
           bindS (process_memory (env_kernel E) return_slot (unat sz)) (\<lambda>bs. retS (typed bs)))
         else if fst ret_classes = pc_x87 then
           bindS (liftS (read_long_double regs)) (\<lambda>data.
           thenS (process_write_memory (env_kernel E) return_slot (to_byte_vec data)) (retS (typed (to_byte_vec data))))
         else
           bindS (collect_return_value E return_slot regs [fst ret_classes, snd ret_classes] False False []) (\<lambda>bs.
           thenS (process_write_memory (env_kernel E) return_slot bs) (retS (typed bs))))))"

section \<open>Calls\<close>

definition function_entry :: "nat \<Rightarrow> target \<Rightarrow> die \<Rightarrow> virt_addr result" where
  "function_entry n t func =
    bindE (has_code func) (\<lambda>code.
      if code then bindE (die_low_pc func) (target_virt_addr t)
      else
        bindE (dwarf_of_die t func) (\<lambda>dw.
        bindE (get_member_function_definition n dw func) (\<lambda>found.
          case found of
            None \<Rightarrow> Inl (Send ''No function definition found!'')
          | Some d \<Rightarrow> bindE (die_low_pc d) (target_virt_addr t))))"

definition inferior_call_from_dwarf ::
  "nat \<Rightarrow> 'k env \<Rightarrow> die \<Rightarrow> typed_data list \<Rightarrow> virt_addr \<Rightarrow> pid \<Rightarrow> ('k, typed_data option) target_op" where
  "inferior_call_from_dwarf n E func args return_addr tid =
    bindS (getS (get_registers (Some tid))) (\<lambda>r.
    bindS (liftS r) (\<lambda>saved_regs.
    bindS get_target (\<lambda>t.
    bindS (liftS (function_entry n t func)) (\<lambda>call_addr.
    bindS (liftS (die_contains func DW_AT_type)) (\<lambda>has_type.
    bindS (if has_type then
             bindS (liftS (bindE (die_type (all_units t) func) (byte_size n (all_units t)))) (\<lambda>sz.
             bindS (inferior_malloc n E sz) (\<lambda>a. retS (Some a)))
           else retS None) (\<lambda>return_slot.
    thenS (setup_arguments n E tid func args return_slot)
    (bindS (target_inferior_call n E call_addr return_addr saved_regs (Some tid)) (\<lambda>new_regs.
       case return_slot of
         None \<Rightarrow> retS None
       | Some slot \<Rightarrow> bindS (read_return_value n E func slot new_regs) (\<lambda>v. retS (Some v))))))))))"

definition evaluate_expression ::
  "nat \<Rightarrow> 'k env \<Rightarrow> string \<Rightarrow> pid option \<Rightarrow> ('k, (typed_data \<times> nat) option) target_op" where
  "evaluate_expression n E expr otid =
    bindS (getS (\<lambda>p. value_or otid (p_current p))) (\<lambda>tid.
    bindS (get_pc_file_address (Some tid)) (\<lambda>pc.
    let paren_pos = find_first_of ''('' expr
    in if paren_pos \<ge> length expr then throwS (Send ''Invalid expression!'')
       else
         bindS (resolve_indirect_name n E (take (Suc paren_pos) expr) pc) (\<lambda>(variable, funcs).
           if funcs = [] then throwS (Send ''Invalid expression!'')
           else
             bindS (entry_point E) (\<lambda>entry.
             thenS (catch_return entry)
             (bindS (collect_arguments n E tid (drop paren_pos expr) funcs variable) (\<lambda>args.
              bindS get_target (\<lambda>t.
              bindS (liftS (resolve_overload n (all_units t) funcs args)) (\<lambda>func.
              bindS (inferior_call_from_dwarf n E func args entry tid) (\<lambda>ret.
                case ret of
                  None \<Rightarrow> retS None
                | Some v \<Rightarrow>
                    bindS get_target (\<lambda>t'.
                    thenS (modify_target (\<lambda>t. t\<lparr>t_results := t_results t @ [v]\<rparr>))
                      (retS (Some (v, length (t_results t'))))))))))))))"

end
