(* ===== verification/Target_Invariant.thy ===== *)
theory Target_Invariant
  imports Inferior_Calls
begin

text \<open>
  An invariant of everything the debugger does to a process: no two breakpoint sites have the same
  address. It is what makes the saved byte of a site the byte of the program, and it holds through waiting, stepping,
  resolving breakpoints, loading libraries and calling functions, whatever the kernel does.
\<close>

section \<open>Operations that leave the sites alone\<close>

definition unique_sites :: "('k, 't) process \<Rightarrow> bool" where
  "unique_sites p \<longleftrightarrow> distinct (map bs_address (p_sites p))"

lemma keeps_frame: "(\<And>p. p_sites (f p) = p_sites p) \<Longrightarrow> keepsS unique_sites (modifyS f)"
  by (rule keepsS_modify) (simp add: unique_sites_def)

lemma keeps_requests [keeps_intros]:
  "keepsS unique_sites (await K tid opts)" "keepsS unique_sites (request msg f)"
  "keepsS unique_sites (attempt f)" "keepsS unique_sites (tgkill K tid sig)"
  by (auto simp: keepsS_def unique_sites_def await_def request_def attempt_def tgkill_def split: prod.splits option.splits)

lemma keeps_queries [keeps_intros]: "keepsS I (query g)" "keepsS I (get_thread tid)"
  by (simp_all add: keepsS_def query_def get_thread_def)

lemma unique_on_registers [keeps_intros]: "keepsS unique_sites (on_registers tid m)"
  by (auto simp: keepsS_def unique_sites_def on_registers_def split: prod.splits option.splits)

lemma keeps_write_register [keeps_intros]: "keepsS unique_sites (write_thread_register K fo tid i v)"
  unfolding write_thread_register_def by (intro keeps_intros)

lemma keeps_write_memory [keeps_intros]: "keepsS unique_sites (process_write_memory K a bs)"
proof -
  have "keepsS unique_sites (zoomS p_kernel (\<lambda>k p. p\<lparr>p_kernel := k\<rparr>) m)" for m :: "('a, unit) prog"
    by (auto simp: keepsS_def zoomS_def unique_sites_def split: prod.splits)
  then show ?thesis unfolding process_write_memory_def by (intro keeps_intros)
qed

lemma keeps_on_files [keeps_intros]: "keepsS unique_sites (on_files E m)"
  by (auto simp: keepsS_def on_files_def zoomS_def unique_sites_def split: prod.splits)

lemma keeps_thread_updates [keeps_intros]:
  "keepsS unique_sites (modifyS (update_thread tid f))"
  "keepsS unique_sites (modifyS (record_stop tid r))"
  "keepsS unique_sites (modifyS (\<lambda>p. p\<lparr>p_threads := g p\<rparr>))"
  "keepsS unique_sites (modifyS (\<lambda>p. p\<lparr>p_state := s\<rparr>))"
  "keepsS unique_sites (modifyS (\<lambda>p. p\<lparr>p_state := s, p_current := c\<rparr>))"
  "keepsS unique_sites (modifyS (\<lambda>p. p\<lparr>p_expecting_exit := b\<rparr>))"
  "keepsS unique_sites (modifyS (\<lambda>p. p\<lparr>p_watchpoints := h p\<rparr>))"
  by (rule keeps_frame; simp add: record_stop_def)+

section \<open>Sites\<close>

lemma unique_hardware [keeps_intros]:
  "keepsS unique_sites (set_hardware_stoppoint K fo a mode sz)"
  "keepsS unique_sites (clear_hardware_stoppoint K fo ix)"
  unfolding set_hardware_stoppoint_def clear_hardware_stoppoint_def write_other_threads_def Let_def
  by (intro keeps_intros)+

text \<open>Enabling and disabling keep the address of a site.\<close>

lemma site_operation_address:
  "breakpoint_site_enable K fo s p = (Inr s', p') \<Longrightarrow> bs_address s' = bs_address s"
  "breakpoint_site_disable K fo s p = (Inr s', p') \<Longrightarrow> bs_address s' = bs_address s"
  by (auto simp: breakpoint_site_enable_def breakpoint_site_disable_def bindS_Inr_iff thenS_Inr_iff split: if_split_asm)

lemma keeps_peek_poke [keeps_intros]: "keepsS I (peek_word K msg a)" "keepsS unique_sites (poke_word K msg a w)"
proof -
  show "keepsS I (peek_word K msg a)" by (simp add: keepsS_def peek_word_def)
  show "keepsS unique_sites (poke_word K msg a w)" unfolding poke_word_def by (intro keeps_intros)
qed

lemma keeps_site_operation [keeps_intros]:
  "keepsS unique_sites (breakpoint_site_enable K fo s)" "keepsS unique_sites (breakpoint_site_disable K fo s)"
  unfolding breakpoint_site_enable_def breakpoint_site_disable_def set_hardware_breakpoint_def
  by (intro keeps_intros)+

lemma keeps_on_site:
  assumes "\<And>s. keepsS unique_sites (f s)" "\<And>s p s' p'. f s p = (Inr s', p') \<Longrightarrow> bs_address s' = bs_address s"
  shows "keepsS unique_sites (on_site a f)"
  unfolding keepsS_def
proof (intro allI impI)
  fix p :: "('a, 'b) process"
  assume p: "unique_sites p"
  show "unique_sites (snd (on_site a f p))"
  proof (cases "sc_get_by_address site_at a (p_sites p)")
    case (Inl e)
    then show ?thesis using p by (simp add: on_site_def)
  next
    case (Inr s)
    then have a: "bs_address s = a" using site.get_by_address_Inr by blast
    obtain r q where r: "f s p = (r, q)" by force
    then have q: "unique_sites q" using assms(1) p by (meson keepsS_D)
    show ?thesis
    proof (cases r)
      case (Inl e)
      then show ?thesis using \<open>sc_get_by_address site_at a (p_sites p) = Inr s\<close> r q by (simp add: on_site_def bindS_def)
    next
      case (Inr s')
      then have "bs_address s' = a" using assms(2) r a by metis
      then have "map bs_address (sc_replace (\<lambda>x. site_at x a) s' (p_sites q)) = map bs_address (p_sites q)"
        by (intro site.replace_addresses) (simp add: site_at_def)
      then show ?thesis using \<open>sc_get_by_address site_at a (p_sites p) = Inr s\<close> r Inr q
        by (simp add: on_site_def bindS_def unique_sites_def)
    qed
  qed
qed

lemma keeps_sites [keeps_intros]:
  "keepsS unique_sites (site_enable K fo a)" "keepsS unique_sites (site_disable K fo a)"
  unfolding site_enable_def site_disable_def
  by (intro keeps_on_site keeps_intros; blast dest: site_operation_address)+

lemma keeps_create_site [keeps_intros]:
  "keepsS unique_sites (create_breakpoint_site a hw internal)"
  "keepsS unique_sites (create_breakpoint_site_for parent i a hw internal)"
  by (auto simp: keepsS_def unique_sites_def create_breakpoint_site_def create_breakpoint_site_for_def
      breakpoint_site_new_def bindS_def Let_def intro!: site.push_distinct)

lemma keeps_remove_site [keeps_intros]: "keepsS unique_sites (remove_site K fo a)"
proof -
  have "keepsS unique_sites (modifyS (\<lambda>p. p\<lparr>p_sites := sc_erase P (p_sites p)\<rparr>))" for P
    by (rule keepsS_modify) (simp add: unique_sites_def site.erase_distinct)
  then show ?thesis unfolding remove_site_def by (intro keeps_intros)
qed

section \<open>Control of the process\<close>

lemma keeps_resume [keeps_intros]:
  "keepsS unique_sites (swallow_pending_sigstop K tid)" "keepsS unique_sites (step_over_breakpoint K fo tid)"
  "keepsS unique_sites (send_continue K tid)"
  unfolding swallow_pending_sigstop_def step_over_breakpoint_def send_continue_def by (intro keeps_intros)+

text \<open>Calls back that keep the invariant.\<close>

definition hooks_keep :: "('k, 't) hooks \<Rightarrow> bool" where
  "hooks_keep H \<longleftrightarrow>
    (\<forall>r i. keepsS unique_sites (h_lifecycle_callback H r) \<and> keepsS unique_sites (h_notify_hit H i) \<and>
       keepsS unique_sites (h_notify_stop H r) \<and> keepsS unique_sites (h_notify_thread_lifecycle_event H r))"

lemma keeps_hook_calls:
  assumes "hooks_keep H"
  shows "keepsS unique_sites (report_thread_lifecycle_event H r)"
    and "keepsS unique_sites (when_target (h_notify_stop H r))" "keepsS unique_sites (h_notify_hit H i)"
  using assms by (auto intro!: keeps_intros simp: report_thread_lifecycle_event_def when_target_def hooks_keep_def)

lemma keeps_handle_trap_sites:
  assumes "hooks_keep H"
  shows "keepsS unique_sites (handle_trap H K fo r b)"
  unfolding handle_trap_def Let_def set_pc_def get_current_hardware_stoppoint_def on_watchpoint_def
    watchpoint_update_data_def should_resume_from_syscall_def
  by (intro keeps_intros keeps_hook_calls [OF assms])
    (auto intro!: keeps_intros keeps_hook_calls [OF assms] split: sum.splits syscall_catch_policy.splits)

lemma keeps_handle_signal_sites:
  assumes "hooks_keep H"
  shows "keepsS unique_sites (handle_signal H K fo r b)"
  unfolding handle_signal_def Let_def read_all_registers_def augment_stop_reason_def syscall_exit_info_def syscall_entry_info_def
  by (intro keeps_intros keeps_hook_calls [OF assms] keeps_handle_trap_sites [OF assms])

lemma keeps_stop_running:
  assumes "hooks_keep H"
  shows "keepsS unique_sites (stop_running_threads H K fo)"
  unfolding stop_running_threads_def stop_running_thread_def Let_def
  by (intro keeps_intros keeps_handle_signal_sites [OF assms])
    (auto intro!: keeps_intros keeps_handle_signal_sites [OF assms])

lemma keeps_scan:
  assumes "hooks_keep H"
  shows "keepsS unique_sites (scan_exited H main tids rm rep)"
proof (induction tids arbitrary: rm rep)
  case (Cons tid tids)
  show ?case unfolding scan_exited.simps by (intro keeps_intros keeps_hook_calls [OF assms] Cons.IH)
qed (simp add: keepsS_def)

lemma keeps_cleanup:
  assumes "hooks_keep H"
  shows "keepsS unique_sites (cleanup_exited_threads H main)"
  unfolding cleanup_exited_threads_def
  by (intro keeps_intros keeps_scan [OF assms]) (auto intro!: keeps_intros split: prod.splits)

lemma keeps_wait:
  assumes "hooks_keep H"
  shows "keepsS unique_sites (wait_on_signal n H K fo to_await)"
proof (induction n arbitrary: to_await)
  case 0
  show ?case unfolding wait_on_signal.simps by (intro keeps_intros)
next
  case (Suc n)
  have r: "keepsS unique_sites (recover_stop H K fo tid reason e)" for tid reason e
    unfolding recover_stop_def by (intro keeps_intros keeps_stop_running [OF assms])
  have "keepsS unique_sites (resume K fo otid)" for otid
    unfolding resume_def by (intro keeps_intros)
  then show ?case unfolding wait_on_signal.simps Let_def
    by (intro keeps_intros keeps_handle_signal_sites [OF assms] keeps_hook_calls [OF assms] keeps_stop_running [OF assms]
        keeps_cleanup [OF assms] r Suc.IH) (auto intro!: keeps_intros keeps_handle_signal_sites [OF assms] keeps_hook_calls [OF assms] keeps_stop_running [OF assms]
        keeps_cleanup [OF assms] r Suc.IH split: prod.splits option.splits)
qed

lemma keeps_step_instruction:
  assumes "hooks_keep H"
  shows "keepsS unique_sites (step_instruction n H K fo otid)"
  unfolding step_instruction_def by (intro keeps_intros keeps_wait [OF assms])

section \<open>Breakpoints\<close>

abbreviation breakpoint_inv :: "breakpoint \<times> ('k, target) process \<Rightarrow> bool" where
  "breakpoint_inv \<equiv> \<lambda>s. unique_sites (snd s)"

lemma keeps_target [keeps_intros]: "keepsS I get_target" "keepsS unique_sites (modify_target f)"
proof -
  show "keepsS I get_target" unfolding get_target_def by (intro keeps_intros)
  show "keepsS unique_sites (modify_target f)" unfolding modify_target_def by (rule keeps_frame) simp
qed

lemma keeps_on_process [keeps_intros]: "keepsS unique_sites m \<Longrightarrow> keepsS breakpoint_inv (on_process m)"
  by (auto simp: keepsS_def on_process_def zoomS_def split: prod.splits)

lemma keeps_modify_breakpoint [keeps_intros]: "keepsS breakpoint_inv (modify_breakpoint f)"
  by (auto simp: keepsS_def modify_breakpoint_def)

lemma keeps_on_breakpoint [keeps_intros]:
  assumes "keepsS breakpoint_inv m"
  shows "keepsS unique_sites (on_breakpoint key m)"
proof -
  have "unique_sites p \<Longrightarrow> m (b, p) = (r, (b', p')) \<Longrightarrow> unique_sites p'" for b p r b' p'
    using assms by (metis keepsS_D snd_conv)
  then have "keepsS unique_sites (\<lambda>p. case m (b, p) of
      (r, (b', p')) \<Rightarrow> (r, p'\<lparr>p_target := map_option (put_breakpoint b') (p_target p')\<rparr>))" for b
    by (auto simp: keepsS_def unique_sites_def split: prod.splits)
  then show ?thesis unfolding on_breakpoint_def by (intro keeps_intros)
qed

lemma keeps_breakpoint_switch [keeps_intros]:
  "keepsS breakpoint_inv (breakpoint_enable E)" "keepsS breakpoint_inv (breakpoint_disable E)"
  "keepsS breakpoint_inv (add_site E a)" "keepsS breakpoint_inv (install_hit_handler h)"
  unfolding breakpoint_enable_def breakpoint_disable_def add_site_def install_hit_handler_def
  by (intro keeps_intros)+

lemma keeps_add_site_once [keeps_intros]: "keepsS breakpoint_inv (add_site_once E a)"
  unfolding add_site_once_def by (intro keeps_intros)

lemma keeps_resolve [keeps_intros]: "keepsS breakpoint_inv (resolve n E)"
proof -
  have "keepsS breakpoint_inv (resolve_function_die E d)" for d
    unfolding resolve_function_die_def by (intro keeps_intros)
  moreover have "keepsS breakpoint_inv (resolve_function_symbol E s)" for s
    unfolding resolve_function_symbol_def by (intro keeps_intros)
  moreover have "keepsS breakpoint_inv (resolve_line_entry n E e)" for e
    unfolding resolve_line_entry_def Let_def by (cases e) (auto intro!: keeps_intros)
  ultimately show ?thesis unfolding resolve_def
    by (auto intro!: keeps_intros split: breakpoint_kind.splits prod.splits)
qed

lemma keeps_create_breakpoint [keeps_intros]: "keepsS unique_sites (create_breakpoint n E kind hw internal)"
proof -
  have "unique_sites p \<Longrightarrow> resolve n E (b, p) = (r, (b', p')) \<Longrightarrow> unique_sites p'" for b p r b' p'
    using keeps_resolve [of n E] by (metis keepsS_D snd_conv)
  then have "keepsS unique_sites (\<lambda>p. case resolve n E (b, p) of
        (Inl e, (_, p')) \<Rightarrow> (Inl e, p')
      | (Inr _, (b', p')) \<Rightarrow>
          (Inr (b_key b), p'\<lparr>p_target := map_option (\<lambda>t. t\<lparr>t_breakpoints := sc_push b' (t_breakpoints t)\<rparr>) (p_target p')\<rparr>))" for b
    by (auto simp: keepsS_def unique_sites_def split: prod.splits sum.splits)
  moreover have "keepsS unique_sites (breakpoint_new kind hw internal)"
    unfolding breakpoint_new_def Let_def by (intro keeps_intros)
  ultimately show ?thesis unfolding create_breakpoint_def by (intro keeps_intros)
qed

section \<open>The dynamic linker\<close>

lemma keeps_load_library [keeps_intros]: "keepsS unique_sites (load_library E nm bias)"
  unfolding load_library_def dump_vdso_def add_object_def Let_def
  by (auto intro!: keeps_intros split: option.splits prod.splits)

lemma keeps_follow [keeps_intros]: "keepsS unique_sites (follow_link_map m n E ptr)"
proof (induction m arbitrary: ptr)
  case 0
  show ?case by (subst follow_link_map.simps) (auto intro!: keeps_intros)
next
  case (Suc m)
  show ?case by (subst follow_link_map.simps) (auto intro!: keeps_intros Suc.IH simp: Let_def resolve_all_def)
qed

lemma keeps_rendezvous [keeps_intros]:
  "keepsS unique_sites (read_dynamic_linker_rendezvous E)" "keepsS unique_sites (reload_dynamic_libraries n E)"
  unfolding read_dynamic_linker_rendezvous_def reload_dynamic_libraries_def by (intro keeps_intros)+

lemma keeps_resolve_rendezvous [keeps_intros]: "keepsS unique_sites (resolve_dynamic_linker_rendezvous n E)"
  unfolding resolve_dynamic_linker_rendezvous_def set_rendezvous_def create_address_breakpoint_def
  by (auto intro!: keeps_intros split: option.splits)

section \<open>The target\<close>

lemma keeps_stack [keeps_intros]: "keepsS unique_sites (stack_unwind n E tid)"
  unfolding stack_unwind_def reset_inline_height_def inline_stack_at_pc_def get_pc_file_address_def get_stack_def
  by (auto intro!: keeps_intros split: prod.splits)

lemma hooks_keep_target:
  assumes "\<And>r. keepsS unique_sites (env_lifecycle_callback E r)"
  shows "hooks_keep (target_hooks n E)"
proof -
  have "keepsS unique_sites (notify_hit n E i)" for i
    unfolding notify_hit_def by (auto intro!: keeps_intros split: option.splits hit_handler.splits)
  moreover have "keepsS unique_sites (notify_stop n E r)" for r
    unfolding notify_stop_def get_stack_def by (intro keeps_intros)
  moreover have "keepsS unique_sites (notify_thread_lifecycle_event r :: ('a, unit) target_op)" for r
    unfolding notify_thread_lifecycle_event_def Let_def by (intro keeps_intros)
  ultimately show ?thesis using assms by (simp add: hooks_keep_def target_hooks_def)
qed

section \<open>Waiting and stepping at the target\<close>

lemma keeps_pair [keeps_intros]: "(\<And>a b. keepsS I (f a b)) \<Longrightarrow> keepsS I (case x of (a, b) \<Rightarrow> f a b)"
  by (cases x) simp

lemma keeps_list [keeps_intros]:
  "keepsS I m \<Longrightarrow> (\<And>a as. keepsS I (f a as)) \<Longrightarrow> keepsS I (case xs of [] \<Rightarrow> m | a # as \<Rightarrow> f a as)"
  by (cases xs) simp_all

lemma keeps_reads [keeps_intros]:
  "keepsS I (read_register otid i)" "keepsS I (get_pc otid)" "keepsS I (process_memory K a k)"
  by (simp_all add: keepsS_def read_register_def get_pc_def process_memory_def)

lemma keeps_target_reads [keeps_intros]:
  "keepsS I (get_pc_file_address otid)" "keepsS I (get_stack tid)" "keepsS I (inline_stack_at_pc n tid)"
  "keepsS I (entry_point E)" "keepsS I (line_entry_at_pc tid)" "keepsS I (prologue_end n tid)"
  "keepsS I (disassemble E k oa)" "keepsS I (frame_count tid)"
  unfolding get_pc_file_address_def get_stack_def inline_stack_at_pc_def entry_point_def get_auxv_def line_entry_at_pc_def
    prologue_end_def disassemble_def frame_count_def read_memory_without_traps_def
  by (intro keeps_intros)+

lemma keeps_resume_target [keeps_intros]: "keepsS unique_sites (resume K fo otid)"
  unfolding resume_def by (intro keeps_intros)

lemma keeps_set_stop_reason [keeps_intros]: "keepsS unique_sites (set_stop_reason missing tid r)"
  unfolding set_stop_reason_def by (intro keeps_intros)

lemma keeps_set_target [keeps_intros]:
  "keepsS unique_sites (set_target f)" "keepsS unique_sites (create_loaded_elf E path)"
proof -
  show "keepsS unique_sites (set_target f)" unfolding set_target_def by (rule keeps_frame) simp
  show "keepsS unique_sites (create_loaded_elf E path)" unfolding create_loaded_elf_def by (intro keeps_intros)
qed

lemma keeps_launch [keeps_intros]:
  "keepsS unique_sites (target_launch n E path)" "keepsS unique_sites (target_attach n E)"
  unfolding target_launch_def target_attach_def create_address_breakpoint_def by (intro keeps_intros)+

lemma keeps_resolve_name [keeps_intros]: "keepsS unique_sites (resolve_indirect_name n E nm pc)"
proof -
  have "keepsS unique_sites (get_expression_result n E i)" for i
    unfolding get_expression_result_def by (intro keeps_intros)
  moreover have "keepsS unique_sites (read_variable n E d)" for d
    unfolding read_variable_def by (intro keeps_intros)
  ultimately have "keepsS unique_sites (get_initial_variable_data n E x pc)" for x
    unfolding get_initial_variable_data_def by (intro keeps_intros)
  then show ?thesis unfolding resolve_indirect_name_def by (intro keeps_intros)
qed

lemma keeps_catch_return [keeps_intros]: "keepsS unique_sites (catch_return entry)"
  unfolding catch_return_def by (intro keeps_intros)

lemma keeps_spill [keeps_intros]: "keepsS unique_sites (spill_references n E units ps as rsp)"
proof (induction n E units ps as rsp rule: spill_references.induct)
  case (3 n E units p ps a as rsp)
  have "keepsS unique_sites (spill_reference n E units p a rsp)"
    unfolding spill_reference_def by (intro keeps_intros)
  then show ?case unfolding spill_references.simps by (intro keeps_intros "3.IH") simp_all
qed (simp_all add: keepsS_def)

lemma keeps_pass_in_registers [keeps_intros]:
  "keepsS unique_sites (pass_in_registers E tid classes bs ks used)"
proof (induction ks arbitrary: used)
  case (Cons k ks)
  show ?case unfolding pass_in_registers.simps by (intro keeps_intros Cons.IH)
qed (simp add: keepsS_def)

lemma keeps_pass_arguments [keeps_intros]:
  "keepsS unique_sites (pass_arguments n E units tid ps as used st)"
proof (induction ps arbitrary: as used st)
  case IH: (Cons p ps)
  show ?case
  proof (cases as)
    case (Cons a as')
    show ?thesis unfolding Cons pass_arguments.simps by (intro keeps_intros IH.IH)
  qed (simp add: keepsS_def)
qed (simp add: keepsS_def)

lemma keeps_write_stack [keeps_intros]: "keepsS unique_sites (write_stack_arguments E pos st)"
proof (induction E pos st rule: write_stack_arguments.induct)
  case (2 E pos bs sz rest)
  then show ?case unfolding write_stack_arguments.simps by (intro keeps_intros)
qed (simp add: keepsS_def)

lemma keeps_setup_arguments [keeps_intros]: "keepsS unique_sites (setup_arguments n E tid func args slot)"
  unfolding setup_arguments_def pass_return_slot_def by (intro keeps_intros)

lemma keeps_read_return [keeps_intros]: "keepsS unique_sites (read_return_value n E func slot regs)"
proof -
  have "keepsS unique_sites (collect_return_value E slot regs cs ui us val)" for cs ui us val
  proof (induction cs arbitrary: ui us val)
    case (Cons c cs)
    show ?case unfolding collect_return_value.simps by (intro keeps_intros Cons.IH)
  qed (simp add: keepsS_def)
  then show ?thesis unfolding read_return_value_def by (intro keeps_intros)
qed

section \<open>A target whose callback keeps the sites apart\<close>

text \<open>
  The process calls the thread lifecycle callback its client installed. The client promises that the
  callback keeps the invariant; then every operation that waits does.
\<close>

locale keeping_target =
  fixes E :: "'k env"
  assumes callback: "keepsS unique_sites (env_lifecycle_callback E r)"
begin

lemma hooks: "hooks_keep (target_hooks n E)"
  by (intro hooks_keep_target callback)

lemma keeps_target_wait [keeps_intros]:
  "keepsS unique_sites (target_wait n E tid)" "keepsS unique_sites (target_step_instruction n E tid)"
  unfolding target_wait_def target_step_instruction_def by (intro keeps_wait keeps_step_instruction hooks)+

lemma keeps_run_until [keeps_intros]:
  "keepsS unique_sites (run_until_address n E a tid)" "keepsS unique_sites (run_over n E tid a)"
proof -
  show r: "keepsS unique_sites (run_until_address n E a tid)" for a
    unfolding run_until_address_def by (intro keeps_intros)
  show "keepsS unique_sites (run_over n E tid a)"
    unfolding run_over_def by (intro keeps_intros r)
qed

lemma keeps_step_in_loop [keeps_intros]:
  "keepsS unique_sites (step_in_loop m n E tid orig)"
proof (induction m)
  case (Suc m)
  then show ?case unfolding step_in_loop.simps by (intro keeps_intros)
qed (simp add: keepsS_def)

lemma keeps_step_over_loop [keeps_intros]:
  "keepsS unique_sites (step_over_loop m n E tid orig)"
proof (induction m)
  case (Suc m)
  have "keepsS unique_sites (step_over_round n E tid)"
    unfolding step_over_round_def by (intro keeps_intros)
  then show ?case unfolding step_over_loop.simps by (intro keeps_intros Suc.IH)
qed (simp add: keepsS_def)

lemma keeps_step_out_loop [keeps_intros]:
  "keepsS unique_sites (step_out_loop m n E tid a fs r)"
proof (induction m arbitrary: r)
  case 0
  show ?case by (subst step_out_loop.simps) (auto intro!: keeps_intros)
next
  case (Suc m)
  show ?case by (subst step_out_loop.simps) (auto intro!: keeps_intros Suc.IH)
qed

lemma keeps_steps [keeps_intros]:
  "keepsS unique_sites (step_in n E otid)" "keepsS unique_sites (step_over n E otid)"
    "keepsS unique_sites (step_out n E otid)"
  unfolding step_in_def step_over_def step_out_def Let_def by (intro keeps_intros)+

lemma keeps_inferior_call [keeps_intros]:
  "keepsS unique_sites (target_inferior_call n E a ret regs otid)"
  unfolding target_inferior_call_def inferior_call_def
  by (intro keeps_intros keeps_wait keeps_hook_calls hooks)

lemma keeps_malloc [keeps_intros]:
  "keepsS unique_sites (inferior_malloc n E sz)"
  unfolding inferior_malloc_def by (intro keeps_intros)

lemma keeps_parse_argument [keeps_intros]:
  "keepsS unique_sites (parse_argument n E tid arg)"
  unfolding parse_argument_def by (intro keeps_intros)

lemma keeps_parse_arguments [keeps_intros]:
  "keepsS unique_sites (parse_arguments m n E tid s i j args)"
proof (induction m arbitrary: i args)
  case 0
  show ?case by (subst parse_arguments.simps) (auto intro!: keeps_intros)
next
  case (Suc m)
  show ?case by (subst parse_arguments.simps) (auto simp: Let_def intro!: keeps_intros Suc.IH)
qed

lemma keeps_collect_arguments [keeps_intros]:
  "keepsS unique_sites (collect_arguments n E tid s funcs obj)"
  unfolding collect_arguments_def object_argument_def object_pointer_def by (intro keeps_intros)

lemma keeps_evaluate [keeps_intros]:
  "keepsS unique_sites (evaluate_expression n E expr otid)"
proof -
  have "keepsS unique_sites (inferior_call_from_dwarf n E func args ret tid)" for func args ret tid
    unfolding inferior_call_from_dwarf_def by (intro keeps_intros)
  then show ?thesis unfolding evaluate_expression_def by (intro keeps_intros)
qed

end

end
