(* ===== verification/Cli_Text.thy ===== *)
theory Cli_Text
  imports Inferior_Calls Syscalls
begin

text \<open>
  The text side of the command line (\<open>tools/gsdb.cpp\<close>): splitting a line into words, the prefix test that
  selects a command, the formats of \<open>std::format\<close> that the commands use, the values of registers as text and
  back, and the help texts. What the system provides is in the record \<open>console\<close>: the two output
  streams, the names of signals and errors, floating-point numbers as text, and the files of the sources.
\<close>

record 'k console =
  con_out :: "string \<Rightarrow> 'k \<Rightarrow> 'k"
  con_err :: "string \<Rightarrow> 'k \<Rightarrow> 'k"
  con_sigabbrev :: "byte \<Rightarrow> string option"
  con_strerror :: "'k \<Rightarrow> string"
  con_float :: "32 word \<Rightarrow> string"
  con_double :: "64 word \<Rightarrow> string"
  con_long_double :: "128 word \<Rightarrow> string"
  con_from_chars_long_double :: "128 word float_chars"
  con_log10 :: "u64 \<Rightarrow> int"
  con_file :: "string \<Rightarrow> 'k \<Rightarrow> string"

section \<open>Words\<close>

definition is_prefix :: "string \<Rightarrow> string \<Rightarrow> bool" where
  "is_prefix str of_text \<longleftrightarrow> length str \<le> length of_text \<and> take (length str) of_text = str"

text \<open>\<open>std::getline\<close> with a delimiter until the stream is at its end: a trailing delimiter gives no word.\<close>

function split :: "char \<Rightarrow> string \<Rightarrow> string list" where
  "split delimiter str =
    (if str = [] then []
     else takeWhile (\<lambda>c. c \<noteq> delimiter) str # split delimiter (drop 1 (dropWhile (\<lambda>c. c \<noteq> delimiter) str)))"
  by auto
termination
proof (relation "measure (\<lambda>(_, s). length s)")
  fix d and s :: string
  assume "s \<noteq> []"
  then have "0 < length s" by simp
  moreover have "length (dropWhile (\<lambda>c. c \<noteq> d) s) \<le> length s" by (rule length_dropWhile_le)
  ultimately show "((d, drop 1 (dropWhile (\<lambda>c. c \<noteq> d) s)), (d, s)) \<in> measure (\<lambda>(_, s). length s)"
    unfolding in_measure split_conv length_drop by linarith
qed simp

declare split.simps [simp del]

definition newline :: string where "newline = [char_of (10 :: nat)]"

definition tab :: string where "tab = [char_of (9 :: nat)]"

fun unlines :: "string list \<Rightarrow> string" where
  "unlines [] = []"
| "unlines (l # ls) = l @ newline @ unlines ls"

section \<open>Formats\<close>

text \<open>\<open>{:#0Wx}\<close> and \<open>{:0Wx}\<close>: hexadecimal, filled with zeros to a width that counts sign and prefix.\<close>

definition format_hex_filled :: "nat \<Rightarrow> string \<Rightarrow> nat \<Rightarrow> string" where
  "format_hex_filled width prefix v =
    (let ds = format_nat 16 v in prefix @ replicate (width - length prefix - length ds) CHR ''0'' @ ds)"

definition format_hex_signed :: "int \<Rightarrow> string" where
  "format_hex_signed i = (if i < 0 then ''-'' else []) @ ''0x'' @ format_nat 16 (nat \<bar>i\<bar>)"

definition format_right :: "int \<Rightarrow> string \<Rightarrow> string" where
  "format_right width s = replicate (nat width - length s) CHR '' '' @ s"

fun format_join_from :: "('a \<Rightarrow> string) \<Rightarrow> string \<Rightarrow> string \<Rightarrow> 'a list \<Rightarrow> string" where
  "format_join_from fmt separator sep [] = []"
| "format_join_from fmt separator sep (x # xs) = sep @ fmt x @ format_join_from fmt separator separator xs"

definition format_join :: "('a \<Rightarrow> string) \<Rightarrow> string \<Rightarrow> 'a list \<Rightarrow> string" where
  "format_join fmt separator xs = format_join_from fmt separator [] xs"

definition format_byte_hex :: "byte \<Rightarrow> string" where
  "format_byte_hex b = format_hex_filled 4 ''0x'' (unat b)"

section \<open>Registers\<close>

definition format_unsigned :: "'a::len word \<Rightarrow> string" where
  "format_unsigned w = format_hex_filled (LENGTH('a) div 8 * 2 + 2) ''0x'' (unat w)"

definition format_signed :: "'a::len word \<Rightarrow> string" where
  "format_signed w =
    format_hex_filled (LENGTH('a) div 8 * 2 + 2) (if sint w < 0 then ''-0x'' else ''0x'') (nat \<bar>sint w\<bar>)"

definition format_vector :: "'a::len word \<Rightarrow> string" where
  "format_vector w = ''['' @ format_join format_byte_hex '','' (as_bytes w) @ '']''"

fun format_value :: "'k console \<Rightarrow> reg_value \<Rightarrow> string" where
  "format_value C (V_u8 w) = format_unsigned w" | "format_value C (V_u16 w) = format_unsigned w"
| "format_value C (V_u32 w) = format_unsigned w" | "format_value C (V_u64 w) = format_unsigned w"
| "format_value C (V_i8 w) = format_signed w" | "format_value C (V_i16 w) = format_signed w"
| "format_value C (V_i32 w) = format_signed w" | "format_value C (V_i64 w) = format_signed w"
| "format_value C (V_float w) = con_float C w" | "format_value C (V_double w) = con_double C w"
| "format_value C (V_long_double w) = con_long_double C w"
| "format_value C (V_byte64 w) = format_vector w" | "format_value C (V_byte128 w) = format_vector w"

text \<open>The body of the \<open>try\<close> block; no branch is the end of the block.\<close>

definition parse_value :: "'k env \<Rightarrow> 'k console \<Rightarrow> register_info \<Rightarrow> string \<Rightarrow> reg_value option result" where
  "parse_value E C info txt =
    (let the_value = (\<lambda>v. bindE (the_opt (Std_exception ''bad_optional_access'') v) (\<lambda>x. Inr (Some x)))
     in case ri_format info of
       fmt_uint \<Rightarrow>
         (if ri_size info = 1 then the_value (map_option V_u8 (to_integral_unsigned 16 txt))
          else if ri_size info = 2 then the_value (map_option V_u16 (to_integral_unsigned 16 txt))
          else if ri_size info = 4 then the_value (map_option V_u32 (to_integral_unsigned 16 txt))
          else if ri_size info = 8 then the_value (map_option V_u64 (to_integral_unsigned 16 txt))
          else Inr None)
     | fmt_double_float \<Rightarrow> bindE (to_float (env_from_chars_double E) txt) (\<lambda>v. the_value (map_option V_double v))
     | fmt_long_double \<Rightarrow> bindE (to_float (con_from_chars_long_double C) txt) (\<lambda>v. the_value (map_option V_long_double v))
     | fmt_vector \<Rightarrow>
         (if ri_size info = 8 then bindE (parse_vector_n 8 txt) (\<lambda>bs. Inr (Some (V_byte64 (from_bytes bs))))
          else if ri_size info = 16 then bindE (parse_vector_n 16 txt) (\<lambda>bs. Inr (Some (V_byte128 (from_bytes bs))))
          else Inr None))"

definition parse_register_value :: "'k env \<Rightarrow> 'k console \<Rightarrow> register_info \<Rightarrow> string \<Rightarrow> reg_value result" where
  "parse_register_value E C info txt =
    (case parse_value E C info txt of
       Inr (Some v) \<Rightarrow> Inr v
     | Inr None \<Rightarrow> Inl (Send ''Invalid format!'')
     | Inl e \<Rightarrow> if is_exception e then Inl (Send ''Invalid format!'') else Inl e)"

section \<open>Help\<close>

definition help_overview :: "string list" where
  "help_overview =
    [''Available commands:'',
     ''breakpoint  - Commands for operating on breakpoints'',
     ''continue    - Resume the process'',
     ''disassemble - Disassemble machine code to assembly'',
     ''memory      - Commands for operating on memory'',
     ''register    - Commands for operating on registers'',
     ''finish      - Step-out'',
     ''next        - Step-over'',
     ''step        - Step-in'',
     ''stepi       - Single instruction step'',
     ''watchpoint  - Commands for operating on watchpoints'',
     ''catchpoint  - Commands for operating on catchpoints'',
     ''down        - Select the stack frame below the current one'',
     ''up          - Select the stack frame above the current one'',
     ''thread      - Commands for operating on threads'',
     ''variable    - Commands for operating on variables'']"

definition help_topics :: "(string \<times> string list) list" where
  "help_topics =
    [(''register'', [''Available commands:'', ''read '', ''read <register>'', ''read all'', ''write <register> <value>'']),
     (''breakpoint'', [''Available commands:'', ''list'', ''delete <id>'', ''disable <id>'', ''enable <id>'',
        ''set <address>'', ''set <address> -h'']),
     (''watchpoint'', [''Available commands:'', ''list'', ''delete <id>'', ''disable <id>'', ''enable <id>'',
        ''set <address> <write|rw|execute> <size>'']),
     (''catchpoint'', [''Available commands:'', ''syscall'', ''syscall none'',
        ''syscall <list-of-comma-separated-syscalls> '']),
     (''memory'', [''Available commands:'', ''read <address>'', ''read <address> <number-of-bytes>'',
        ''write <address> <bytes>'']),
     (''disassemble'', [''Available options:'', ''-c <number-of-instructions>'', ''-a <start-address>'']),
     (''thread'', [''Available commands:'', ''list'', ''select <thread-ID>'']),
     (''variable'', [''Available commands:'', ''read <variable>''])]"

definition help_text :: "string list \<Rightarrow> string result" where
  "help_text args =
    (case args of
       [] \<Rightarrow> Inl (Undefined ''index out of range'')
     | [_] \<Rightarrow> Inr (unlines help_overview)
     | _ # topic # _ \<Rightarrow>
         (case List.find (\<lambda>(nm, _). is_prefix topic nm) help_topics of
            Some (_, ls) \<Rightarrow> Inr (unlines ls)
          | None \<Rightarrow> Inr (''No help available on that'' @ newline)))"

section \<open>Source text\<close>

text \<open>
  The lines before the first one shown are dropped; the line counter has 32 bits, the lines it is
  compared with 64. The third component is the text that is left.
\<close>

fun skip_lines :: "u32 \<Rightarrow> u64 \<Rightarrow> string \<Rightarrow> u32 \<times> string" where
  "skip_lines current start [] = (current, [])"
| "skip_lines current start (c # cs) =
    (if ucast current = start then (current, c # cs)
     else skip_lines (if [c] = newline then current + 1 else current) start cs)"

definition line_start :: "'k console \<Rightarrow> u64 \<Rightarrow> u64 \<Rightarrow> u32 \<Rightarrow> string" where
  "line_start C line end_line current =
    (if ucast current = line then ''>'' else '' '') @ '' '' @
      format_right (con_log10 C end_line + 1) (format_nat 10 (unat current)) @ '' ''"

fun source_lines :: "'k console \<Rightarrow> u64 \<Rightarrow> u64 \<Rightarrow> u32 \<Rightarrow> string \<Rightarrow> string" where
  "source_lines C line end_line current [] = []"
| "source_lines C line end_line current (c # cs) =
    (if ucast current \<le> end_line then
       (if [c] = newline
        then [c] @ line_start C line end_line (current + 1) @ source_lines C line end_line (current + 1) cs
        else [c] @ source_lines C line end_line current cs)
     else [])"

definition source_text :: "'k console \<Rightarrow> string \<Rightarrow> u64 \<Rightarrow> u64 \<Rightarrow> string" where
  "source_text C content line around =
    (let start_line = (if line \<le> around then 1 else line - around); end_line = line + around + 1
     in case skip_lines 1 start_line content of
          (current, rest) \<Rightarrow> line_start C line end_line current @ source_lines C line end_line current rest @ newline)"

end
