(* ===== verification/Cli.thy ===== *)
theory Cli
  imports Cli_Text
begin

text \<open>
  The commands of the debugger (\<open>tools/gsdb.cpp\<close>): one operation on the target per handler, in the order
  of the file, the dispatch on the first word of a line and the loop over the lines. Output goes to the
  console, which is part of the outside world as the kernel is; \<open>gsdb::error\<close> is caught where
  the code catches it, anything else ends the program.
\<close>

section \<open>Output and errors\<close>

definition print_out :: "'k console \<Rightarrow> string \<Rightarrow> ('k, unit) target_op" where
  "print_out C s = modifyS (\<lambda>p. p\<lparr>p_kernel := con_out C s (p_kernel p)\<rparr>)"

definition print_err :: "'k console \<Rightarrow> string \<Rightarrow> ('k, unit) target_op" where
  "print_err C s = modifyS (\<lambda>p. p\<lparr>p_kernel := con_err C s (p_kernel p)\<rparr>)"

definition print_help :: "'k console \<Rightarrow> string list \<Rightarrow> ('k, unit) target_op" where
  "print_help C args = bindS (liftS (help_text args)) (print_err C)"

text \<open>\<open>catch (const gsdb::error& err)\<close>, with the text of \<open>err.what()\<close>.\<close>

definition catch_error :: "'k console \<Rightarrow> ('k, unit) target_op \<Rightarrow> (string \<Rightarrow> ('k, unit) target_op) \<Rightarrow> ('k, unit) target_op" where
  "catch_error C m handler =
    catchS m (\<lambda>e.
      case e of
        Send s \<Rightarrow> handler s
      | Send_errno s \<Rightarrow> bindS (getS (\<lambda>p. con_strerror C (p_kernel p))) (\<lambda>why. handler (s @ '': '' @ why))
      | _ \<Rightarrow> throwS e)"

definition current_stack :: "('k, stack) target_op" where
  "current_stack = bindS (getS p_current) get_stack"

section \<open>Where the process stopped\<close>

definition print_disassembly :: "'k env \<Rightarrow> 'k console \<Rightarrow> virt_addr \<Rightarrow> nat \<Rightarrow> ('k, unit) target_op" where
  "print_disassembly E C address n_instructions =
    bindS (disassemble E n_instructions (Some address)) (\<lambda>instructions.
      forS (\<lambda>i. print_out C (format_hex_filled 18 ''0x'' (unat (in_address i)) @ '': '' @ in_text i @ newline)) instructions)"

definition syscall_message :: "syscall_information \<Rightarrow> string result" where
  "syscall_message info =
    (if si_entry info then
       (case si_data info of
          syscall_args args \<Rightarrow>
            bindE (syscall_id_to_name (int (unat (si_id info)))) (\<lambda>nm.
              Inr ('' (syscall entry)'' @ newline @ ''syscall: '' @ nm @ ''('' @ format_join format_hex '','' args @ '')''))
        | syscall_ret _ \<Rightarrow> Inl (Undefined ''inactive member of a union''))
     else
       (case si_data info of
          syscall_args _ \<Rightarrow> Inl (Undefined ''inactive member of a union'')
        | syscall_ret ret \<Rightarrow>
            Inr ('' (syscall exit)'' @ newline @ ''syscall returned: '' @ format_hex_signed (sint ret))))"

definition watchpoint_message :: "watchpoint \<Rightarrow> string" where
  "watchpoint_message point =
    '' (watchpoint '' @ format_int (wp_id point) @ '')'' @
    (if wp_data point = wp_previous point then newline @ ''Value: '' @ format_hex (wp_data point)
     else newline @ ''Old value: '' @ format_hex (wp_previous point) @ newline @ ''New value: '' @ format_hex (wp_data point))"

definition get_sigtrap_info :: "stop_reason \<Rightarrow> ('k, string) target_op" where
  "get_sigtrap_info reason =
    (case sr_trap reason of
       Some software_break \<Rightarrow>
         bindS (get_pc (Some (sr_tid reason))) (\<lambda>pc.
         bindS (getS p_sites) (\<lambda>sites.
         bindS (liftS (sc_get_by_address site_at pc sites)) (\<lambda>site.
           retS ('' (breakpoint '' @ format_int (bs_id site) @ '')''))))
     | Some hardware_break \<Rightarrow>
         bindS (get_current_hardware_stoppoint (Some (sr_tid reason))) (\<lambda>i.
           case i of
             Inl b \<Rightarrow> retS ('' (breakpoint '' @ format_int b @ '')'')
           | Inr w \<Rightarrow>
               bindS (getS p_watchpoints) (\<lambda>points.
               bindS (liftS (sc_get_by_id wp_id w points)) (\<lambda>point. retS (watchpoint_message point))))
     | Some single_step \<Rightarrow> retS '' (single step)''
     | Some syscall \<Rightarrow>
         liftS (bindE (the_opt (Undefined ''empty optional'') (sr_syscall reason)) syscall_message)
     | _ \<Rightarrow> retS [])"

definition signal_name :: "'k console \<Rightarrow> byte \<Rightarrow> string result" where
  "signal_name C sig = the_opt (Undefined ''null string'') (con_sigabbrev C sig)"

definition line_message :: "(compile_unit \<times> line_iter) option \<Rightarrow> string result" where
  "line_message line =
    (if iterator_pos line = None then Inr []
     else case line of
       None \<Rightarrow> Inr []
     | Some (_, it) \<Rightarrow>
         bindE (the_opt (Undefined ''null file entry'') (le_file_entry (li_current it))) (\<lambda>file.
           Inr ('', '' @ path_filename (lf_path file) @ '':'' @ format_nat 10 (unat (le_line (li_current it))))))"

definition get_signal_stop_reason :: "nat \<Rightarrow> 'k console \<Rightarrow> stop_reason \<Rightarrow> ('k, string) target_op" where
  "get_signal_stop_reason n C reason =
    bindS (get_pc (Some (sr_tid reason))) (\<lambda>pc.
    bindS (liftS (signal_name C (sr_info reason))) (\<lambda>sig.
    bindS (line_entry_at_pc (sr_tid reason)) (\<lambda>line.
    bindS (liftS (line_message line)) (\<lambda>where_text.
    bindS get_target (\<lambda>t.
    bindS (liftS (function_name_at_address n t pc)) (\<lambda>func_name.
    bindS (if sr_info reason = SIGTRAP then get_sigtrap_info reason else retS []) (\<lambda>trap_text.
      retS (''stopped with signal '' @ sig @ '' at '' @ format_hex pc @ where_text @
            (if func_name \<noteq> [] then '' ('' @ func_name @ '')'' else []) @ trap_text))))))))"

definition print_stop_reason :: "nat \<Rightarrow> 'k console \<Rightarrow> stop_reason \<Rightarrow> ('k, unit) target_op" where
  "print_stop_reason n C reason =
    bindS (getS p_pid) (\<lambda>pid.
      case sr_reason reason of
        exited \<Rightarrow>
          print_out C (''Process '' @ format_int pid @ '' exited with status '' @ format_nat 10 (unat (sr_info reason)) @ newline)
      | terminated \<Rightarrow>
          bindS (liftS (signal_name C (sr_info reason))) (\<lambda>sig.
            print_out C (''Process '' @ format_int pid @ '' terminated with signal '' @ sig @ newline))
      | stopped \<Rightarrow>
          bindS (get_signal_stop_reason n C reason) (\<lambda>msg.
            print_out C (''Thread '' @ format_int (sr_tid reason) @ '' '' @ msg @ newline))
      | running \<Rightarrow> print_out C (''Process '' @ format_int pid @ '' still running!'' @ newline))"

definition print_source :: "'k console \<Rightarrow> string \<Rightarrow> u64 \<Rightarrow> u64 \<Rightarrow> ('k, unit) target_op" where
  "print_source C path line around =
    bindS (getS (\<lambda>p. con_file C path (p_kernel p))) (\<lambda>content. print_out C (source_text C content line around))"

definition print_code_location :: "'k env \<Rightarrow> 'k console \<Rightarrow> ('k, unit) target_op" where
  "print_code_location E C =
    bindS current_stack (\<lambda>s.
      if has_frames s then
        bindS (liftS (current_frame s)) (\<lambda>frame.
        bindS (liftS (the_opt (Undefined ''null file entry'') (fst (sf_location frame)))) (\<lambda>file.
          print_source C (lf_path file) (snd (sf_location frame)) 3))
      else bindS (get_pc None) (\<lambda>pc. print_disassembly E C pc 5))"

definition backtrace_line :: "nat \<Rightarrow> target \<Rightarrow> stack \<Rightarrow> nat \<Rightarrow> stack_frame \<Rightarrow> string result" where
  "backtrace_line n t s i frame =
    (let pc = sf_report_address frame
     in bindE (function_name_at_address n t pc) (\<lambda>func_name.
        bindE (if sf_inlined frame then
                 bindE (bindE (dwarf_of_die t (sf_func_die frame)) (\<lambda>dw. die_name n (dw_units dw) (sf_func_die frame))) (\<lambda>nm.
                 bindE (the_opt (Undefined ''empty optional'') nm) (\<lambda>s. Inr ('' [inlined] '' @ s)))
               else Inr []) (\<lambda>inlined.
          Inr ((if word_of_nat i = current_frame_index s then ''*'' else '' '') @ ''['' @ format_nat 10 i @ '']: '' @
               format_hex pc @ '' '' @ func_name @ inlined @ newline))))"

definition print_backtrace :: "nat \<Rightarrow> 'k console \<Rightarrow> ('k, unit) target_op" where
  "print_backtrace n C =
    bindS current_stack (\<lambda>s.
    bindS get_target (\<lambda>t.
    bindS (liftS (visible_frames s)) (\<lambda>frames.
      forS (\<lambda>i. bindS (liftS (backtrace_line n t s i (frames ! i))) (print_out C)) [0..<length frames])))"

definition handle_stop :: "nat \<Rightarrow> 'k env \<Rightarrow> 'k console \<Rightarrow> stop_reason \<Rightarrow> ('k, unit) target_op" where
  "handle_stop n E C reason =
    thenS (print_stop_reason n C reason)
      (if sr_reason reason = stopped then print_code_location E C else retS ())"

section \<open>Registers\<close>

definition print_register_value :: "'k console \<Rightarrow> registers \<Rightarrow> register_info \<Rightarrow> ('k, unit) target_op" where
  "print_register_value C regs info =
    bindS (liftS (is_undefined regs (ri_id info))) (\<lambda>undef.
      if undef then print_out C (ri_name info @ '':'' @ tab @ ''undefined'' @ newline)
      else bindS (liftS (registers_read regs info)) (\<lambda>v.
        print_out C (ri_name info @ '':'' @ tab @ format_value C v @ newline)))"

definition handle_register_read :: "'k console \<Rightarrow> string list \<Rightarrow> ('k, unit) target_op" where
  "handle_register_read C args =
    bindS current_stack (\<lambda>s.
    bindS (liftS (stack_regs s)) (\<lambda>regs.
      if length args = 2 \<or> length args = 3 \<and> args ! 2 = ''all'' then
        forS (\<lambda>info. if length args = 3 \<or> ri_type info = gpr then print_register_value C regs info else retS ())
          g_register_infos
      else if length args = 3 then
        catch_error C (bindS (liftS (register_info_by_name (args ! 2))) (print_register_value C regs))
          (\<lambda>_. print_err C (''No such register'' @ newline))
      else print_help C [''help'', ''register'']))"

definition handle_register_write :: "'k env \<Rightarrow> 'k console \<Rightarrow> string list \<Rightarrow> ('k, unit) target_op" where
  "handle_register_write E C args =
    (if length args \<noteq> 4 then print_help C [''help'', ''register'']
     else
       catch_error C
         (bindS (liftS (register_info_by_name (args ! 2))) (\<lambda>info.
          bindS (liftS (parse_register_value E C info (args ! 3))) (\<lambda>v.
          bindS (getS p_current) (\<lambda>tid. on_registers tid (registers_write (env_kernel E) (env_float E) info v True)))))
         (\<lambda>what. print_err C (what @ newline)))"

definition handle_register_command :: "'k env \<Rightarrow> 'k console \<Rightarrow> string list \<Rightarrow> ('k, unit) target_op" where
  "handle_register_command E C args =
    (if length args < 2 then print_help C [''help'', ''register'']
     else if is_prefix (args ! 1) ''read'' then handle_register_read C args
     else if is_prefix (args ! 1) ''write'' then handle_register_write E C args
     else print_help C [''help'', ''register''])"

section \<open>Breakpoints\<close>

definition on_off :: "bool \<Rightarrow> string" where
  "on_off b = (if b then ''enabled'' else ''disabled'')"

text \<open>The sites a breakpoint points to.\<close>

definition sites_of :: "breakpoint_site list \<Rightarrow> breakpoint \<Rightarrow> breakpoint_site list result" where
  "sites_of sites b =
    foldE (\<lambda>a ss. bindE (the_opt (Undefined ''dangling site'') (sc_find_by_address site_at a sites)) (\<lambda>s. Inr (ss @ [s])))
      (b_sites b) []"

definition breakpoint_text :: "breakpoint \<Rightarrow> string" where
  "breakpoint_text b =
    format_int (b_id b) @ '': '' @
    (case b_kind b of
       function_breakpoint nm \<Rightarrow> ''function = '' @ nm
     | line_breakpoint file line \<Rightarrow> ''file = '' @ file @ '', line = '' @ format_nat 10 (unat line)
     | address_breakpoint a \<Rightarrow> ''address = '' @ format_hex a) @
    '', '' @ on_off (b_enabled b) @ '':'' @ newline"

definition site_text :: "breakpoint_site \<Rightarrow> string" where
  "site_text s =
    ''    .'' @ format_int (bs_id s) @ '': address = '' @ format_hex (bs_address s) @ '', '' @ on_off (bs_enabled s) @ newline"

definition handle_breakpoint_list_command :: "'k console \<Rightarrow> ('k, unit) target_op" where
  "handle_breakpoint_list_command C =
    bindS get_target (\<lambda>t.
      if t_breakpoints t = [] then print_out C ''No breakpoints set!''
      else
        thenS (print_out C (''Current breakpoints:'' @ newline))
          (forS (\<lambda>b.
             if b_internal b then retS ()
             else thenS (print_out C (breakpoint_text b))
               (bindS (getS p_sites) (\<lambda>sites.
                bindS (liftS (sites_of sites b)) (forS (\<lambda>s. print_out C (site_text s)))))) (t_breakpoints t)))"

definition enable_new :: "'k env \<Rightarrow> nat \<Rightarrow> ('k, unit) target_op" where
  "enable_new E key = on_breakpoint key (breakpoint_enable E)"

definition handle_breakpoint_set_command :: "nat \<Rightarrow> 'k env \<Rightarrow> 'k console \<Rightarrow> string list \<Rightarrow> ('k, unit) target_op" where
  "handle_breakpoint_set_command n E C args =
    (if length args = 4 \<and> args ! 3 \<noteq> ''-h'' then throwS (Send ''Invalid breakpoint command argument!'')
     else let hardware = (length args = 4); where_text = args ! 2
       in if starts_with ''0x'' where_text then
            (case to_integral_unsigned 16 where_text of
               None \<Rightarrow>
                 print_err C (''Breakpoint command expects address in hexadecimal, prefixed with '' @
                   [tick_char] @ ''0x'' @ [tick_char] @ newline)
             | Some a \<Rightarrow> bindS (create_address_breakpoint n E a hardware False) (enable_new E))
          else if CHR '':'' \<in> set where_text then
            (case split CHR '':'' where_text of
               path # line_text # _ \<Rightarrow>
                 (case to_integral_unsigned 10 line_text of
                    None \<Rightarrow> print_err C (''Line number should be an integer!'' @ newline)
                  | Some line \<Rightarrow> bindS (create_line_breakpoint n E path line hardware False) (enable_new E))
             | _ \<Rightarrow> throwS (Undefined ''index out of range''))
          else bindS (create_function_breakpoint n E where_text False False) (enable_new E))"

definition parse_id :: "string \<Rightarrow> int option" where
  "parse_id s = map_option sint (to_integral_signed 10 s :: u32 option)"

definition toggle_site :: "'k env \<Rightarrow> 'k console \<Rightarrow> string \<Rightarrow> breakpoint \<Rightarrow> string \<Rightarrow> ('k, unit) target_op" where
  "toggle_site E C command b site_id_str =
    (case parse_id site_id_str of
       None \<Rightarrow> print_err C ''Command expects breakpoint site ID!''
     | Some i \<Rightarrow>
         let switch = (\<lambda>m.
           bindS (getS p_sites) (\<lambda>sites.
           bindS (liftS (bindE (sites_of sites b) (sc_get_by_id bs_id i))) (\<lambda>s. m (bs_address s))))
         in if is_prefix command ''enable'' then switch (site_enable (env_kernel E) (env_float E))
            else if is_prefix command ''disable'' then switch (site_disable (env_kernel E) (env_float E))
            else retS ())"

definition delete_breakpoint :: "'k env \<Rightarrow> breakpoint \<Rightarrow> ('k, unit) target_op" where
  "delete_breakpoint E b =
    thenS (on_breakpoint (b_key b) (breakpoint_disable E))
    (thenS (modify_target (\<lambda>t. t\<lparr>t_breakpoints := sc_erase (\<lambda>x. b_id x = b_id b) (t_breakpoints t)\<rparr>))
      (forS (remove_site (env_kernel E) (env_float E)) (b_sites b)))"

definition handle_breakpoint_toggle :: "'k env \<Rightarrow> 'k console \<Rightarrow> string list \<Rightarrow> ('k, unit) target_op" where
  "handle_breakpoint_toggle E C args =
    (let command = args ! 1; txt = args ! 2; dot_pos = find_first_of ''.'' txt
     in case parse_id (take dot_pos txt) of
          None \<Rightarrow> print_err C (''Command expects breakpoint ID!'' @ newline)
        | Some i \<Rightarrow>
            bindS get_target (\<lambda>t.
            bindS (liftS (sc_get_by_id b_id i (t_breakpoints t))) (\<lambda>b.
              if dot_pos < length txt then toggle_site E C command b (drop (Suc dot_pos) txt)
              else if is_prefix command ''enable'' then on_breakpoint (b_key b) (breakpoint_enable E)
              else if is_prefix command ''disable'' then on_breakpoint (b_key b) (breakpoint_disable E)
              else if is_prefix command ''delete'' then delete_breakpoint E b
              else retS ())))"

definition handle_breakpoint_command :: "nat \<Rightarrow> 'k env \<Rightarrow> 'k console \<Rightarrow> string list \<Rightarrow> ('k, unit) target_op" where
  "handle_breakpoint_command n E C args =
    (if length args < 2 then print_help C [''help'', ''breakpoint'']
     else if is_prefix (args ! 1) ''list'' then handle_breakpoint_list_command C
     else if length args < 3 then print_help C [''help'', ''breakpoint'']
     else if is_prefix (args ! 1) ''set'' then handle_breakpoint_set_command n E C args
     else handle_breakpoint_toggle E C args)"

section \<open>Watchpoints\<close>

fun stoppoint_mode_to_string :: "stoppoint_mode \<Rightarrow> string" where
  "stoppoint_mode_to_string mode_execute = ''execute''"
| "stoppoint_mode_to_string mode_write = ''write''"
| "stoppoint_mode_to_string mode_read_write = ''read_write''"

definition watchpoint_text :: "watchpoint \<Rightarrow> string" where
  "watchpoint_text w =
    format_int (wp_id w) @ '': address = '' @ format_hex (wp_address w) @ '', mode = '' @ stoppoint_mode_to_string (wp_mode w) @
    '', size = '' @ format_nat 10 (wp_size w) @ '', '' @ on_off (wp_enabled w) @ newline"

definition handle_watchpoint_list :: "'k console \<Rightarrow> ('k, unit) target_op" where
  "handle_watchpoint_list C =
    bindS (getS p_watchpoints) (\<lambda>ws.
      if ws = [] then print_out C (''No watchpoints set!'' @ newline)
      else thenS (print_out C (''Current watchpoints:'' @ newline)) (forS (\<lambda>w. print_out C (watchpoint_text w)) ws))"

definition handle_watchpoint_set :: "'k env \<Rightarrow> 'k console \<Rightarrow> string list \<Rightarrow> ('k, unit) target_op" where
  "handle_watchpoint_set E C args =
    (if length args \<noteq> 5 then print_help C [''help'', ''watchpoint'']
     else
       case (to_integral_unsigned 16 (args ! 2) :: u64 option, to_integral_unsigned 10 (args ! 4) :: u64 option) of
         (Some a, Some sz) \<Rightarrow>
           if args ! 3 \<notin> {''write'', ''rw'', ''execute''} then print_help C [''help'', ''watchpoint'']
           else
             let mode = (if args ! 3 = ''write'' then mode_write else if args ! 3 = ''rw'' then mode_read_write else mode_execute)
             in bindS (create_watchpoint (env_kernel E) a mode (unat sz)) (\<lambda>w.
                  on_watchpoint (wp_id w) (watchpoint_enable (env_kernel E) (env_float E)))
       | _ \<Rightarrow> print_help C [''help'', ''watchpoint''])"

definition handle_watchpoint_command :: "'k env \<Rightarrow> 'k console \<Rightarrow> string list \<Rightarrow> ('k, unit) target_op" where
  "handle_watchpoint_command E C args =
    (if length args < 2 then print_help C [''help'', ''watchpoint'']
     else if is_prefix (args ! 1) ''list'' then handle_watchpoint_list C
     else if is_prefix (args ! 1) ''set'' then handle_watchpoint_set E C args
     else if length args < 3 then print_help C [''help'', ''watchpoint'']
     else case parse_id (args ! 2) of
       None \<Rightarrow> print_err C (''Command expects watchpoint ID!'' @ newline)
     | Some i \<Rightarrow>
         if is_prefix (args ! 1) ''enable'' then on_watchpoint i (watchpoint_enable (env_kernel E) (env_float E))
         else if is_prefix (args ! 1) ''disable'' then on_watchpoint i (watchpoint_disable (env_kernel E) (env_float E))
         else if is_prefix (args ! 1) ''delete'' then remove_watchpoint (env_kernel E) (env_float E) i
         else retS ())"

section \<open>Memory\<close>

text \<open>The number of bytes is kept in an \<open>int\<close> and widened again for the read.\<close>

definition read_amount :: "u64 \<Rightarrow> u64" where
  "read_amount bytes_arg = scast (ucast bytes_arg :: u32)"

function dump_rows :: "u64 \<Rightarrow> byte list \<Rightarrow> string list" where
  "dump_rows address data =
    (if data = [] then []
     else (format_hex_filled 16 ''0x'' (unat address) @ '': '' @
             format_join (\<lambda>b. format_hex_filled 2 [] (unat b)) '' '' (take 16 data) @ newline)
          # dump_rows (address + 16) (drop 16 data))"
  by auto
termination by (relation "measure (\<lambda>(_, bs). length bs)") auto

declare dump_rows.simps [simp del]

definition handle_memory_read_command :: "'k env \<Rightarrow> 'k console \<Rightarrow> string list \<Rightarrow> ('k, unit) target_op" where
  "handle_memory_read_command E C args =
    bindS (liftS (the_opt (Send ''Invalid address format!'') (to_integral_unsigned 16 (args ! 2)))) (\<lambda>a.
    bindS (if length args = 4 then
             bindS (liftS (the_opt (Send ''Invalid number of bytes!'') (to_integral_unsigned 10 (args ! 3)))) (\<lambda>k.
               retS (read_amount k))
           else retS 32) (\<lambda>n_bytes.
    bindS (process_memory (env_kernel E) a (unat n_bytes)) (\<lambda>data. forS (print_out C) (dump_rows a data))))"

definition handle_memory_write_command :: "'k env \<Rightarrow> 'k console \<Rightarrow> string list \<Rightarrow> ('k, unit) target_op" where
  "handle_memory_write_command E C args =
    (if length args \<noteq> 4 then print_help C [''help'', ''memory'']
     else
       bindS (liftS (the_opt (Send ''Invalid address format!'') (to_integral_unsigned 16 (args ! 2)))) (\<lambda>a.
       bindS (liftS (parse_vector (args ! 3))) (\<lambda>data. process_write_memory (env_kernel E) a data)))"

definition handle_memory_command :: "'k env \<Rightarrow> 'k console \<Rightarrow> string list \<Rightarrow> ('k, unit) target_op" where
  "handle_memory_command E C args =
    (if length args < 3 then print_help C [''help'', ''memory'']
     else if is_prefix (args ! 1) ''read'' then handle_memory_read_command E C args
     else if is_prefix (args ! 1) ''write'' then handle_memory_write_command E C args
     else print_help C [''help'', ''memory''])"

section \<open>Disassembly, system calls and threads\<close>

text \<open>The options of \<open>disassemble\<close>; no value stands for the help text.\<close>

fun disassemble_options :: "string list \<Rightarrow> virt_addr \<times> u64 \<Rightarrow> (virt_addr \<times> u64) option result" where
  "disassemble_options [] (address, n_instructions) = Inr (Some (address, n_instructions))"
| "disassemble_options (opt # arg # args) (address, n_instructions) =
    (if opt = ''-a'' then
       bindE (the_opt (Send ''Invalid address format!'') (to_integral_unsigned 16 arg)) (\<lambda>a.
         disassemble_options args (a, n_instructions))
     else if opt = ''-c'' then
       bindE (the_opt (Send ''Invalid instruction count!'') (to_integral_unsigned 10 arg)) (\<lambda>k.
         disassemble_options args (address, k))
     else Inr None)"
| "disassemble_options [opt] (address, n_instructions) = Inr None"

definition handle_disassemble_command :: "'k env \<Rightarrow> 'k console \<Rightarrow> string list \<Rightarrow> ('k, unit) target_op" where
  "handle_disassemble_command E C args =
    bindS (get_pc None) (\<lambda>pc.
    bindS (liftS (disassemble_options (tl args) (pc, 5))) (\<lambda>options.
      case options of
        None \<Rightarrow> print_help C [''help'', ''disassemble'']
      | Some (address, n_instructions) \<Rightarrow> print_disassembly E C address (unat n_instructions)))"

definition syscall_number :: "string \<Rightarrow> int result" where
  "syscall_number txt =
    (if txt \<noteq> [] \<and> is_decimal_digit (hd txt)
     then the_opt (Std_exception ''bad_optional_access'') (parse_id txt)
     else syscall_name_to_id txt)"

definition syscall_policy :: "string list \<Rightarrow> syscall_catch_policy result" where
  "syscall_policy args =
    (if length args = 3 \<and> args ! 2 = ''none'' then Inr catch_none
     else if length args \<ge> 3 then
       bindE (foldE (\<lambda>txt is. bindE (syscall_number txt) (\<lambda>i. Inr (is @ [i]))) (split CHR '','' (args ! 2)) []) (\<lambda>to_catch.
         Inr (catch_some to_catch))
     else Inr catch_all)"

definition handle_syscall_catchpoint_command :: "string list \<Rightarrow> ('k, unit) target_op" where
  "handle_syscall_catchpoint_command args =
    bindS (liftS (syscall_policy args)) (\<lambda>policy. modifyS (\<lambda>p. p\<lparr>p_catch := policy\<rparr>))"

definition handle_catchpoint_command :: "'k console \<Rightarrow> string list \<Rightarrow> ('k, unit) target_op" where
  "handle_catchpoint_command C args =
    (if length args < 2 then print_help C [''help'', ''catchpoint'']
     else if is_prefix (args ! 1) ''syscall'' then handle_syscall_catchpoint_command args
     else retS ())"

definition print_thread :: "nat \<Rightarrow> 'k console \<Rightarrow> pid \<Rightarrow> ('k, unit) target_op" where
  "print_thread n C tid =
    bindS (getS (\<lambda>p. (p_current p, map_of (p_threads p) tid))) (\<lambda>(current, state).
    bindS (liftS (the_opt dangling_thread state)) (\<lambda>ts.
    bindS (get_signal_stop_reason n C (ts_reason ts)) (\<lambda>msg.
      print_out C ((if tid = current then ''*'' else '' '') @ ''Thread '' @ format_int tid @ '': '' @ msg @ newline))))"

definition handle_thread_command :: "nat \<Rightarrow> 'k console \<Rightarrow> string list \<Rightarrow> ('k, unit) target_op" where
  "handle_thread_command n C args =
    (if length args < 2 then print_help C [''help'', ''thread'']
     else if is_prefix (args ! 1) ''list'' then
       bindS get_target (\<lambda>t. forS (print_thread n C) (map fst (t_threads t)))
     else if is_prefix (args ! 1) ''select'' then
       (if length args \<noteq> 3 then print_help C [''help'', ''thread'']
        else case parse_id (args ! 2) of
          None \<Rightarrow> print_err C (''Invalid thread ID!'' @ newline)
        | Some tid \<Rightarrow> modifyS (\<lambda>p. p\<lparr>p_current := tid\<rparr>))
     else retS ())"

section \<open>Variables\<close>

definition visual :: "'k env \<Rightarrow> 'k console \<Rightarrow> target \<Rightarrow> ('k, target) process \<Rightarrow> visual_env" where
  "visual E C t p =
    \<lparr>ve_units = all_units t, ve_read_string = (\<lambda>a. read_string (env_kernel E) (p_pid p) a (p_kernel p)),
     ve_float = con_float C, ve_double = con_double C, ve_long_double = con_long_double C\<rparr>"

definition show_data :: "nat \<Rightarrow> 'k env \<Rightarrow> 'k console \<Rightarrow> typed_data \<Rightarrow> ('k, string) target_op" where
  "show_data n E C td =
    bindS get_target (\<lambda>t.
    bindS (getS (visual E C t)) (\<lambda>ve. liftS (visualize n ve td 0)))"

text \<open>The range-\<open>for\<close> over the children of an entry, with a body that prints.\<close>

fun print_children_from ::
  "nat \<Rightarrow> compile_unit list \<Rightarrow> (die \<Rightarrow> 's \<Rightarrow> ('k, 's) target_op) \<Rightarrow> die \<Rightarrow> 's \<Rightarrow> ('k, 's) target_op" where
  "print_children_from n units body d s =
    (case die_abbrev d of
       None \<Rightarrow> retS s
     | Some _ \<Rightarrow>
         bindS (body d s) (\<lambda>s'.
           case n of
             0 \<Rightarrow> throwS (No_return ''fuel'')
           | Suc m \<Rightarrow> bindS (liftS (iter_next m units d)) (\<lambda>d'. print_children_from m units body d' s')))"

declare print_children_from.simps [simp del]

definition print_children ::
  "nat \<Rightarrow> compile_unit list \<Rightarrow> (die \<Rightarrow> 's \<Rightarrow> ('k, 's) target_op) \<Rightarrow> die \<Rightarrow> 's \<Rightarrow> ('k, 's) target_op" where
  "print_children n units body d s =
    bindS (liftS (die_abbrev_entry d)) (\<lambda>ab.
      if ab_has_children ab then bindS (liftS (children_first d)) (\<lambda>c. print_children_from n units body c s)
      else retS s)"

definition local_value :: "nat \<Rightarrow> target \<Rightarrow> pid \<Rightarrow> memory_reader \<Rightarrow> die \<Rightarrow> typed_data result" where
  "local_value n t tid rm var =
    bindE (dwarf_of_die t var) (\<lambda>dw.
    bindE (die_attr var DW_AT_location) (\<lambda>a.
    bindE (selected_registers tid t) (\<lambda>regs.
    bindE (as_evaluated_location n dw rm regs a False) (\<lambda>loc.
    bindE (die_type (all_units t) var) (\<lambda>var_type.
    bindE (byte_size n (all_units t) var_type) (\<lambda>sz.
    bindE (read_location_data rm (selected_registers tid t) (elf_map (dw_elf dw)) loc sz) (\<lambda>bs.
      Inr \<lparr>td_data = bs, td_type = var_type, td_address = None\<rparr>)))))))"

definition print_local :: "nat \<Rightarrow> 'k env \<Rightarrow> 'k console \<Rightarrow> die \<Rightarrow> string list \<Rightarrow> ('k, string list) target_op" where
  "print_local n E C var seen =
    bindS get_target (\<lambda>t.
    bindS (liftS (die_name n (all_units t) var)) (\<lambda>onm.
    bindS (liftS (die_tag var)) (\<lambda>tag.
      let nm = (case onm of None \<Rightarrow> [] | Some s \<Rightarrow> s)
      in if (tag = DW_TAG_variable \<or> tag = DW_TAG_formal_parameter) \<and> nm \<noteq> [] \<and> nm \<notin> set seen then
           bindS (getS (\<lambda>p. (p_current p, target_reader (env_kernel E) p))) (\<lambda>(tid, rm).
           bindS (liftS (local_value n t tid rm var)) (\<lambda>td.
           bindS (show_data n E C td) (\<lambda>str.
           thenS (print_out C (nm @ '': '' @ str @ newline)) (retS (nm # seen)))))
         else retS seen)))"

fun print_scopes :: "nat \<Rightarrow> 'k env \<Rightarrow> 'k console \<Rightarrow> compile_unit list \<Rightarrow> die list \<Rightarrow> string list \<Rightarrow> ('k, unit) target_op" where
  "print_scopes n E C units [] seen = retS ()"
| "print_scopes n E C units (scope # scopes) seen =
    bindS (print_children n units (print_local n E C) scope seen) (print_scopes n E C units scopes)"

definition handle_variable_locals_command :: "nat \<Rightarrow> 'k env \<Rightarrow> 'k console \<Rightarrow> ('k, unit) target_op" where
  "handle_variable_locals_command n E C =
    bindS (get_pc_file_address None) (\<lambda>pc.
    bindS get_target (\<lambda>t.
    bindS (liftS (bindE (dwarf_at t pc) (\<lambda>dw. scopes_at_address n dw pc))) (\<lambda>scopes.
      print_scopes n E C (all_units t) scopes [])))"

definition handle_variable_read_command :: "nat \<Rightarrow> 'k env \<Rightarrow> 'k console \<Rightarrow> string list \<Rightarrow> ('k, unit) target_op" where
  "handle_variable_read_command n E C args =
    bindS (get_pc_file_address None) (\<lambda>pc.
    bindS (resolve_indirect_name n E (args ! 2) pc) (\<lambda>(variable, _).
      case variable of
        None \<Rightarrow> print_out C (''ERROR: Not a variable!'' @ newline)
      | Some v \<Rightarrow> bindS (show_data n E C v) (\<lambda>str. print_out C (''Value: '' @ str @ newline))))"

definition location_text :: "simple_location \<Rightarrow> string result" where
  "location_text loc =
    (case loc of
       register_result reg \<Rightarrow>
         bindE (register_info_by_dwarf (dwarf_number reg)) (\<lambda>info. Inr (''Register: '' @ ri_name info @ newline))
     | address_result a \<Rightarrow> Inr (''Address: '' @ format_hex a @ newline)
     | _ \<Rightarrow> Inr ''None'')"

definition print_location :: "'k console \<Rightarrow> dwarf_result \<Rightarrow> ('k, unit) target_op" where
  "print_location C loc =
    (case loc of
       Simple l \<Rightarrow> bindS (liftS (location_text l)) (print_out C)
     | Pieces pieces \<Rightarrow>
         forS (\<lambda>pc.
           thenS (print_out C (''Piece: offset = '' @ format_nat 10 (unat (pc_offset pc)) @ '', bit size = '' @
                    format_nat 10 (unat (pc_bit_size pc)) @ '', location = ''))
             (bindS (liftS (location_text (pc_location pc))) (print_out C))) pieces)"

definition handle_variable_location_command :: "nat \<Rightarrow> 'k env \<Rightarrow> 'k console \<Rightarrow> string list \<Rightarrow> ('k, unit) target_op" where
  "handle_variable_location_command n E C args =
    bindS (get_pc_file_address None) (\<lambda>pc.
    bindS get_target (\<lambda>t.
    bindS (liftS (find_variable n t (args ! 2) pc)) (\<lambda>var.
      case var of
        None \<Rightarrow> print_err C ''Variable not found!''
      | Some d \<Rightarrow>
          bindS (getS (\<lambda>p. (p_current p, target_reader (env_kernel E) p))) (\<lambda>(tid, rm).
          bindS (liftS (bindE (dwarf_of_die t d) (\<lambda>dw.
                        bindE (die_attr d DW_AT_location) (\<lambda>a.
                        bindE (selected_registers tid t) (\<lambda>regs. as_evaluated_location n dw rm regs a False)))))
            (print_location C)))))"

definition handle_variable_command :: "nat \<Rightarrow> 'k env \<Rightarrow> 'k console \<Rightarrow> string list \<Rightarrow> ('k, unit) target_op" where
  "handle_variable_command n E C args =
    (if length args < 2 then print_help C [''help'', ''variable'']
     else if is_prefix (args ! 1) ''locals'' then handle_variable_locals_command n E C
     else if length args < 3 then print_help C [''help'', ''variable'']
     else if is_prefix (args ! 1) ''read'' then handle_variable_read_command n E C args
     else if is_prefix (args ! 1) ''location'' then handle_variable_location_command n E C args
     else retS ())"

section \<open>Dispatch\<close>

datatype command =
    cmd_continue | cmd_register | cmd_help | cmd_breakpoint | cmd_next | cmd_finish | cmd_step | cmd_stepi
  | cmd_memory | cmd_disassemble | cmd_watchpoint | cmd_catchpoint | cmd_up | cmd_down | cmd_backtrace
  | cmd_thread | cmd_variable | cmd_expression

text \<open>The names in the order the code tests them.\<close>

definition commands :: "(string \<times> command) list" where
  "commands =
    [(''continue'', cmd_continue), (''register'', cmd_register), (''help'', cmd_help), (''breakpoint'', cmd_breakpoint),
     (''next'', cmd_next), (''finish'', cmd_finish), (''step'', cmd_step), (''stepi'', cmd_stepi), (''memory'', cmd_memory),
     (''disassemble'', cmd_disassemble), (''watchpoint'', cmd_watchpoint), (''catchpoint'', cmd_catchpoint),
     (''up'', cmd_up), (''down'', cmd_down), (''backtrace'', cmd_backtrace), (''thread'', cmd_thread),
     (''variable'', cmd_variable), (''expression'', cmd_expression)]"

definition command_of :: "string \<Rightarrow> command option" where
  "command_of word = map_option snd (List.find (\<lambda>(nm, _). is_prefix word nm) commands)"

definition continue_process :: "nat \<Rightarrow> 'k env \<Rightarrow> ('k, stop_reason) target_op" where
  "continue_process n E =
    thenS (resume_all_threads (env_kernel E) (env_float E)) (target_wait n E (- 1))"

definition expression_text :: "string \<Rightarrow> string" where
  "expression_text line =
    (let i = find_first_of '' '' line in if i < length line then drop (Suc i) line else line)"

definition handle_expression :: "nat \<Rightarrow> 'k env \<Rightarrow> 'k console \<Rightarrow> string \<Rightarrow> ('k, unit) target_op" where
  "handle_expression n E C line =
    bindS (evaluate_expression n E (expression_text line) None) (\<lambda>ret.
      case ret of
        None \<Rightarrow> retS ()
      | Some (v, i) \<Rightarrow>
          bindS (show_data n E C v) (\<lambda>str. print_out C (''$'' @ format_nat 10 i @ '': '' @ str @ newline)))"

definition select_frame :: "'k env \<Rightarrow> 'k console \<Rightarrow> (stack \<Rightarrow> stack) \<Rightarrow> ('k, unit) target_op" where
  "select_frame E C f =
    bindS current_stack (\<lambda>s. thenS (modify_target (put_stack (f s))) (print_code_location E C))"

definition handle_command :: "nat \<Rightarrow> 'k env \<Rightarrow> 'k console \<Rightarrow> string \<Rightarrow> ('k, unit) target_op" where
  "handle_command n E C line =
    (let args = split CHR '' '' line
     in if args = [] then throwS (Undefined ''index out of range'')
        else case command_of (hd args) of
          None \<Rightarrow> print_err C (''Unknown command!'' @ newline)
        | Some cmd_continue \<Rightarrow> bindS (continue_process n E) (handle_stop n E C)
        | Some cmd_register \<Rightarrow> handle_register_command E C args
        | Some cmd_help \<Rightarrow> print_help C args
        | Some cmd_breakpoint \<Rightarrow> handle_breakpoint_command n E C args
        | Some cmd_next \<Rightarrow> bindS (step_over n E None) (handle_stop n E C)
        | Some cmd_finish \<Rightarrow> bindS (step_out n E None) (handle_stop n E C)
        | Some cmd_step \<Rightarrow> bindS (step_in n E None) (handle_stop n E C)
        | Some cmd_stepi \<Rightarrow>
            bindS (step_instruction n (target_hooks n E) (env_kernel E) (env_float E) None) (handle_stop n E C)
        | Some cmd_memory \<Rightarrow> handle_memory_command E C args
        | Some cmd_disassemble \<Rightarrow> handle_disassemble_command E C args
        | Some cmd_watchpoint \<Rightarrow> handle_watchpoint_command E C args
        | Some cmd_catchpoint \<Rightarrow> handle_catchpoint_command C args
        | Some cmd_up \<Rightarrow> select_frame E C stack_up
        | Some cmd_down \<Rightarrow> select_frame E C stack_down
        | Some cmd_backtrace \<Rightarrow> print_backtrace n C
        | Some cmd_thread \<Rightarrow> handle_thread_command n C args
        | Some cmd_variable \<Rightarrow> handle_variable_command n E C args
        | Some cmd_expression \<Rightarrow> handle_expression n E C line)"

section \<open>The loop\<close>

text \<open>
  The lines \<open>readline\<close> returns until its end; an empty one repeats the last line of the history. The result is
  the history.
\<close>

definition repeated_line :: "string list \<Rightarrow> string \<Rightarrow> string" where
  "repeated_line history line = (if line = [] then (if history \<noteq> [] then last history else []) else line)"

fun main_loop :: "nat \<Rightarrow> 'k env \<Rightarrow> 'k console \<Rightarrow> string list \<Rightarrow> string list \<Rightarrow> ('k, string list) target_op" where
  "main_loop n E C history [] = retS history"
| "main_loop n E C history (line # lines) =
    (let line_str = repeated_line history line; history' = (if line = [] then history else history @ [line])
     in thenS (if line_str = [] then retS ()
               else catch_error C (handle_command n E C line_str) (\<lambda>what. print_out C (what @ newline)))
          (main_loop n E C history' lines))"

definition thread_lifecycle_callback :: "'k console \<Rightarrow> stop_reason \<Rightarrow> ('k, unit) target_op" where
  "thread_lifecycle_callback C reason =
    print_out C (''Thread '' @ format_int (sr_tid reason) @ '' '' @
      (case sr_reason reason of
         exited \<Rightarrow> ''exited'' | terminated \<Rightarrow> ''terminated'' | stopped \<Rightarrow> ''created'' | running \<Rightarrow> []) @ newline)"

text \<open>Interrupting the debugger stops the inferior; the handler may run between any two steps.\<close>

definition handle_sigint :: "'k env \<Rightarrow> ('k, unit) target_op" where
  "handle_sigint E =
    modifyS (\<lambda>p. p\<lparr>p_kernel := sys_kill (env_system E) (p_pid p) (unat SIGSTOP) (p_kernel p)\<rparr>)"

text \<open>A session on a target: the callback is installed, then the lines are handled.\<close>

definition session_env :: "'k env \<Rightarrow> 'k console \<Rightarrow> 'k env" where
  "session_env E C = E\<lparr>env_lifecycle_callback := thread_lifecycle_callback C\<rparr>"

definition session :: "nat \<Rightarrow> 'k env \<Rightarrow> 'k console \<Rightarrow> string list \<Rightarrow> ('k, string list) target_op" where
  "session n E C lines = main_loop n (session_env E C) C [] lines"

section \<open>The program\<close>

text \<open>\<open>std::atoi\<close>: blanks, a sign, digits; a value outside \<open>int\<close> is undefined.\<close>

definition atoi :: "string \<Rightarrow> int result" where
  "atoi s =
    (let s' = dropWhile (\<lambda>c. of_char c \<in> {9, 10, 11, 12, 13, 32 :: nat}) s;
         neg = (s' \<noteq> [] \<and> hd s' = CHR ''-'');
         ds = takeWhile is_decimal_digit (if s' \<noteq> [] \<and> hd s' \<in> {CHR ''-'', CHR ''+''} then tl s' else s');
         v = (if neg then - int (digits_value 10 ds) else int (digits_value 10 ds))
     in if - (2 ^ 31) \<le> v \<and> v < 2 ^ 31 then Inr v else Inl (Undefined ''atoi out of range''))"

text \<open>
  The rest of \<open>target::launch\<close> or \<open>target::attach\<close> on the process made; where it throws, the process is
  destroyed with the target.
\<close>

definition with_target ::
  "nat \<Rightarrow> 'k env \<Rightarrow> ('k, unit) target_op \<Rightarrow> ('k, target) process result \<times> 'k \<Rightarrow> ('k, target) process result \<times> 'k" where
  "with_target n E m made =
    (case made of
       (Inl e, k) \<Rightarrow> (Inl e, k)
     | (Inr p, _) \<Rightarrow>
         (case m p of
            (Inr _, p') \<Rightarrow> (Inr p', p_kernel p')
          | (Inl e, p') \<Rightarrow>
              if \<not> is_exception e then (Inl e, p_kernel p')
              else (case destroy_process n (env_kernel E) (env_system E) (env_float E) p' of
                      (Inl d, p'') \<Rightarrow> (Inl d, p_kernel p'')
                    | (Inr _, p'') \<Rightarrow> (Inl e, p_kernel p''))))"

definition cli_attach ::
  "nat \<Rightarrow> 'k env \<Rightarrow> 'k console \<Rightarrow> string list \<Rightarrow> 'k \<Rightarrow> ('k, target) process result \<times> 'k" where
  "cli_attach n E C argv k =
    (if length argv = 3 \<and> argv ! 1 = ''-p'' then
       (case atoi (argv ! 2) of
          Inl e \<Rightarrow> (Inl e, k)
        | Inr pid \<Rightarrow>
            with_target n E (target_attach n E)
              (attach n (target_hooks n E) (env_kernel E) (env_system E) (env_float E) pid k))
     else
       with_target n E
         (thenS (target_launch n E (argv ! 1))
           (bindS (getS p_pid) (\<lambda>pid. print_out C (''Launched process with PID '' @ format_int pid @ newline))))
         (launch n (target_hooks n E) (env_kernel E) (env_system E) (env_float E) (argv ! 1) True None k))"

definition no_callback :: "'k env \<Rightarrow> 'k env" where
  "no_callback E = E\<lparr>env_lifecycle_callback := (\<lambda>_. retS ())\<rparr>"

definition gsdb_main :: "nat \<Rightarrow> 'k env \<Rightarrow> 'k console \<Rightarrow> string list \<Rightarrow> string list \<Rightarrow> 'k \<Rightarrow> int result \<times> 'k" where
  "gsdb_main n E C argv lines k =
    (if argv = [] then (Inl (Undefined ''null argument''), k)
     else if length argv = 1 then (Inr (- 1), con_err C (''No arguments given'' @ newline) k)
     else
       case cli_attach n (no_callback E) C argv k of
         (Inl (Send s), k') \<Rightarrow> (Inr 0, con_out C (s @ newline) k')
       | (Inl (Send_errno s), k') \<Rightarrow> (Inr 0, con_out C (s @ '': '' @ con_strerror C k' @ newline) k')
       | (Inl e, k') \<Rightarrow> (Inl e, k')
       | (Inr p, _) \<Rightarrow>
           (case session n E C lines p of
              (Inl e, p') \<Rightarrow> (Inl e, p_kernel p')
            | (Inr _, p') \<Rightarrow>
                (case destroy_process n (env_kernel E) (env_system E) (env_float E) p' of
                   (Inl e, p'') \<Rightarrow> (Inl e, p_kernel p'')
                 | (Inr _, p'') \<Rightarrow> (Inr 0, p_kernel p''))))"

end
