(* ===== verification/Cli_Facts.thy ===== *)
theory Cli_Facts
  imports Cli
begin

text \<open>
  Facts about the text of the command line: the value of a register that \<open>register read\<close> prints is one
  that \<open>register write\<close> takes back, words are split where they were joined, and each command is reached by its name.
\<close>

section \<open>Values of registers as text\<close>

lemma digits_value_zeros: "digits_value base (replicate k CHR ''0'' @ ds) = digits_value base ds"
proof (induction k)
  case (Suc k)
  then show ?case by (simp add: digits_value_def digit_value_def)
qed simp

lemma from_chars_filled: "from_chars_nat 16 (replicate k CHR ''0'' @ format_nat 16 v) = (Some v, [])"
proof -
  have "is_digit 16 CHR ''0''" by (simp add: is_digit_def digit_value_def)
  then have "\<forall>c \<in> set (replicate k CHR ''0'' @ format_nat 16 v). is_digit 16 c"
    using format_nat_digits [of 16 v] by auto
  then show ?thesis
    using format_nat_digits [of 16 v]
    by (simp add: from_chars_nat_def takeWhile_eq_all_conv [THEN iffD2] dropWhile_eq_Nil_conv digits_value_zeros)
qed

lemma to_integral_filled:
  "to_integral_unsigned 16 (format_hex_filled width ''0x'' (unat w)) = Some (w :: 'a::len word)"
  using unsigned_less [where ?'a = nat, of w]
  by (simp add: to_integral_unsigned_def skip_hex_prefix_def format_hex_filled_def Let_def from_chars_filled)

lemma format_byte_hex_eq: "format_byte_hex b = format_byte b"
proof -
  have u: "unat b < 256" using unsigned_less [where ?'a = nat, of b] by simp
  show ?thesis
  proof (cases "unat b < 16")
    case True
    then have "format_nat 16 (unat b) = [digit_char (unat b)]" by (subst format_nat.simps) simp
    moreover have "digit_char 0 = CHR ''0''" by code_simp
    ultimately show ?thesis using True by (simp add: format_byte_hex_def format_byte_def format_hex_filled_def)
  next
    case False
    then have "unat b div 16 < 16" using u by (simp add: div_less_iff_less_mult)
    then have "format_nat 16 (unat b) = [digit_char (unat b div 16), digit_char (unat b mod 16)]"
      using False by (subst format_nat.simps, subst format_nat.simps) simp
    then show ?thesis by (simp add: format_byte_hex_def format_byte_def format_hex_filled_def)
  qed
qed

lemma format_join_bytes: "format_join format_byte_hex '','' bs = format_bytes bs"
proof -
  have "format_join_from format_byte_hex '','' '','' (b # bs) = '','' @ format_bytes (b # bs)" for b bs
    by (induction bs arbitrary: b) (simp_all add: format_byte_hex_eq)
  then show ?thesis by (cases bs rule: format_bytes.cases) (simp_all add: format_join_def format_byte_hex_eq)
qed

lemma parse_format_vector:
  fixes w :: "'a::len word"
  assumes "LENGTH('a) = 8 * n" "n > 0"
  shows "parse_vector_n n (format_vector w) = Inr (as_bytes w)" "from_bytes (as_bytes w) = w"
proof -
  have l: "length (as_bytes w) = n" using assms(1) by simp
  then obtain bs b where bs: "as_bytes w = bs @ [b]" using assms(2) by (cases "as_bytes w" rule: rev_cases) auto
  show "parse_vector_n n (format_vector w) = Inr (as_bytes w)"
    using parse_vector_n_format [of bs b] l by (simp add: format_vector_def format_join_bytes bs)
  show "from_bytes (as_bytes w) = w" using from_as_bytes [of w "[]"] assms by simp
qed

lemma vector_register_sizes:
  assumes "info \<in> set g_register_infos" "ri_format info = fmt_vector"
  shows "ri_size info = 8 \<or> ri_size info = 16"
proof -
  have "list_all (\<lambda>i. case ri_format i of fmt_vector \<Rightarrow> ri_size i = 8 \<or> ri_size i = 16 | _ \<Rightarrow> True) g_register_infos"
    by code_simp
  then show ?thesis using assms by (auto simp: list_all_iff)
qed

text \<open>
  C37. What \<open>register read\<close> prints, \<open>register write\<close> takes: for every integer and vector register of the
  table, the text printed for the value read is parsed back to that value, with the same type.
\<close>

theorem register_text_roundtrip:
  assumes "info \<in> set g_register_infos" "ri_format info = fmt_uint \<or> ri_format info = fmt_vector"
    and "registers_read regs info = Inr v"
  shows "parse_register_value E C info (format_value C v) = Inr v"
proof (cases "ri_format info = fmt_uint")
  case True
  then show ?thesis
    using assms(3)
    by (auto simp: registers_read_def reg_map_def result_simps parse_register_value_def parse_value_def
        format_unsigned_def to_integral_filled split: if_split_asm)
next
  case False
  then have f: "ri_format info = fmt_vector" using assms(2) by simp
  show ?thesis
    using assms(3) f vector_register_sizes [OF assms(1) f] parse_format_vector [of 8, where ?'a = 64]
      parse_format_vector [of 16, where ?'a = 128]
    by (auto simp: registers_read_def reg_map_def result_simps parse_register_value_def parse_value_def split: if_split_asm)
qed

section \<open>Commands\<close>

text \<open>
  Every command is reached by its whole name, though the names are tested as prefixes one after the
  other; the empty word, which a line that begins with a blank has, is a prefix of the first, \<open>continue\<close>.
\<close>

lemma command_by_name: "map (\<lambda>(nm, c). command_of nm) commands = map (\<lambda>(nm, c). Some c) commands"
  by code_simp

lemma empty_word_continues: "command_of (hd (split CHR '' '' '' help'')) = Some cmd_continue"
  by code_simp

section \<open>Example\<close>

text \<open>A world whose only state is the text printed: every request to the kernel fails.\<close>

definition mute_kernel :: "string kernel" where
  "mute_kernel = \<lparr>
     k_peekdata = (\<lambda>p a k. None), k_pokedata = (\<lambda>p a w k. None), k_vm_readv = (\<lambda>p n iov k. None),
     k_peekuser = (\<lambda>p off k. None), k_pokeuser = (\<lambda>p off w k. None),
     k_getregs = (\<lambda>p k. None), k_setregs = (\<lambda>p bs k. None),
     k_getfpregs = (\<lambda>p k. None), k_setfpregs = (\<lambda>p bs k. None),
     k_getsiginfo = (\<lambda>p k. None), k_singlestep = (\<lambda>p k. None), k_cont = (\<lambda>p k. None),
     k_syscall = (\<lambda>p k. None), k_waitpid = (\<lambda>p opts k. (None, k)), k_tgkill = (\<lambda>p t s k. k)\<rparr>"

definition mute_system :: "string system" where
  "mute_system = no_system"

definition mute_env :: "string env" where
  "mute_env = \<lparr>
     env_kernel = mute_kernel, env_system = mute_system,
     env_float = \<lparr>float_to_double = ucast, float_to_long_double = ucast, double_to_long_double = ucast,
       long_double_to_double = ucast\<rparr>,
     env_demangle = (\<lambda>s. None), env_temp_dir = ''/tmp'',
     env_decode = (\<lambda>a bs. None), env_from_chars_double = (\<lambda>s. (0, None)), env_lifecycle_callback = (\<lambda>r. retS ())\<rparr>"

definition text_console :: "string console" where
  "text_console = \<lparr>
     con_out = (\<lambda>s k. k @ s), con_err = (\<lambda>s k. k @ s), con_sigabbrev = (\<lambda>s. None), con_strerror = (\<lambda>k. ''error''),
     con_float = (\<lambda>w. []), con_double = (\<lambda>w. []), con_long_double = (\<lambda>w. []), con_from_chars_long_double = (\<lambda>s. (0, None)),
     con_log10 = (\<lambda>w. 0), con_file = (\<lambda>path k. [])\<rparr>"

text \<open>The vector register \<open>xmm0\<close> of a thread whose user area holds the numbers from 0 on.\<close>

definition counted_registers :: registers where
  "counted_registers = (new_registers 1)\<lparr>reg_data := map word_of_nat [0..<user_size]\<rparr>"

theorem register_text_roundtrip_witness:
  "\<exists>v. registers_read counted_registers (g_register_infos ! id_xmm0) = Inr v \<and>
     parse_register_value mute_env text_console (g_register_infos ! id_xmm0) (format_value text_console v) = Inr v"
proof -
  let ?info = "g_register_infos ! id_xmm0"
  have i: "is_ok (register_info_by_id (ri_id ?info))" by code_simp
  have b: "ri_offset ?info + 16 \<le> user_size" "ri_size ?info = 16" by code_simp+
  have "id_xmm0 < length g_register_infos" by code_simp
  then have m: "?info \<in> set g_register_infos" by simp
  have "case ri_format ?info of fmt_vector \<Rightarrow> True | _ \<Rightarrow> False" by code_simp
  then have f: "ri_format ?info = fmt_vector" by (cases "ri_format ?info") simp_all
  obtain v where v: "registers_read counted_registers ?info = Inr v"
    using i b f by (auto simp: registers_read_def is_undefined_def is_ok_iff reg_map_def user_field_def
        counted_registers_def new_registers_def)
  show ?thesis using register_text_roundtrip [OF m _ v] f v by blast
qed

end
