(* ===== verification/Session.thy ===== *)
theory Session
  imports Target_Invariant Cli_Facts
begin

text \<open>
  What holds through a whole session of the command line: every command keeps the breakpoint sites at
  different addresses, whatever the user types and whatever the kernel does.
\<close>

section \<open>Printing\<close>

lemma keeps_print [keeps_intros]:
  "keepsS unique_sites (print_out C s)" "keepsS unique_sites (print_err C s)"
  unfolding print_out_def print_err_def by (rule keeps_frame; simp)+

lemma keeps_help [keeps_intros]: "keepsS unique_sites (print_help C args)"
  unfolding print_help_def by (intro keeps_intros)

lemma keeps_catch_error [keeps_intros]:
  "keepsS unique_sites m \<Longrightarrow> (\<And>s. keepsS unique_sites (h s)) \<Longrightarrow> keepsS unique_sites (catch_error C m h)"
  unfolding catch_error_def by (intro keepsS_catch) (auto intro!: keeps_intros split: gsdb_error.splits)

lemma keeps_current_stack [keeps_intros]: "keepsS I current_stack"
  unfolding current_stack_def by (intro keeps_intros)

lemma keeps_disassembly [keeps_intros]: "keepsS unique_sites (print_disassembly E C a k)"
  unfolding print_disassembly_def by (intro keeps_intros)

lemma keeps_stop_messages [keeps_intros]:
  "keepsS unique_sites (get_sigtrap_info r)" "keepsS unique_sites (get_signal_stop_reason n C r)"
proof -
  show i: "keepsS unique_sites (get_sigtrap_info r)"
    unfolding get_sigtrap_info_def get_current_hardware_stoppoint_def Let_def
    by (auto intro!: keeps_intros split: option.splits trap_type.splits sum.splits)
  show "keepsS unique_sites (get_signal_stop_reason n C r)"
    unfolding get_signal_stop_reason_def by (intro keeps_intros i)
qed

lemma keeps_print_stop [keeps_intros]: "keepsS unique_sites (print_stop_reason n C r)"
  unfolding print_stop_reason_def by (rule keepsS_bind) (auto intro!: keeps_intros split: process_state.splits)

lemma keeps_code_location [keeps_intros]:
  "keepsS unique_sites (print_code_location E C)" "keepsS unique_sites (print_backtrace n C)"
  unfolding print_code_location_def print_source_def print_backtrace_def by (intro keeps_intros)+

lemma keeps_handle_stop [keeps_intros]: "keepsS unique_sites (handle_stop n E C r)"
  unfolding handle_stop_def by (intro keeps_intros)

section \<open>Commands\<close>

lemma keeps_register_command [keeps_intros]: "keepsS unique_sites (handle_register_command E C args)"
  unfolding handle_register_command_def handle_register_read_def handle_register_write_def print_register_value_def
  by (intro keeps_intros)

lemma keeps_delete_breakpoint [keeps_intros]: "keepsS unique_sites (delete_breakpoint E b)"
  unfolding delete_breakpoint_def by (intro keeps_intros)

lemma keeps_breakpoint_set [keeps_intros]: "keepsS unique_sites (handle_breakpoint_set_command n E C args)"
  unfolding handle_breakpoint_set_command_def enable_new_def create_address_breakpoint_def create_line_breakpoint_def
    create_function_breakpoint_def
  by (intro keeps_intros)

lemma keeps_breakpoint_list [keeps_intros]: "keepsS unique_sites (handle_breakpoint_list_command C)"
  unfolding handle_breakpoint_list_command_def by (intro keeps_intros)

lemma keeps_breakpoint_toggle [keeps_intros]: "keepsS unique_sites (handle_breakpoint_toggle E C args)"
  unfolding handle_breakpoint_toggle_def toggle_site_def Let_def by (intro keeps_intros)

lemma keeps_breakpoints [keeps_intros]: "keepsS unique_sites (handle_breakpoint_command n E C args)"
  unfolding handle_breakpoint_command_def by (intro keeps_intros)

lemma keeps_watch_id [keeps_intros]: "keepsS unique_sites (modifyS (p_watch_id_update (\<lambda>_. i)))"
  by (rule keeps_frame) simp

lemma keeps_watchpoint_operations [keeps_intros]:
  "keepsS unique_sites (watchpoint_enable K fo w)" "keepsS unique_sites (watchpoint_disable K fo w)"
  "keepsS unique_sites (create_watchpoint K a mode k)"
  unfolding watchpoint_enable_def watchpoint_disable_def create_watchpoint_def watchpoint_new_def set_watchpoint_def
    watchpoint_update_data_def Let_def
  by (intro keeps_intros)+

lemma keeps_watchpoints [keeps_intros]: "keepsS unique_sites (handle_watchpoint_command E C args)"
  unfolding handle_watchpoint_command_def handle_watchpoint_list_def handle_watchpoint_set_def on_watchpoint_def
    remove_watchpoint_def
  by (intro keeps_intros)

lemma keeps_memory [keeps_intros]: "keepsS unique_sites (handle_memory_command E C args)"
  unfolding handle_memory_command_def handle_memory_read_command_def handle_memory_write_command_def
  by (intro keeps_intros)

lemma keeps_threads [keeps_intros]: "keepsS unique_sites (handle_thread_command n C args)"
proof -
  have "keepsS unique_sites (modifyS (\<lambda>p. p\<lparr>p_current := t\<rparr>))" for t by (rule keeps_frame) simp
  then show ?thesis unfolding handle_thread_command_def print_thread_def by (intro keeps_intros)
qed

lemma keeps_small_commands [keeps_intros]:
  "keepsS unique_sites (handle_disassemble_command E C args)" "keepsS unique_sites (handle_catchpoint_command C args)"
  "keepsS unique_sites (select_frame E C f)" "keepsS unique_sites (show_data n E C td)"
proof -
  have "keepsS unique_sites (modifyS (\<lambda>p. p\<lparr>p_catch := c\<rparr>))" for c by (rule keeps_frame) simp
  then show "keepsS unique_sites (handle_catchpoint_command C args)"
    unfolding handle_catchpoint_command_def handle_syscall_catchpoint_command_def by (intro keeps_intros)
  show "keepsS unique_sites (handle_disassemble_command E C args)"
    "keepsS unique_sites (select_frame E C f)" "keepsS unique_sites (show_data n E C td)"
    unfolding handle_disassemble_command_def select_frame_def show_data_def by (intro keeps_intros)+
qed

lemma keeps_children:
  assumes "\<And>d s. keepsS I (body d s)"
  shows "keepsS I (print_children n units body d s)"
proof -
  have "keepsS I (print_children_from n units body d s)" for d s
  proof (induction n arbitrary: d s)
    case 0
    then show ?case by (subst print_children_from.simps) (auto intro!: keeps_intros assms)
  next
    case (Suc n)
    then show ?case by (subst print_children_from.simps) (auto intro!: keeps_intros assms)
  qed
  then show ?thesis unfolding print_children_def by (intro keeps_intros)
qed

lemma keeps_scopes [keeps_intros]: "keepsS unique_sites (print_scopes n E C units scopes seen)"
proof (induction scopes arbitrary: seen)
  case (Cons scope scopes)
  have "keepsS unique_sites (print_local n E C var seen)" for var seen
    unfolding print_local_def by (intro keeps_intros)
  then show ?case unfolding print_scopes.simps by (intro keeps_intros keeps_children Cons.IH)
qed (simp add: keepsS_def)

lemma keeps_variables [keeps_intros]: "keepsS unique_sites (handle_variable_command n E C args)"
proof -
  have "keepsS unique_sites (print_location C loc)" for loc
    unfolding print_location_def by (cases loc) (auto intro!: keeps_intros)
  then show ?thesis
    unfolding handle_variable_command_def handle_variable_locals_command_def handle_variable_read_command_def
      handle_variable_location_command_def
    by (intro keeps_intros)
qed

section \<open>The session\<close>

context keeping_target
begin

lemma keeps_command: "keepsS unique_sites (handle_command n E C line)"
proof -
  have "keepsS unique_sites (continue_process n E)"
    unfolding continue_process_def resume_all_threads_def by (intro keeps_intros)
  moreover have "keepsS unique_sites (handle_expression n E C line)"
    unfolding handle_expression_def by (intro keeps_intros)
  moreover have "keepsS unique_sites (step_instruction n (target_hooks n E) (env_kernel E) (env_float E) None)"
    by (intro keeps_step_instruction hooks)
  ultimately show ?thesis unfolding handle_command_def Let_def
    by (auto intro!: keeps_intros split: option.splits command.splits)
qed

lemma keeps_main_loop: "keepsS unique_sites (main_loop n E C history lines)"
proof (induction lines arbitrary: history)
  case (Cons line lines)
  show ?case unfolding main_loop.simps by (intro keeps_intros keeps_command Cons.IH)
qed (simp add: keepsS_def)

end

text \<open>The callback of the command line only prints; before it is installed there is none.\<close>

interpretation cli_session: keeping_target "session_env E C" for E C
  by unfold_locales (auto simp: session_env_def thread_lifecycle_callback_def intro!: keeps_intros)

interpretation cli_startup: keeping_target "no_callback E" for E
  by unfold_locales (simp add: no_callback_def keepsS_def)

lemma session_keeps: "keepsS unique_sites (session n E C lines)"
  unfolding session_def by (rule cli_session.keeps_main_loop)

section \<open>The start of the program\<close>

lemma constructed_unique:
  fixes m :: "('k, 't, unit) process_op"
  assumes "keepsS unique_sites m" "constructed n K S fo k pid te att m = (Inr p, k')"
  shows "unique_sites p"
proof -
  let ?p0 = "new_process k pid te att :: ('k, 't) process"
  obtain r q where q: "populate_existing_threads S ?p0 = (r, q)" by force
  have k: "keepsS unique_sites (populate_existing_threads S :: ('k, 't, unit) process_op)"
    unfolding populate_existing_threads_def by (intro keeps_intros)
  have "unique_sites ?p0" by (simp add: unique_sites_def new_process_def)
  then have "unique_sites q" by (rule keepsS_D [OF k q])
  obtain s q' where q': "m q = (s, q')" by force
  have "q' = p"
    using assms(2) q q' by (cases r; cases s) (simp_all add: constructed_def split: if_split_asm sum.splits prod.splits)
  then show ?thesis using keepsS_D [OF assms(1) q' \<open>unique_sites q\<close>] by simp
qed

lemma process_start_unique:
  assumes "hooks_keep H"
  shows "attach n H K S fo pid k = (Inr p, k') \<Longrightarrow> unique_sites p"
    and "launch n H K S fo path debug out k = (Inr p, k') \<Longrightarrow> unique_sites p"
proof -
  have w: "keepsS unique_sites (thenS (wait_on_signal n H K fo (- 1)) (set_ptrace_options S pid b))" for pid b
    unfolding set_ptrace_options_def Let_def by (intro keeps_intros keeps_wait assms)
  show "attach n H K S fo pid k = (Inr p, k') \<Longrightarrow> unique_sites p"
    by (auto simp: attach_def split: if_split_asm option.splits intro: constructed_unique [OF w])
  have "keepsS unique_sites (if debug then thenS (wait_on_signal n H K fo (- 1)) (set_ptrace_options S pid True) else retS ())"
    for pid using w by (simp add: keepsS_def)
  then show "launch n H K S fo path debug out k = (Inr p, k') \<Longrightarrow> unique_sites p"
    unfolding launch_def Let_def
    by (auto simp: with_pipe_def split: if_split_asm option.splits prod.splits sum.splits intro: constructed_unique)
qed

lemma with_target_unique:
  assumes "keepsS unique_sites m" "\<And>p k. made = (Inr p, k) \<Longrightarrow> unique_sites p" "with_target n E m made = (Inr p', k')"
  shows "unique_sites p'"
proof -
  obtain p k x where "made = (Inr p, k)" "m p = (Inr x, p')"
    using assms(3) by (auto simp: with_target_def split: sum.splits prod.splits if_split_asm)
  then show ?thesis using keepsS_D [OF assms(1)] assms(2) by blast
qed

lemma start_unique:
  assumes "cli_attach n (no_callback E0) C argv k = (Inr p, k')"
  shows "unique_sites p"
proof -
  define E where "E = no_callback E0"
  have h: "hooks_keep (target_hooks n E)" unfolding E_def by (rule cli_startup.hooks)
  have l: "keepsS unique_sites (thenS (target_launch n E path) (bindS (getS p_pid) (\<lambda>pid. print_out C (msg pid))))" for path msg
    by (intro keeps_intros)
  have a: "unique_sites p" if "with_target n E (target_attach n E) (attach n (target_hooks n E) K S fo pid k) = (Inr p, k')"
    for K S fo pid
    using with_target_unique [OF keeps_launch(2) _ that] process_start_unique(1) [OF h] by blast
  have b: "unique_sites p"
    if "with_target n E (thenS (target_launch n E path) (bindS (getS p_pid) (\<lambda>pid. print_out C (msg pid))))
          (launch n (target_hooks n E) K S fo path' True None k) = (Inr p, k')" for K S fo path path' msg
    using with_target_unique [OF l _ that] process_start_unique(2) [OF h] by blast
  show ?thesis
  proof (cases "length argv = 3 \<and> argv ! 1 = ''-p''")
    case True
    then show ?thesis using assms a unfolding cli_attach_def E_def [symmetric] by (cases "atoi (argv ! 2)") simp_all
  next
    case False
    show ?thesis using assms unfolding cli_attach_def E_def [symmetric] if_not_P [OF False] by (rule b)
  qed
qed

section \<open>Properties\<close>

text \<open>
  C3. Through a whole session no two breakpoint sites have the same address: this holds of the
  process the program starts with, launched or attached, and every list of lines the user types keeps it,
  whichever commands fail and whatever the kernel answers. So the saved byte of an enabled site is always a byte
  of the program, never the trap of another site.
\<close>

theorem session_sites_unique:
  "(case fst (cli_attach n (no_callback E) C argv k) of
      Inl e \<Rightarrow> True
    | Inr p0 \<Rightarrow> distinct (map bs_address (p_sites p0))) \<and>
   (distinct (map bs_address (p_sites p)) \<longrightarrow>
     distinct (map bs_address (p_sites (snd (session n E C lines p)))))"
proof
  obtain r k' where r: "cli_attach n (no_callback E) C argv k = (r, k')" by force
  show "case fst (cli_attach n (no_callback E) C argv k) of
      Inl e \<Rightarrow> True | Inr p0 \<Rightarrow> distinct (map bs_address (p_sites p0))"
  proof (cases r)
    case (Inr p0)
    then show ?thesis using start_unique r by (auto simp: unique_sites_def)
  qed (simp add: r)
  show "distinct (map bs_address (p_sites p)) \<longrightarrow> distinct (map bs_address (p_sites (snd (session n E C lines p))))"
    using session_keeps [of n E C lines] by (auto simp: keepsS_def unique_sites_def)
qed

text \<open>Errors of the debugger do not leave a command that is caught, and printing throws nothing.\<close>

definition caught :: "gsdb_error \<Rightarrow> bool" where
  "caught e \<longleftrightarrow> (\<exists>s. e = Send s \<or> e = Send_errno s)"

lemma catch_error_result:
  assumes "\<And>s p. \<exists>x p'. h s p = (Inr x, p')"
  shows "fst (catch_error C m h p) = Inl e \<Longrightarrow> \<not> caught e"
  using assms unfolding catch_error_def catchS_def
  by (auto simp: caught_def bindS_def getS_def throwS_def split: prod.splits sum.splits gsdb_error.splits)
    (metis fst_conv old.sum.distinct(1) surj_pair)+

lemma main_loop_result:
  "case fst (main_loop n E C history lines p) of
     Inl e \<Rightarrow> \<not> caught e
   | Inr h \<Rightarrow> h = history @ filter (\<lambda>l. l \<noteq> []) lines"
proof (induction lines arbitrary: history p)
  case Nil
  show ?case by (simp add: retS_def)
next
  case (Cons line lines)
  let ?l = "repeated_line history line"
  let ?m = "if ?l = [] then retS () else catch_error C (handle_command n E C ?l) (\<lambda>what. print_out C (what @ newline))"
  define history' where "history' = (if line = [] then history else history @ [line])"
  obtain r q where r: "?m p = (r, q)" by force
  have e: "\<not> caught e" if "r = Inl e" for e
    using that r catch_error_result [of "\<lambda>what. print_out C (what @ newline)" C "handle_command n E C ?l" p e]
    by (auto simp: print_out_def retS_def modifyS_def split: if_split_asm)
  have "main_loop n E C history (line # lines) p =
      (case r of Inl e \<Rightarrow> (Inl e, q) | Inr _ \<Rightarrow> main_loop n E C history' lines q)"
    using r by (simp add: Let_def thenS_def bindS_def history'_def split: sum.splits)
  then show ?case
    using Cons.IH [of history' q] e by (cases r) (auto simp: history'_def split: sum.splits)
qed

text \<open>
  C33. No error the debugger reports ends a session: whatever the lines are, the loop ends only with the
  input, with the lines that were not empty as its history, or with an exception that is not a
  \<open>gsdb::error\<close>.
\<close>

theorem session_survives_errors:
  "case fst (session n E C lines p) of
     Inr history \<Rightarrow> history = filter (\<lambda>l. l \<noteq> []) lines
   | Inl e \<Rightarrow> \<not> (\<exists>s. e = Send s \<or> e = Send_errno s)"
  using main_loop_result [where n = n and E = "session_env E C" and C = C and history = "[]" and lines = lines and p = p]
  by (auto simp: session_def caught_def split: sum.splits)

section \<open>Example\<close>

text \<open>
  The lines ask for an unknown command, repeat it, and ask for a breakpoint where a site exists already and for
  one elsewhere.
\<close>

definition plain_site :: "int \<Rightarrow> virt_addr \<Rightarrow> breakpoint_site" where
  "plain_site i a = \<lparr>bs_parent = None, bs_id = i, bs_address = a, bs_enabled = False, bs_saved = 0,
     bs_hardware = False, bs_internal = False, bs_hw_index = - 1\<rparr>"

definition example_process :: "(string, target) process" where
  "example_process = (new_process [] 7 True True)\<lparr>
     p_sites := [plain_site 1 0x1000, plain_site 2 0x2000],
     p_target := Some \<lparr>t_breakpoints = [], t_rendezvous = 0, t_objects = [], t_main_elf = 0, t_threads = [], t_results = [],
       t_next_key = 0, t_breakpoint_id = 0\<rparr>\<rparr>"

theorem session_sites_unique_witness:
  "distinct (map bs_address (p_sites (snd (session 5 mute_env text_console
     [''frob'', [], ''break set 0x1000'', ''break set 0x3000''] example_process))))"
proof -
  have "distinct (map bs_address (p_sites example_process))"
    by (simp add: example_process_def new_process_def plain_site_def)
  then show ?thesis using session_sites_unique [where p = example_process] by blast
qed

end
