(* ===== verification/Call_Convention.thy ===== *)
theory Call_Convention
  imports Inferior_Calls "HOL-Library.Sublist"
begin

text \<open>
  What calls in the inferior do with their arguments: the overload that is chosen, and the layout of the
  arguments on the stack.
\<close>

section \<open>Overloads\<close>

lemma resolve_overload_in_Inr:
  "resolve_overload_in n units args fs found = Inr r \<longleftrightarrow>
    (\<forall>f \<in> set fs. is_ok (function_matches n units args f)) \<and>
    (case filter (\<lambda>f. function_matches n units args f = Inr True) fs of
       [] \<Rightarrow> r = found
     | [f] \<Rightarrow> found = None \<and> r = Some f
     | _ \<Rightarrow> False)"
proof (induction fs arbitrary: found)
  case (Cons f fs)
  show ?case
  proof (cases "function_matches n units args f")
    case (Inr b)
    then show ?thesis using Cons.IH [of found] Cons.IH [of "Some f"] by (cases b) (auto split: list.splits)
  qed simp
qed auto

text \<open>
  The function called is the one overload that matches: resolution returns a function exactly when the
  parameters of every candidate can be read and it is the only candidate whose parameters match the
  arguments; with none or with two the call is refused.
\<close>

lemma overload_unique:
  "resolve_overload n units funcs args = Inr f \<longleftrightarrow>
    list_all (\<lambda>g. is_ok (function_matches n units args g)) funcs \<and>
    filter (\<lambda>g. function_matches n units args g = Inr True) funcs = [f]"
  by (auto simp: resolve_overload_def result_simps resolve_overload_in_Inr list_all_iff split: list.splits)

section \<open>Arguments on the stack\<close>

definition stack_size :: "(byte list \<times> u64) list \<Rightarrow> nat" where
  "stack_size args = sum_list (map (\<lambda>(_, sz). unat sz) args)"

lemma stack_size_simps [simp]:
  "stack_size [] = 0" "stack_size ((bs, sz) # args) = unat sz + stack_size args"
  by (simp_all add: stack_size_def)

lemma lowered_stack_pointer:
  "stack_size args \<le> unat rsp \<Longrightarrow> unat (fold (\<lambda>(_, sz) r. r - sz) args rsp) = unat rsp - stack_size args"
proof (induction args arbitrary: rsp)
  case (Cons a args)
  obtain bs sz where a: "a = (bs, sz)" by force
  have "unat (rsp - sz) = unat rsp - unat sz" using Cons.prems by (simp add: a unat_sub word_le_nat_alt)
  then show ?case using Cons.IH [of "rsp - sz"] Cons.prems by (simp add: a)
qed simp

lemma aligned_down: "unat ((w :: u64) AND NOT 0xf) = unat w - unat w mod 16"
proof -
  have m: "(0xf :: u64) = mask 4" by (simp add: mask_eq_exp_minus_1)
  have "w AND NOT 0xf = push_bit 4 (drop_bit 4 w)"
    unfolding m by (rule bit_word_eqI) (auto simp: bit_simps)
  then have "w AND NOT 0xf = w - take_bit 4 w" using bits_ident [of 4 w] by (simp add: eq_diff_eq)
  moreover have u: "unat (take_bit 4 w) = take_bit 4 (unat w)" by (simp only: unsigned_take_bit_eq)
  then have "unat (take_bit 4 w) = unat w mod 16" by (simp add: take_bit_eq_mod)
  moreover have "take_bit 4 w \<le> w" unfolding word_le_nat_alt u by (simp add: take_bit_eq_mod)
  ultimately show ?thesis by (simp add: unat_sub)
qed

lemma stack_start:
  assumes "stack_size args + 15 \<le> unat rsp"
  shows "unat (stack_arguments_start rsp args) mod 16 = 0"
    "unat (stack_arguments_start rsp args) + stack_size args \<le> unat rsp"
proof -
  have l: "unat (fold (\<lambda>(_, sz) r. r - sz) args rsp) = unat rsp - stack_size args"
    using assms by (simp add: lowered_stack_pointer)
  show "unat (stack_arguments_start rsp args) mod 16 = 0"
    unfolding stack_arguments_start_def aligned_down by (simp add: minus_mod_eq_mult_div)
  show "unat (stack_arguments_start rsp args) + stack_size args \<le> unat rsp"
    unfolding stack_arguments_start_def aligned_down l using assms by linarith
qed

lemma process_write_mapped:
  assumes "memory_kernel K (p_pid p) mem ok" "all_mapped ok a (8 * ((length bs + 7) div 8))" "length bs < 2 ^ 64"
  shows "\<exists>k'. process_write_memory K a bs p = (Inr (), p\<lparr>p_kernel := k'\<rparr>) \<and> mem k' = mem_update (mem (p_kernel p)) a bs"
proof -
  from write_memory_mapped [OF assms, of "p_kernel p"] obtain k' where
    "write_memory K (p_pid p) a bs (p_kernel p) = (Inr (), k')" "mem k' = mem_update (mem (p_kernel p)) a bs" by blast
  then show ?thesis by (auto simp: process_write_memory_def bindS_def zoomS_def)
qed

text \<open>An argument fits in its slot, which is a whole number of eightbytes.\<close>

definition slot_ok :: "byte list \<times> u64 \<Rightarrow> bool" where
  "slot_ok a \<longleftrightarrow> length (fst a) \<le> unat (snd a) \<and> unat (snd a) mod 8 = 0"

text \<open>The memory after the writes, slot by slot.\<close>

lemma write_slots:
  assumes K: "memory_kernel (env_kernel E) (p_pid p) mem ok"
    and "list_all slot_ok args" "unat pos + stack_size args < 2 ^ 64" "all_mapped ok pos (stack_size args)"
  shows "\<exists>k'. write_stack_arguments E pos args p = (Inr (), p\<lparr>p_kernel := k'\<rparr>) \<and>
    (\<forall>i<length args. mem_range (mem k') (pos + word_of_nat (stack_size (take i args))) (length (fst (args ! i))) = fst (args ! i)) \<and>
    (\<forall>x. x < pos \<or> unat pos + stack_size args \<le> unat x \<longrightarrow> mem k' x = mem (p_kernel p) x)"
  using assms
proof (induction args arbitrary: pos p)
  case Nil
  have "write_stack_arguments E pos [] p = (Inr (), p\<lparr>p_kernel := p_kernel p\<rparr>)" by (simp add: retS_def)
  then show ?case by fastforce
next
  case (Cons a args)
  obtain bs sz where a: "a = (bs, sz)" by force
  have rest: "list_all slot_ok args" and "slot_ok a" using Cons.prems(2) by simp_all
  then have sz: "length bs \<le> unat sz" "unat sz mod 8 = 0" by (simp_all add: a slot_ok_def)
  have pos': "unat (pos + sz) = unat pos + unat sz" using Cons.prems(3) by (simp add: a unat_plus_simple [THEN iffD1] unat_word_ariths)
  have "8 * ((length bs + 7) div 8) \<le> unat sz" using sz by presburger
  moreover have "all_mapped ok pos (unat sz)" and m: "all_mapped ok (pos + sz) (stack_size args)"
    using Cons.prems(4) by (simp_all add: a all_mapped_split)
  ultimately have "all_mapped ok pos (8 * ((length bs + 7) div 8))" by (auto simp: all_mapped_def)
  moreover have len: "length bs < 2 ^ 64" using sz(1) Cons.prems(3) by (simp add: a)
  ultimately obtain k1 where k1: "process_write_memory (env_kernel E) pos bs p = (Inr (), p\<lparr>p_kernel := k1\<rparr>)"
    "mem k1 = mem_update (mem (p_kernel p)) pos bs" using process_write_mapped [OF Cons.prems(1)] by blast
  have "memory_kernel (env_kernel E) (p_pid (p\<lparr>p_kernel := k1\<rparr>)) mem ok" using Cons.prems(1) by simp
  from Cons.IH [OF this rest _ m] obtain k2 where
    k2: "write_stack_arguments E (pos + sz) args (p\<lparr>p_kernel := k1\<rparr>) = (Inr (), p\<lparr>p_kernel := k2\<rparr>)"
    "\<And>i. i < length args \<Longrightarrow>
       mem_range (mem k2) (pos + sz + word_of_nat (stack_size (take i args))) (length (fst (args ! i))) = fst (args ! i)"
    "\<And>x. x < pos + sz \<or> unat (pos + sz) + stack_size args \<le> unat x \<Longrightarrow> mem k2 x = mem k1 x"
    using Cons.prems(3) pos' by (auto simp: a)
  have "mem_range (mem k2) pos (length bs) = bs"
  proof (rule nth_equalityI)
    fix i assume "i < length (mem_range (mem k2) pos (length bs))"
    then have i: "i < length bs" by simp
    have "unat (pos + word_of_nat i) = unat pos + i"
      using i sz(1) Cons.prems(3) len by (simp add: a unat_word_ariths unat_of_nat)
    then have "pos + word_of_nat i < pos + sz" using i sz(1) pos' by (simp add: word_less_nat_alt)
    then show "mem_range (mem k2) pos (length bs) ! i = bs ! i"
      using i k2(3) k1(2) len by (simp add: mem_update_in)
  qed simp
  moreover have "mem k2 x = mem (p_kernel p) x" if x: "x < pos \<or> unat pos + (unat sz + stack_size args) \<le> unat x" for x
  proof -
    have "x < pos + sz \<or> unat (pos + sz) + stack_size args \<le> unat x"
      using x pos' by (auto simp: word_less_nat_alt)
    moreover have "x \<noteq> pos + word_of_nat i" if "i < length bs" for i
      using that x sz(1) len Cons.prems(3) by (auto simp: a word_less_nat_alt unat_word_ariths unat_of_nat)
    ultimately show ?thesis using k2(3) k1(2) len by (simp add: mem_update_out)
  qed
  ultimately show ?case
    using k1(1) k2(1,2)
    by (intro exI [of _ k2]) (auto simp: a thenS_run nth_Cons less_Suc_eq_0_disj add.assoc split: nat.splits)
qed

text \<open>
  C18. Arguments passed on the stack: below the old stack pointer, the new one is a multiple of 16 and
  leaves room for all of them; each argument is written at the start of its slot, in the order of
  the parameters and without overlap, and no byte below the new or from the old stack pointer on changes.
\<close>

theorem stack_arguments_layout:
  assumes "memory_kernel (env_kernel E) (p_pid p) mem ok" "list_all slot_ok args"
    and "stack_size args + 15 \<le> unat rsp" "all_mapped ok (stack_arguments_start rsp args) (stack_size args)"
  shows "\<exists>k'. write_stack_arguments E (stack_arguments_start rsp args) args p = (Inr (), p\<lparr>p_kernel := k'\<rparr>) \<and>
    unat (stack_arguments_start rsp args) mod 16 = 0 \<and>
    unat (stack_arguments_start rsp args) + stack_size args \<le> unat rsp \<and>
    (\<forall>i<length args. mem_range (mem k') (stack_arguments_start rsp args + word_of_nat (stack_size (take i args)))
       (length (fst (args ! i))) = fst (args ! i)) \<and>
    (\<forall>x. x < stack_arguments_start rsp args \<or> rsp \<le> x \<longrightarrow> mem k' x = mem (p_kernel p) x)"
proof -
  note s = stack_start [OF assms(3)]
  have "unat rsp < 2 ^ 64" using unsigned_less [where ?'a = nat, of rsp] by simp
  then have "unat (stack_arguments_start rsp args) + stack_size args < 2 ^ 64" using s(2) by linarith
  from write_slots [OF assms(1,2) this assms(4)] obtain k' where k':
    "write_stack_arguments E (stack_arguments_start rsp args) args p = (Inr (), p\<lparr>p_kernel := k'\<rparr>)"
    "\<forall>i<length args. mem_range (mem k') (stack_arguments_start rsp args + word_of_nat (stack_size (take i args)))
       (length (fst (args ! i))) = fst (args ! i)"
    "\<forall>x. x < stack_arguments_start rsp args \<or> unat (stack_arguments_start rsp args) + stack_size args \<le> unat x \<longrightarrow>
       mem k' x = mem (p_kernel p) x" by blast
  have "\<forall>x. x < stack_arguments_start rsp args \<or> rsp \<le> x \<longrightarrow> mem k' x = mem (p_kernel p) x"
    using k'(3) s(2) by (auto simp: word_le_nat_alt)
  then show ?thesis by (intro exI [of _ k'] conjI k'(1,2) s)
qed

section \<open>Arguments in registers\<close>

definition pass_register :: "'k env \<Rightarrow> pid \<Rightarrow> register_id \<times> u64 \<Rightarrow> ('k, unit) target_op" where
  "pass_register E tid w = write_thread_register (env_kernel E) (env_float E) tid (fst w) (V_byte64 (snd w))"

definition plan_ok :: "nat \<times> nat \<Rightarrow> (register_id \<times> u64) list \<Rightarrow> nat \<times> nat \<Rightarrow> bool" where
  "plan_ok used ws used' \<longleftrightarrow>
    fst used \<le> fst used' \<and> fst used' \<le> length int_regs \<and> snd used \<le> snd used' \<and> snd used' \<le> length sse_regs \<and>
    filter (\<lambda>r. r \<in> set int_regs) (map fst ws) = take (fst used' - fst used) (drop (fst used) int_regs) \<and>
    filter (\<lambda>r. r \<notin> set int_regs) (map fst ws) = take (snd used' - snd used) (drop (snd used) sse_regs)"

lemma plan_ok_refl: "fst used \<le> length int_regs \<Longrightarrow> snd used \<le> length sse_regs \<Longrightarrow> plan_ok used [] used"
  by (simp add: plan_ok_def)

lemma take_drop_join:
  assumes "a \<le> b" "b \<le> c"
  shows "take (b - a) (drop a xs) @ take (c - b) (drop b xs) = take (c - a) (drop a xs)"
proof -
  have "take (c - a) (drop a xs) = take ((b - a) + (c - b)) (drop a xs)" using assms by simp
  also have "\<dots> = take (b - a) (drop a xs) @ take (c - b) (drop (b - a) (drop a xs))" by (rule take_add)
  also have "drop (b - a) (drop a xs) = drop b xs" using assms by simp
  finally show ?thesis by simp
qed

lemma plan_ok_append: "plan_ok a ws b \<Longrightarrow> plan_ok b ws' c \<Longrightarrow> plan_ok a (ws @ ws') c"
  unfolding plan_ok_def by (simp add: take_drop_join)

lemma plan_ok_one:
  assumes "chunk_register classes k used = Inr (Some r, used')" "fst used \<le> length int_regs" "snd used \<le> length sse_regs"
  shows "plan_ok used [(r, v)] used'"
proof -
  have d: "sse_regs ! j \<notin> set int_regs" if "j < length sse_regs" for j
  proof -
    have "list_all (\<lambda>x. x \<notin> set int_regs) sse_regs" by code_simp
    then show ?thesis using that by (simp add: list_all_length)
  qed
  show ?thesis
    using assms d
    by (auto simp: chunk_register_def plan_ok_def take_Suc_conv_app_nth hd_drop_conv_nth
        split: if_split_asm parameter_class.splits)
qed

lemma chunk_register_none: "chunk_register classes k used = Inr (None, used') \<Longrightarrow> used' = used"
  by (auto simp: chunk_register_def split: if_split_asm parameter_class.splits)

lemma pass_in_registers_plan:
  assumes "pass_in_registers E tid classes bs ks used p = (Inr used', p')" "fst used \<le> length int_regs" "snd used \<le> length sse_regs"
  shows "\<exists>ws. forS (pass_register E tid) ws p = (Inr (), p') \<and> plan_ok used ws used'"
  using assms
proof (induction ks arbitrary: used p)
  case Nil
  then show ?case using plan_ok_refl [of used] by (intro exI [of _ "[]"]) (simp add: retS_def)
next
  case (Cons k ks)
  obtain reg used1 where r: "chunk_register classes k used = Inr (reg, used1)"
    using Cons.prems(1) by (auto simp: bindS_Inr_iff)
  show ?case
  proof (cases reg)
    case None
    then have "used1 = used" using r chunk_register_none by blast
    then show ?thesis using Cons None r by (auto simp: bindS_Inr_iff thenS_Inr_iff)
  next
    case (Some i)
    have one: "plan_ok used [(i, chunk_data bs k)] used1" using plan_ok_one [OF r [unfolded Some] Cons.prems(2,3)] .
    then have b: "fst used1 \<le> length int_regs" "snd used1 \<le> length sse_regs" by (simp_all add: plan_ok_def)
    obtain p1 where p1: "pass_register E tid (i, chunk_data bs k) p = (Inr (), p1)"
      "pass_in_registers E tid classes bs ks used1 p1 = (Inr used', p')"
      using Cons.prems(1) r Some by (auto simp: bindS_Inr_iff thenS_Inr_iff pass_register_def)
    from Cons.IH [OF p1(2) b] obtain ws where ws: "forS (pass_register E tid) ws p1 = (Inr (), p')" "plan_ok used1 ws used'" by blast
    have "forS (pass_register E tid) ((i, chunk_data bs k) # ws) p = (Inr (), p')" using p1(1) ws(1) by (simp add: thenS_run)
    then show ?thesis using plan_ok_append [OF one ws(2)] by (intro exI conjI) auto
  qed
qed

lemma pass_arguments_plan:
  assumes "pass_arguments n E units tid ps as used st p = (Inr (used', st'), p')"
    "fst used \<le> length int_regs" "snd used \<le> length sse_regs"
  shows "\<exists>ws. forS (pass_register E tid) ws p = (Inr (), p') \<and> plan_ok used ws used' \<and>
    (\<exists>left. st' = st @ left \<and> subseq (map fst left) (map td_data as))"
  using assms
proof (induction ps arbitrary: as used st p)
  case Nil
  then show ?case using plan_ok_refl [of used] by (intro exI [of _ "[]"] conjI) (auto simp: retS_def)
next
  case (Cons q ps)
  obtain a as' where as: "as = a # as'" using Cons.prems(1) by (cases as) (auto simp: throwS_def)
  obtain classes sz where c: "get_parameter_classes n units q = Inr classes" "byte_size n units q = Inr sz"
    using Cons.prems(1) as by (auto simp: bindS_Inr_iff)
  show ?case
  proof (cases "on_stack classes used")
    case True
    then have "pass_arguments n E units tid ps as' used (st @ [(td_data a, round_up_to_eightbyte sz)]) p = (Inr (used', st'), p')"
      using Cons.prems(1) as c by (simp add: bindS_def)
    from Cons.IH [OF this Cons.prems(2,3)] show ?thesis by (auto simp: as)
  next
    case False
    then obtain used1 p1 where p1: "pass_in_registers E tid classes (td_data a) [0..<(unat sz + 7) div 8] used p = (Inr used1, p1)"
      "pass_arguments n E units tid ps as' used1 st p1 = (Inr (used', st'), p')"
      using Cons.prems(1) as c by (auto simp: bindS_Inr_iff)
    from pass_in_registers_plan [OF p1(1) Cons.prems(2,3)] obtain ws where
      ws: "forS (pass_register E tid) ws p = (Inr (), p1)" "plan_ok used ws used1" by blast
    then have "fst used1 \<le> length int_regs" "snd used1 \<le> length sse_regs" by (simp_all add: plan_ok_def)
    from Cons.IH [OF p1(2) this] obtain ws' left where
      ws': "forS (pass_register E tid) ws' p1 = (Inr (), p')" "plan_ok used1 ws' used'"
      "st' = st @ left" "subseq (map fst left) (map td_data as')" by blast
    have "forS (pass_register E tid) (ws @ ws') p = (Inr (), p')" using ws(1) ws'(1) by (simp add: forS_append thenS_run)
    then show ?thesis using plan_ok_append [OF ws(2) ws'(2)] ws'(3,4) by (intro exI [of _ "ws @ ws'"]) (auto simp: as)
  qed
qed


section \<open>Example\<close>

text \<open>Two arguments of eight and three bytes, below a stack pointer that is not aligned.\<close>

definition ram_env :: "(u64 \<Rightarrow> byte) env" where
  "ram_env = \<lparr>
     env_kernel = ram_kernel,
     env_system = no_system,
     env_float = \<lparr>float_to_double = ucast, float_to_long_double = ucast, double_to_long_double = ucast,
       long_double_to_double = ucast\<rparr>,
     env_demangle = (\<lambda>s. None), env_temp_dir = ''/tmp'',
     env_decode = (\<lambda>a bs. None), env_from_chars_double = (\<lambda>s. (0, None)), env_lifecycle_callback = (\<lambda>r. retS ())\<rparr>"

definition ram_process :: "(u64 \<Rightarrow> byte, target) process" where
  "ram_process = new_process (\<lambda>a. 0) 1 True True"

definition two_arguments :: "(byte list \<times> u64) list" where
  "two_arguments = [([1, 2, 3, 4, 5, 6, 7, 8], 8), ([9, 10, 11], 8)]"

theorem stack_arguments_layout_witness:
  "\<exists>k'. write_stack_arguments ram_env (stack_arguments_start 0x7ffc two_arguments) two_arguments ram_process =
      (Inr (), ram_process\<lparr>p_kernel := k'\<rparr>) \<and>
    mem_range k' (stack_arguments_start 0x7ffc two_arguments + word_of_nat (stack_size (take 1 two_arguments)))
      (length (fst (two_arguments ! 1))) = fst (two_arguments ! 1)"
proof -
  have K: "memory_kernel (env_kernel ram_env) (p_pid ram_process) (\<lambda>m. m) (\<lambda>a. 0x1000 \<le> a)"
    using ram_kernel_memory by (simp add: ram_env_def)
  have ok: "list_all slot_ok two_arguments" "stack_size two_arguments + 15 \<le> unat (0x7ffc :: u64)"
    "all_mapped (\<lambda>a. (0x1000 :: u64) \<le> a) (stack_arguments_start 0x7ffc two_arguments) (stack_size two_arguments)"
    by code_simp+
  have "1 < length two_arguments" by code_simp
  then show ?thesis using stack_arguments_layout [OF K ok] by blast
qed

definition ram_thread :: "(u64 \<Rightarrow> byte, target) process" where
  "ram_thread = ram_process\<lparr>p_threads := [(1, new_thread 1)]\<rparr>"

definition int_and_double :: "typed_data list" where
  "int_and_double = [builtin_data (to_byte_vec (7 :: u64)) bt_integer, builtin_data (to_byte_vec (9 :: u64)) bt_floating_point]"

lemma int_and_double_passed:
  "fst (pass_arguments 3 ram_env [] 1 (map td_type int_and_double) int_and_double (0, 0) [] ram_thread) = Inr ((1, 1), [])"
  by code_simp


end
