(* ===== verification/Run_Until.thy ===== *)
theory Run_Until
  imports Target_Invariant Call_Convention
begin

text \<open>
  Running to an address: the breakpoint site the debugger sets for itself is gone when the run is over.
\<close>

lemma remove_site_gone:
  assumes "unique_sites p" "remove_site K fo a p = (Inr x, p')"
  shows "\<not> sc_contains_address site_at a (p_sites p')"
proof (cases "sc_contains_address site_at a (p_sites p)")
  case True
  then obtain q where q: "site_disable K fo a p = (Inr (), q)"
    "p' = q\<lparr>p_sites := sc_erase (\<lambda>x. site_at x a) (p_sites q)\<rparr>"
    using assms(2) by (auto simp: remove_site_def bindS_Inr_iff thenS_Inr_iff)
  have "unique_sites q" using keepsS_D [OF keeps_sites(2) q(1) assms(1)] .
  then have "set (p_sites p') = {s \<in> set (p_sites q). bs_address s \<noteq> a}"
    using site.erase_at [of "p_sites q" a] q(2) by (simp add: unique_sites_def)
  then show ?thesis by (auto simp: site.contains_address_iff)
next
  case False
  then show ?thesis using assms(2) by (simp add: remove_site_def bindS_def)
qed

text \<open>
  C17. Running to an address where there is no breakpoint site leaves none behind: when the call returns,
  whether the thread reached the address or stopped elsewhere, the site set for the run is gone, and the
  result is recorded as the stop reason of the thread.
\<close>

theorem run_until_leaves_no_site:
  assumes "\<forall>r. keepsS unique_sites (env_lifecycle_callback E r)" "distinct (map bs_address (p_sites p))"
    and "\<not> sc_contains_address site_at a (p_sites p)" "run_until_address n E a tid p = (Inr reason, p')"
  shows "\<not> sc_contains_address site_at a (p_sites p') \<and> (\<forall>(t, ts) \<in> set (p_threads p'). t = tid \<longrightarrow> ts_reason ts = reason)"
proof -
  let ?K = "env_kernel E" and ?fo = "env_float E"
  obtain s p1 p2 p3 r p4 where
    1: "create_breakpoint_site a False True p = (Inr s, p1)" "site_enable ?K ?fo a p1 = (Inr (), p2)"
    and 2: "resume ?K ?fo (Some tid) p2 = (Inr (), p3)" "target_wait n E tid p3 = (Inr r, p4)"
    using assms(3,4) by (auto simp: run_until_address_def bindS_Inr_iff thenS_Inr_iff)
  obtain p5 where 5: "remove_site ?K ?fo a p4 = (Inr (), p5)" "set_stop_reason no_thread tid reason p5 = (Inr (), p')"
    using assms(3,4) 1 2 by (auto simp: run_until_address_def bindS_Inr_iff thenS_Inr_iff get_pc_def read_register_def split: if_split_asm)
  have wait: "keeping_target E" using assms(1) by (simp add: keeping_target_def)
  have "unique_sites p" using assms(2) by (simp add: unique_sites_def)
  then have "unique_sites p1" by (rule keepsS_D [OF keeps_create_site(1) 1(1)])
  then have "unique_sites p2" by (rule keepsS_D [OF keeps_sites(1) 1(2)])
  then have "unique_sites p3" by (rule keepsS_D [OF keeps_resume_target 2(1)])
  then have "unique_sites p4" by (rule keepsS_D [OF keeping_target.keeps_target_wait(1) [OF wait] 2(2)])
  then have "\<not> sc_contains_address site_at a (p_sites p5)" using remove_site_gone 5(1) by blast
  moreover have "p' = update_thread tid (\<lambda>s. s\<lparr>ts_reason := reason\<rparr>) p5"
    using 5(2) by (auto simp: set_stop_reason_def bindS_Inr_iff get_target_def split: option.splits)
  ultimately show ?thesis by (auto simp: update_thread_def split: if_split_asm)
qed

section \<open>Examples\<close>

text \<open>A kernel with one thread that reports the given wait status at once; the process is not attached.\<close>

definition status_kernel :: "u32 \<Rightarrow> (u64 \<Rightarrow> byte) kernel" where
  "status_kernel status = ram_kernel\<lparr>k_waitpid := (\<lambda>p opts m. (Some (1, status), m))\<rparr>"

definition status_env :: "u32 \<Rightarrow> (u64 \<Rightarrow> byte) env" where
  "status_env status = ram_env\<lparr>env_kernel := status_kernel status\<rparr>"

definition one_thread :: "(u64 \<Rightarrow> byte, target) process" where
  "one_thread = ram_process\<lparr>p_attached := False, p_threads := [(1, new_thread 1)],
     p_target := Some \<lparr>t_breakpoints = [], t_rendezvous = 0, t_objects = [], t_main_elf = 0, t_threads = [(1, new_stack 1)],
       t_results = [], t_next_key = 0, t_breakpoint_id = 0\<rparr>\<rparr>"

text \<open>The thread stops with \<open>SIGSTOP\<close> before it reaches the address.\<close>

lemma run_until_stopped: "is_ok (fst (run_until_address 3 (status_env 0x137f) 0x2000 1 one_thread))"
  by code_simp

theorem run_until_leaves_no_site_witness:
  "\<exists>reason p'. run_until_address 3 (status_env 0x137f) 0x2000 1 one_thread = (Inr reason, p') \<and>
     \<not> sc_contains_address site_at 0x2000 (p_sites p')"
proof -
  obtain reason p' where r: "run_until_address 3 (status_env 0x137f) 0x2000 1 one_thread = (Inr reason, p')"
    using run_until_stopped by (cases "run_until_address 3 (status_env 0x137f) 0x2000 1 one_thread") (auto simp: is_ok_iff)
  have "\<forall>r. keepsS unique_sites (env_lifecycle_callback (status_env 0x137f) r)"
    by (simp add: status_env_def ram_env_def keepsS_def)
  moreover have "p_sites one_thread = []" by (simp add: one_thread_def ram_process_def new_process_def)
  ultimately show ?thesis
    using run_until_leaves_no_site [OF _ _ _ r] r by (auto simp: sc_contains_address_def sc_find_by_address_def)
qed

text \<open>
  The main thread exits before it reaches the address: its entry in the target is erased by the
  report of the exit, and looking it up for the stop reason throws \<open>std::out_of_range\<close>, which no handler of the
  command line catches.
\<close>

lemma run_until_exit_escapes:
  "fst (run_until_address 3 (status_env 0) 0x2000 1 one_thread) = Inl (Std_exception ''out_of_range'')"
  by code_simp

end
