(* ===== verification/Location_Data.thy ===== *)
theory Location_Data
  imports Variables
begin

text \<open>
  Values that are not in one place: a variable in several pieces is put together piece by piece. Where
  the pieces are whole bytes, the loop computes the concatenation of their data.
\<close>

definition byte_piece :: "piece \<Rightarrow> bool" where
  "byte_piece pc \<longleftrightarrow> pc_offset pc = 0 \<and> unat (pc_bit_size pc) mod 8 = 0"

definition piece_bytes :: "piece \<Rightarrow> nat" where
  "piece_bytes pc = unat (pc_bit_size pc) div 8"

text \<open>What a piece contributes: a register holds more than a short piece needs.\<close>

definition piece_part :: "(piece \<Rightarrow> byte list) \<Rightarrow> piece \<Rightarrow> byte list" where
  "piece_part data pc = take (piece_bytes pc) (data pc)"

definition pieces_bytes :: "piece list \<Rightarrow> nat" where
  "pieces_bytes pcs = sum_list (map piece_bytes pcs)"

lemma byte_piece_size: "byte_piece pc \<Longrightarrow> unat (pc_bit_size pc) = 8 * piece_bytes pc"
  by (auto simp: byte_piece_def piece_bytes_def)

lemma whole_bytes:
  assumes "unat off = 8 * k" "unat x = 8 * m" "8 * (k + m) + 7 < 2 ^ 64"
  shows "unat (off + x) = 8 * (k + m)" "unat ((off + x + 7) div 8) = k + m" "(off :: u64) mod 8 = 0" "unat (off div 8) = k"
proof -
  show u: "unat (off + x) = 8 * (k + m)" using assms by (simp add: unat_word_ariths)
  then have "unat (off + x + 7) = 8 * (k + m) + 7" using assms(3) by (simp add: unat_word_ariths)
  then show "unat ((off + x + 7) div 8) = k + m" by (simp add: unat_div)
  show "unat (off div 8) = k" using assms(1) by (simp add: unat_div)
  have "unat (off mod 8) = 0" using assms(1) by (simp add: unat_mod)
  then show "off mod 8 = 0" by (simp add: unat_eq_0)
qed

lemma place_byte_piece:
  assumes "byte_piece pc" "unat off = 8 * k" "8 * (k + piece_bytes pc) + 7 < 2 ^ 64"
    and "k + piece_bytes pc \<le> length bs" "piece_bytes pc \<le> length data"
  shows "place_piece pc data off bs = Inr (splice k (take (piece_bytes pc) data) bs)"
proof -
  note w = whole_bytes [OF assms(2) byte_piece_size [OF assms(1)] assms(3)]
  have "unat (pc_bit_size pc mod 8) = 0" using assms(1) by (simp add: byte_piece_def unat_mod)
  then have m: "pc_bit_size pc mod 8 = 0" by (simp add: unat_eq_0)
  have d: "unat (pc_bit_size pc div 8) = piece_bytes pc" by (simp add: unat_div piece_bytes_def)
  show ?thesis
    using assms w m d by (simp add: place_piece_def byte_piece_def Let_def not_less)
qed

text \<open>The number of bytes the code asks a location for.\<close>

lemma piece_request:
  assumes "byte_piece pc" "8 * piece_bytes pc + 7 < 2 ^ 64"
  shows "(pc_offset pc + pc_bit_size pc + 7) div 8 = word_of_nat (piece_bytes pc)"
proof (subst word_unat_eq_iff)
  have "piece_bytes pc < 2 ^ 64" using assms(2) by simp
  then have "unat (word_of_nat (piece_bytes pc) :: u64) = piece_bytes pc" by (simp add: unat_of_nat)
  then show "unat ((pc_offset pc + pc_bit_size pc + 7) div 8) = unat (word_of_nat (piece_bytes pc) :: u64)"
    using whole_bytes(2) [of 0 0 "pc_bit_size pc" "piece_bytes pc"] assms byte_piece_size [OF assms(1)]
    by (simp add: byte_piece_def)
qed

lemma read_byte_pieces:
  assumes "list_all byte_piece pcs" "unat off = 8 * k" "8 * (k + pieces_bytes pcs) + 7 < 2 ^ 64"
    and "k + pieces_bytes pcs \<le> length bs"
    and "\<forall>pc \<in> set pcs. rd (pc_location pc) (word_of_nat (piece_bytes pc)) = Inr (data pc) \<and> piece_bytes pc \<le> length (data pc)"
  shows "read_pieces rd pcs off bs = Inr (splice k (concat (map (piece_part data) pcs)) bs)"
  using assms
proof (induction pcs arbitrary: off k bs)
  case Nil
  then show ?case by (simp add: splice_def)
next
  case (Cons pc pcs)
  have pb: "pieces_bytes (pc # pcs) = piece_bytes pc + pieces_bytes pcs" by (simp add: pieces_bytes_def)
  have one: "byte_piece pc" "8 * (k + piece_bytes pc) + 7 < 2 ^ 64" "8 * piece_bytes pc + 7 < 2 ^ 64"
    using Cons.prems(1,3) by (simp_all add: pb)
  have d: "rd (pc_location pc) (word_of_nat (piece_bytes pc)) = Inr (data pc)" "piece_bytes pc \<le> length (data pc)"
    using Cons.prems(5) by simp_all
  have l: "length (piece_part data pc) = piece_bytes pc" using d(2) by (simp add: piece_part_def)
  have p: "place_piece pc (data pc) off bs = Inr (splice k (piece_part data pc) bs)"
    unfolding piece_part_def
    using Cons.prems(4) by (intro place_byte_piece [OF one(1) Cons.prems(2) one(2) _ d(2)]) (simp add: pb)
  have "read_pieces rd pcs (off + pc_bit_size pc) (splice k (piece_part data pc) bs) =
      Inr (splice (k + piece_bytes pc) (concat (map (piece_part data) pcs)) (splice k (piece_part data pc) bs))"
    using Cons.prems whole_bytes(1) [OF Cons.prems(2) byte_piece_size [OF one(1)] one(2)]
    by (intro Cons.IH) (simp_all add: pb splice_def l add.assoc)
  moreover have "splice (k + piece_bytes pc) xs (splice k (piece_part data pc) bs) = splice k (piece_part data pc @ xs) bs" for xs
    using Cons.prems(4) by (simp add: splice_def l pb ac_simps)
  ultimately show ?case using p d(1) piece_request [OF one(1,3)] by simp
qed

text \<open>
  C34. A variable that the debug information describes in pieces of whole bytes reads as the data of
  the pieces one after another, followed by zeros up to its size: whatever memory and registers give
  for each piece, no piece overwrites another and none is lost.
\<close>

theorem pieces_concatenate:
  assumes "list_all byte_piece pcs" "pieces_bytes pcs \<le> unat sz" "8 * pieces_bytes pcs + 7 < 2 ^ 64"
    and "\<forall>pc \<in> set pcs. read_simple_location rm regs img (pc_location pc) (word_of_nat (piece_bytes pc)) = Inr (data pc)
      \<and> piece_bytes pc \<le> length (data pc)"
  shows "read_location_data rm regs img (Pieces pcs) sz =
    Inr (concat (map (piece_part data) pcs) @ replicate (unat sz - pieces_bytes pcs) 0)"
proof -
  have "length (concat (map (piece_part data) pcs)) = pieces_bytes pcs"
    using assms(4) by (induction pcs) (simp_all add: pieces_bytes_def piece_part_def)
  then show ?thesis
    using read_byte_pieces [of pcs 0 0 "replicate (unat sz) 0" "read_simple_location rm regs img" data] assms
    by (simp add: read_location_data_def splice_def)
qed

text \<open>A value half in \<open>rbx\<close> and half in memory, of sixteen bytes of which the last eight are not described.\<close>

definition split_registers :: registers where
  "split_registers = (new_registers 7)\<lparr>reg_data := replicate 40 0 @ [1, 2, 3, 4, 5, 6, 7, 8] @ replicate (user_size - 48) 0\<rparr>"

definition split_memory :: memory_reader where
  "split_memory a k = Inr (replicate k 9)"

definition split_pieces :: "piece list" where
  "split_pieces =
    [\<lparr>pc_location = register_result 3, pc_bit_size = 32, pc_offset = 0\<rparr>,
     \<lparr>pc_location = address_result 0x1000, pc_bit_size = 32, pc_offset = 0\<rparr>]"

theorem pieces_concatenate_witness:
  "read_location_data split_memory (Inr split_registers) [] (Pieces split_pieces) 16 =
    Inr [1, 2, 3, 4, 9, 9, 9, 9, 0, 0, 0, 0, 0, 0, 0, 0]"
proof -
  define data where "data pc = (case pc_location pc of register_result _ \<Rightarrow> [1, 2, 3, 4, 5, 6, 7, 8] | _ \<Rightarrow> [9, 9, 9, 9 :: byte])" for pc :: piece
  have "list_all byte_piece split_pieces" "pieces_bytes split_pieces \<le> unat (16 :: u64)" "8 * pieces_bytes split_pieces + 7 < 2 ^ 64"
    by (simp_all add: split_pieces_def byte_piece_def piece_bytes_def pieces_bytes_def)
  moreover have "read_simple_location split_memory (Inr split_registers) [] (register_result 3) 4 = Inr [1, 2, 3, 4, 5, 6, 7, 8]"
    by code_simp
  moreover have "read_simple_location split_memory (Inr split_registers) [] (address_result 0x1000) 4 = Inr [9, 9, 9, 9]"
    by code_simp
  ultimately have "read_location_data split_memory (Inr split_registers) [] (Pieces split_pieces) 16 =
      Inr (concat (map (piece_part data) split_pieces) @ replicate (unat (16 :: u64) - pieces_bytes split_pieces) 0)"
    by (intro pieces_concatenate) (simp_all add: split_pieces_def data_def piece_bytes_def)
  also have "\<dots> = Inr [1, 2, 3, 4, 9, 9, 9, 9, 0, 0, 0, 0, 0, 0, 0, 0]"
    unfolding data_def piece_part_def by code_simp
  finally show ?thesis .
qed

end
