(* ===== verification/Call_Restore.thy ===== *)
theory Call_Restore
  imports Target_Invariant Call_Convention
begin

text \<open>
  A function called in the inferior leaves no trace in the registers of the thread: they are saved
  before the arguments are passed, and written back when the call has returned.
\<close>

section \<open>Flushing the registers\<close>

text \<open>The bytes of the user area that \<open>registers::flush\<close> writes: all registers but the aliases \<open>dr4\<close> and \<open>dr5\<close>.\<close>

definition flushed_byte :: "nat \<Rightarrow> bool" where
  "flushed_byte j \<longleftrightarrow> j < 216 \<or> 224 \<le> j \<and> j < 736 \<or> 848 \<le> j \<and> j < 880 \<or> 896 \<le> j \<and> j < 912"

definition debug_bytes :: "nat set \<Rightarrow> nat \<Rightarrow> bool" where
  "debug_bytes I j \<longleftrightarrow> (\<exists>i \<in> I - {4, 5}. 848 + 8 * i \<le> j \<and> j < 848 + 8 * i + 8)"

definition flush_debug_register :: "'k kernel \<Rightarrow> registers \<Rightarrow> nat \<Rightarrow> (registers \<times> 'k, unit) prog" where
  "flush_debug_register K regs i =
    (if i = 4 \<or> i = 5 then retS ()
     else bindS (liftS (user_field regs (848 + 8 * i))) (\<lambda>w.
       zoomS snd (\<lambda>k (r, _). (r, k)) (write_user_area K (reg_tid regs) (848 + 8 * i) w)))"

lemma user_window_bytes:
  assumes "length bs = user_size" "off + 8 \<le> user_size"
  shows "as_bytes (from_bytes (drop off bs) :: u64) = take 8 (drop off bs)"
proof -
  have "(from_bytes (drop off bs) :: u64) = from_bytes (take 8 (drop off bs))" by (simp add: from_bytes_def)
  then show ?thesis using u64_rep.encode_decode [of "take 8 (drop off bs)"] assms by simp
qed

lemma flush_debug_register_fills:
  assumes K: "user_kernel K (reg_tid regs) area" and len: "length (reg_data regs) = user_size" and i: "i < 8"
    and d: "cache_filled (reg_data regs) old W (area k)"
    and run: "flush_debug_register K regs i (r, k) = (Inr (), s)"
  shows "fst s = r \<and> cache_filled (reg_data regs) old (\<lambda>j. W j \<or> debug_bytes {i} j) (area (snd s))"
proof (cases "i = 4 \<or> i = 5")
  case True
  then show ?thesis using run d by (auto simp: flush_debug_register_def debug_bytes_def)
next
  case False
  let ?off = "848 + 8 * i"
  have off: "?off mod 8 = 0" "?off + 8 \<le> user_size" using i by (simp_all add: user_size_def)
  obtain k' where k': "k_pokeuser K (reg_tid regs) ?off (from_bytes (drop ?off (reg_data regs))) k = Some k'" "s = (r, k')"
    using run False off len
    by (auto simp: flush_debug_register_def user_field_def zoomS_def write_user_area_def split: option.splits)
  then have "area k' = splice ?off (take 8 (drop ?off (reg_data regs))) (area k)"
    using K off user_window_bytes [OF len off(2)] by (auto simp: user_kernel_def)
  moreover have "(\<lambda>j. W j \<or> ?off \<le> j \<and> j < ?off + 8) = (\<lambda>j. W j \<or> debug_bytes {i} j)"
    using False by (auto simp: debug_bytes_def fun_eq_iff)
  ultimately show ?thesis using cache_filled_splice [OF d, of ?off 8] off len k'(2) by simp
qed

lemma flush_debug_registers_fill:
  assumes "user_kernel K (reg_tid regs) area" "length (reg_data regs) = user_size" "\<forall>i \<in> set xs. i < 8"
    and "cache_filled (reg_data regs) old W (area k)"
    and "forS (flush_debug_register K regs) xs (r, k) = (Inr (), s)"
  shows "fst s = r \<and> cache_filled (reg_data regs) old (\<lambda>j. W j \<or> debug_bytes (set xs) j) (area (snd s))"
  using assms(3-)
proof (induction xs arbitrary: W k)
  case Nil
  then show ?case by (auto simp: debug_bytes_def)
next
  case (Cons i xs)
  obtain k1 where k1: "flush_debug_register K regs i (r, k) = (Inr (), (r, k1))"
    "forS (flush_debug_register K regs) xs (r, k1) = (Inr (), s)"
    using Cons.prems(3) flush_debug_register_fills [OF assms(1,2) _ Cons.prems(2)] Cons.prems(1)
    by (auto simp: thenS_Inr_iff) (metis fst_conv surj_pair)
  have "cache_filled (reg_data regs) old (\<lambda>j. W j \<or> debug_bytes {i} j) (area k1)"
    using flush_debug_register_fills [OF assms(1,2) _ Cons.prems(2) k1(1)] Cons.prems(1) by simp
  then have "fst s = r \<and> cache_filled (reg_data regs) old (\<lambda>j. (W j \<or> debug_bytes {i} j) \<or> debug_bytes (set xs) j) (area (snd s))"
    using Cons.prems(1) by (intro Cons.IH [OF _ _ k1(2)]) simp_all
  moreover have "(\<lambda>j. (W j \<or> debug_bytes {i} j) \<or> debug_bytes (set xs) j) = (\<lambda>j. W j \<or> debug_bytes (set (i # xs)) j)"
    by (auto simp: debug_bytes_def fun_eq_iff)
  ultimately show ?case by simp
qed

lemma registers_flush_fills:
  assumes K: "user_kernel K (reg_tid regs) area" "\<forall>k. length (area k) = user_size" and len: "length (reg_data regs) = user_size"
    and run: "registers_flush K (regs, k) = (Inr (), s)"
  shows "fst s = regs \<and> (\<forall>j. flushed_byte j \<longrightarrow> area (snd s) ! j = reg_data regs ! j)"
proof -
  have dr: "register_info_by_id id_dr0 = Inr (g_register_infos ! id_dr0)" "ri_offset (g_register_infos ! id_dr0) = 848"
    using debug_register_info [of id_dr0] by (simp_all add: debug_register_def id_dr0_def id_dr7_def)
  obtain k1 k2 where k1: "k_setfpregs K (reg_tid regs) (user_i387 regs) k = Some k1"
    and k2: "k_setregs K (reg_tid regs) (user_regs regs) k1 = Some k2"
    and loop: "forS (flush_debug_register K regs) [0..<8] (regs, k2) = (Inr (), s)"
    using run dr unfolding flush_debug_register_def
    by (auto simp: registers_flush_def bindS_Inr_iff thenS_Inr_iff zoomS_def write_fprs_def write_gprs_def
        u_debugreg_offset_def split: option.splits cong: if_cong)
  have "cache_filled (reg_data regs) (area k) (\<lambda>_. False) (area k)"
    using K(2) len by (simp add: cache_filled_def)
  moreover have "area k1 = splice 224 (take 512 (drop 224 (reg_data regs))) (area k)"
    using K(1) k1 len by (auto simp: user_kernel_def user_i387_def i387_size_def i387_offset_def user_size_def)
  ultimately have 1: "cache_filled (reg_data regs) (area k) (\<lambda>j. False \<or> 224 \<le> j \<and> j < 224 + 512) (area k1)"
    using cache_filled_splice [of "reg_data regs" "area k" "\<lambda>_. False" "area k" 224 512] len by (simp add: user_size_def)
  have "area k2 = splice 0 (take 216 (drop 0 (reg_data regs))) (area k1)"
    using K(1) k2 len by (auto simp: user_kernel_def user_regs_def regs_size_def user_size_def)
  then have 2: "cache_filled (reg_data regs) (area k) (\<lambda>j. (False \<or> 224 \<le> j \<and> j < 224 + 512) \<or> 0 \<le> j \<and> j < 0 + 216) (area k2)"
    using cache_filled_splice [OF 1, of 0 216] len by (simp add: user_size_def)
  note 3 = flush_debug_registers_fill [OF K(1) len _ 2 loop]
  have "j < user_size \<and> (((False \<or> 224 \<le> j \<and> j < 224 + 512) \<or> 0 \<le> j \<and> j < 0 + 216) \<or> debug_bytes (set [0..<8]) j)"
    if "flushed_byte j" for j
  proof -
    have "debug_bytes {0..<8} j" if "848 \<le> j \<and> j < 880 \<or> 896 \<le> j \<and> j < 912"
      unfolding debug_bytes_def using that by (intro bexI [of _ "(j - 848) div 8"]) auto
    then show ?thesis using that by (auto simp: flushed_byte_def user_size_def)
  qed
  then show ?thesis using 3 len by (auto simp: cache_filled_def)
qed

section \<open>Restored registers\<close>

definition restored :: "('k \<Rightarrow> byte list) \<Rightarrow> pid \<Rightarrow> registers \<Rightarrow> ('k, 't) process \<Rightarrow> bool" where
  "restored area tid saved p \<longleftrightarrow> get_registers (Some tid) p = Inr saved \<and>
    (\<forall>j. flushed_byte j \<longrightarrow> area (p_kernel p) ! j = reg_data saved ! j)"

text \<open>Writing memory of the inferior leaves the user area of a thread alone.\<close>

definition memory_writes_spare :: "'k kernel \<Rightarrow> ('k \<Rightarrow> byte list) \<Rightarrow> bool" where
  "memory_writes_spare K area \<longleftrightarrow> (\<forall>pid a w k k'. k_pokedata K pid a w k = Some k' \<longrightarrow> area k' = area k)"

lemma write_memory_spares:
  "memory_writes_spare K area \<Longrightarrow> area (snd (write_memory K pid a data k)) = area k"
proof (induction K pid a data arbitrary: k rule: write_memory.induct)
  case (1 K pid a data)
  have w: "area (snd (write_word K pid a w k)) = area k" for w k
    using "1.prems" by (auto simp: write_word_def memory_writes_spare_def split: option.splits)
  show ?case
  proof (cases "length data \<ge> 8")
    case True
    then have ne: "data \<noteq> []" by auto
    obtain r k1 where k1: "write_word K pid a (from_bytes data) k = (r, k1)" by fastforce
    then show ?thesis
      using "1.IH" [OF ne True "1.prems", of k1] w [of "from_bytes data" k] True ne
      by (cases r) (simp_all add: write_memory.simps thenS_def bindS_def)
  next
    case False
    then show ?thesis using w by (simp add: write_memory.simps split: sum.splits)
  qed
qed

lemma restored_write_memory [keeps_intros]:
  "memory_writes_spare K area \<Longrightarrow> keepsS (restored area tid saved) (process_write_memory K a bs)"
  by (auto simp: keepsS_def process_write_memory_def bindS_def restored_def get_registers_def zoomS_def split: prod.splits)
    (metis snd_conv write_memory_spares)

lemma restored_modify_target [keeps_intros]: "keepsS (restored area tid saved) (modify_target f)"
  unfolding modify_target_def by (rule keepsS_modify) (simp add: restored_def get_registers_def)

lemma restored_notify_stop: "keepsS (restored area tid saved) (notify_stop n E r)"
  unfolding notify_stop_def stack_unwind_def reset_inline_height_def
  by (auto intro!: keeps_intros split: prod.splits)

lemma restored_collect [keeps_intros]:
  "memory_writes_spare (env_kernel E) area \<Longrightarrow>
    keepsS (restored area tid saved) (collect_return_value E slot regs cs used_int used_sse val)"
  by (induction E slot regs cs used_int used_sse val rule: collect_return_value.induct) (auto intro!: keeps_intros)

lemma restored_return_value:
  "memory_writes_spare (env_kernel E) area \<Longrightarrow> keepsS (restored area tid saved) (read_return_value n E func slot regs)"
  unfolding read_return_value_def Let_def by (intro keeps_intros)

text \<open>What comes before the last steps of a program does not matter for what they establish.\<close>

lemma postS_last:
  "(\<And>x. postS (\<lambda>_. True) (f x) Q) \<Longrightarrow> postS (\<lambda>_. True) (bindS m f) Q"
  "postS (\<lambda>_. True) k Q \<Longrightarrow> postS (\<lambda>_. True) (thenS u k) Q"
  "postS (\<lambda>_. True) (throwS e) Q"
  "postS (\<lambda>_. True) h Q \<Longrightarrow> postS (\<lambda>_. True) k Q \<Longrightarrow> postS (\<lambda>_. True) (if b then h else k) Q"
  by (auto simp: postS_def bindS_Inr_iff thenS_Inr_iff)

lemma postS_got:
  assumes "\<And>s. P s \<Longrightarrow> f s = Inr x" "postS (\<lambda>_. True) (g x) Q"
  shows "postS P (bindS (getS f) (\<lambda>r. bindS (liftS r) g)) Q"
  using assms by (auto simp: postS_def bindS_Inr_iff)

lemma flush_restores:
  assumes "user_kernel K tid area" "\<forall>k. length (area k) = user_size" "reg_tid saved = tid" "length (reg_data saved) = user_size"
  shows "postS (\<lambda>_. True) (on_registers tid (thenS (modifyS (\<lambda>(_, k). (saved, k))) (registers_flush K))) (\<lambda>_. restored area tid saved)"
proof -
  have "restored area tid saved ((update_thread tid (\<lambda>t. t\<lparr>ts_regs := regs'\<rparr>) q)\<lparr>p_kernel := k\<rparr>)"
    if "map_of (p_threads q) tid = Some t" "registers_flush K (saved, p_kernel q) = (Inr (), (regs', k))" for q t regs' k
    using registers_flush_fills [OF _ assms(2,4) that(2)] assms(1,3) that(1)
    by (auto simp: restored_def get_registers_def update_thread_lookup)
  then show ?thesis
    by (auto simp: postS_def on_registers_def thenS_def bindS_def split: option.splits prod.splits)
qed

lemma inferior_call_restores:
  assumes "user_kernel (env_kernel E) tid area" "\<forall>k. length (area k) = user_size"
    and "reg_tid saved = tid" "length (reg_data saved) = user_size"
  shows "postS (\<lambda>_. True) (target_inferior_call n E func_addr return_addr saved (Some tid)) (\<lambda>_. restored area tid saved)"
proof -
  have stop: "keepsS (restored area tid saved) (thenS (when_target (h_notify_stop (target_hooks n E) reason)) (retS regs))" for reason regs
    unfolding when_target_def target_hooks_def by (auto intro!: keeps_intros restored_notify_stop split: option.splits)
  have "postS (\<lambda>_. True) (thenS (on_registers tid (thenS (modifyS (\<lambda>(_, k). (saved, k))) (registers_flush (env_kernel E))))
      (thenS (when_target (h_notify_stop (target_hooks n E) reason)) (retS regs))) (\<lambda>_. restored area tid saved)" for reason regs
    by (rule postS_then [OF flush_restores [OF assms] postS_keeps [OF stop]])
  note ret = this
  have tid: "bindS (getS (\<lambda>p. value_or (Some tid) (p_current p))) f = f tid" for f
    by (simp add: fun_eq_iff value_or_def bindS_def)
  show ?thesis
    unfolding target_inferior_call_def inferior_call_def Let_def tid by (rule ret | rule postS_last)+
qed

text \<open>
  C11. Calling a function of the inferior gives the thread back its registers: when the call has
  returned and its value has been read, the cached registers are those before the call, with the arguments,
  the allocation of the return slot and the call itself undone, and the kernel has the same general
  purpose, floating point and debug registers.
\<close>

theorem call_restores_registers:
  assumes "user_kernel (env_kernel E) tid area" "\<forall>k. length (area k) = user_size" "memory_writes_spare (env_kernel E) area"
    and "get_registers (Some tid) p = Inr saved" "reg_tid saved = tid" "length (reg_data saved) = user_size"
    and "inferior_call_from_dwarf n E func args return_addr tid p = (Inr v, p')"
  shows "get_registers (Some tid) p' = Inr saved \<and> (\<forall>j. flushed_byte j \<longrightarrow> area (p_kernel p') ! j = reg_data saved ! j)"
proof -
  have last: "keepsS (restored area tid saved) (case slot of None \<Rightarrow> retS None
       | Some slot \<Rightarrow> bindS (read_return_value n E func slot new_regs) (\<lambda>v. retS (Some v)))" for slot new_regs
    by (auto intro!: keeps_intros restored_return_value [OF assms(3)] split: option.splits)
  have "postS (\<lambda>_. True) (bindS (target_inferior_call n E call_addr return_addr saved (Some tid)) (\<lambda>new_regs.
      case slot of None \<Rightarrow> retS None
      | Some slot \<Rightarrow> bindS (read_return_value n E func slot new_regs) (\<lambda>v. retS (Some v)))) (\<lambda>_. restored area tid saved)"
    for call_addr slot
    by (rule postS_bind [OF inferior_call_restores [OF assms(1,2,5,6)] postS_keeps [OF last]])
  note call = this
  have "postS (\<lambda>p. get_registers (Some tid) p = Inr saved) (inferior_call_from_dwarf n E func args return_addr tid) (\<lambda>_. restored area tid saved)"
    unfolding inferior_call_from_dwarf_def by (rule postS_got, assumption) (rule call | rule postS_last)+
  then have "restored area tid saved p'" using assms(4,7) by (auto simp: postS_def)
  then show ?thesis by (simp add: restored_def)
qed

section \<open>Example\<close>

text \<open>
  A thread whose user area and memory are the state of the kernel, and a function without
  parameters and result at 0x1000 of the program. The thread stops after the call with \<open>SIGSTOP\<close>.
\<close>

type_synonym write_log = "(nat \<times> byte list) list \<times> (u64 \<Rightarrow> byte)"

definition area_of :: "write_log \<Rightarrow> byte list" where
  "area_of k = foldr (\<lambda>(off, bs) a. if off + length bs \<le> user_size then splice off bs a else a) (fst k) (replicate user_size 0)"

definition area_write :: "nat \<Rightarrow> byte list \<Rightarrow> write_log \<Rightarrow> write_log" where
  "area_write off bs k = ((off, bs) # fst k, snd k)"

definition call_kernel :: "write_log kernel" where
  "call_kernel =
    \<lparr>k_peekdata = (\<lambda>p a k. Some (from_bytes (mem_range (snd k) a 8))),
     k_pokedata = (\<lambda>p a w k. Some (fst k, mem_update (snd k) a (as_bytes w))),
     k_vm_readv = (\<lambda>p n iov k. Some (concat (map (\<lambda>(a, l). mem_range (snd k) a l) iov))),
     k_peekuser = (\<lambda>p off k. Some (from_bytes (take 8 (drop off (area_of k))))),
     k_pokeuser = (\<lambda>p off w k. Some (area_write off (as_bytes w) k)),
     k_getregs = (\<lambda>p k. Some (take regs_size (area_of k))), k_setregs = (\<lambda>p bs k. Some (area_write 0 bs k)),
     k_getfpregs = (\<lambda>p k. Some (take i387_size (drop i387_offset (area_of k)))),
     k_setfpregs = (\<lambda>p bs k. Some (area_write i387_offset bs k)),
     k_getsiginfo = (\<lambda>p k. None), k_singlestep = (\<lambda>p k. Some k), k_cont = (\<lambda>p k. Some k), k_syscall = (\<lambda>p k. Some k),
     k_waitpid = (\<lambda>p opts k. (Some (1, 0x137f), k)), k_tgkill = (\<lambda>p t s k. k)\<rparr>"

lemma area_write_splice: "off + length bs \<le> user_size \<Longrightarrow> area_of (area_write off bs k) = splice off bs (area_of k)"
  by (simp add: area_of_def area_write_def)

lemma area_of_Cons:
  "area_of (x # log, m) = (if fst x + length (snd x) \<le> user_size then splice (fst x) (snd x) (area_of (log, m)) else area_of (log, m))"
  by (simp add: area_of_def split: prod.split)

lemma length_area_of: "length (area_of k) = user_size"
proof (cases k)
  case (Pair log m)
  have "length (area_of (log, m)) = user_size"
    by (induction log) (auto simp: area_of_Cons, simp add: area_of_def)
  then show ?thesis by (simp add: Pair)
qed

lemma call_kernel_laws:
  "user_kernel call_kernel tid area_of" "length (area_of k) = user_size" "memory_writes_spare call_kernel area_of"
proof -
  have "i387_offset + i387_size \<le> user_size" "0 + regs_size \<le> user_size"
    by (simp_all add: i387_offset_def i387_size_def regs_size_def user_size_def)
  then show "user_kernel call_kernel tid area_of"
    by (simp add: user_kernel_def call_kernel_def area_write_splice del: split_paired_All)
qed (auto simp: length_area_of memory_writes_spare_def call_kernel_def area_of_def [of "(_, _)"])

definition call_env :: "write_log env" where
  "call_env = \<lparr>
     env_kernel = call_kernel,
     env_system = no_system,
     env_float = env_float ram_env, env_demangle = (\<lambda>s. None), env_temp_dir = ''/tmp'',
     env_decode = (\<lambda>a bs. None), env_from_chars_double = (\<lambda>s. (0, None)), env_lifecycle_callback = (\<lambda>r. retS ())\<rparr>"

definition call_elf :: elf where
  "call_elf = \<lparr>elf_no = 0, elf_path = [], elf_map = as_bytes (0x1000 :: u64),
     elf_header = \<lparr>e_entry = 0x1000, e_shoff = 0, e_shentsize = 0, e_shnum = 1, e_shstrndx = 0\<rparr>,
     section_headers = [\<lparr>sh_name = 0, sh_addr = 0x1000, sh_offset = 0, sh_size = 0x100, sh_entsize = 0\<rparr>],
     section_map = (\<lambda>_. None), load_bias = 0x10000, symbol_table = [], symbol_name_map = [], symbol_addr_map = []\<rparr>"

definition called_function :: die where
  "called_function = \<lparr>die_pos = 0,
     die_cu = \<lparr>cu_elf = call_elf, cu_begin = 0, cu_end = 8, cu_abbrev_offset = 0, cu_lines = None\<rparr>,
     die_abbrev = Some \<lparr>ab_code = 1, ab_tag = DW_TAG_subprogram, ab_has_children = False,
       ab_attr_specs = [\<lparr>spec_attr = DW_AT_low_pc, spec_form = DW_FORM_addr\<rparr>]\<rparr>,
     die_next = 8, die_attr_locs = [0]\<rparr>"

definition call_object :: object_file where
  "call_object = (let dw = \<lparr>dw_elf = call_elf, dw_units = [], dw_index = empty_index\<rparr>
     in \<lparr>of_elf = call_elf, of_dwarf = dw, of_cfi = \<lparr>cfi_dwarf = dw, cie_map = [],
       cfi_eh_hdr = \<lparr>hdr_start = 0, search_table = 0, hdr_count = 0, hdr_encoding = 0\<rparr>\<rparr>\<rparr>)"

definition call_registers :: registers where
  "call_registers = (new_registers 1)\<lparr>reg_data := replicate 40 0 @ 5 # replicate (user_size - 41) 0\<rparr>"

definition call_process :: "(write_log, target) process" where
  "call_process = (new_process ([], \<lambda>_. 0) 1 True False)\<lparr>p_threads := [(1, (new_thread 1)\<lparr>ts_regs := call_registers\<rparr>)],
     p_target := Some \<lparr>t_breakpoints = [], t_rendezvous = 0, t_objects = [call_object], t_main_elf = 0, t_threads = [],
       t_results = [], t_next_key = 0, t_breakpoint_id = 0\<rparr>\<rparr>"

text \<open>The call up to the stop of the thread, evaluated; the registers are written back by any kernel that takes them.\<close>

definition call_until_stop :: "(write_log, target, stop_reason) process_op" where
  "call_until_stop =
    thenS (setup_arguments 3 call_env 1 called_function [] None)
    (thenS (write_thread_register call_kernel (env_float call_env) 1 id_rip (V_u64 0x11000))
    (bindS (read_register (Some 1) id_rsp) (\<lambda>rsp0.
     thenS (process_write_memory call_kernel (rsp0 - 8) (as_bytes (0x11000 :: u64)))
     (thenS (write_thread_register call_kernel (env_float call_env) 1 id_rsp (V_u64 (rsp0 - 8)))
     (thenS (resume call_kernel (env_float call_env) (Some 1))
       (wait_on_signal 3 (target_hooks 3 call_env) call_kernel (env_float call_env) 1))))))"

lemma call_stops:
  "case call_until_stop call_process of (r, q) \<Rightarrow> is_ok r \<and> sr_reason (projr r) = stopped \<and>
     map_option (\<lambda>t. True) (map_of (p_threads q) 1) = Some True \<and> map_option (\<lambda>t. length (t_threads t)) (p_target q) = Some 0"
  by code_simp

lemma call_entry:
  "function_entry 3 (the (p_target call_process)) called_function = Inr 0x11000" "die_contains called_function DW_AT_type = Inr False"
  by code_simp+

lemma flush_debug_registers_succeed:
  assumes "length (reg_data regs) = user_size" "\<forall>i \<in> set xs. i < 8"
  shows "\<exists>s. forS (flush_debug_register call_kernel regs) xs (r, k) = (Inr (), s)"
  using assms(2)
proof (induction xs arbitrary: k)
  case (Cons i xs)
  have "\<exists>k1. flush_debug_register call_kernel regs i (r, k) = (Inr (), (r, k1))"
    using Cons.prems assms(1)
    by (auto simp: flush_debug_register_def user_field_def zoomS_def write_user_area_def call_kernel_def user_size_def)
  then show ?case using Cons by (auto simp: thenS_def bindS_def)
qed simp

lemma call_flush_succeeds:
  assumes "map_of (p_threads q) 1 \<noteq> None" "length (reg_data regs) = user_size"
  shows "\<exists>q'. on_registers 1 (thenS (modifyS (\<lambda>(_, k). (regs, k))) (registers_flush call_kernel)) q = (Inr (), q') \<and> p_target q' = p_target q"
proof -
  have dr: "register_info_by_id id_dr0 = Inr (g_register_infos ! id_dr0)" "ri_offset (g_register_infos ! id_dr0) = 848"
    using debug_register_info [of id_dr0] by (simp_all add: debug_register_def id_dr0_def id_dr7_def)
  have flush: "\<exists>s. registers_flush call_kernel (regs, k) = (Inr (), s)" for k
    using flush_debug_registers_succeed [OF assms(2), of "[0..<8]" regs] dr
    unfolding flush_debug_register_def
    by (auto simp: registers_flush_def bindS_Inr_iff thenS_Inr_iff zoomS_def write_fprs_def write_gprs_def call_kernel_def
        u_debugreg_offset_def cong: if_cong)
  obtain r k where "registers_flush call_kernel (regs, p_kernel q) = (Inr (), (r, k))" using flush [of "p_kernel q"] by auto
  then show ?thesis using assms(1) by (auto simp: on_registers_def thenS_def bindS_def)
qed

theorem call_restores_registers_witness:
  "\<exists>v p'. inferior_call_from_dwarf 3 call_env called_function [] 0x11000 1 call_process = (Inr v, p') \<and>
     get_registers (Some 1) p' = Inr call_registers"
proof -
  obtain reason q where q: "call_until_stop call_process = (Inr reason, q)" "sr_reason reason = stopped"
    "map_of (p_threads q) 1 \<noteq> None" "\<exists>t. p_target q = Some t \<and> t_threads t = []"
    using call_stops by (auto split: prod.splits sum.splits simp: is_ok_iff)
  obtain regs where regs: "get_registers (Some 1) q = Inr regs" using q(3) by (auto simp: get_registers_def)
  have saved: "get_registers (Some 1) call_process = Inr call_registers" "reg_tid call_registers = 1"
    "length (reg_data call_registers) = user_size"
    by (simp_all add: get_registers_def call_process_def call_registers_def new_registers_def user_size_def)
  obtain q' where flush: "on_registers 1 (thenS (modifyS (\<lambda>(_, k). (call_registers, k))) (registers_flush call_kernel)) q = (Inr (), q')"
    "p_target q' = p_target q" using call_flush_succeeds [OF q(3) saved(3)] by blast
  have stop: "when_target (h_notify_stop (target_hooks 3 call_env) reason) q' = (Inr (), q')"
    using flush(2) q(4)
    by (auto simp: when_target_def target_hooks_def notify_stop_def catchS_def bindS_def get_stack_def get_target_def map_at_def)
  have K: "env_kernel call_env = call_kernel" by (simp add: call_env_def)
  have "get_target call_process = (Inr (the (p_target call_process)), call_process)"
    by (simp add: get_target_def bindS_def call_process_def)
  then have run: "inferior_call_from_dwarf 3 call_env called_function [] 0x11000 1 call_process = (Inr None, q')"
    using q(1,2) K regs flush(1) stop saved(1) call_entry
    by (auto simp: inferior_call_from_dwarf_def call_until_stop_def target_inferior_call_def inferior_call_def value_or_def
        bindS_def thenS_def Let_def split: prod.splits sum.splits)
  have "get_registers (Some 1) q' = Inr call_registers"
    using call_restores_registers [OF _ _ _ saved run, of area_of] call_kernel_laws by (simp add: K)
  then show ?thesis using run by blast
qed

end
