(* ===== verification/Startup.thy ===== *)
theory Startup
  imports Target_State
begin

text \<open>
  Starting a program: what goes wrong in the child of the fork reaches the caller of \<open>process::launch\<close>, and opening
  an object file leaves neither a descriptor nor, where it fails, a mapping behind.
\<close>

section \<open>Launching\<close>

text \<open>The channel as the parent sees it, and a fork whose child runs until it has executed the program or exited.\<close>

definition parent_channel :: "'k files \<Rightarrow> int \<Rightarrow> ('k \<Rightarrow> byte list) \<Rightarrow> bool" where
  "parent_channel F r chan \<longleftrightarrow>
    (\<forall>fd k. chan (f_close F fd k) = chan k) \<and> (\<forall>n k. fst (f_read F r n k) = Some (take n (chan k)))"

definition fork_awaits_child :: "'k system \<Rightarrow> bool" where
  "fork_awaits_child S \<longleftrightarrow> (\<forall>child k pid k'. sys_fork S child k = Some (pid, k') \<longrightarrow> k' = snd (child k))"

lemma receive_report_reads:
  assumes "parent_channel F (read_fd c) chan"
  shows "\<exists>s. receive_report F (c, k) = (Inr (take 1024 (chan k)), s)"
proof -
  let ?s = "snd (close_write F (c, k))"
  have s: "read_fd (fst ?s) = read_fd c" "chan (snd ?s) = chan k"
    using assms by (simp_all add: close_write_def parent_channel_def)
  have "fst (f_read F (read_fd c) 1024 (snd ?s)) = Some (take 1024 (chan k))"
    using assms s(2) by (simp add: parent_channel_def)
  then have "\<exists>s'. pipe_read F ?s = (Inr (take 1024 (chan k)), s')"
    using s(1) by (cases ?s) (auto simp: pipe_read_def split: prod.splits)
  then show ?thesis by (auto simp: receive_report_def thenS_def bindS_def close_write_def close_read_def split: prod.splits)
qed

text \<open>
  C13. The first step of the child that fails is what the caller of \<open>launch\<close> gets: an error with
  the message of the step and of its \<open>errno\<close>, cut to the 1024 bytes one read takes. Where every step succeeds,
  nothing is reported and the process object is constructed for the child.
\<close>

theorem launch_reports_first_failure:
  assumes "pipe_new (sys_files S) True k = (Inr c, k0)" "chan k0 = []"
    and "parent_channel (sys_files S) (read_fd c) chan" "child_channel (sys_child S) (write_fd c) chan" "fork_awaits_child S"
    and "sys_fork S (\<lambda>k. apsnd snd (launch_child (sys_child S) path debug out (c, k))) k0 = Some (pid, k1)"
  shows "case first_failure (child_stages (sys_child S) path debug out (read_fd c)) k0 of
      Some (prefix, errno) \<Rightarrow> length (perror_message (sys_child S) prefix errno) \<le> 4096 \<longrightarrow>
        fst (launch n H K S fo path debug out k) = Inl (Send (take 1024 (perror_message (sys_child S) prefix errno)))
    | None \<Rightarrow> \<exists>k2. launch n H K S fo path debug out k = constructed n K S fo k2 pid True debug
        (if debug then thenS (wait_on_signal n H K fo (- 1)) (set_ptrace_options S pid True) else retS ())"
proof -
  let ?F = "sys_files S" and ?C = "sys_child S"
  have k1: "k1 = snd (snd (launch_child ?C path debug out (c, k0)))"
    using assms(5,6) unfolding fork_awaits_child_def by fastforce
  have reports: "child_reports ?C chan [] (first_failure (child_stages ?C path debug out (read_fd c)) k0) (launch_child ?C path debug out (c, k0))"
    using launch_child_reports [OF assms(4) refl, of k0] assms(2) by simp
  obtain k2 where data: "with_pipe ?F (receive_report ?F) c k1 = (Inr (take 1024 (chan k1)), k2)"
    using receive_report_reads [OF assms(3), of k1] by (auto simp: with_pipe_def)
  have run: "launch n H K S fo path debug out k =
      (if take 1024 (chan k1) \<noteq> [] then (Inl (Send (bytes_string (take 1024 (chan k1)))), snd (k_waitpid K pid 0 k2))
       else constructed n K S fo k2 pid True debug
         (if debug then thenS (wait_on_signal n H K fo (- 1)) (set_ptrace_options S pid True) else retS ()))"
    using assms(1,6) data by (simp add: launch_def Let_def)
  show ?thesis
  proof (cases "first_failure (child_stages ?C path debug out (read_fd c)) k0")
    case None
    then show ?thesis using reports run k1 by (auto simp: child_reports_def)
  next
    case (Some f)
    obtain prefix errno where f: "f = (prefix, errno)" by fastforce
    have "chan k1 = string_bytes (perror_message ?C prefix errno)" if "length (perror_message ?C prefix errno) \<le> 4096"
      using reports Some f k1 that by (simp add: child_reports_def)
    moreover have "take 1024 (string_bytes (perror_message ?C prefix errno)) \<noteq> []"
      by (simp add: perror_message_def string_bytes_def)
    ultimately show ?thesis using Some f run by (simp add: bytes_string_inverse)
  qed
qed

text \<open>A system whose state is the content of the channel and where the program to execute does not exist.\<close>

definition channel_files :: "byte list files" where
  "channel_files = no_files\<lparr>f_pipe2 := (\<lambda>b k. Some (3, 4, [])), f_read := (\<lambda>fd n k. (Some (take n k), drop n k)),
     f_write := (\<lambda>fd bs k. (Some (length bs), k @ bs))\<rparr>"

definition missing_program :: "byte list system" where
  "missing_program = no_system\<lparr>sys_files := channel_files,
     sys_child := \<lparr>c_files = channel_files, c_setpgid = Inr, c_personality = (\<lambda>k. k), c_dup2 = (\<lambda>a b. Inr), c_traceme = Inr,
       c_execlp = (\<lambda>path k. Inl 2), c_strerror = (\<lambda>e. ''No such file or directory'')\<rparr>,
     sys_fork := (\<lambda>child k. Some (7, snd (child k)))\<rparr>"

theorem launch_reports_first_failure_witness:
  "\<forall>n H K fo. fst (launch n H K missing_program fo ''prog'' True None []) = Inl (Send ''exec FAILED: No such file or directory'')"
proof (intro allI)
  fix n :: nat and H :: "(byte list, 't) hooks" and K fo
  let ?c = "\<lparr>read_fd = 3, write_fd = 4\<rparr>"
  have laws: "parent_channel (sys_files missing_program) (read_fd ?c) (\<lambda>k. k)" "child_channel (sys_child missing_program) (write_fd ?c) (\<lambda>k. k)"
    "fork_awaits_child missing_program" "pipe_new (sys_files missing_program) True [] = (Inr ?c, [])"
    by (auto simp: missing_program_def channel_files_def no_files_def parent_channel_def child_channel_def keeps_channel_def
        fork_awaits_child_def pipe_new_def)
  have "sys_fork missing_program (\<lambda>k. apsnd snd (launch_child (sys_child missing_program) ''prog'' True None (?c, k))) [] =
      Some (7, snd (snd (launch_child (sys_child missing_program) ''prog'' True None (?c, []))))"
    by (simp add: missing_program_def)
  from launch_reports_first_failure [of _ _ _ _ "\<lambda>k. k", OF laws(4) _ laws(1-3) this, of n H K fo]
  show "fst (launch n H K missing_program fo ''prog'' True None []) = Inl (Send ''exec FAILED: No such file or directory'')"
    by (simp add: child_stages_def missing_program_def perror_message_def)
qed

section \<open>Object files\<close>

text \<open>
  C24. Opening an object file leaves no descriptor open, whether it succeeds or fails at the file, its size, its
  mapping or its contents. A success leaves one mapping, that of the object, which was not there before;
  a \<open>gsdb::error\<close> or another exception leaves the mappings as they were.
\<close>

theorem elf_new_leaks_nothing:
  assumes "tracks_files F fds maps" "elf_new F demangle no path k = (r, k')"
  shows "fds k' = fds k \<and>
    (case r of
       Inr f \<Rightarrow> \<exists>m. m \<notin> maps k \<and> maps k' = insert m (maps k)
     | Inl e \<Rightarrow> is_exception e \<longrightarrow> maps k' = maps k)"
proof -
  obtain r1 k1 where new: "mapped_file_new F path k = (r1, k1)" by fastforce
  note d = mapped_file_descriptors [OF assms(1) new]
  show ?thesis
  proof (cases r1)
    case (Inl e)
    then show ?thesis using assms(2) new d by (auto simp: elf_new_def bindS_def)
  next
    case (Inr m)
    have u: "fds (mapped_file_destroy F m k1) = fds k1" "maps (mapped_file_destroy F m k1) = maps k1 - {(mf_addr m, mf_size m)}"
      using assms(1) by (simp_all add: tracks_files_def mapped_file_destroy_def)
    have run: "elf_new F demangle no path k =
        (case object_open demangle no path (mf_data m) of
           Inl e \<Rightarrow> (Inl e, if is_exception e then mapped_file_destroy F m k1 else k1)
         | Inr f \<Rightarrow> (Inr f, k1))"
      using new Inr by (simp add: elf_new_def bindS_def catchS_def split: sum.split)
    show ?thesis
    proof (cases "object_open demangle no path (mf_data m)")
      case (Inl e)
      then show ?thesis using run assms(2) d u \<open>r1 = Inr m\<close> by (auto split: if_split_asm)
    next
      case (Inr f)
      then show ?thesis using run assms(2) d \<open>r1 = Inr m\<close> by auto
    qed
  qed
qed

text \<open>A system with one file, whose descriptors and mappings are the state; the file is too short to be an object.\<close>

definition short_file :: "(int set \<times> (u64 \<times> nat) set) files" where
  "short_file = no_files\<lparr>
     f_open := (\<lambda>path k. if 3 \<in> fst k then (- 1, k) else (3, (insert 3 (fst k), snd k))),
     f_fstat := (\<lambda>fd k. Some 2),
     f_mmap := (\<lambda>n fd k. if (0x1000, n) \<in> snd k then None else Some (0x1000, [1, 2], (fst k, insert (0x1000, n) (snd k)))),
     f_munmap := (\<lambda>a n k. (fst k, snd k - {(a, n)})), f_close := (\<lambda>fd k. (fst k - {fd}, snd k))\<rparr>"

theorem elf_new_leaks_nothing_witness:
  "fst (snd (elf_new short_file (\<lambda>_. None) 0 ''a'' ({}, {}))) = {}"
proof -
  have "tracks_files short_file fst snd"
    by (auto simp: tracks_files_def short_file_def no_files_def split: if_split_asm)
  from elf_new_leaks_nothing [OF this prod.collapse [symmetric], of "\<lambda>_. None" 0 "''a''" "({}, {})"] show ?thesis by simp
qed

end
