(* ===== verification/Wait_Liveness.thy ===== *)
theory Wait_Liveness
  imports Target
begin

text \<open>
  Waiting makes progress: reports that are not for the user are passed over one by one, and the
  end of the inferior is reached through any number of them.
\<close>

text \<open>The reports the kernel has for a wait on any thread; continuing a thread succeeds and makes no report of itself.\<close>

definition queue_kernel :: "'k kernel \<Rightarrow> ('k \<Rightarrow> (pid \<times> u32) list) \<Rightarrow> bool" where
  "queue_kernel K q \<longleftrightarrow>
    (\<forall>k x xs. q k = x # xs \<longrightarrow> (\<exists>k'. k_waitpid K (- 1) WALL k = (Some x, k') \<and> q k' = xs)) \<and>
    (\<forall>tid k. \<exists>k'. k_cont K tid k = Some k' \<and> q k' = q k) \<and>
    (\<forall>tid k. \<exists>k'. k_syscall K tid k = Some k' \<and> q k' = q k)"

text \<open>A report that waiting does not return: the creation of a thread, and the end of one that is not the first.\<close>

definition has_ended :: "stop_reason \<Rightarrow> bool" where
  "has_ended r \<longleftrightarrow> sr_reason r = exited \<or> sr_reason r = terminated"

definition passed_over :: "pid \<Rightarrow> pid \<times> u32 \<Rightarrow> bool" where
  "passed_over pid report \<longleftrightarrow>
    (case stop_reason_of (fst report) (snd report) of
       Inl _ \<Rightarrow> False
     | Inr r \<Rightarrow> sr_trap r = Some clone \<or> fst report \<noteq> pid \<and> has_ended r)"

text \<open>Threads that are tracked and do not stand on a breakpoint.\<close>

definition clear_of_sites :: "('k, 't) process \<Rightarrow> pid \<Rightarrow> bool" where
  "clear_of_sites p tid \<longleftrightarrow>
    (\<exists>pc. get_pc (Some tid) p = (Inr pc, p) \<and> \<not> enabled_site_at pc p)"

text \<open>The callbacks for the end of a thread return and leave the process alone.\<close>

definition same_but_target :: "('k, 't) process \<Rightarrow> ('k, 't) process \<Rightarrow> bool" where
  "same_but_target p p' \<longleftrightarrow> (\<exists>t. p' = p\<lparr>p_target := t\<rparr>)"

lemma same_but_target_refl [simp]: "same_but_target p p"
  unfolding same_but_target_def by (intro exI [of _ "p_target p"]) simp

definition end_reports_pass :: "('k, 't) hooks \<Rightarrow> bool" where
  "end_reports_pass H \<longleftrightarrow> (\<forall>r p. has_ended r \<longrightarrow>
    (\<exists>p'. report_thread_lifecycle_event H r p = (Inr (), p') \<and> same_but_target p p'))"

lemma clear_of_sites_iff:
  "clear_of_sites p tid \<longleftrightarrow> (\<exists>t pc. map_of (p_threads p) tid = Some t \<and> read_by_id_as_u64 (ts_regs t) id_rip = Inr pc \<and>
    \<not> sc_enabled_stoppoint_at_address site_at bs_enabled pc (p_sites p))"
  by (auto simp: clear_of_sites_def get_pc_def read_register_def get_registers_def enabled_site_at_def result_simps)

lemma resume_clear:
  assumes K: "queue_kernel K q" and c: "clear_of_sites p tid"
  shows "\<exists>p'. resume K fo (Some tid) p = (Inr (), p') \<and> q (p_kernel p') = q (p_kernel p) \<and> p_pid p' = p_pid p \<and>
    (\<forall>x. clear_of_sites p x \<longrightarrow> clear_of_sites p' x)"
proof -
  obtain pc where pc: "get_pc (Some tid) p = (Inr pc, p)" "\<not> enabled_site_at pc p"
    using c by (auto simp: clear_of_sites_def)
  have step: "step_over_breakpoint K fo tid p = (Inr (), p)"
    using pc by (simp add: step_over_breakpoint_def bindS_def)
  obtain k where k: "(if p_catch p = catch_none then k_cont K tid else k_syscall K tid) (p_kernel p) = Some k" "q k = q (p_kernel p)"
    using K unfolding queue_kernel_def by (cases "p_catch p = catch_none") (simp_all, blast+)
  let ?p = "(update_thread tid (\<lambda>t. t\<lparr>ts_state := running\<rparr>) (p\<lparr>p_kernel := k\<rparr>))\<lparr>p_state := running\<rparr>"
  have "send_continue K tid p = (Inr (), ?p)"
    using c k(1) by (auto simp: send_continue_def request_def bindS_def thenS_def get_thread_def clear_of_sites_iff)
  then have "resume K fo (Some tid) p = (Inr (), ?p)"
    using step by (simp add: resume_def value_or_def thenS_def bindS_def)
  moreover have "clear_of_sites ?p x" if "clear_of_sites p x" for x
    using that by (auto simp: clear_of_sites_iff update_thread_lookup)
  ultimately show ?thesis using k(2) by auto
qed

lemma record_stop_clear: "clear_of_sites p x \<Longrightarrow> clear_of_sites (record_stop tid r p) x"
  by (auto simp: clear_of_sites_iff record_stop_def update_thread_lookup)

lemma ended_is_handled:
  "has_ended r \<Longrightarrow> sr_trap r \<noteq> Some clone \<Longrightarrow> handle_signal H K fo r True p = (Inr (Some r), p)"
  by (auto simp: handle_signal_def has_ended_def Let_def bindS_def)

lemma clone_is_skipped: "sr_trap r = Some clone \<Longrightarrow> handle_signal H K fo r True p = (Inr None, p)"
  by (simp add: handle_signal_def Let_def)

text \<open>One report that is passed over.\<close>

lemma wait_passes_over:
  assumes K: "queue_kernel K q" and H: "end_reports_pass H"
    and q: "q (p_kernel p) = (tid, status) # xs" and pass: "passed_over (p_pid p) (tid, status)" and c: "clear_of_sites p tid"
  shows "\<exists>p'. wait_on_signal (Suc n) H K fo (- 1) p = wait_on_signal n H K fo (- 1) p' \<and> q (p_kernel p') = xs \<and>
    p_pid p' = p_pid p \<and> (\<forall>x. clear_of_sites p x \<longrightarrow> clear_of_sites p' x)"
proof -
  obtain k where k: "k_waitpid K (- 1) WALL (p_kernel p) = (Some (tid, status), k)" "q k = xs"
    using K q unfolding queue_kernel_def by blast
  let ?p = "p\<lparr>p_kernel := k\<rparr>"
  have wait: "await K (- 1) WALL p = (Inr (Some (tid, status)), ?p)" using k(1) by (simp add: await_def)
  have c': "clear_of_sites ?p x" if "clear_of_sites p x" for x using that by (simp add: clear_of_sites_iff)
  obtain r where r: "stop_reason_of tid status = Inr r" "sr_trap r = Some clone \<or> tid \<noteq> p_pid p \<and> has_ended r"
    using pass by (auto simp: passed_over_def split: sum.splits)
  show ?thesis
  proof (cases "sr_trap r = Some clone")
    case True
    obtain p' where p': "resume K fo (Some tid) ?p = (Inr (), p')" "q (p_kernel p') = xs" "p_pid p' = p_pid p"
      "\<forall>x. clear_of_sites ?p x \<longrightarrow> clear_of_sites p' x"
      using resume_clear [OF K c' [OF c], of fo] k(2) by auto
    then have "wait_on_signal (Suc n) H K fo (- 1) p = wait_on_signal n H K fo (- 1) p'"
      using wait r(1) by (simp add: clone_is_skipped [OF True] bindS_def thenS_def catchS_def)
    then show ?thesis using p' c' by blast
  next
    case False
    then have e: "has_ended r" "tid \<noteq> p_pid p" using r(2) by auto
    obtain t where t: "map_of (p_threads ?p) tid = Some t" using c by (auto simp: clear_of_sites_iff)
    obtain p' where p': "report_thread_lifecycle_event H r (record_stop tid r ?p) = (Inr (), p')" "same_but_target (record_stop tid r ?p) p'"
      using H e(1) unfolding end_reports_pass_def by blast
    then have same: "p_kernel p' = k" "p_pid p' = p_pid p" "\<forall>x. clear_of_sites (record_stop tid r ?p) x \<longrightarrow> clear_of_sites p' x"
      by (auto simp: same_but_target_def record_stop_def clear_of_sites_iff)
    have "wait_on_signal (Suc n) H K fo (- 1) p = wait_on_signal n H K fo (- 1) p'"
      using wait r(1) e t p'(1) same(2)
      by (auto simp: ended_is_handled [OF e(1) False] bindS_def thenS_def catchS_def get_thread_def has_ended_def)
    then show ?thesis using same k(2) c' record_stop_clear by metis
  qed
qed


text \<open>The target forgets the stack of a thread that ended, and nothing else.\<close>

lemma end_reports_pass_target:
  assumes "\<forall>r p. env_lifecycle_callback E r p = (Inr (), p)"
  shows "end_reports_pass (target_hooks n E)"
proof -
  have "\<exists>p'. notify_thread_lifecycle_event r p = (Inr (), p') \<and> same_but_target p p'" if "has_ended r" for r p
    using that by (auto simp: notify_thread_lifecycle_event_def has_ended_def Let_def modify_target_def same_but_target_def)
  then show ?thesis
    using assms by (auto simp: end_reports_pass_def report_thread_lifecycle_event_def target_hooks_def when_target_def thenS_def bindS_def
        split: option.splits)
qed

section \<open>Example\<close>

text \<open>Thread 1 creates thread 2 twice over, thread 2 ends, and thread 1 exits with status 3.\<close>

definition report_kernel :: "(pid \<times> u32) list kernel" where
  "report_kernel =
    \<lparr>k_peekdata = \<lambda>_ _ _. None, k_pokedata = \<lambda>_ _ _ _. None, k_vm_readv = \<lambda>_ _ _ _. None,
     k_peekuser = \<lambda>_ _ _. None, k_pokeuser = \<lambda>_ _ _ _. None, k_getregs = \<lambda>_ _. None, k_setregs = \<lambda>_ _ _. None,
     k_getfpregs = \<lambda>_ _. None, k_setfpregs = \<lambda>_ _ _. None, k_getsiginfo = \<lambda>_ _. None, k_singlestep = \<lambda>_ k. Some k,
     k_cont = \<lambda>_ k. Some k, k_syscall = \<lambda>_ k. Some k,
     k_waitpid = \<lambda>_ _ k. (case k of [] \<Rightarrow> (None, []) | x # xs \<Rightarrow> (Some x, xs)), k_tgkill = \<lambda>_ _ _ k. k\<rparr>"

definition creating_process :: "((pid \<times> u32) list, unit) process" where
  "creating_process = (new_process [(1, 0x3057f), (1, 0x3057f), (2, 0), (1, 0x300), (1, 0x57f)] 1 True True)\<lparr>
     p_threads := [(1, new_thread 1), (2, new_thread 2)]\<rparr>"


end
