(* ===== verification/Frames.thy ===== *)
theory Frames
  imports Stack_Unwind
begin

text \<open>
  The frames of a stack: each physical frame gives one frame for every function at its program counter, the
  innermost inlined one first and the function that contains them all last.
\<close>

text \<open>The frames of one physical frame, from the entries at its program counter, outermost first.\<close>

definition frame_group :: "registers \<Rightarrow> die list \<Rightarrow> stack_frame list \<Rightarrow> bool" where
  "frame_group regs inline_stack frames \<longleftrightarrow>
    map sf_func_die frames = rev inline_stack \<and>
    map sf_inlined frames = replicate (length inline_stack - 1) True @ [False] \<and>
    list_all (\<lambda>f. sf_regs f = regs) frames"

lemma inline_frames_group:
  assumes "create_inline_stack_frames t regs prev ds = (frames, Inr ())" "ds \<noteq> []"
  shows "map sf_func_die frames = ds \<and> map sf_inlined frames = replicate (length ds - 1) True @ [False] \<and>
    list_all (\<lambda>f. sf_regs f = regs) frames"
  using assms
proof (induction t regs prev ds arbitrary: frames rule: create_inline_stack_frames.induct)
  case (2 t regs prev d ds)
  obtain a f l where a: "bindE (bindE (die_low_pc prev) (target_virt_addr t)) (\<lambda>a.
      bindE (die_location prev) (\<lambda>(f, l). Inr (a, f, l))) = Inr (a, f, l)"
    using "2.prems"(1) by (auto split: sum.splits prod.splits)
  obtain outer where outer: "create_inline_stack_frames t regs d ds = (outer, Inr ())"
    "frames = \<lparr>sf_regs = regs, sf_report_address = a, sf_func_die = d, sf_inlined = ds \<noteq> [], sf_location = (Some f, l)\<rparr> # outer"
    using "2.prems"(1) a by (auto split: prod.splits)
  show ?case
  proof (cases "ds = []")
    case True
    then show ?thesis using outer by simp
  next
    case False
    then have "map sf_func_die outer = ds \<and> map sf_inlined outer = replicate (length ds - 1) True @ [False] \<and>
        list_all (\<lambda>f. sf_regs f = regs) outer"
      using "2.IH" [OF a refl refl outer(1)] by simp
    moreover obtain m where "length ds = Suc m" using False by (cases ds) auto
    ultimately show ?thesis using outer(2) False by simp
  qed
qed simp

lemma physical_frames_group:
  assumes "physical_frames t regs inline_stack pc = (frames, Inr ())" "inline_stack \<noteq> []"
  shows "frame_group regs inline_stack frames"
proof -
  obtain base where base: "create_base_frame t regs inline_stack pc (length inline_stack > 1) = Inr base"
    using assms(1) by (auto simp: physical_frames_def split: sum.splits)
  have b: "sf_func_die base = last inline_stack" "sf_inlined base = (length inline_stack > 1)" "sf_regs base = regs"
    using base by (auto simp: create_base_frame_def result_simps)
  obtain ds d where stk: "inline_stack = ds @ [d]" using assms(2) by (cases inline_stack rule: rev_cases) auto
  show ?thesis
  proof (cases "ds = []")
    case True
    then show ?thesis using assms(1) base b stk by (auto simp: physical_frames_def frame_group_def)
  next
    case False
    then obtain outer where outer: "create_inline_stack_frames t regs d (rev ds) = (outer, Inr ())" "frames = base # outer"
      using assms(1) base stk by (auto simp: physical_frames_def split: prod.splits)
    obtain m where "length ds = Suc m" using False by (cases ds) auto
    then show ?thesis
      using inline_frames_group [OF outer(1)] False outer(2) b stk by (simp add: frame_group_def)
  qed
qed

text \<open>A group whose last frame has been given its call frame address.\<close>

definition unwound_group :: "stack_frame list \<Rightarrow> bool" where
  "unwound_group frames \<longleftrightarrow>
    (\<exists>n (f :: object_file) pc inline_stack. inline_stack_at_address n (of_dwarf f) pc = Inr inline_stack \<and> inline_stack \<noteq> [] \<and>
       map sf_func_die frames = rev inline_stack \<and>
       map sf_inlined frames = replicate (length inline_stack - 1) True @ [False])"

lemma set_frame_regs_maps:
  assumes "frames \<noteq> []"
  shows "map sf_func_die (set_frame_regs regs frames) = map sf_func_die frames"
    and "map sf_inlined (set_frame_regs regs frames) = map sf_inlined frames"
  using assms by (cases frames rule: rev_cases; simp add: set_frame_regs_def)+

lemma unwound_groupI:
  fixes f :: object_file
  assumes "inline_stack_at_address n (of_dwarf f) pc = Inr stk" "stk \<noteq> []" "physical_frames t regs stk pc' = (new, Inr ())"
  shows "unwound_group (set_frame_regs regs' new)"
proof -
  have g: "frame_group regs stk new" by (rule physical_frames_group [OF assms(3,2)])
  then have "new \<noteq> []" using assms(2) by (auto simp: frame_group_def)
  then show ?thesis
    using g assms(1,2) unfolding unwound_group_def frame_group_def set_frame_regs_maps [OF \<open>new \<noteq> []\<close>] by blast
qed

text \<open>One round of the loop: it ends, or adds a group and ends or goes on.\<close>

lemma unwind_loop_round:
  assumes run: "unwind_loop (Suc k) n fo rm t virt_pc file_pc regs start = (frames, t', Inr ())"
  shows "frames = start \<or> (\<exists>new. unwound_group new \<and> (frames = start @ new \<or>
    (\<exists>t1 virt_pc1 file_pc1 regs1. unwind_loop k n fo rm t1 virt_pc1 file_pc1 regs1 (start @ new) = (frames, t', Inr ()))))"
proof (cases "virt_pc = 0 \<or> fa_elf file_pc = None")
  case True
  then show ?thesis using run by (auto simp: unwind_loop.simps)
next
  case False
  obtain f stk where f: "bindE (find_object t (the (fa_elf file_pc)))
      (\<lambda>f. bindE (inline_stack_at_address n (of_dwarf f) file_pc) (\<lambda>ds. Inr (f, ds))) = Inr (f, stk)"
    using run False by (subst (asm) unwind_loop.simps) (auto split: sum.splits prod.splits)
  then have at: "inline_stack_at_address n (of_dwarf f) file_pc = Inr stk" by (auto simp: result_simps)
  show ?thesis
  proof (cases "stk = []")
    case True
    then show ?thesis using run False f by (subst (asm) unwind_loop.simps) simp
  next
    case ne: False
    obtain new where new: "physical_frames t regs stk file_pc = (new, Inr ())"
      using run False f ne by (subst (asm) unwind_loop.simps) (auto split: sum.splits prod.splits)
    let ?new = "set_frame_regs (with_frame_address n rm (of_cfi f) file_pc (sf_regs (last new))) new"
    have "unwound_group ?new" by (rule unwound_groupI [OF at ne new])
    moreover have "frames = start @ ?new \<or>
        (\<exists>t1 virt_pc1 file_pc1 regs1. unwind_loop k n fo rm t1 virt_pc1 file_pc1 regs1 (start @ ?new) = (frames, t', Inr ()))"
      using run False f ne new by (subst (asm) unwind_loop.simps) (auto simp: Let_def split: sum.splits prod.splits)
    ultimately show ?thesis by blast
  qed
qed

lemma unwind_loop_groups:
  assumes "unwind_loop m n fo rm t virt_pc file_pc regs start = (frames, t', Inr ())"
  shows "\<exists>groups. frames = start @ concat groups \<and> list_all unwound_group groups"
  using assms
proof (induction m arbitrary: t virt_pc file_pc regs start)
  case 0
  then show ?case by (intro exI [of _ "[]"]) (auto simp: unwind_loop.simps split: if_split_asm)
next
  case (Suc k)
  consider "frames = start" | new where "unwound_group new" "frames = start @ new"
    | new t1 virt_pc1 file_pc1 regs1 where "unwound_group new"
        "unwind_loop k n fo rm t1 virt_pc1 file_pc1 regs1 (start @ new) = (frames, t', Inr ())"
    using unwind_loop_round [OF Suc.prems] by blast
  then show ?case
  proof cases
    case 1
    then show ?thesis by (intro exI [of _ "[]"]) simp
  next
    case (2 new)
    then show ?thesis by (intro exI [of _ "[new]"]) simp
  next
    case (3 new)
    then obtain groups where "frames = (start @ new) @ concat groups" "list_all unwound_group groups" using Suc.IH by blast
    then show ?thesis using 3(1) by (intro exI [of _ "new # groups"]) simp
  qed
qed


section \<open>Example\<close>

text \<open>An object with one function at 16, without an entry in its call frame information.\<close>

definition frame_abbrev :: abbrev where
  "frame_abbrev = \<lparr>ab_code = 1, ab_tag = DW_TAG_subprogram, ab_has_children = False,
     ab_attr_specs = [\<lparr>spec_attr = DW_AT_low_pc, spec_form = DW_FORM_addr\<rparr>, \<lparr>spec_attr = DW_AT_high_pc, spec_form = DW_FORM_data1\<rparr>]\<rparr>"

definition frame_image :: "byte list" where
  "frame_image = encode_abbrev frame_abbrev @ encode_abbrev null_abbrev @ 1 # as_bytes (16 :: u64) @ [8]"

definition frame_elf :: elf where
  "frame_elf = \<lparr>elf_no = 0, elf_path = [], elf_map = frame_image,
     elf_header = \<lparr>e_entry = 16, e_shoff = 0, e_shentsize = 0, e_shnum = 1, e_shstrndx = 0\<rparr>,
     section_headers = [\<lparr>sh_name = 0, sh_addr = 16, sh_offset = 0, sh_size = 32, sh_entsize = 0\<rparr>],
     section_map = [''.debug_abbrev'' \<mapsto> \<lparr>sh_name = 0, sh_addr = 0, sh_offset = 0, sh_size = word_of_nat (length frame_image - 10), sh_entsize = 0\<rparr>,
       ''.text'' \<mapsto> \<lparr>sh_name = 0, sh_addr = 16, sh_offset = 0, sh_size = 32, sh_entsize = 0\<rparr>],
     load_bias = 0, symbol_table = [], symbol_name_map = [], symbol_addr_map = []\<rparr>"

definition frame_cu :: compile_unit where
  "frame_cu = \<lparr>cu_elf = frame_elf, cu_begin = int (length frame_image - 10), cu_end = int (length frame_image), cu_abbrev_offset = 0, cu_lines = None\<rparr>"

definition frame_object :: object_file where
  "frame_object = (let dw = \<lparr>dw_elf = frame_elf, dw_units = [],
      dw_index = empty_index\<lparr>function_index := [(''f'', \<lparr>ie_cu = frame_cu, ie_pos = int (length frame_image - 10)\<rparr>)]\<rparr>\<rparr>
     in \<lparr>of_elf = frame_elf, of_dwarf = dw, of_cfi = \<lparr>cfi_dwarf = dw, cie_map = [],
       cfi_eh_hdr = \<lparr>hdr_start = 0, search_table = 0, hdr_count = 0, hdr_encoding = 1\<rparr>\<rparr>\<rparr>)"

definition frame_target :: target where
  "frame_target = \<lparr>t_breakpoints = [], t_rendezvous = 0, t_objects = [frame_object], t_main_elf = 0, t_threads = [],
     t_results = [], t_next_key = 0, t_breakpoint_id = 0\<rparr>"

definition frame_floats :: float_ops where
  "frame_floats = \<lparr>float_to_double = ucast, float_to_long_double = ucast, double_to_long_double = ucast, long_double_to_double = ucast\<rparr>"

lemma frame_found:
  "case unwind_loop 3 3 frame_floats (\<lambda>a n. Inl (Send [])) frame_target 18 (mk_file_addr 0 18) (new_registers 1) [] of
     (frames, t', r) \<Rightarrow> r = Inr () \<and> map sf_report_address frames = [18]"
  by code_simp


end
