(* ===== verification/Resolution.thy ===== *)
theory Resolution
  imports Call_Convention Frames
begin

text \<open>
  Resolving a breakpoint again, as the debugger does whenever a library is loaded: what is already resolved stays
  as it is, and no address gets a second site.
\<close>

section \<open>The target is left alone\<close>

text \<open>Creating and enabling sites does not touch the target.\<close>

definition has_target :: "'t option \<Rightarrow> ('k, 't) process \<Rightarrow> bool" where
  "has_target t p \<longleftrightarrow> p_target p = t"

lemma target_requests [keeps_intros]:
  "keepsS (has_target t) (request msg f)" "keepsS (has_target t) (query g)" "keepsS (has_target t) (get_thread tid)"
  "keepsS (has_target t) (read_register otid i)"
  by (auto simp: keepsS_def has_target_def request_def query_def get_thread_def read_register_def split: option.splits)

lemma target_updates [keeps_intros]:
  "keepsS (has_target t) (modifyS (\<lambda>p. p\<lparr>p_sites := g p\<rparr>))"
  "keepsS (has_target t) (modifyS (\<lambda>p. p\<lparr>p_sites := g p, p_site_id := h p\<rparr>))"
  "keepsS (has_target t) (modifyS (\<lambda>p. p\<lparr>p_site_id := h p\<rparr>))"
  by (rule keepsS_modify; simp add: has_target_def)+

lemma target_on_registers [keeps_intros]: "keepsS (has_target t) (on_registers tid m)"
  by (auto simp: keepsS_def has_target_def on_registers_def update_thread_def split: prod.splits option.splits)

lemma target_words [keeps_intros]: "keepsS (has_target t) (peek_word K msg a)" "keepsS (has_target t) (poke_word K msg a w)"
  by (simp add: keepsS_def peek_word_def) (unfold poke_word_def, intro keeps_intros)

lemma target_site_enable [keeps_intros]: "keepsS (has_target t) (site_enable K fo a)"
  unfolding site_enable_def on_site_def breakpoint_site_enable_def set_hardware_breakpoint_def set_hardware_stoppoint_def
    write_other_threads_def write_thread_register_def Let_def
  by (intro keeps_intros)

lemma target_create_site [keeps_intros]: "keepsS (has_target t) (create_breakpoint_site_for parent i a hardware internal)"
  unfolding create_breakpoint_site_for_def Let_def by (intro keeps_intros)

section \<open>Programs that settle\<close>

text \<open>The breakpoint has at least the sites it had, resolves the same thing and sees the same target.\<close>

definition extends :: "target \<Rightarrow> breakpoint \<times> ('k, target) process \<Rightarrow> breakpoint \<times> ('k, target) process \<Rightarrow> bool" where
  "extends t s s' \<longleftrightarrow> p_target (snd s) = Some t \<and> p_target (snd s') = Some t \<and> b_kind (fst s') = b_kind (fst s) \<and>
    set (b_sites (fst s)) \<subseteq> set (b_sites (fst s')) \<and> (distinct (b_sites (fst s)) \<longrightarrow> distinct (b_sites (fst s')))"

text \<open>
  A program that settles has nothing left to do once it has returned, as long as what it did is still there.
\<close>

definition settles :: "target \<Rightarrow> ('k, unit) breakpoint_op \<Rightarrow> bool" where
  "settles t m \<longleftrightarrow>
    (\<forall>s s'. p_target (snd s) = Some t \<longrightarrow> m s = (Inr (), s') \<longrightarrow> extends t s s' \<and>
       (\<forall>s2. extends t s' s2 \<longrightarrow> m s2 = (Inr (), s2)))"

lemma settles_extends: "settles t m \<Longrightarrow> p_target (snd s) = Some t \<Longrightarrow> m s = (Inr (), s') \<Longrightarrow> extends t s s'"
  unfolding settles_def by blast

lemma settles_again:
  "settles t m \<Longrightarrow> p_target (snd s) = Some t \<Longrightarrow> m s = (Inr (), s') \<Longrightarrow> extends t s' s2 \<Longrightarrow> m s2 = (Inr (), s2)"
  unfolding settles_def by blast

lemma extends_target: "extends t s s' \<Longrightarrow> p_target (snd s') = Some t"
  by (simp add: extends_def)

lemma extends_refl: "p_target (snd s) = Some t \<Longrightarrow> extends t s s"
  by (simp add: extends_def)

lemma bindS_getS: "bindS (getS f) g s = g (f s) s"
  by (simp add: bindS_def)

lemma extends_trans: "extends t s s1 \<Longrightarrow> extends t s1 s2 \<Longrightarrow> extends t s s2"
  by (auto simp: extends_def)

lemma settles_ret: "settles t (retS ())"
  by (auto simp: settles_def extends_def)

lemma settles_lift: "(\<And>x. r = Inr x \<Longrightarrow> settles t (f x)) \<Longrightarrow> settles t (bindS (liftS r) f)"
  by (cases r) (auto simp: settles_def)

lemma settles_target: "settles t (f t) \<Longrightarrow> settles t (bindS (on_process get_target) f)"
proof -
  have g: "on_process get_target s = (Inr t, s)" if "p_target (snd s) = Some t" for s :: "breakpoint \<times> ('a, target) process"
    using that by (cases s) (simp add: on_process_def zoomS_def get_target_def bindS_def)
  have f: "bindS (on_process get_target) f s = f t s" if "p_target (snd s) = Some t" for s
    using g [OF that] by (simp add: bindS_def)
  assume m: "settles t (f t)"
  show ?thesis
    unfolding settles_def
  proof (intro allI impI)
    fix s s'
    assume s: "p_target (snd s) = Some t" and run: "bindS (on_process get_target) f s = (Inr (), s')"
    then have run': "f t s = (Inr (), s')" by (simp add: f)
    have "bindS (on_process get_target) f s2 = (Inr (), s2)" if "extends t s' s2" for s2
      using settles_again [OF m s run' that] extends_target [OF that] by (simp add: f)
    then show "extends t s s' \<and> (\<forall>s2. extends t s' s2 \<longrightarrow> bindS (on_process get_target) f s2 = (Inr (), s2))"
      using settles_extends [OF m s run'] by blast
  qed
qed

lemma settles_then:
  assumes "settles t m" "settles t k"
  shows "settles t (thenS m k)"
  unfolding settles_def
proof (intro allI impI)
  fix s s'
  assume s: "p_target (snd s) = Some t" and run: "thenS m k s = (Inr (), s')"
  then obtain s1 where s1: "m s = (Inr (), s1)" "k s1 = (Inr (), s')" by (auto simp: thenS_Inr_iff)
  have e1: "extends t s s1" by (rule settles_extends [OF assms(1) s s1(1)])
  note t1 = extends_target [OF e1]
  have e2: "extends t s1 s'" by (rule settles_extends [OF assms(2) t1 s1(2)])
  have "thenS m k s2 = (Inr (), s2)" if "extends t s' s2" for s2
  proof -
    have "m s2 = (Inr (), s2)" by (rule settles_again [OF assms(1) s s1(1) extends_trans [OF e2 that]])
    moreover have "k s2 = (Inr (), s2)" by (rule settles_again [OF assms(2) t1 s1(2) that])
    ultimately show ?thesis by (simp add: thenS_def bindS_def)
  qed
  then show "extends t s s' \<and> (\<forall>s2. extends t s' s2 \<longrightarrow> thenS m k s2 = (Inr (), s2))"
    using extends_trans [OF e1 e2] by blast
qed

lemma settles_for: "(\<And>x. settles t (f x)) \<Longrightarrow> settles t (forS f xs)"
  by (induction xs) (auto intro: settles_then settles_ret)

section \<open>Adding sites\<close>

lemma add_site_extends:
  assumes "p_target (snd s) = Some t" "add_site E a s = (Inr (), s')" "a \<notin> set (b_sites (fst s))"
  shows "extends t s s' \<and> a \<in> set (b_sites (fst s'))"
proof -
  obtain b p where s: "s = (b, p)" by fastforce
  obtain x p1 where 1: "create_breakpoint_site_for (b_key b) (b_next_site_id b) a (b_hardware b) (b_internal b) p = (Inr x, p1)"
    and 2: "(if b_enabled b then on_process (site_enable (env_kernel E) (env_float E) a) else retS ())
      (b\<lparr>b_next_site_id := b_next_site_id b + 1, b_sites := b_sites b @ [a]\<rparr>, p1) = (Inr (), s')"
    using assms(2) s by (auto simp: add_site_def bindS_Inr_iff thenS_Inr_iff modify_breakpoint_def on_process_def zoomS_def split: prod.splits)
  have t1: "p_target p1 = Some t" using keepsS_D [OF target_create_site 1] assms(1) s by (simp add: has_target_def)
  obtain p2 where p2: "s' = (b\<lparr>b_next_site_id := b_next_site_id b + 1, b_sites := b_sites b @ [a]\<rparr>, p2)" "p_target p2 = Some t"
  proof (cases "b_enabled b")
    case True
    then obtain p2 where "site_enable (env_kernel E) (env_float E) a p1 = (Inr (), p2)"
      "s' = (b\<lparr>b_next_site_id := b_next_site_id b + 1, b_sites := b_sites b @ [a]\<rparr>, p2)"
      using 2 by (auto simp: on_process_def zoomS_def split: prod.splits)
    moreover have "p_target p2 = Some t" using keepsS_D [OF target_site_enable calculation(1)] t1 by (simp add: has_target_def)
    ultimately show ?thesis using that by blast
  next
    case False
    then show ?thesis using 2 t1 that by auto
  qed
  then show ?thesis using assms(1,3) s by (auto simp: extends_def)
qed

lemma settles_add_site_once: "settles t (add_site_once E a)"
  unfolding settles_def
proof (intro allI impI)
  fix s s'
  assume s: "p_target (snd s) = Some t" and run: "add_site_once E a s = (Inr (), s')"
  have "extends t s s' \<and> a \<in> set (b_sites (fst s'))"
    using run s add_site_extends [OF s, of E a s'] by (auto simp: add_site_once_def bp_at_def extends_def split: if_split_asm)
  then show "extends t s s' \<and> (\<forall>s2. extends t s' s2 \<longrightarrow> add_site_once E a s2 = (Inr (), s2))"
    by (auto simp: add_site_once_def bp_at_def extends_def)
qed

lemma settles_function_die: "settles t (resolve_function_die E d)"
  unfolding resolve_function_die_def
  by (intro settles_lift, split if_split) (auto intro!: settles_lift settles_target settles_add_site_once settles_ret)

lemma settles_function_symbol: "settles t (resolve_function_symbol E fsym)"
  unfolding resolve_function_symbol_def by (intro settles_target settles_lift settles_add_site_once)

lemma settles_line_entry: "settles t (resolve_line_entry n E entry)"
  unfolding resolve_line_entry_def Let_def
  by (cases entry) (auto intro!: settles_target settles_lift settles_add_site_once)

lemma settles_functions:
  "settles t (bindS (on_process get_target) (\<lambda>t. bindS (liftS (target_find_functions n t nm)) (\<lambda>(dies, syms).
    thenS (forS (resolve_function_die E) dies) (forS (resolve_function_symbol E) syms))))"
  by (intro settles_target settles_lift)
    (auto intro!: settles_then settles_for settles_function_die settles_function_symbol split: prod.split)

lemma settles_lines:
  "settles t (bindS (on_process get_target) (\<lambda>t.
    bindS (liftS (target_lines_by_line t path line)) (\<lambda>entries. forS (resolve_line_entry n E) entries)))"
  by (intro settles_target settles_lift settles_for settles_line_entry)

text \<open>An address is resolved by its one site.\<close>

lemma settles_address: "settles t (\<lambda>s. (if b_sites (fst s) = [] then add_site E a else retS ()) s)"
  unfolding settles_def
proof (intro allI impI)
  fix s s'
  assume s: "p_target (snd s) = Some t" and run: "(if b_sites (fst s) = [] then add_site E a else retS ()) s = (Inr (), s')"
  have "extends t s s' \<and> b_sites (fst s') \<noteq> []"
  proof (cases "b_sites (fst s) = []")
    case True
    then show ?thesis using add_site_extends [OF s, of E a s'] run by auto
  next
    case False
    then show ?thesis using run extends_refl [OF s] by simp
  qed
  then show "extends t s s' \<and> (\<forall>s2. extends t s' s2 \<longrightarrow>
    (if b_sites (fst s2) = [] then add_site E a else retS ()) s2 = (Inr (), s2))"
    by (auto simp: extends_def)
qed

text \<open>
  C14. Resolving a breakpoint is idempotent: where it has succeeded, resolving again, with the same objects loaded,
  succeeds and changes nothing, neither the breakpoint nor the process. It never drops a site and never
  gives one address to the breakpoint twice.
\<close>

theorem resolve_idempotent:
  assumes "p_target p = Some t" "resolve n E (b, p) = (Inr (), (b', p'))"
  shows "resolve n E (b', p') = (Inr (), (b', p')) \<and> set (b_sites b) \<subseteq> set (b_sites b') \<and>
    (distinct (b_sites b) \<longrightarrow> distinct (b_sites b'))"
proof -
  have *: ?thesis if m: "settles t m" "\<And>b0 p0. b_kind b0 = b_kind b \<Longrightarrow> resolve n E (b0, p0) = m (b0, p0)" for m
  proof -
    have t: "p_target (snd (b, p)) = Some t" and run: "m (b, p) = (Inr (), (b', p'))"
      using m(2) [of b p] assms by simp_all
    note e = settles_extends [OF m(1) t run]
    have "m (b', p') = (Inr (), (b', p'))"
      by (rule settles_again [OF m(1) t run extends_refl [OF extends_target [OF e]]])
    then show ?thesis using e m(2) [of b' p'] by (simp add: extends_def)
  qed
  show ?thesis
  proof (cases "b_kind b")
    case (function_breakpoint nm)
    show ?thesis
      by (rule * [OF settles_functions [where n = n and nm = nm and E = E]])
        (simp add: resolve_def function_breakpoint bindS_getS)
  next
    case (line_breakpoint path line)
    show ?thesis
      by (rule * [OF settles_lines [where n = n and path = path and line = line and E = E]])
        (simp add: resolve_def line_breakpoint bindS_getS)
  next
    case (address_breakpoint a)
    show ?thesis
      by (rule * [OF settles_address [where E = E and a = a]]) (simp add: resolve_def address_breakpoint bindS_getS)
  qed
qed

section \<open>Example\<close>

text \<open>A function without debug information, with two symbols of its name at one address.\<close>

definition alias_object :: object_file where
  "alias_object = frame_object\<lparr>of_elf := frame_elf\<lparr>symbol_name_map :=
     [(''g'', \<lparr>st_name = 1, st_info = 2, st_value = 20, st_size = 4\<rparr>), (''g'', \<lparr>st_name = 3, st_info = 2, st_value = 20, st_size = 4\<rparr>)]\<rparr>\<rparr>"

definition alias_process :: "(u64 \<Rightarrow> byte, target) process" where
  "alias_process = ram_process\<lparr>p_target := Some (frame_target\<lparr>t_objects := [alias_object]\<rparr>)\<rparr>"

definition alias_breakpoint :: breakpoint where
  "alias_breakpoint = \<lparr>b_key = 0, b_id = 1, b_kind = function_breakpoint ''g'', b_enabled = True, b_hardware = False,
     b_internal = False, b_sites = [], b_next_site_id = 1, b_on_hit = None\<rparr>"

lemma alias_resolved:
  "case resolve 3 ram_env (alias_breakpoint, alias_process) of (r, (b', p')) \<Rightarrow>
     r = Inr () \<and> b_sites b' = [20] \<and> p_kernel p' 20 = 0xcc \<and> p_target alias_process \<noteq> None"
  by code_simp

theorem resolve_idempotent_witness:
  "\<exists>b' p'. resolve 3 ram_env (alias_breakpoint, alias_process) = (Inr (), (b', p')) \<and> b_sites b' = [20] \<and> p_kernel p' 20 = 0xcc \<and>
     resolve 3 ram_env (b', p') = (Inr (), (b', p'))"
proof -
  obtain b' p' t where run: "resolve 3 ram_env (alias_breakpoint, alias_process) = (Inr (), (b', p'))"
    "b_sites b' = [20]" "p_kernel p' 20 = 0xcc" and t: "p_target alias_process = Some t"
    using alias_resolved by (auto split: prod.splits)
  then show ?thesis using resolve_idempotent [OF t run(1)] by blast
qed

end
