(* ===== verification/Spec2Isabelle.thy ===== *)
theory Spec2Isabelle
  imports Session Run_Until Location_Data Call_Restore Startup Wait_Liveness Frames Resolution
begin

text \<open>
  A verification development of \<open>gsdb\<close>, a debugger for native programs on x86-64 Linux: the library
  \<open>libgsdb\<close> (\<open>src/\<close>, \<open>include/libgsdb/\<close>) and its command line (\<open>tools/gsdb.cpp\<close>).

  \<^bold>\<open>The program.\<close> At the bottom are readers of files in memory: ELF objects with their symbols, and DWARF
  debug information read through a cursor. In the middle is \<open>process\<close>, which drives the kernel's tracing interface:
  it keeps a copy of the registers of every thread, writes memory, puts trap instructions and debug registers
  in place, and waits for the threads to stop. On top \<open>target\<close> joins the two: it resolves breakpoints to addresses
  in the loaded objects, unwinds stacks, steps by source lines, reads variables and calls functions of the
  inferior. The process tells the target of stops through callbacks, and the command line turns lines of
  text into operations on the target.

  \<^bold>\<open>How it is modelled.\<close> Pure code is a function into \<open>'a result\<close>, the sum of \<open>gsdb_error\<close> and a value; code with
  state is a \<open>prog\<close>, which returns its result together with the state it left, also when it throws
  (\<open>Gsdb_Prelude\<close>, with the rules for such programs in \<open>Prog_Logic\<close>). The errors are \<open>gsdb::error\<close>, with and
  without \<open>errno\<close>, exceptions of the standard library, \<open>std::terminate\<close>, undefined behaviour of the
  language, which a model never continues from, and \<open>No_return\<close>. Machine integers are words; pointers
  into a mapped file are positions in its byte list; objects that others point to carry a key. The state of
  \<open>process\<close> is a record with the state of the kernel in it, the target is a component of that record, and an
  operation of the target is an operation on the process, so that aliasing between the two is kept.

  \<^bold>\<open>What is a parameter.\<close> The kernel (\<open>Kernel.kernel\<close>, \<open>Process_Setup.system\<close>, \<open>Files.files\<close> for the system calls on files and
  \<open>Child_Process.child_calls\<close> for those of the child of a fork), conversions between floating-point
  formats and their text, the demangler, the instruction decoder, the output streams and
  the names of signals (\<open>Target_State.env\<close>, \<open>Cli_Text.console\<close>). What a theorem needs of them is a
  hypothesis that states documented behaviour, e.g. \<open>memory_kernel\<close> for the requests on memory, and each has
  a witness on a concrete instance.

  \<^bold>\<open>The theories and the code.\<close>
  \<^item> \<open>Bits\<close>, \<open>Addresses\<close>, \<open>Cursor\<close>, \<open>Dwarf_Constants\<close>: \<open>bit.hpp\<close>, \<open>types.hpp\<close>, \<open>types.cpp\<close> and the cursor of
    \<open>dwarf.cpp\<close>. \<open>memcpy_bits\<close> copies exactly the bits asked for, and the LEB128 readers invert the encodings.
  \<^item> \<open>Elf_Object\<close>: \<open>elf.cpp\<close>. The symbol index finds exactly the symbol around an address, and address
    conversion round trips within the sections.
  \<^item> \<open>Register_Info\<close>, \<open>Registers\<close>: \<open>register_info.hpp\<close>, \<open>registers.inc\<close>, \<open>registers.cpp\<close>. Typed writes are read
    back, touch no other byte, and keep the cached registers equal to those of the thread.
  \<^item> \<open>Dwarf_Die\<close>, \<open>Line_Table\<close>, \<open>Dwarf_Info\<close>, \<open>Dwarf_Expression\<close>, \<open>Call_Frame\<close>: \<open>dwarf.cpp\<close>. Encoders of
    abbreviation tables, trees of entries, range lists, line programs, expressions and call frame programs are
    the specifications; the readers return what was encoded, the expression machine computes the value of
    the tree its code was compiled from, and the call frame program the row of the unwind table.
  \<^item> \<open>Files\<close>, \<open>Child_Process\<close>: \<open>pipe.cpp\<close>, \<open>mapped_file\<close> of \<open>elf.cpp\<close>, and the child of the fork in \<open>process::launch\<close>. A
    pipe closes each descriptor once. \<open>Startup\<close> shows that the first step of the child that fails is what
    \<open>launch\<close> throws, and that opening an object file leaks neither a descriptor nor a mapping.
  \<^item> \<open>Kernel\<close>, \<open>Process_Memory\<close>, \<open>Process_State\<close>, \<open>Stoppoint_Collection\<close>, \<open>Stoppoints\<close>, \<open>Process_Control\<close>,
    \<open>Process_Stops\<close>, \<open>Process_Setup\<close>: \<open>process.cpp\<close>, \<open>breakpoint_site.cpp\<close>, \<open>watchpoint.cpp\<close>,
    \<open>stoppoint_collection.hpp\<close>. Breakpoints are transparent: for every sequence of site operations
    the memory without the traps is the memory of the program, and detaching restores it; stepping over a
    breakpoint executes the original instruction; when waiting returns no tracked thread is marked running; a
    hardware stop point is armed in every thread. \<open>Wait_Liveness\<close> shows that waiting passes over any number of reports
    of created and ended threads and reaches the end of the inferior.
  \<^item> \<open>Parse\<close>, \<open>Types\<close>: \<open>parse.hpp\<close>, \<open>type.cpp\<close>. The classes of the calling convention are well formed, and
    indexing stays within the data.
  \<^item> \<open>Target_State\<close>, \<open>Stack_Unwind\<close>, \<open>Breakpoints\<close>, \<open>Target\<close>, \<open>Variables\<close>, \<open>Inferior_Calls\<close>: \<open>target.hpp\<close>,
    \<open>stack.cpp\<close>, \<open>breakpoint.cpp\<close>, \<open>target.cpp\<close>, \<open>disassembler.cpp\<close>. \<open>Call_Convention\<close> shows where a call puts its
    arguments, \<open>Run_Until\<close> that running to an address leaves no breakpoint site behind, \<open>Location_Data\<close> that
    a variable in several pieces reads as the concatenation of their data, \<open>Call_Restore\<close> that a call in the
    inferior gives the thread its registers back, \<open>Frames\<close> that unwinding gives the inlined frames of a program counter
    as a whole, and \<open>Resolution\<close> that resolving a breakpoint again, as on every loaded library, changes nothing
    of what is resolved.
  \<^item> \<open>Syscalls\<close>, \<open>Cli_Text\<close>, \<open>Cli\<close>: \<open>syscalls.cpp\<close>, \<open>tools/gsdb.cpp\<close>. \<open>Cli_Facts\<close> shows that a register
    value printed can be typed in again; \<open>Session\<close> and \<open>Target_Invariant\<close> that no two breakpoint sites share an
    address from the start of the program through every sequence of commands, and that no
    \<open>gsdb::error\<close> ends a session.

  \<^bold>\<open>Interfaces.\<close> Locales state what one part promises another: \<open>object_representation\<close> (bytes of integers),
  \<open>consuming_reader\<close> and \<open>decoding_reader\<close> (what a cursor operation consumes and inverts), \<open>stoppoint\<close> (what the
  collection needs of breakpoint sites and watchpoints) and \<open>keeping_target\<close> (what the target needs of the
  callback its client installs). Each is interpreted on the definitions of the model.

  \<^bold>\<open>Fuel.\<close> Searches through entries that refer to each other, expressions with branches, waiting, stepping loops
  and the list of loaded libraries may run for ever on some input, so they take a bound and return
  \<open>No_return\<close> where it is used up. Where a theorem says that such a search returns, it gives the bound that
  is enough (one unit for each report in \<open>Wait_Liveness\<close>); more fuel never changes a result of waiting. Loops that end are recursions with a termination proof.

  \<^bold>\<open>Not modelled.\<close> The caches of type sizes and line tables, which are recomputed; the text of \<open>strerror\<close> in the errors
  of the debugger itself; unmapping of object files when the debugger ends; when the interrupt handler runs;
  how a child of a fork and its parent interleave before the parent reads from the pipe; tests and the programs
  they debug.
\<close>

end
